(* ===== verification/Go_Prelude.thy ===== *)
theory Go_Prelude
  imports Main "HOL-Library.Mapping" "HOL-Library.AList_Mapping" "HOL-Library.Multiset"
begin

text \<open>
  What the components share of the Go language and its standard library: panics and errors
  as values, indexing, the functions of package strings and of package strconv that the
  sources call, and the error texts of github.com/pkg/errors. A Go string and a Go byte
  slice are both lists of bytes, so both are \<^typ>\<open>string\<close> here (a \<^typ>\<open>char\<close> is a byte).
  The collection \<open>go_simps\<close> holds the rewrite rules of the monad of panics.
\<close>

named_theorems go_simps

section \<open>Panics and errors\<close>

text \<open>
  A panic is a value on the left of a sum. A run-time panic names its cause, an explicit
  one carries the text of the value it is called with.
\<close>

datatype go_panic =
    NilDereference
  | IndexOutOfRange
  | BadTypeAssertion
  | PanicWith string

type_synonym 'a go = "go_panic + 'a"
type_synonym go_error = string

definition go_bind :: "'a go \<Rightarrow> ('a \<Rightarrow> 'b go) \<Rightarrow> 'b go" where
  "go_bind m f = (case m of Inl p \<Rightarrow> Inl p | Inr x \<Rightarrow> f x)"

lemma go_bind_Inl [simp, go_simps]: "go_bind (Inl p) f = Inl p"
  by (simp add: go_bind_def)

lemma go_bind_Inr [simp, go_simps]: "go_bind (Inr x) f = f x"
  by (simp add: go_bind_def)

lemma go_bind_eq_Inr_iff [go_simps]:
  "go_bind m f = Inr y \<longleftrightarrow> (\<exists>x. m = Inr x \<and> f x = Inr y)"
  by (cases m) simp_all

lemma go_bind_eq_Inl_iff [go_simps]:
  "go_bind m f = Inl p \<longleftrightarrow> m = Inl p \<or> (\<exists>x. m = Inr x \<and> f x = Inl p)"
  by (cases m) simp_all

lemma go_bind_assoc: "go_bind (go_bind m f) g = go_bind m (\<lambda>x. go_bind (f x) g)"
  by (cases m) simp_all

text \<open>The index expression \<open>xs[i]\<close>: a run-time panic out of range.\<close>

definition go_index :: "'a list \<Rightarrow> nat \<Rightarrow> 'a go" where
  "go_index xs i = (if i < length xs then Inr (xs ! i) else Inl IndexOutOfRange)"

lemma go_index_zero_Nil [simp]: "go_index [] i = Inl IndexOutOfRange"
  by (simp add: go_index_def)

lemma go_index_zero_Cons [simp]: "go_index (x # xs) 0 = Inr x"
  by (simp add: go_index_def)

lemma go_index_Suc_Cons [simp]: "go_index (x # xs) (Suc i) = go_index xs i"
  by (simp add: go_index_def)

lemma go_index_zero_eq:
  "go_index xs 0 = (case xs of [] \<Rightarrow> Inl IndexOutOfRange | x # _ \<Rightarrow> Inr x)"
  by (cases xs) simp_all

text \<open>Dereferencing a pointer, nil being \<^const>\<open>None\<close>.\<close>

definition go_deref :: "'a option \<Rightarrow> 'a go" where
  "go_deref p = (case p of None \<Rightarrow> Inl NilDereference | Some x \<Rightarrow> Inr x)"

lemma go_deref_None [simp]: "go_deref None = Inl NilDereference"
  by (simp add: go_deref_def)

lemma go_deref_Some [simp]: "go_deref (Some x) = Inr x"
  by (simp add: go_deref_def)

text \<open>
  The texts that \<open>errors.Wrap\<close> builds: the message, a colon, the cause.
\<close>

definition errors_Wrap :: "go_error \<Rightarrow> string \<Rightarrow> go_error" where
  "errors_Wrap e msg = msg @ '': '' @ e"

section \<open>Lists\<close>

lemma find_append:
  "find P (xs @ ys) = (case find P xs of Some x \<Rightarrow> Some x | None \<Rightarrow> find P ys)"
  by (induction xs) simp_all

lemma find_SomeD: "find P xs = Some x \<Longrightarrow> x \<in> set xs \<and> P x"
  by (induction xs) (auto split: if_splits)

section \<open>Finite maps\<close>

lemma lookup_delete': "Mapping.lookup (Mapping.delete k m) j = (if j = k then None else Mapping.lookup m j)"
  by (cases "j = k") simp_all

section \<open>Package strings\<close>

text \<open>
  \<open>strings.Split\<close> with a separator of one byte: it never returns an empty slice.
\<close>

fun strings_Split :: "char \<Rightarrow> string \<Rightarrow> string list" where
  "strings_Split c [] = [[]]"
| "strings_Split c (x # xs) =
     (if x = c then [] # strings_Split c xs
      else (case strings_Split c xs of [] \<Rightarrow> [[x]] | y # ys \<Rightarrow> (x # y) # ys))"

fun strings_Join :: "string list \<Rightarrow> string \<Rightarrow> string" where
  "strings_Join [] sep = []"
| "strings_Join [x] sep = x"
| "strings_Join (x # y # ys) sep = x @ sep @ strings_Join (y # ys) sep"

lemma strings_Split_not_Nil [simp]: "strings_Split c s \<noteq> []"
  by (induction s) (auto split: list.splits)

lemma strings_Split_Cons_ex: "\<exists>y ys. strings_Split c s = y # ys"
  by (meson neq_Nil_conv strings_Split_not_Nil)

lemma strings_Join_Cons:
  "ys \<noteq> [] \<Longrightarrow> strings_Join (x # ys) sep = x @ sep @ strings_Join ys sep"
  by (cases ys) simp_all

lemma strings_Join_Split [simp]: "strings_Join (strings_Split c s) [c] = s"
proof (induction s)
  case Nil
  show ?case by simp
next
  case (Cons x xs)
  obtain y ys where "strings_Split c xs = y # ys"
    using strings_Split_Cons_ex by blast
  with Cons.IH show ?case by (cases ys) auto
qed

lemma strings_Split_no_sep: "c \<notin> set s \<Longrightarrow> strings_Split c s = [s]"
  by (induction s) auto

lemma strings_Split_append_sep:
  "c \<notin> set a \<Longrightarrow> strings_Split c (a @ c # b) = a # strings_Split c b"
  by (induction a) auto

lemma strings_Split_no_sep_in: "t \<in> set (strings_Split c s) \<Longrightarrow> c \<notin> set t"
proof (induction s arbitrary: t)
  case (Cons x xs)
  then show ?case
    by (auto split: if_splits list.splits)
qed simp

text \<open>
  Dropping the first part of a split and joining the rest: everything after the first
  separator.
\<close>

lemma strings_Join_tl_Split_sep:
  "c \<notin> set a \<Longrightarrow> strings_Join (tl (strings_Split c (a @ c # b))) [c] = b"
  by (simp add: strings_Split_append_sep)

lemma strings_Join_tl_Split_no_sep:
  "c \<notin> set s \<Longrightarrow> strings_Join (tl (strings_Split c s)) [c] = []"
  by (simp add: strings_Split_no_sep)

text \<open>\<open>textproto.TrimString\<close> removes leading and trailing blanks (space, tab, CR, LF).\<close>

definition is_ascii_space :: "char \<Rightarrow> bool" where
  "is_ascii_space c \<longleftrightarrow> of_char c \<in> {32, 9, 10, 13 :: nat}"

definition textproto_TrimString :: "string \<Rightarrow> string" where
  "textproto_TrimString s =
     rev (dropWhile is_ascii_space (rev (dropWhile is_ascii_space s)))"

section \<open>Package strconv and the verb \%d\<close>

fun show_nat :: "nat \<Rightarrow> string" where
  "show_nat n =
     (if n < 10 then [char_of (48 + n)] else show_nat (n div 10) @ [char_of (48 + n mod 10)])"

declare show_nat.simps [simp del]

definition show_int :: "int \<Rightarrow> string" where
  "show_int i = (if i < 0 then CHR ''-'' # show_nat (nat (- i)) else show_nat (nat i))"

definition digit_of :: "char \<Rightarrow> nat option" where
  "digit_of c =
     (let n = of_char c in if 48 \<le> n \<and> n \<le> (57::nat) then Some (n - 48) else None)"

fun parse_digits :: "nat \<Rightarrow> string \<Rightarrow> nat option" where
  "parse_digits acc [] = Some acc"
| "parse_digits acc (c # cs) =
     (case digit_of c of None \<Rightarrow> None | Some d \<Rightarrow> parse_digits (10 * acc + d) cs)"

definition parse_nat :: "string \<Rightarrow> nat option" where
  "parse_nat s = (if s = [] then None else parse_digits 0 s)"

text \<open>
  \<open>strconv.ParseInt(s, 10, 64)\<close>: an optional sign, at least one decimal digit, and a value
  that an int64 holds. \<^const>\<open>None\<close> stands for both of its errors (syntax and range).
\<close>

definition strconv_ParseInt :: "string \<Rightarrow> int option" where
  "strconv_ParseInt s =
     (case s of
        [] \<Rightarrow> None
      | c # cs \<Rightarrow>
         (let neg = (c = CHR ''-'');
              digits = (if c = CHR ''-'' \<or> c = CHR ''+'' then cs else s)
          in (case parse_nat digits of
                None \<Rightarrow> None
              | Some n \<Rightarrow>
                 (if neg then (if n \<le> 2 ^ 63 then Some (- int n) else None)
                  else (if n < 2 ^ 63 then Some (int n) else None)))))"

lemma digit_of_char_of [simp]: "d < 10 \<Longrightarrow> digit_of (char_of (48 + d)) = Some d"
  by (simp add: digit_of_def Let_def)

lemma parse_digits_append:
  "parse_digits acc (a @ b) =
     (case parse_digits acc a of None \<Rightarrow> None | Some n \<Rightarrow> parse_digits n b)"
  by (induction a arbitrary: acc) (auto split: option.splits)

lemma show_nat_not_Nil [simp]: "show_nat n \<noteq> []"
  by (subst show_nat.simps) simp

lemma parse_digits_show_nat: "parse_digits 0 (show_nat n) = Some n"
proof (induction n rule: show_nat.induct)
  case (1 n)
  show ?case
  proof (cases "n < 10")
    case True
    then show ?thesis by (simp add: show_nat.simps [of n])
  next
    case False
    with 1 have "parse_digits 0 (show_nat (n div 10)) = Some (n div 10)" by simp
    with False show ?thesis
      by (simp add: show_nat.simps [of n] parse_digits_append)
  qed
qed

lemma show_nat_hd_digit: "\<exists>d<(10::nat). hd (show_nat n) = char_of (48 + d)"
proof (induction n rule: show_nat.induct)
  case (1 n)
  then show ?case by (cases "n < 10") (auto simp: show_nat.simps [of n])
qed

lemma char_of_digit_not_sign:
  "d < 10 \<Longrightarrow> char_of (48 + d :: nat) \<noteq> CHR ''-'' \<and> char_of (48 + d) \<noteq> CHR ''+''"
  by (auto dest!: arg_cong [of _ _ "of_char :: char \<Rightarrow> nat"])

lemma show_nat_Cons_ex: "\<exists>c cs. show_nat n = c # cs \<and> c \<noteq> CHR ''-'' \<and> c \<noteq> CHR ''+''"
  by (metis char_of_digit_not_sign list.exhaust_sel show_nat_hd_digit show_nat_not_Nil)

text \<open>What \%d prints, ParseInt reads back.\<close>

lemma strconv_ParseInt_printed:
  "strconv_ParseInt (show_int i) = (if - (2 ^ 63) \<le> i \<and> i < 2 ^ 63 then Some i else None)"
proof (cases "i < 0")
  case True
  then show ?thesis
    by (auto simp: strconv_ParseInt_def show_int_def Let_def parse_nat_def parse_digits_show_nat)
next
  case False
  obtain c cs where c: "show_nat (nat i) = c # cs" "c \<noteq> CHR ''-''" "c \<noteq> CHR ''+''"
    using show_nat_Cons_ex by blast
  have "parse_nat (c # cs) = Some (nat i)"
    using parse_digits_show_nat [of "nat i"] c(1) by (simp add: parse_nat_def)
  with False c show ?thesis
    by (auto simp: strconv_ParseInt_def show_int_def Let_def)
qed

lemma strconv_ParseInt_show_int [simp]:
  "- (2 ^ 63) \<le> i \<Longrightarrow> i < 2 ^ 63 \<Longrightarrow> strconv_ParseInt (show_int i) = Some i"
  by (simp add: strconv_ParseInt_printed)

lemma strconv_ParseInt_range:
  "strconv_ParseInt s = Some i \<Longrightarrow> - (2 ^ 63) \<le> i \<and> i < 2 ^ 63"
  by (auto simp: strconv_ParseInt_def Let_def split: list.splits option.splits if_splits)

end
