(* ===== verification/Go_Http.thy ===== *)
theory Go_Http
  imports Go_Prelude
begin

text \<open>
  What the sources use of the packages net/http, net/url, net/textproto and crypto/x509:
  the header map with its canonical keys, URLs and how they are printed, requests,
  responses, the fields of a certificate that the program reads, and the connection state
  of a TLS session.
\<close>

section \<open>Header maps\<close>

text \<open>
  An \<open>http.Header\<close> is a map from canonical keys to lists of values. \<open>Get\<close>, \<open>Set\<close>, \<open>Add\<close> and
  \<open>Del\<close> make their key canonical first: upper case at the start and after a hyphen, lower case
  elsewhere, but a key with a byte that no header name may hold is left as it is.
\<close>

type_synonym header = "string \<Rightarrow> string list option"

definition char_between :: "nat \<Rightarrow> nat \<Rightarrow> char \<Rightarrow> bool" where
  "char_between lo hi c \<longleftrightarrow> lo \<le> of_char c \<and> of_char c \<le> hi"

definition is_alnum :: "char \<Rightarrow> bool" where
  "is_alnum c \<longleftrightarrow> char_between 48 57 c \<or> char_between 65 90 c \<or> char_between 97 122 c"

definition valid_header_byte :: "char \<Rightarrow> bool" where
  "valid_header_byte c \<longleftrightarrow>
     is_alnum c \<or>
     of_char c \<in> {33, 35, 36, 37, 38, 39, 42, 43, 45, 46, 94, 95, 96, 124, 126 :: nat}"

definition to_upper :: "char \<Rightarrow> char" where
  "to_upper c = (if char_between 97 122 c then char_of (of_char c - 32 :: nat) else c)"

definition to_lower :: "char \<Rightarrow> char" where
  "to_lower c = (if char_between 65 90 c then char_of (of_char c + 32 :: nat) else c)"

fun canon_from :: "bool \<Rightarrow> string \<Rightarrow> string" where
  "canon_from upper [] = []"
| "canon_from upper (c # cs) =
     (let c' = (if upper then to_upper c else to_lower c) in c' # canon_from (c' = CHR ''-'') cs)"

definition canonical_key :: "string \<Rightarrow> string" where
  "canonical_key s = (if list_all valid_header_byte s then canon_from True s else s)"

definition header_Get :: "header \<Rightarrow> string \<Rightarrow> string" where
  "header_Get h k = (case h (canonical_key k) of Some (v # _) \<Rightarrow> v | _ \<Rightarrow> '''')"

definition header_Set :: "header \<Rightarrow> string \<Rightarrow> string \<Rightarrow> header" where
  "header_Set h k v = h(canonical_key k \<mapsto> [v])"

definition header_Add :: "header \<Rightarrow> string \<Rightarrow> string \<Rightarrow> header" where
  "header_Add h k v =
     h(canonical_key k \<mapsto> (case h (canonical_key k) of None \<Rightarrow> [] | Some vs \<Rightarrow> vs) @ [v])"

definition header_Del :: "header \<Rightarrow> string \<Rightarrow> header" where
  "header_Del h k = h(canonical_key k := None)"

lemma of_char_to_upper:
  "of_char (to_upper c) = (if char_between 97 122 c then of_char c - 32 else (of_char c :: nat))"
  by (auto simp: to_upper_def char_between_def)

lemma of_char_to_lower:
  "of_char (to_lower c) = (if char_between 65 90 c then of_char c + 32 else (of_char c :: nat))"
  by (auto simp: to_lower_def char_between_def)

lemma char_between_to_upper:
  "char_between 97 122 c \<Longrightarrow> char_between 65 90 (to_upper c)"
  by (auto simp: char_between_def of_char_to_upper)

lemma char_between_to_lower:
  "char_between 65 90 c \<Longrightarrow> char_between 97 122 (to_lower c)"
  by (auto simp: char_between_def of_char_to_lower)

lemma to_upper_id: "\<not> char_between 97 122 c \<Longrightarrow> to_upper c = c"
  by (simp add: to_upper_def)

lemma to_lower_id: "\<not> char_between 65 90 c \<Longrightarrow> to_lower c = c"
  by (simp add: to_lower_def)

lemma char_between_disjoint: "char_between 65 90 c \<Longrightarrow> \<not> char_between 97 122 c"
  by (simp add: char_between_def)

lemma char_between_disjoint': "char_between 97 122 c \<Longrightarrow> \<not> char_between 65 90 c"
  by (simp add: char_between_def)

lemma to_upper_idem [simp]: "to_upper (to_upper c) = to_upper c"
  by (cases "char_between 97 122 c")
    (simp_all add: to_upper_id char_between_disjoint char_between_to_upper)

lemma to_lower_idem [simp]: "to_lower (to_lower c) = to_lower c"
  by (cases "char_between 65 90 c")
    (simp_all add: to_lower_id char_between_to_lower char_between_disjoint')

lemma valid_header_byte_to_upper [simp]: "valid_header_byte c \<Longrightarrow> valid_header_byte (to_upper c)"
  by (cases "char_between 97 122 c")
    (simp_all add: to_upper_id char_between_to_upper valid_header_byte_def [of "to_upper c"] is_alnum_def)

lemma valid_header_byte_to_lower [simp]: "valid_header_byte c \<Longrightarrow> valid_header_byte (to_lower c)"
  by (cases "char_between 65 90 c")
    (simp_all add: to_lower_id char_between_to_lower valid_header_byte_def [of "to_lower c"] is_alnum_def)

lemma canon_from_idem [simp]: "canon_from u (canon_from u s) = canon_from u s"
  by (induction u s rule: canon_from.induct) (auto simp: Let_def)

lemma valid_canon_from:
  "list_all valid_header_byte s \<Longrightarrow> list_all valid_header_byte (canon_from u s)"
  by (induction u s rule: canon_from.induct) (simp_all add: Let_def)

lemma canonical_key_idem [simp]: "canonical_key (canonical_key s) = canonical_key s"
  by (simp add: canonical_key_def valid_canon_from)

lemma header_Get_Set:
  "header_Get (header_Set h k v) k' =
     (if canonical_key k = canonical_key k' then v else header_Get h k')"
  by (simp add: header_Get_def header_Set_def)

lemma header_Get_Set_same [simp]: "header_Get (header_Set h k v) k = v"
  by (simp add: header_Get_Set)

lemma header_Get_Del:
  "header_Get (header_Del h k) k' =
     (if canonical_key k = canonical_key k' then '''' else header_Get h k')"
  by (simp add: header_Get_def header_Del_def)

lemma header_Get_canonical: "header_Get h (canonical_key k) = header_Get h k"
  by (simp add: header_Get_def)

lemma header_Set_apply: "header_Set h k v j = (if j = canonical_key k then Some [v] else h j)"
  by (simp add: header_Set_def)

lemma header_Del_apply: "header_Del h k j = (if j = canonical_key k then None else h j)"
  by (simp add: header_Del_def)

lemma header_Get_cong: "h (canonical_key k) = h' (canonical_key k) \<Longrightarrow> header_Get h k = header_Get h' k"
  by (simp add: header_Get_def)

lemma header_Get_upd:
  "header_Get (h(k \<mapsto> vs)) j =
     (if canonical_key j = k then (case vs of [] \<Rightarrow> '''' | v # _ \<Rightarrow> v) else header_Get h j)"
  by (auto simp: header_Get_def split: list.split)

lemma header_Get_map_add:
  "header_Get (h ++ h') k =
     (if h' (canonical_key k) = None then header_Get h k else header_Get h' k)"
  by (auto simp: header_Get_def map_add_def split: option.splits)

text \<open>
  A loop \<open>for k, vs := range src { dst[k] = vs }\<close> visits the entries of \<open>src\<close> in an order
  that Go leaves open. Whatever the order, the result is \<open>dst ++ src\<close>.
\<close>

definition range_assign :: "(string \<times> string list) list \<Rightarrow> header \<Rightarrow> header" where
  "range_assign kvs dst = fold (\<lambda>(k, vs) h. h(k \<mapsto> vs)) kvs dst"

definition enumerates :: "(string \<times> string list) list \<Rightarrow> header \<Rightarrow> bool" where
  "enumerates kvs h \<longleftrightarrow> distinct (map fst kvs) \<and> map_of kvs = h"

lemma range_assign_notin:
  "k \<notin> fst ` set kvs \<Longrightarrow> range_assign kvs dst k = dst k"
  by (induction kvs arbitrary: dst) (auto simp: range_assign_def)

lemma range_assign_map_of:
  "distinct (map fst kvs) \<Longrightarrow> range_assign kvs dst = dst ++ map_of kvs"
proof (induction kvs arbitrary: dst)
  case (Cons kv kvs)
  obtain k vs where kv: "kv = (k, vs)" by (cases kv)
  have "range_assign (kv # kvs) dst = range_assign kvs (dst(k \<mapsto> vs))"
    by (simp add: range_assign_def kv)
  also have "\<dots> = dst(k \<mapsto> vs) ++ map_of kvs"
    using Cons by simp
  also have "\<dots> = dst ++ map_of (kv # kvs)"
  proof (rule ext)
    fix x
    have "map_of kvs k = None" using Cons.prems by (simp add: kv map_of_eq_None_iff)
    then show "(dst(k \<mapsto> vs) ++ map_of kvs) x = (dst ++ map_of (kv # kvs)) x"
      by (cases "x = k") (simp_all add: kv map_add_def split: option.split)
  qed
  finally show ?case .
qed (simp add: range_assign_def)

lemma range_assign_any_order:
  "enumerates kvs src \<Longrightarrow> range_assign kvs dst = dst ++ src"
  by (auto simp: enumerates_def range_assign_map_of)

section \<open>Canonical forms of the keys the program uses\<close>

lemma canonical_keys [simp]:
  "canonical_key ''X-Target-Deploy-ID'' = ''X-Target-Deploy-Id''"
  "canonical_key ''X-Target-Service-ID'' = ''X-Target-Service-Id''"
  "canonical_key ''X-From-Deploy-ID'' = ''X-From-Deploy-Id''"
  "canonical_key ''X-From-Service-ID'' = ''X-From-Service-Id''"
  "canonical_key ''X-From-Deploy'' = ''X-From-Deploy''"
  "canonical_key ''X-From-Service'' = ''X-From-Service''"
  "canonical_key ''X-Identity-Type'' = ''X-Identity-Type''"
  "canonical_key ''X-Auth-Claims'' = ''X-Auth-Claims''"
  "canonical_key ''Authorization'' = ''Authorization''"
  "canonical_key ''Content-Type'' = ''Content-Type''"
  "canonical_key ''SSL-Client-Cert'' = ''Ssl-Client-Cert''"
  "canonical_key ''X-Request-Url'' = ''X-Request-Url''"
  "canonical_key ''X-Connection-ID'' = ''X-Connection-Id''"
  "canonical_key ''X-Target-Method'' = ''X-Target-Method''"
  "canonical_key ''X-Target-Path'' = ''X-Target-Path''"
  "canonical_key ''X-Target-Query'' = ''X-Target-Query''"
  "canonical_key ''X-Target-Deploy'' = ''X-Target-Deploy''"
  "canonical_key ''X-Target-Service'' = ''X-Target-Service''"
  "canonical_key ''User-Agent'' = ''User-Agent''"
  "canonical_key ''server'' = ''Server''"
  by code_simp+

section \<open>URLs\<close>

record url =
  url_Scheme :: string
  url_Host :: string
  url_Path :: string
  url_RawPath :: string
  url_RawQuery :: string

text \<open>
  Percent encoding. \<open>escape_with p\<close> writes every byte of which \<open>p\<close> holds as a percent sign and
  two upper-case hexadecimal digits; \<open>unescape\<close> reads such triples back and fails on a percent
  sign without two digits.
\<close>

definition upper_hex :: "nat \<Rightarrow> char" where
  "upper_hex n = (if n < 10 then char_of (48 + n) else char_of (55 + n))"

definition unhex :: "char \<Rightarrow> nat option" where
  "unhex c =
     (let n = of_char c in
      if 48 \<le> n \<and> n \<le> 57 then Some (n - 48)
      else if 97 \<le> n \<and> n \<le> 102 then Some (n - 87)
      else if 65 \<le> n \<and> n \<le> 70 then Some (n - 55)
      else None)"

fun escape_with :: "(char \<Rightarrow> bool) \<Rightarrow> string \<Rightarrow> string" where
  "escape_with p [] = []"
| "escape_with p (c # cs) =
     (if p c then CHR ''%'' # upper_hex (of_char c div 16) # upper_hex (of_char c mod 16) # escape_with p cs
      else c # escape_with p cs)"

fun unescape :: "string \<Rightarrow> string option" where
  "unescape [] = Some []"
| "unescape (c # cs) =
     (if c = CHR ''%'' then
        (case cs of
           a # b # ds \<Rightarrow>
             (case (unhex a, unhex b) of
                (Some x, Some y) \<Rightarrow> map_option (Cons (char_of (16 * x + y))) (unescape ds)
              | _ \<Rightarrow> None)
         | _ \<Rightarrow> None)
      else map_option (Cons c) (unescape cs))"

definition should_escape_path :: "char \<Rightarrow> bool" where
  "should_escape_path c \<longleftrightarrow> \<not> (is_alnum c \<or> c \<in> set ''-_.~$&+,/:;=@'')"

definition should_escape_host :: "char \<Rightarrow> bool" where
  "should_escape_host c \<longleftrightarrow>
     \<not> (is_alnum c \<or> c \<in> set ''-_.~!$&()*+,;=:[]<>'' \<or> of_char c \<in> {34, 39 :: nat})"

definition valid_encoded_path :: "string \<Rightarrow> bool" where
  "valid_encoded_path s \<longleftrightarrow>
     list_all (\<lambda>c. c \<in> set ''!$&()*+,;=:@[]%'' \<or> of_char c = (39 :: nat) \<or> \<not> should_escape_path c) s"

text \<open>\<open>URL.EscapedPath\<close>, \<open>URL.RequestURI\<close> and \<open>URL.String\<close>, for URLs without a user and a fragment.\<close>

definition escaped_path :: "url \<Rightarrow> string" where
  "escaped_path u =
     (if url_RawPath u \<noteq> '''' \<and> valid_encoded_path (url_RawPath u) \<and>
         unescape (url_RawPath u) = Some (url_Path u)
      then url_RawPath u
      else if url_Path u = ''*'' then ''*''
      else escape_with should_escape_path (url_Path u))"

definition request_uri :: "url \<Rightarrow> string" where
  "request_uri u =
     (if escaped_path u = '''' then ''/'' else escaped_path u) @
     (if url_RawQuery u \<noteq> '''' then ''?'' @ url_RawQuery u else '''')"

definition url_String :: "url \<Rightarrow> string" where
  "url_String u =
     (if url_Scheme u \<noteq> '''' then url_Scheme u @ '':'' else '''') @
     (if url_Scheme u \<noteq> '''' \<or> url_Host u \<noteq> '''' then ''//'' @ escape_with should_escape_host (url_Host u)
      else '''') @
     (if escaped_path u \<noteq> '''' \<and> hd (escaped_path u) \<noteq> CHR ''/'' \<and> url_Host u \<noteq> '''' then ''/'' else '''') @
     escaped_path u @
     (if url_RawQuery u \<noteq> '''' then ''?'' @ url_RawQuery u else '''')"

lemma unhex_upper_hex [simp]: "n < 16 \<Longrightarrow> unhex (upper_hex n) = Some n"
  by (auto simp: unhex_def upper_hex_def Let_def)

lemma of_char_less_256: "of_char c < (256 :: nat)"
  by simp

lemma unescape_escape_with:
  assumes "p CHR ''%''"
  shows "unescape (escape_with p s) = Some s"
proof (induction s)
  case (Cons c cs)
  have "of_char c div 16 < (16 :: nat)" using of_char_less_256 [of c] by linarith
  then show ?case using assms Cons by auto
qed simp

lemma escape_with_eq_Nil [simp]: "escape_with p s = [] \<longleftrightarrow> s = []"
  by (cases s) simp_all

lemma escape_with_id: "list_all (\<lambda>c. \<not> p c) s \<Longrightarrow> escape_with p s = s"
  by (induction s) simp_all

lemma unescape_escape_path: "unescape (escape_with should_escape_path s) = Some s"
  by (rule unescape_escape_with) (simp add: should_escape_path_def is_alnum_def char_between_def)

section \<open>Certificates, connections, requests and responses\<close>

record pkix_name =
  pn_Organization :: "string list"
  pn_OrganizationalUnit :: "string list"
  pn_CommonName :: string

record certificate =
  ct_Raw :: string
  ct_Subject :: pkix_name
  ct_PublicKey :: string

record conn_state =
  cs_PeerCertificates :: "certificate list"

record request =
  rq_Method :: string
  rq_URL :: url
  rq_Host :: string
  rq_Header :: header
  rq_Body :: string
  rq_ProtoMajor :: int
  rq_ProtoMinor :: int
  rq_TLS :: "conn_state option"
  rq_RequestURI :: string

record response =
  rs_StatusCode :: int
  rs_Header :: header
  rs_Body :: string
  rs_ContentLength :: int

abbreviation StatusOK :: int where "StatusOK \<equiv> 200"
abbreviation StatusBadRequest :: int where "StatusBadRequest \<equiv> 400"
abbreviation StatusForbidden :: int where "StatusForbidden \<equiv> 403"
abbreviation StatusNotFound :: int where "StatusNotFound \<equiv> 404"
abbreviation StatusInternalServerError :: int where "StatusInternalServerError \<equiv> 500"
abbreviation StatusBadGateway :: int where "StatusBadGateway \<equiv> 502"

end
