(* ===== verification/Status_Error.thy ===== *)
theory Status_Error
  imports Go_Http
begin

text \<open>
  The error codes of router_error.go and the type StatusError of service_router.go with its
  conversion to an HTTP response. The body is what encoding/json writes for a map with the
  keys errorCode and message: sorted keys, HTML-safe escaping, invalid UTF-8 replaced, a final
  newline. \<open>json_unquote\<close> reads such a string back; it shows that no message can end the
  string early or add a field to the body.
\<close>

section \<open>Error codes\<close>

definition ErrCodeInvalidPeerCertificate :: int where "ErrCodeInvalidPeerCertificate = 40000"
definition ErrCodeMissingTargetDeployIDHeader :: int where "ErrCodeMissingTargetDeployIDHeader = 40001"
definition ErrCodeMissingTargetServiceIDHeader :: int where "ErrCodeMissingTargetServiceIDHeader = 40002"
definition ErrCodeFailedToParseJWTToken :: int where "ErrCodeFailedToParseJWTToken = 40003"
definition ErrCodeInvalidJWTToken :: int where "ErrCodeInvalidJWTToken = 40004"
definition ErrCodeInvalidJWTClaims :: int where "ErrCodeInvalidJWTClaims = 40005"
definition ErrCodeTargetDeployIDNotFound :: int where "ErrCodeTargetDeployIDNotFound = 40400"
definition ErrCodeTargetServiceIDNotFound :: int where "ErrCodeTargetServiceIDNotFound = 40401"
definition ErrCodeAPIPathNotFound :: int where "ErrCodeAPIPathNotFound = 40402"
definition ErrCodeAPIMethodNotFound :: int where "ErrCodeAPIMethodNotFound = 40403"
definition ErrCodeUnsupportedIdentityType :: int where "ErrCodeUnsupportedIdentityType = 40300"

lemmas error_code_defs =
  ErrCodeInvalidPeerCertificate_def ErrCodeMissingTargetDeployIDHeader_def
  ErrCodeMissingTargetServiceIDHeader_def ErrCodeFailedToParseJWTToken_def
  ErrCodeInvalidJWTToken_def ErrCodeInvalidJWTClaims_def ErrCodeTargetDeployIDNotFound_def
  ErrCodeTargetServiceIDNotFound_def ErrCodeAPIPathNotFound_def ErrCodeAPIMethodNotFound_def
  ErrCodeUnsupportedIdentityType_def

record status_error =
  se_error :: go_error
  se_StatusCode :: int
  se_ErrorCode :: int

section \<open>Strings in JSON\<close>

text \<open>
  The length of the UTF-8 sequence at the head of a byte string, 0 when its first byte starts
  none (the table of unicode/utf8).
\<close>

definition byte_at :: "string \<Rightarrow> nat \<Rightarrow> nat" where
  "byte_at s i = (if i < length s then of_char (s ! i) else 0)"

definition utf8_len :: "string \<Rightarrow> nat" where
  "utf8_len s =
     (let a = byte_at s 0; b = byte_at s 1; c = byte_at s 2; d = byte_at s 3;
          cont = (\<lambda>x. 128 \<le> x \<and> x \<le> (191 :: nat))
      in if s = [] then 0
         else if a < 128 then 1
         else if 194 \<le> a \<and> a \<le> 223 \<and> cont b then 2
         else if 224 \<le> a \<and> a \<le> 239 \<and> (if a = 224 then 160 else 128) \<le> b \<and>
                 b \<le> (if a = 237 then 159 else 191) \<and> cont c then 3
         else if 240 \<le> a \<and> a \<le> 244 \<and> (if a = 240 then 144 else 128) \<le> b \<and>
                 b \<le> (if a = 244 then 143 else 191) \<and> cont c \<and> cont d then 4
         else 0)"

definition lower_hex :: "nat \<Rightarrow> char" where
  "lower_hex n = (if n < 10 then char_of (48 + n) else char_of (87 + n))"

definition json_escape_ascii :: "char \<Rightarrow> string" where
  "json_escape_ascii c =
     (let n = of_char c :: nat in
      if n = 34 \<or> n = 92 then [CHR 0x5C, c]
      else if n = 10 then [CHR 0x5C, CHR ''n'']
      else if n = 13 then [CHR 0x5C, CHR ''r'']
      else if n = 9 then [CHR 0x5C, CHR ''t'']
      else if n < 32 \<or> n \<in> {38, 60, 62}
        then [CHR 0x5C, CHR ''u'', CHR ''0'', CHR ''0'', lower_hex (n div 16), lower_hex (n mod 16)]
      else [c])"

definition json_escape_rune :: "string \<Rightarrow> string" where
  "json_escape_rune r =
     (if r = [CHR 0xE2, CHR 0x80, CHR 0xA8] then CHR 0x5C # ''u2028''
      else if r = [CHR 0xE2, CHR 0x80, CHR 0xA9] then CHR 0x5C # ''u2029''
      else r)"

lemma byte_at_pos: "0 < byte_at s i \<Longrightarrow> i < length s"
  by (simp add: byte_at_def split: if_splits)

lemma byte_at_zero [simp]: "byte_at (c # cs) 0 = of_char c"
  by (simp add: byte_at_def)

text \<open>A sequence that starts with a byte from 128 on holds only such bytes.\<close>

lemma utf8_len_bytes:
  assumes "128 \<le> byte_at s 0" "i < utf8_len s"
  shows "128 \<le> byte_at s i"
proof -
  have "i = 0 \<or> i = 1 \<or> i = 2 \<or> i = 3"
    using assms(2) by (auto simp: utf8_len_def Let_def split: if_splits)
  then show ?thesis
    using assms by (elim disjE) (auto simp: utf8_len_def Let_def split: if_splits)
qed

lemma utf8_len_le: "utf8_len s \<le> length s"
proof (cases "utf8_len s \<le> 1")
  case True
  moreover have "utf8_len [] = 0" by (simp add: utf8_len_def)
  ultimately show ?thesis by (cases s) auto
next
  case False
  then have hi: "128 \<le> byte_at s 0" by (auto simp: utf8_len_def Let_def split: if_splits)
  from False have "128 \<le> byte_at s (utf8_len s - 1)"
    by (intro utf8_len_bytes [OF hi]) simp
  then have "utf8_len s - 1 < length s" by (intro byte_at_pos) simp
  then show ?thesis by simp
qed

lemma utf8_len_high_take:
  assumes "128 \<le> (of_char c :: nat)" "x \<in> set (take (utf8_len (c # cs)) (c # cs))"
  shows "128 \<le> (of_char x :: nat)"
proof -
  obtain i where i: "i < utf8_len (c # cs)" "i < length (c # cs)" "x = (c # cs) ! i"
    using assms(2) by (auto simp: in_set_conv_nth)
  have "128 \<le> byte_at (c # cs) i"
    by (rule utf8_len_bytes) (use assms(1) i(1) in simp_all)
  with i show ?thesis by (simp add: byte_at_def)
qed

function json_escape :: "string \<Rightarrow> string" where
  "json_escape [] = []"
| "json_escape (c # cs) =
     (if of_char c < (128 :: nat) then json_escape_ascii c @ json_escape cs
      else if utf8_len (c # cs) = 0 then CHR 0x5C # ''ufffd'' @ json_escape cs
      else json_escape_rune (take (utf8_len (c # cs)) (c # cs)) @
           json_escape (drop (utf8_len (c # cs)) (c # cs)))"
  by pat_completeness auto
termination
  by (relation "measure length") auto

text \<open>What the string says once invalid bytes are replaced by U+FFFD.\<close>

function utf8_sanitize :: "string \<Rightarrow> string" where
  "utf8_sanitize [] = []"
| "utf8_sanitize (c # cs) =
     (if of_char c < (128 :: nat) then c # utf8_sanitize cs
      else if utf8_len (c # cs) = 0 then [CHR 0xEF, CHR 0xBF, CHR 0xBD] @ utf8_sanitize cs
      else take (utf8_len (c # cs)) (c # cs) @ utf8_sanitize (drop (utf8_len (c # cs)) (c # cs)))"
  by pat_completeness auto
termination
  by (relation "measure length") auto

declare json_escape.simps(2) [simp del]
declare utf8_sanitize.simps(2) [simp del]

text \<open>UTF-8 of a code point below 0x10000.\<close>

definition utf8_encode :: "nat \<Rightarrow> string" where
  "utf8_encode n =
     (if n < 128 then [char_of n]
      else if n < 2048 then [char_of (192 + n div 64), char_of (128 + n mod 64)]
      else [char_of (224 + n div 4096), char_of (128 + n div 64 mod 64), char_of (128 + n mod 64)])"

definition hex4 :: "char \<Rightarrow> char \<Rightarrow> char \<Rightarrow> char \<Rightarrow> nat option" where
  "hex4 a b c d =
     (case (unhex a, unhex b, unhex c, unhex d) of
        (Some w, Some x, Some y, Some z) \<Rightarrow> Some (4096 * w + 256 * x + 16 * y + z)
      | _ \<Rightarrow> None)"

text \<open>Reads the rest of a JSON string up to its closing quote: the text and what follows.\<close>

definition push_text :: "string \<Rightarrow> (string \<times> string) option \<Rightarrow> (string \<times> string) option" where
  "push_text t r = map_option (\<lambda>(s, rest). (t @ s, rest)) r"

fun json_unquote :: "string \<Rightarrow> (string \<times> string) option" where
  "json_unquote [] = None"
| "json_unquote (c # cs) =
     (if c = CHR 0x22 then Some ([], cs)
      else if c = CHR 0x5C then
        (case cs of
           [] \<Rightarrow> None
         | e # es \<Rightarrow>
            if e = CHR 0x22 \<or> e = CHR 0x5C then push_text [e] (json_unquote es)
            else if e = CHR ''n'' then push_text [CHR 0x0A] (json_unquote es)
            else if e = CHR ''r'' then push_text [CHR 0x0D] (json_unquote es)
            else if e = CHR ''t'' then push_text [CHR 0x09] (json_unquote es)
            else if e = CHR ''u'' then
              (case es of
                 w # x # y # z # r \<Rightarrow>
                   (case hex4 w x y z of None \<Rightarrow> None | Some n \<Rightarrow> push_text (utf8_encode n) (json_unquote r))
               | _ \<Rightarrow> None)
            else None)
      else push_text [c] (json_unquote cs))"


section \<open>The escaped text reads back\<close>

lemma json_unquote_plain:
  "c \<noteq> CHR 0x22 \<Longrightarrow> c \<noteq> CHR 0x5C \<Longrightarrow> json_unquote (c # cs) = push_text [c] (json_unquote cs)"
  by simp

lemma push_text_Nil [simp]: "push_text [] r = r"
  by (cases r) (auto simp: push_text_def)

lemma push_text_push [simp]: "push_text a (push_text b r) = push_text (a @ b) r"
  by (cases r) (auto simp: push_text_def)

lemma push_text_Some [simp]: "push_text t (Some (s, rest)) = Some (t @ s, rest)"
  by (simp add: push_text_def)

lemma json_unquote_high:
  "\<forall>x\<in>set t. 128 \<le> (of_char x :: nat) \<Longrightarrow> json_unquote (t @ cs) = push_text t (json_unquote cs)"
proof (induction t)
  case (Cons x t)
  have "x \<noteq> CHR 0x22" "x \<noteq> CHR 0x5C" using Cons.prems by auto
  with Cons show ?case by (simp add: json_unquote_plain)
qed simp

lemma unhex_lower_hex [simp]: "n < 16 \<Longrightarrow> unhex (lower_hex n) = Some n"
  by (auto simp: unhex_def lower_hex_def Let_def)

lemma char_of_codes [simp]:
  "char_of (34 :: nat) = CHR 0x22" "char_of (92 :: nat) = CHR 0x5C"
  "char_of (10 :: nat) = CHR 0x0A" "char_of (13 :: nat) = CHR 0x0D" "char_of (9 :: nat) = CHR 0x09"
  "char_of (226 :: nat) = CHR 0xE2" "char_of (128 :: nat) = CHR 0x80"
  "char_of (168 :: nat) = CHR 0xA8" "char_of (169 :: nat) = CHR 0xA9"
  "char_of (239 :: nat) = CHR 0xEF" "char_of (191 :: nat) = CHR 0xBF" "char_of (189 :: nat) = CHR 0xBD"
  by code_simp+

lemma unhex_zero [simp]: "unhex CHR ''0'' = Some 0"
  by (simp add: unhex_def)

lemma json_unquote_ascii:
  assumes "of_char c < (128 :: nat)"
  shows "json_unquote (json_escape_ascii c @ cs) = push_text [c] (json_unquote cs)"
proof -
  let ?n = "of_char c :: nat"
  have c: "c = char_of ?n" by simp
  consider "?n = 34" | "?n = 92" | "?n = 10" | "?n = 13" | "?n = 9"
    | "?n \<noteq> 34 \<and> ?n \<noteq> 92 \<and> ?n \<noteq> 10 \<and> ?n \<noteq> 13 \<and> ?n \<noteq> 9 \<and> (?n < 32 \<or> ?n \<in> {38, 60, 62})"
    | "?n \<noteq> 34 \<and> ?n \<noteq> 92 \<and> ?n \<noteq> 10 \<and> ?n \<noteq> 13 \<and> ?n \<noteq> 9 \<and> \<not> (?n < 32 \<or> ?n \<in> {38, 60, 62})"
    by blast
  then show ?thesis
  proof cases
    case 1
    then have "c = CHR 0x22" using c by simp
    then show ?thesis by (simp add: json_escape_ascii_def)
  next
    case 2
    then have "c = CHR 0x5C" using c by simp
    then show ?thesis by (simp add: json_escape_ascii_def)
  next
    case 3
    then have "c = CHR 0x0A" using c by simp
    then show ?thesis by (simp add: json_escape_ascii_def)
  next
    case 4
    then have "c = CHR 0x0D" using c by simp
    then show ?thesis by (simp add: json_escape_ascii_def)
  next
    case 5
    then have "c = CHR 0x09" using c by simp
    then show ?thesis by (simp add: json_escape_ascii_def)
  next
    case 6
    have "?n div 16 < 16" using assms by linarith
    moreover have "16 * (?n div 16) + ?n mod 16 = ?n" by simp
    ultimately show ?thesis
      using 6 assms by (simp add: json_escape_ascii_def Let_def hex4_def utf8_encode_def)
  next
    case 7
    then have "c \<noteq> CHR 0x22" "c \<noteq> CHR 0x5C" by auto
    with 7 show ?thesis by (simp add: json_escape_ascii_def Let_def json_unquote_plain)
  qed
qed

lemma json_unquote_rune:
  assumes "\<forall>x\<in>set r. 128 \<le> (of_char x :: nat)"
  shows "json_unquote (json_escape_rune r @ cs) = push_text r (json_unquote cs)"
proof -
  consider "r = [CHR 0xE2, CHR 0x80, CHR 0xA8]" | "r = [CHR 0xE2, CHR 0x80, CHR 0xA9]"
    | "json_escape_rune r = r" unfolding json_escape_rune_def by meson
  then show ?thesis
    by cases (simp_all add: json_unquote_high [OF assms]
        json_escape_rune_def hex4_def unhex_def utf8_encode_def)
qed

lemma json_unquote_escape:
  "json_unquote (json_escape s @ CHR 0x22 # rest) = Some (utf8_sanitize s, rest)"
proof (induction s rule: json_escape.induct)
  case 1
  show ?case by simp
next
  case (2 c cs)
  consider "of_char c < (128 :: nat)" | "128 \<le> (of_char c :: nat)" "utf8_len (c # cs) = 0"
    | "128 \<le> (of_char c :: nat)" "utf8_len (c # cs) \<noteq> 0" by linarith
  then show ?case
  proof cases
    case 1
    then show ?thesis using 2(1)
      by (simp add: json_escape.simps(2) utf8_sanitize.simps(2) json_unquote_ascii)
  next
    case 2
    then show ?thesis using "2.IH"(2)
      by (simp add: json_escape.simps(2) utf8_sanitize.simps(2) hex4_def unhex_def utf8_encode_def)
  next
    case 3
    have "json_unquote (json_escape_rune (take (utf8_len (c # cs)) (c # cs)) @
        json_escape (drop (utf8_len (c # cs)) (c # cs)) @ CHR 0x22 # rest) =
      Some (take (utf8_len (c # cs)) (c # cs) @ utf8_sanitize (drop (utf8_len (c # cs)) (c # cs)), rest)"
      using 3 "2.IH"(3) utf8_len_high_take [of c _ cs] by (subst json_unquote_rune) auto
    with 3 show ?thesis
      by (simp add: json_escape.simps(2) utf8_sanitize.simps(2))
  qed
qed

lemma utf8_sanitize_ascii:
  "list_all (\<lambda>c. of_char c < (128 :: nat)) s \<Longrightarrow> utf8_sanitize s = s"
  by (induction s) (simp_all add: utf8_sanitize.simps(2))

section \<open>StatusError as a response\<close>

definition status_error_body :: "status_error \<Rightarrow> string" where
  "status_error_body x =
     [CHR ''{'', CHR 0x22] @ ''errorCode'' @ [CHR 0x22, CHR '':''] @ show_int (se_ErrorCode x) @
     [CHR '','', CHR 0x22] @ ''message'' @ [CHR 0x22, CHR '':'', CHR 0x22] @
     json_escape (se_error x) @ [CHR 0x22, CHR ''}'', CHR 0x0A]"

text \<open>
  Encoding a map of a string and an integer cannot fail, so the error branch of the source is
  never taken: the result is always on the right.
\<close>

definition AsHttpResponse :: "status_error \<Rightarrow> go_error + response" where
  "AsHttpResponse x =
     Inr \<lparr>rs_StatusCode = se_StatusCode x,
          rs_Header = header_Set Map.empty ''Content-Type'' ''application/json'',
          rs_Body = status_error_body x,
          rs_ContentLength = int (length (status_error_body x))\<rparr>"

section \<open>A client reads the error back\<close>

lemma show_nat_digits: "c \<in> set (show_nat n) \<Longrightarrow> \<exists>d<(10::nat). c = char_of (48 + d)"
proof (induction n rule: show_nat.induct)
  case (1 n)
  show ?case
  proof (cases "n < 10")
    case True
    with "1.prems" show ?thesis by (auto simp: show_nat.simps [of n])
  next
    case False
    with "1.prems" have "c \<in> set (show_nat (n div 10)) \<or> c = char_of (48 + n mod 10)"
      by (auto simp: show_nat.simps [of n])
    then show ?thesis
    proof
      assume "c \<in> set (show_nat (n div 10))"
      with "1.IH" [OF False] show ?thesis by blast
    next
      assume "c = char_of (48 + n mod 10)"
      then show ?thesis by (intro exI [of _ "n mod 10"]) simp
    qed
  qed
qed

lemma show_int_no_comma: "CHR '','' \<notin> set (show_int i)"
proof
  assume "CHR '','' \<in> set (show_int i)"
  then obtain n where "CHR '','' \<in> set (show_nat n)" by (auto simp: show_int_def split: if_splits)
  then obtain d where "d < (10::nat)" "CHR '','' = char_of (48 + d)" using show_nat_digits by blast
  moreover from this have "(44 :: nat) = 48 + d"
    by (auto dest!: arg_cong [of _ _ "of_char :: char \<Rightarrow> nat"])
  ultimately show False by simp
qed

lemma split_at_comma:
  assumes "CHR '','' \<notin> set a"
  shows "takeWhile (\<lambda>c. c \<noteq> CHR '','') (a @ CHR '','' # b) = a"
    and "dropWhile (\<lambda>c. c \<noteq> CHR '','') (a @ CHR '','' # b) = CHR '','' # b"
  using assms by (induction a) auto

text \<open>A reader for the body: the number behind the first member name, then the string behind the second.\<close>

definition read_error_body :: "string \<Rightarrow> (int \<times> string) option" where
  "read_error_body s =
     (let p = [CHR ''{'', CHR 0x22] @ ''errorCode'' @ [CHR 0x22, CHR '':''];
          q = [CHR '','', CHR 0x22] @ ''message'' @ [CHR 0x22, CHR '':'', CHR 0x22];
          r = drop (length p) s;
          number = takeWhile (\<lambda>c. c \<noteq> CHR '','') r;
          r' = dropWhile (\<lambda>c. c \<noteq> CHR '','') r
      in if take (length p) s = p \<and> take (length q) r' = q then
           (case (strconv_ParseInt number, json_unquote (drop (length q) r')) of
              (Some code, Some (msg, rest)) \<Rightarrow> if rest = [CHR ''}'', CHR 0x0A] then Some (code, msg) else None
            | _ \<Rightarrow> None)
         else None)"

lemma read_status_error_body:
  assumes "- (2 ^ 63) \<le> se_ErrorCode x" "se_ErrorCode x < 2 ^ 63"
  shows "read_error_body (status_error_body x) = Some (se_ErrorCode x, utf8_sanitize (se_error x))"
proof -
  have body: "status_error_body x =
    ([CHR ''{'', CHR 0x22] @ ''errorCode'' @ [CHR 0x22, CHR '':'']) @ show_int (se_ErrorCode x) @
    CHR '','' # [CHR 0x22] @ ''message'' @ [CHR 0x22, CHR '':'', CHR 0x22] @
    json_escape (se_error x) @ CHR 0x22 # [CHR ''}'', CHR 0x0A]"
    by (simp add: status_error_body_def)
  show ?thesis
    unfolding read_error_body_def body Let_def
    using assms
    by (simp add: split_at_comma [OF show_int_no_comma] json_unquote_escape)
qed

text \<open>
  C31. A client reads a rejection back. For every error the response has the error's status, the content
  type application/json, the length of its body as content length, and a JSON body from which a reader
  gets exactly the error code, and the message with invalid bytes replaced as encoding/json does,
  whatever quotes, control characters or bytes the message has.
\<close>

theorem rejection_body_reads_back:
  assumes "- (2 ^ 63) \<le> se_ErrorCode x" "se_ErrorCode x < 2 ^ 63"
  shows "\<exists>resp. AsHttpResponse x = Inr resp \<and> rs_StatusCode resp = se_StatusCode x \<and>
    header_Get (rs_Header resp) ''Content-Type'' = ''application/json'' \<and>
    rs_ContentLength resp = int (length (rs_Body resp)) \<and>
    read_error_body (rs_Body resp) = Some (se_ErrorCode x, utf8_sanitize (se_error x))"
  using read_status_error_body [OF assms] by (simp add: AsHttpResponse_def)

theorem rejection_body_reads_back_witness:
  "\<exists>resp. AsHttpResponse \<lparr>se_error = ''no api '' @ [CHR 0x22, CHR 0x5C, CHR 0x22], se_StatusCode = 404, se_ErrorCode = 40402\<rparr> = Inr resp \<and>
     read_error_body (rs_Body resp) = Some (40402, ''no api '' @ [CHR 0x22, CHR 0x5C, CHR 0x22])"
proof -
  let ?m = "''no api '' @ [CHR 0x22, CHR 0x5C, CHR 0x22]"
  have "utf8_sanitize ?m = ?m" by (rule utf8_sanitize_ascii) simp
  with rejection_body_reads_back [of "\<lparr>se_error = ?m, se_StatusCode = 404, se_ErrorCode = 40402\<rparr>"]
  show ?thesis by auto
qed

end
