(* ===== verification/Response_Writer.thy ===== *)
theory Response_Writer
  imports Go_Http
begin

text \<open>
  The buffering response writer of response_writer.go: a status code, a header map that is
  created on first use, and a body buffer. The methods that change it return the new writer;
  the map that \<open>Header\<close> hands out is shared with the writer, so a caller that changes it is
  \<open>rw_modify_header\<close>.
\<close>

record response_writer =
  rw_protoMajor :: int
  rw_protoMinor :: int
  rw_statusCode :: int
  rw_header :: "header option"
  rw_body :: string

record proto_response = response +
  rs_ProtoMajor :: int
  rs_ProtoMinor :: int

definition NewResponseWriter :: "int \<Rightarrow> int \<Rightarrow> response_writer" where
  "NewResponseWriter protoMajor protoMinor =
     \<lparr>rw_protoMajor = protoMajor, rw_protoMinor = protoMinor, rw_statusCode = 0,
      rw_header = None, rw_body = ''''\<rparr>"

definition rw_Header :: "response_writer \<Rightarrow> header \<times> response_writer" where
  "rw_Header r =
     (case rw_header r of
        None \<Rightarrow> (let h = header_Set Map.empty ''server'' ''go-netty'' in (h, r\<lparr>rw_header := Some h\<rparr>))
      | Some h \<Rightarrow> (h, r))"

definition rw_modify_header :: "(header \<Rightarrow> header) \<Rightarrow> response_writer \<Rightarrow> response_writer" where
  "rw_modify_header f r = (let (h, r') = rw_Header r in r'\<lparr>rw_header := Some (f h)\<rparr>)"

definition rw_WriteHeader :: "int \<Rightarrow> response_writer \<Rightarrow> response_writer" where
  "rw_WriteHeader statusCode r = r\<lparr>rw_statusCode := statusCode\<rparr>"

definition rw_Write :: "string \<Rightarrow> response_writer \<Rightarrow> nat \<times> response_writer" where
  "rw_Write b r = (length b, r\<lparr>rw_body := rw_body r @ b\<rparr>)"

definition rw_Response :: "response_writer \<Rightarrow> proto_response \<times> response_writer" where
  "rw_Response r =
     (let r1 = (if rw_statusCode r = 0 then rw_WriteHeader StatusOK r else r);
          (h, r2) = rw_Header r1
      in (\<lparr>rs_StatusCode = rw_statusCode r2, rs_Header = h, rs_Body = rw_body r2,
           rs_ContentLength = int (length (rw_body r2)),
           rs_ProtoMajor = rw_protoMajor r2, rs_ProtoMinor = rw_protoMinor r2\<rparr>, r2))"

lemmas response_writer_defs =
  NewResponseWriter_def rw_Header_def rw_modify_header_def rw_WriteHeader_def rw_Write_def
  rw_Response_def

text \<open>The header map a caller sees, whether or not it exists yet.\<close>

definition rw_headers :: "response_writer \<Rightarrow> header" where
  "rw_headers r = fst (rw_Header r)"

lemma rw_fields [simp]:
  "rw_headers (rw_modify_header f r) = f (rw_headers r)"
  "rw_statusCode (rw_modify_header f r) = rw_statusCode r"
  "rw_body (rw_modify_header f r) = rw_body r"
  "rw_headers (rw_WriteHeader n r) = rw_headers r"
  "rw_statusCode (rw_WriteHeader n r) = n"
  "rw_body (rw_WriteHeader n r) = rw_body r"
  "rw_headers (snd (rw_Write b r)) = rw_headers r"
  "rw_statusCode (snd (rw_Write b r)) = rw_statusCode r"
  "rw_body (snd (rw_Write b r)) = rw_body r @ b"
  by (auto simp: response_writer_defs rw_headers_def Let_def split: option.splits)

lemma rw_New [simp]:
  "rw_headers (NewResponseWriter a b) = Map.empty(''Server'' \<mapsto> [''go-netty''])"
  "rw_statusCode (NewResponseWriter a b) = 0"
  "rw_body (NewResponseWriter a b) = ''''"
  by (simp_all add: response_writer_defs rw_headers_def Let_def header_Set_def)

lemma rw_Response_fields [simp]:
  "rs_StatusCode (fst (rw_Response r)) = (if rw_statusCode r = 0 then 200 else rw_statusCode r)"
  "rs_Header (fst (rw_Response r)) = rw_headers r"
  "rs_Body (fst (rw_Response r)) = rw_body r"
  "rs_ContentLength (fst (rw_Response r)) = int (length (rw_body r))"
  by (auto simp: response_writer_defs rw_headers_def Let_def split: option.splits)

section \<open>A whole life of a writer\<close>

datatype rw_op = SetHeader string string | WriteStatus int | WriteBody string

fun rw_step :: "rw_op \<Rightarrow> response_writer \<Rightarrow> response_writer" where
  "rw_step (SetHeader k v) r = rw_modify_header (\<lambda>h. header_Set h k v) r"
| "rw_step (WriteStatus n) r = rw_WriteHeader n r"
| "rw_step (WriteBody b) r = snd (rw_Write b r)"

definition rw_run :: "rw_op list \<Rightarrow> response_writer \<Rightarrow> response_writer" where
  "rw_run ops r = fold rw_step ops r"

fun written_status :: "rw_op list \<Rightarrow> int \<Rightarrow> int" where
  "written_status [] n = n"
| "written_status (WriteStatus m # ops) n = written_status ops m"
| "written_status (_ # ops) n = written_status ops n"

fun written_body :: "rw_op list \<Rightarrow> string" where
  "written_body [] = ''''"
| "written_body (WriteBody b # ops) = b @ written_body ops"
| "written_body (_ # ops) = written_body ops"

fun written_header :: "rw_op list \<Rightarrow> header \<Rightarrow> header" where
  "written_header [] h = h"
| "written_header (SetHeader k v # ops) h = written_header ops (header_Set h k v)"
| "written_header (_ # ops) h = written_header ops h"

lemma rw_run_Cons [simp]: "rw_run (x # ops) r = rw_run ops (rw_step x r)"
  by (simp add: rw_run_def)

lemma rw_run_Nil [simp]: "rw_run [] r = r"
  by (simp add: rw_run_def)

lemma rw_run_status: "rw_statusCode (rw_run ops r) = written_status ops (rw_statusCode r)"
proof (induction ops arbitrary: r)
  case (Cons x ops)
  then show ?case by (cases x) simp_all
qed simp

lemma rw_run_body: "rw_body (rw_run ops r) = rw_body r @ written_body ops"
proof (induction ops arbitrary: r)
  case (Cons x ops)
  then show ?case by (cases x) simp_all
qed simp

lemma rw_run_header: "rw_headers (rw_run ops r) = written_header ops (rw_headers r)"
proof (induction ops arbitrary: r)
  case (Cons x ops)
  then show ?case by (cases x) simp_all
qed simp

text \<open>
  C37. The buffering writer refines its abstract log: whatever calls are made on a new writer, the
  response it hands out has the last status written (200 when none was, or 0), all header changes
  applied in order to the initial map with the Server header, the concatenation of all written
  bodies, and that length as its content length.
\<close>

theorem response_writer_refines_log:
  "fst (rw_Response (rw_run ops (NewResponseWriter major minor))) =
     \<lparr>rs_StatusCode = (if written_status ops 0 = 0 then 200 else written_status ops 0),
      rs_Header = written_header ops (Map.empty(''Server'' \<mapsto> [''go-netty''])),
      rs_Body = written_body ops,
      rs_ContentLength = int (length (written_body ops)),
      rs_ProtoMajor = major, rs_ProtoMinor = minor\<rparr>"
proof -
  have proto: "rw_protoMajor (rw_run ops r) = rw_protoMajor r \<and> rw_protoMinor (rw_run ops r) = rw_protoMinor r" for r
  proof (induction ops arbitrary: r)
    case (Cons x ops)
    then show ?case
      by (cases x) (auto simp: response_writer_defs Let_def split: option.splits)
  qed simp
  have "rs_ProtoMajor (fst (rw_Response r)) = rw_protoMajor r \<and>
        rs_ProtoMinor (fst (rw_Response r)) = rw_protoMinor r" for r
    by (auto simp: response_writer_defs Let_def split: option.splits)
  then show ?thesis
    using proto [of "NewResponseWriter major minor"]
    by (intro proto_response.equality)
      (simp_all add: rw_run_status rw_run_body rw_run_header, simp_all add: NewResponseWriter_def)
qed

end
