(* ===== verification/Reverse_Proxy.thy ===== *)
theory Reverse_Proxy
  imports Status_Error Response_Writer
begin

text \<open>
  The round tripper of proxy_transport.go and what the sources use of \<open>httputil.ReverseProxy\<close>
  and \<open>http.Transport\<close>. A round tripper returns a response or an error together with the
  requests that it put on the network, so that a property can speak about what was sent. The
  network itself is a parameter: a function from requests to a response or an error.

  \<open>ServeHTTP\<close> is modelled for requests that neither ask for a protocol upgrade nor announce
  trailers, and without the X-Forwarded-For header: the requests of this program come out of
  \<open>http.ReadRequest\<close>, which leaves the remote address empty.
\<close>

type_synonym network = "request \<Rightarrow> go_error + response"
type_synonym round_tripper = "request \<Rightarrow> (go_error + response) \<times> request list"

section \<open>Round trippers\<close>

text \<open>\<open>http.Transport.RoundTrip\<close> refuses a URL whose scheme is not http or https, or without a host.\<close>

definition transport_RoundTrip :: "network \<Rightarrow> round_tripper" where
  "transport_RoundTrip net req =
     (if url_Scheme (rq_URL req) \<notin> {''http'', ''https''} then (Inl ''unsupported protocol scheme'', [])
      else if url_Host (rq_URL req) = '''' then (Inl ''http: no Host in request URL'', [])
      else (net req, [req]))"

record proxy_round_tripper =
  prt_base :: round_tripper
  prt_roundTripFunc :: "round_tripper \<Rightarrow> round_tripper"

definition NewProxyRoundTripper ::
    "round_tripper \<Rightarrow> (round_tripper \<Rightarrow> round_tripper) \<Rightarrow> proxy_round_tripper" where
  "NewProxyRoundTripper base fn = \<lparr>prt_base = base, prt_roundTripFunc = fn\<rparr>"

definition ProxyRoundTripper_RoundTrip :: "proxy_round_tripper \<Rightarrow> round_tripper" where
  "ProxyRoundTripper_RoundTrip b request = prt_roundTripFunc b (prt_base b) request"

text \<open>The function both reverse proxies of the sources install: an error recorded by the
  director is answered at once, and only without one the base round tripper is called.\<close>

definition proxy_error_round_trip :: "status_error option \<Rightarrow> round_tripper \<Rightarrow> round_tripper" where
  "proxy_error_round_trip proxyError base request =
     (case proxyError of
        None \<Rightarrow> base request
      | Some e \<Rightarrow> (AsHttpResponse e, []))"

section \<open>Hop-by-hop headers\<close>

definition hopHeaders :: "string list" where
  "hopHeaders = [''Connection'', ''Proxy-Connection'', ''Keep-Alive'', ''Proxy-Authenticate'',
     ''Proxy-Authorization'', ''Te'', ''Trailer'', ''Transfer-Encoding'', ''Upgrade'']"

definition connection_listed :: "header \<Rightarrow> string list" where
  "connection_listed h =
     filter (\<lambda>s. s \<noteq> '''')
       (map textproto_TrimString
         (concat (map (strings_Split CHR '','')
           (case h ''Connection'' of None \<Rightarrow> [] | Some vs \<Rightarrow> vs))))"

definition removeHopByHopHeaders :: "header \<Rightarrow> header" where
  "removeHopByHopHeaders h = fold (\<lambda>k h. header_Del h k) (connection_listed h @ hopHeaders) h"

lemma fold_header_Del_apply:
  "fold (\<lambda>k h. header_Del h k) ks h j = (if j \<in> canonical_key ` set ks then None else h j)"
  by (induction ks arbitrary: h) (auto simp: header_Del_apply)

lemma removeHopByHopHeaders_apply:
  "removeHopByHopHeaders h j =
     (if j \<in> canonical_key ` (set (connection_listed h) \<union> set hopHeaders) then None else h j)"
  unfolding removeHopByHopHeaders_def fold_header_Del_apply set_append ..

lemma canonical_hopHeaders [simp]: "map canonical_key hopHeaders = hopHeaders"
  unfolding hopHeaders_def by code_simp

lemma canonical_set_hopHeaders [simp]: "canonical_key ` set hopHeaders = set hopHeaders"
  by (metis canonical_hopHeaders image_set)

lemma removeHopByHopHeaders_no_connection:
  "h ''Connection'' = None \<Longrightarrow> removeHopByHopHeaders h j = (if j \<in> set hopHeaders then None else h j)"
  by (simp add: removeHopByHopHeaders_apply connection_listed_def)

lemma removeHop_keeps:
  assumes "j \<notin> canonical_key ` set (connection_listed h)" "j \<notin> set hopHeaders"
  shows "removeHopByHopHeaders h j = h j"
  using assms by (auto simp: removeHopByHopHeaders_apply image_Un)

lemma removeHop_drops:
  "j \<in> canonical_key ` set (connection_listed h) \<Longrightarrow> removeHopByHopHeaders h j = None"
  by (auto simp: removeHopByHopHeaders_apply)

section \<open>ReverseProxy.ServeHTTP\<close>

text \<open>Adds the values of \<open>src\<close>, a map with canonical keys, to those of \<open>dst\<close>.\<close>

definition copyHeader :: "header \<Rightarrow> header \<Rightarrow> header" where
  "copyHeader dst src =
     (\<lambda>k. case src k of
            None \<Rightarrow> dst k
          | Some [] \<Rightarrow> dst k
          | Some vs \<Rightarrow> Some ((case dst k of None \<Rightarrow> [] | Some ws \<Rightarrow> ws) @ vs))"

definition default_user_agent :: "header \<Rightarrow> header" where
  "default_user_agent h = (if h ''User-Agent'' = None then header_Set h ''User-Agent'' '''' else h)"

definition outgoing_header :: "header \<Rightarrow> header" where
  "outgoing_header h = default_user_agent (removeHopByHopHeaders h)"

definition deliver_response :: "response \<Rightarrow> response_writer \<Rightarrow> response_writer" where
  "deliver_response res rw =
     snd (rw_Write (rs_Body res)
       (rw_WriteHeader (rs_StatusCode res)
         (rw_modify_header (\<lambda>h. copyHeader h (removeHopByHopHeaders (rs_Header res))) rw)))"

text \<open>
  The director works on a clone of the request and leaves a value \<open>v\<close> in a variable that the
  transport function reads afterwards. An error of the transport is answered with 502.
\<close>

definition ServeHTTP ::
    "(request \<Rightarrow> (request \<times> 'v) go) \<Rightarrow> ('v \<Rightarrow> round_tripper) \<Rightarrow> request \<Rightarrow> response_writer \<Rightarrow>
     (response_writer \<times> request list) go" where
  "ServeHTTP director transport req rw =
     go_bind (director req) (\<lambda>(outreq, v).
       let (res, sent) = transport v (outreq\<lparr>rq_Header := outgoing_header (rq_Header outreq)\<rparr>)
       in Inr (case res of
                 Inl err \<Rightarrow> (rw_WriteHeader StatusBadGateway rw, sent)
               | Inr resp \<Rightarrow> (deliver_response resp rw, sent)))"

text \<open>The reverse proxy of the sources: director, base transport and the error round trip.\<close>

definition serve_guarded ::
    "(request \<Rightarrow> (request \<times> status_error option) go) \<Rightarrow> network \<Rightarrow> request \<Rightarrow> response_writer \<Rightarrow>
     (response_writer \<times> request list) go" where
  "serve_guarded director net req rw =
     ServeHTTP director
       (\<lambda>proxyError. ProxyRoundTripper_RoundTrip
          (NewProxyRoundTripper (transport_RoundTrip net) (proxy_error_round_trip proxyError)))
       req rw"

lemma outgoing_header_Get:
  assumes "canonical_key k \<noteq> ''User-Agent''"
  shows "header_Get (outgoing_header h) k = header_Get (removeHopByHopHeaders h) k"
  using assms
  by (intro header_Get_cong)
    (simp add: outgoing_header_def default_user_agent_def header_Set_apply)

text \<open>The three ways a guarded proxy ends when its director returns.\<close>

lemma serve_guarded_rejected:
  assumes "director req = Inr (out, Some e)"
  shows "\<exists>resp. AsHttpResponse e = Inr resp \<and>
           serve_guarded director net req rw = Inr (deliver_response resp rw, [])"
  using assms
  by (simp add: serve_guarded_def ServeHTTP_def ProxyRoundTripper_RoundTrip_def
      NewProxyRoundTripper_def proxy_error_round_trip_def AsHttpResponse_def)

lemma serve_guarded_admitted:
  assumes "director req = Inr (out, None)"
  shows "serve_guarded director net req rw =
    (case transport_RoundTrip net (out\<lparr>rq_Header := outgoing_header (rq_Header out)\<rparr>) of
       (Inl err, sent) \<Rightarrow> Inr (rw_WriteHeader StatusBadGateway rw, sent)
     | (Inr resp, sent) \<Rightarrow> Inr (deliver_response resp rw, sent))"
  using assms
  by (auto simp: serve_guarded_def ServeHTTP_def ProxyRoundTripper_RoundTrip_def
      NewProxyRoundTripper_def proxy_error_round_trip_def split: prod.split sum.split)

lemma serve_guarded_panic:
  "director req = Inl p \<Longrightarrow> serve_guarded director net req rw = Inl p"
  by (simp add: serve_guarded_def ServeHTTP_def)

lemma deliver_response_fields [simp]:
  "rw_statusCode (deliver_response resp rw) = rs_StatusCode resp"
  "rw_body (deliver_response resp rw) = rw_body rw @ rs_Body resp"
  "rw_headers (deliver_response resp rw) =
     copyHeader (rw_headers rw) (removeHopByHopHeaders (rs_Header resp))"
  by (simp_all add: deliver_response_def)

section \<open>The contract between a director and the proxy that runs it\<close>

text \<open>
  A director promises that a request it lets through (no error recorded) is fit to be sent,
  in the sense of \<open>admits\<close>. The proxy then guarantees that nothing else reaches the network.
\<close>

locale guarded_director =
  fixes director :: "request \<Rightarrow> (request \<times> status_error option) go"
    and admits :: "request \<Rightarrow> request \<Rightarrow> bool"
  assumes admits_if_no_error: "director req = Inr (out, None) \<Longrightarrow> admits req out"
begin

lemma sent_admitted:
  assumes "serve_guarded director net req rw = Inr (rw', sent)" and "r \<in> set sent"
  shows "\<exists>out. director req = Inr (out, None) \<and> admits req out \<and>
           r = out\<lparr>rq_Header := outgoing_header (rq_Header out)\<rparr>"
proof (cases "director req")
  case (Inl p)
  with assms show ?thesis by (simp add: serve_guarded_panic)
next
  case (Inr x)
  obtain out e where x: "x = (out, e)" by (cases x)
  show ?thesis
  proof (cases e)
    case None
    with Inr x have d: "director req = Inr (out, None)" by simp
    from assms have "r = out\<lparr>rq_Header := outgoing_header (rq_Header out)\<rparr>"
      by (auto simp: serve_guarded_admitted [of director, OF d] transport_RoundTrip_def
          split: sum.splits if_splits)
    with d admits_if_no_error show ?thesis by blast
  next
    case (Some se)
    with Inr x have "director req = Inr (out, Some se)" by simp
    from serve_guarded_rejected [of director, OF this, of net rw] assms show ?thesis by auto
  qed
qed

lemma not_admitted_nothing_sent:
  assumes "serve_guarded director net req rw = Inr (rw', sent)"
    and "\<And>out. \<not> admits req out"
  shows "sent = []"
  using sent_admitted [OF assms(1)] assms(2) by (cases sent) auto

end

end
