(* ===== verification/Netty_Channel.thy ===== *)
theory Netty_Channel
  imports Reverse_Proxy
begin

text \<open>
  What the handlers of the sidecar see of a go-netty channel: the messages, the attachment that a
  handler can leave on the channel, and the calls a handler makes on its context, recorded in
  order. How netty delivers these calls is not modelled; a property that runs several handlers
  composes them by hand, along the order in which the sources add them to the pipeline.
\<close>

datatype message =
    MRequest request
  | MResponseWriter response_writer
  | MOther string

record channel =
  ch_attachment :: "message option"

datatype ctx_call =
    CtxHandleActive
  | CtxHandleInactive string
  | CtxHandleRead message
  | CtxHandleWrite message
  | ChannelWrite message

text \<open>
  The two proxy handlers read in the same way: a request is attached to the channel and a new
  response writer is written, any other message goes on. The constructor of the writer is a
  parameter (\<open>xhttp.NewResponseWriter\<close> of go-netty). On the way out both leave a message alone
  unless a request is attached and the message is a response writer; then they serve the request
  with their own director and pass the writer on.
\<close>

definition proxy_read ::
    "(int \<Rightarrow> int \<Rightarrow> response_writer) \<Rightarrow> message \<Rightarrow> channel \<Rightarrow> channel \<times> ctx_call list" where
  "proxy_read newWriter msg ch =
     (case msg of
        MRequest request \<Rightarrow>
          (ch\<lparr>ch_attachment := Some msg\<rparr>,
           [ChannelWrite (MResponseWriter (newWriter (rq_ProtoMajor request) (rq_ProtoMinor request)))])
      | _ \<Rightarrow> (ch, [CtxHandleRead msg]))"

definition proxy_write ::
    "(request \<Rightarrow> request \<Rightarrow> (request \<times> status_error option) go) \<Rightarrow> network \<Rightarrow> message \<Rightarrow> channel \<Rightarrow>
     (ctx_call list \<times> request list) go" where
  "proxy_write director net msg ch =
     (case ch_attachment ch of
        Some (MRequest request) \<Rightarrow>
          (case msg of
             MResponseWriter rw \<Rightarrow>
               go_bind (serve_guarded (director request) net request rw)
                 (\<lambda>(rw', sent). Inr ([CtxHandleWrite (MResponseWriter rw')], sent))
           | _ \<Rightarrow> Inr ([CtxHandleWrite msg], []))
      | _ \<Rightarrow> Inr ([CtxHandleWrite msg], []))"

lemma proxy_write_other:
  "(\<forall>r. ch_attachment ch \<noteq> Some (MRequest r)) \<or> (\<forall>rw. msg \<noteq> MResponseWriter rw) \<Longrightarrow>
   proxy_write director net msg ch = Inr ([CtxHandleWrite msg], [])"
  by (auto simp: proxy_write_def split: option.split message.split)

lemma proxy_write_request:
  assumes "ch_attachment ch = Some (MRequest request)"
  shows "proxy_write director net (MResponseWriter rw) ch =
    go_bind (serve_guarded (director request) net request rw)
      (\<lambda>(rw', sent). Inr ([CtxHandleWrite (MResponseWriter rw')], sent))"
  using assms by (simp add: proxy_write_def)

end
