(* ===== verification/Service_Registry.thy ===== *)
theory Service_Registry
  imports Go_Prelude
begin

text \<open>
  The registries of the sidecar: the APIs of the backend service (ServiceInfo and
  ServiceRouteHandler of service_router.go, filled by ReportHTTPAPI of the gRPC service) and the
  deployments that the outbound side knows (DeployInfo of deployment.go, the map of
  TLSWrapperHandler). Both are maps keyed by a field of the stored value; what they promise is the
  locale \<open>keyed_registry\<close>, interpreted on both.
\<close>

section \<open>The contract of a registry\<close>

locale keyed_registry =
  fixes put :: "'v \<Rightarrow> 'm \<Rightarrow> 'm"
    and get :: "'m \<Rightarrow> 'k \<Rightarrow> 'v option"
    and key :: "'v \<Rightarrow> 'k"
  assumes get_put: "get (put v m) k = (if k = key v then Some v else get m k)"
begin

lemma get_fold_put:
  "get (fold put vs m) k =
     (case find (\<lambda>v. key v = k) (rev vs) of Some v \<Rightarrow> Some v | None \<Rightarrow> get m k)"
proof (induction vs arbitrary: m)
  case (Cons v vs)
  have "find (\<lambda>v. key v = k) (rev (v # vs)) =
    (case find (\<lambda>v. key v = k) (rev vs) of Some w \<Rightarrow> Some w | None \<Rightarrow> if key v = k then Some v else None)"
    by (simp add: find_append split: option.split)
  with Cons show ?case by (auto simp: get_put split: option.splits)
qed simp

lemma get_fold_put_other:
  "k \<notin> key ` set vs \<Longrightarrow> get (fold put vs m) k = get m k"
  by (induction vs arbitrary: m) (auto simp: get_put)

lemma get_fold_put_mem:
  assumes "v \<in> set vs" "distinct (map key vs)"
  shows "get (fold put vs m) (key v) = Some v"
  using assms
proof (induction vs arbitrary: m)
  case (Cons w vs)
  then show ?case
    by (cases "v = w") (auto simp: get_put get_fold_put_other)
qed simp

lemma fold_put_keyed:
  assumes "\<And>k v. get m k = Some v \<Longrightarrow> key v = k"
  shows "get (fold put vs m) k = Some v \<Longrightarrow> key v = k"
  using assms
proof (induction vs arbitrary: m)
  case (Cons w vs)
  show ?case
  proof (rule Cons.IH)
    show "get (fold put vs (put w m)) k = Some v" using Cons.prems(1) by simp
    show "\<And>k v. get (put w m) k = Some v \<Longrightarrow> key v = k"
      using Cons.prems(2) by (auto simp: get_put split: if_splits)
  qed
qed simp

lemma fold_put_grows: "get m k \<noteq> None \<Longrightarrow> get (fold put vs m) k \<noteq> None"
  by (induction vs arbitrary: m) (auto simp: get_put)

end

section \<open>The APIs of the backend service\<close>

record api_info =
  ai_FullPath :: string
  ai_Methods :: "string list"
  ai_SupportedIdentityType :: "string list"

record service_info =
  si_ID :: string
  si_PathRouterInfoMap :: "string \<Rightarrow> api_info option"
  si_Host :: string

definition put_api :: "api_info \<Rightarrow> service_info \<Rightarrow> service_info" where
  "put_api apiInfo s =
     s\<lparr>si_PathRouterInfoMap := (si_PathRouterInfoMap s)(ai_FullPath apiInfo \<mapsto> apiInfo)\<rparr>"

definition ServiceInfo_AddHttpAPIInfo :: "api_info list \<Rightarrow> service_info \<Rightarrow> service_info" where
  "ServiceInfo_AddHttpAPIInfo apiInfos s = fold put_api apiInfos s"

definition GetAPIInfoByPath :: "service_info \<Rightarrow> string \<Rightarrow> api_info option" where
  "GetAPIInfoByPath s fullPath = si_PathRouterInfoMap s fullPath"

record service_route_handler =
  srh_serviceInfo :: "service_info option"

text \<open>A nil service info is dereferenced only when there is an entry to store.\<close>

definition Handler_AddHttpAPIInfo :: "api_info list \<Rightarrow> service_route_handler \<Rightarrow> service_route_handler go" where
  "Handler_AddHttpAPIInfo apiInfos h =
     (case srh_serviceInfo h of
        None \<Rightarrow> (if apiInfos = [] then Inr h else Inl NilDereference)
      | Some s \<Rightarrow> Inr (h\<lparr>srh_serviceInfo := Some (ServiceInfo_AddHttpAPIInfo apiInfos s)\<rparr>))"

definition NewServiceRouteHandler :: "string \<Rightarrow> string \<Rightarrow> service_route_handler" where
  "NewServiceRouteHandler serviceID serviceHost =
     \<lparr>srh_serviceInfo =
        Some \<lparr>si_ID = serviceID, si_PathRouterInfoMap = Map.empty, si_Host = serviceHost\<rparr>\<rparr>"

interpretation api_registry: keyed_registry put_api GetAPIInfoByPath ai_FullPath
  by unfold_locales (simp add: put_api_def GetAPIInfoByPath_def)

lemma put_api_frame [simp]:
  "si_ID (put_api a s) = si_ID s" "si_Host (put_api a s) = si_Host s"
  by (simp_all add: put_api_def)

lemma AddHttpAPIInfo_frame [simp]:
  "si_ID (ServiceInfo_AddHttpAPIInfo as s) = si_ID s"
  "si_Host (ServiceInfo_AddHttpAPIInfo as s) = si_Host s"
  by (induction as arbitrary: s) (simp_all add: ServiceInfo_AddHttpAPIInfo_def)

section \<open>The gRPC service that reports APIs\<close>

record pb_HttpAPIInfo =
  pb_FullPath :: string
  pb_Methods :: "string list"
  pb_SupportedIdentityType :: "string list"

record backend_to_sidecar_service =
  bs_routeHandler :: service_route_handler

definition NewBackendToSidecarServiceImpl :: "service_route_handler \<Rightarrow> backend_to_sidecar_service" where
  "NewBackendToSidecarServiceImpl routeHandler = \<lparr>bs_routeHandler = routeHandler\<rparr>"

definition api_info_of_pb :: "pb_HttpAPIInfo \<Rightarrow> api_info" where
  "api_info_of_pb item =
     \<lparr>ai_FullPath = pb_FullPath item, ai_Methods = pb_Methods item,
      ai_SupportedIdentityType = pb_SupportedIdentityType item\<rparr>"

definition ReportHTTPAPI ::
    "pb_HttpAPIInfo list \<Rightarrow> backend_to_sidecar_service \<Rightarrow> backend_to_sidecar_service go" where
  "ReportHTTPAPI ApiInfos b =
     go_bind (Handler_AddHttpAPIInfo (map api_info_of_pb ApiInfos) (bs_routeHandler b))
       (\<lambda>h. Inr (b\<lparr>bs_routeHandler := h\<rparr>))"

text \<open>Reports on a handler made by the constructor, one after the other.\<close>

fun report_all :: "pb_HttpAPIInfo list list \<Rightarrow> backend_to_sidecar_service \<Rightarrow> backend_to_sidecar_service go" where
  "report_all [] b = Inr b"
| "report_all (r # rs) b = go_bind (ReportHTTPAPI r b) (report_all rs)"

definition service_keyed :: "service_info \<Rightarrow> bool" where
  "service_keyed s \<longleftrightarrow> (\<forall>k a. GetAPIInfoByPath s k = Some a \<longrightarrow> ai_FullPath a = k)"

lemma service_keyed_AddHttpAPIInfo:
  "service_keyed s \<Longrightarrow> service_keyed (ServiceInfo_AddHttpAPIInfo as s)"
  unfolding service_keyed_def ServiceInfo_AddHttpAPIInfo_def
  by (meson api_registry.fold_put_keyed)

lemma report_all_Some:
  assumes "srh_serviceInfo (bs_routeHandler b) = Some s"
  shows "report_all rs b =
    Inr (b\<lparr>bs_routeHandler := (bs_routeHandler b)
             \<lparr>srh_serviceInfo := Some (ServiceInfo_AddHttpAPIInfo (map api_info_of_pb (concat rs)) s)\<rparr>\<rparr>)"
  using assms
proof (induction rs arbitrary: b s)
  case Nil
  then show ?case by (simp add: ServiceInfo_AddHttpAPIInfo_def)
next
  case (Cons r rs)
  let ?s = "ServiceInfo_AddHttpAPIInfo (map api_info_of_pb r) s"
  let ?b = "b\<lparr>bs_routeHandler := (bs_routeHandler b)\<lparr>srh_serviceInfo := Some ?s\<rparr>\<rparr>"
  have "ReportHTTPAPI r b = Inr ?b"
    using Cons.prems by (simp add: ReportHTTPAPI_def Handler_AddHttpAPIInfo_def)
  moreover have "report_all rs ?b =
    Inr (?b\<lparr>bs_routeHandler := (bs_routeHandler ?b)
             \<lparr>srh_serviceInfo := Some (ServiceInfo_AddHttpAPIInfo (map api_info_of_pb (concat rs)) ?s)\<rparr>\<rparr>)"
    by (rule Cons.IH) simp
  ultimately show ?case by (simp add: ServiceInfo_AddHttpAPIInfo_def)
qed

lemma reported_lookup:
  "GetAPIInfoByPath (ServiceInfo_AddHttpAPIInfo (map api_info_of_pb ps)
      \<lparr>si_ID = sid, si_PathRouterInfoMap = Map.empty, si_Host = host\<rparr>) path =
     map_option api_info_of_pb (find (\<lambda>p. pb_FullPath p = path) (rev ps))"
proof -
  have find_map: "find (\<lambda>a. ai_FullPath a = p) (map api_info_of_pb qs) =
      map_option api_info_of_pb (find (\<lambda>q. pb_FullPath q = p) qs)" for p qs
    by (induction qs) (simp_all add: api_info_of_pb_def)
  show ?thesis
    unfolding ServiceInfo_AddHttpAPIInfo_def api_registry.get_fold_put rev_map find_map
    by (simp add: GetAPIInfoByPath_def split: option.split)
qed

section \<open>The deployments of the outbound side\<close>

record deploy_info =
  di_ID :: string
  di_Host :: string
  di_IDServiceInfoMap :: "string \<Rightarrow> service_info option"

definition GetServiceInfo :: "deploy_info \<Rightarrow> string \<Rightarrow> service_info option" where
  "GetServiceInfo x serviceID = di_IDServiceInfoMap x serviceID"

type_synonym deploy_map = "string \<Rightarrow> deploy_info option"

definition put_deploy :: "deploy_info \<Rightarrow> deploy_map \<Rightarrow> deploy_map" where
  "put_deploy deployInfo m = m(di_ID deployInfo \<mapsto> deployInfo)"

definition deploy_map_of_hosts :: "(string \<Rightarrow> string option) \<Rightarrow> deploy_map" where
  "deploy_map_of_hosts idDeployHostMap =
     (\<lambda>deployID. map_option
        (\<lambda>host. \<lparr>di_ID = deployID, di_Host = host, di_IDServiceInfoMap = Map.empty\<rparr>)
        (idDeployHostMap deployID))"

interpretation deploy_registry: keyed_registry put_deploy "\<lambda>m k. m k" di_ID
  by unfold_locales (simp add: put_deploy_def)

section \<open>Properties\<close>

text \<open>
  What the backend reports is what the router looks up. After any sequence of ReportHTTPAPI
  calls on a fresh route handler, no call panics and the lookup of a path gives the entry reported
  last for exactly this path, converted field by field, and nil for a path never reported.
\<close>

theorem report_then_lookup:
  "\<exists>b s. report_all reports (NewBackendToSidecarServiceImpl (NewServiceRouteHandler sid host)) = Inr b \<and>
     srh_serviceInfo (bs_routeHandler b) = Some s \<and> si_ID s = sid \<and> si_Host s = host \<and>
     (\<forall>path. GetAPIInfoByPath s path =
        map_option api_info_of_pb (find (\<lambda>p. pb_FullPath p = path) (rev (concat reports))))"
proof -
  let ?ini = "\<lparr>si_ID = sid, si_PathRouterInfoMap = Map.empty, si_Host = host\<rparr> :: service_info"
  let ?s = "ServiceInfo_AddHttpAPIInfo (map api_info_of_pb (concat reports)) ?ini"
  have "GetAPIInfoByPath ?s path =
      map_option api_info_of_pb (find (\<lambda>p. pb_FullPath p = path) (rev (concat reports)))" for path
    by (rule reported_lookup)
  moreover have "report_all reports (NewBackendToSidecarServiceImpl (NewServiceRouteHandler sid host)) =
      Inr \<lparr>bs_routeHandler = \<lparr>srh_serviceInfo = Some ?s\<rparr>\<rparr>"
    using report_all_Some [of "\<lparr>bs_routeHandler = \<lparr>srh_serviceInfo = Some ?ini\<rparr>\<rparr>" ?ini reports]
    by (simp add: NewBackendToSidecarServiceImpl_def NewServiceRouteHandler_def)
  ultimately show ?thesis
    by (intro exI [of _ "\<lparr>bs_routeHandler = \<lparr>srh_serviceInfo = Some ?s\<rparr>\<rparr>"] exI [of _ ?s]) simp
qed

text \<open>
  The registry invariant: every entry is stored under its own full path. It holds for a new
  handler and every report keeps it, whatever the reports hold.
\<close>

lemma service_registry_keyed:
  assumes "srh_serviceInfo (bs_routeHandler b) = Some s" "service_keyed s"
    and "ReportHTTPAPI reports b = Inr b'"
  shows "\<exists>s'. srh_serviceInfo (bs_routeHandler b') = Some s' \<and> service_keyed s' \<and>
    (\<forall>path. GetAPIInfoByPath s path \<noteq> None \<longrightarrow> GetAPIInfoByPath s' path \<noteq> None)"
proof -
  let ?s = "ServiceInfo_AddHttpAPIInfo (map api_info_of_pb reports) s"
  have "srh_serviceInfo (bs_routeHandler b') = Some ?s"
    using assms by (auto simp: ReportHTTPAPI_def Handler_AddHttpAPIInfo_def)
  moreover have "service_keyed ?s"
    using assms(2) by (rule service_keyed_AddHttpAPIInfo)
  moreover have "GetAPIInfoByPath s path \<noteq> None \<Longrightarrow> GetAPIInfoByPath ?s path \<noteq> None" for path
    unfolding ServiceInfo_AddHttpAPIInfo_def by (rule api_registry.fold_put_grows)
  ultimately show ?thesis by blast
qed

end
