(* ===== verification/Trust_Center.thy ===== *)
theory Trust_Center
  imports Go_Http
begin

text \<open>
  Package trust_center: the identity that a service certificate carries (its subject's common
  name and first organizational unit) and the identity headers that the handler RPCIdentityHandler
  derives from a request and the peer's certificate. Indexing an empty list of organizational
  units is a run-time panic, as in the code.
\<close>

record trusted_service_certificate =
  ts_ServiceID :: string
  ts_DeployID :: string
  ts_Certificate :: certificate

definition IdentityTypeHeaderKey :: string where "IdentityTypeHeaderKey = ''X-Identity-Type''"
definition IdentityTypeCertRPC :: string where "IdentityTypeCertRPC = ''cert-rpc''"
definition IdentityTypeCertStudent :: string where "IdentityTypeCertStudent = ''cert-student''"

text \<open>The outer sum is a panic, the inner one the error result, which the code never gives.\<close>

definition NewServiceCertificate :: "certificate \<Rightarrow> (go_error + trusted_service_certificate) go" where
  "NewServiceCertificate cert =
     (let serviceID = pn_CommonName (ct_Subject cert)
      in go_bind (go_index (pn_OrganizationalUnit (ct_Subject cert)) 0)
           (\<lambda>deployID. Inr (Inr \<lparr>ts_ServiceID = serviceID, ts_DeployID = deployID, ts_Certificate = cert\<rparr>)))"

definition HandleIdentity :: "request \<Rightarrow> certificate \<Rightarrow> (go_error + header) go" where
  "HandleIdentity r peerCert =
     (let respHeader = Map.empty;
          identityType = header_Get (rq_Header r) ''X-Identity-Type''
      in if identityType = '''' then
           Inr (Inr (header_Set respHeader ''X-Identity-Type'' ''user-anonymous''))
         else if identityType = IdentityTypeCertRPC then
           go_bind (NewServiceCertificate peerCert) (\<lambda>res.
             case res of
               Inl err \<Rightarrow> Inr (Inl err)
             | Inr info \<Rightarrow>
                 Inr (Inr (header_Set (header_Set respHeader ''X-From-Deploy'' (ts_DeployID info))
                             ''X-From-Service'' (ts_ServiceID info))))
         else Inr (Inr respHeader))"

text \<open>A certificate that names its deployment.\<close>

definition has_deploy :: "certificate \<Rightarrow> bool" where
  "has_deploy c \<longleftrightarrow> pn_OrganizationalUnit (ct_Subject c) \<noteq> []"

definition cert_deploy :: "certificate \<Rightarrow> string" where
  "cert_deploy c = hd (pn_OrganizationalUnit (ct_Subject c))"

definition cert_service :: "certificate \<Rightarrow> string" where
  "cert_service c = pn_CommonName (ct_Subject c)"

lemma NewServiceCertificate_eq:
  "NewServiceCertificate c =
     (if has_deploy c
      then Inr (Inr \<lparr>ts_ServiceID = cert_service c, ts_DeployID = cert_deploy c, ts_Certificate = c\<rparr>)
      else Inl IndexOutOfRange)"
  by (cases "pn_OrganizationalUnit (ct_Subject c)")
    (simp_all add: NewServiceCertificate_def has_deploy_def cert_deploy_def cert_service_def Let_def)

lemma NewServiceCertificate_no_error: "NewServiceCertificate c \<noteq> Inr (Inl e)"
  by (simp add: NewServiceCertificate_eq)

lemma HandleIdentity_anonymous:
  "header_Get (rq_Header r) ''X-Identity-Type'' = '''' \<Longrightarrow>
   HandleIdentity r c = Inr (Inr (Map.empty(''X-Identity-Type'' \<mapsto> [''user-anonymous''])))"
  by (simp add: HandleIdentity_def Let_def header_Set_def)

lemma HandleIdentity_rpc:
  assumes "header_Get (rq_Header r) ''X-Identity-Type'' = ''cert-rpc''"
  shows "HandleIdentity r c =
    (if has_deploy c
     then Inr (Inr [''X-From-Deploy'' \<mapsto> [cert_deploy c], ''X-From-Service'' \<mapsto> [cert_service c]])
     else Inl IndexOutOfRange)"
  using assms
  by (simp add: HandleIdentity_def Let_def IdentityTypeCertRPC_def NewServiceCertificate_eq header_Set_def)

lemma HandleIdentity_other:
  "header_Get (rq_Header r) ''X-Identity-Type'' \<notin> {'''', ''cert-rpc''} \<Longrightarrow>
   HandleIdentity r c = Inr (Inr Map.empty)"
  by (simp add: HandleIdentity_def Let_def IdentityTypeCertRPC_def)

section \<open>The contract of an identity handler\<close>

text \<open>
  What the transfer relies on: the handler attests the certificate's identity when the caller
  asks for the identity type cert-rpc, it returns no error, and it writes no header but the three
  identity headers.
\<close>

locale identity_handler =
  fixes handle :: "request \<Rightarrow> certificate \<Rightarrow> (go_error + header) go"
  assumes no_error: "handle r c \<noteq> Inr (Inl e)"
    and attests: "header_Get (rq_Header r) ''X-Identity-Type'' = ''cert-rpc'' \<Longrightarrow>
      handle r c = Inr (Inr h) \<Longrightarrow>
      header_Get h ''X-From-Deploy'' = cert_deploy c \<and> header_Get h ''X-From-Service'' = cert_service c \<and>
      h ''X-From-Deploy'' \<noteq> None \<and> h ''X-From-Service'' \<noteq> None"
    and frame: "handle r c = Inr (Inr h) \<Longrightarrow>
      dom h \<subseteq> {''X-Identity-Type'', ''X-From-Deploy'', ''X-From-Service''}"
begin

lemma merged_attests:
  assumes "handle r c = Inr (Inr h)" "header_Get (rq_Header r) ''X-Identity-Type'' = ''cert-rpc''"
  shows "header_Get (base ++ h) ''X-From-Deploy'' = cert_deploy c"
    and "header_Get (base ++ h) ''X-From-Service'' = cert_service c"
  using attests [OF assms(2,1)] by (auto simp: header_Get_map_add)

lemma merged_frame:
  assumes "handle r c = Inr (Inr h)"
    and "canonical_key k \<notin> {''X-Identity-Type'', ''X-From-Deploy'', ''X-From-Service''}"
  shows "header_Get (base ++ h) k = header_Get base k"
proof -
  have "h (canonical_key k) = None" using frame [OF assms(1)] assms(2) by blast
  then show ?thesis by (simp add: header_Get_map_add)
qed

end

interpretation rpc_identity: identity_handler HandleIdentity
proof
  fix r c e h
  show "HandleIdentity r c \<noteq> Inr (Inl e)"
    by (simp add: HandleIdentity_def Let_def NewServiceCertificate_eq)
  show "HandleIdentity r c = Inr (Inr h) \<Longrightarrow>
      dom h \<subseteq> {''X-Identity-Type'', ''X-From-Deploy'', ''X-From-Service''}"
    by (auto simp: HandleIdentity_def Let_def NewServiceCertificate_eq header_Set_def split: if_splits)
  assume "header_Get (rq_Header r) ''X-Identity-Type'' = ''cert-rpc''" "HandleIdentity r c = Inr (Inr h)"
  then show "header_Get h ''X-From-Deploy'' = cert_deploy c \<and> header_Get h ''X-From-Service'' = cert_service c \<and>
      h ''X-From-Deploy'' \<noteq> None \<and> h ''X-From-Service'' \<noteq> None"
    by (auto simp: HandleIdentity_rpc header_Get_def split: if_splits)
qed

end
