(* ===== verification/Service_Router.thy ===== *)
theory Service_Router
  imports Netty_Channel Service_Registry Trust_Center
begin

text \<open>
  The inbound side: ServiceRouteHandler of service_router.go. \<open>inbound_director\<close> is the director
  closure of its HandleWrite, with the statements in the order of the source: it rewrites the path,
  takes the caller's identity from the peer certificate, checks the target headers, the path and
  the method against the registry, parses the Authorization header and checks the identity type
  and, for a JSON web token, the token. Each early return is a rejection with its status and code.
  The JWT library is a parameter: a parser that gets the token and the key and returns an error
  or a token, and the JSON text of a token's claims.
\<close>

definition IdentityTypeValueUnauthorized :: string where
  "IdentityTypeValueUnauthorized = ''unauthorized''"

record 'c jwt_token =
  tok_Valid :: bool
  tok_Claims :: "'c option"

text \<open>\<open>tok_Claims\<close> is \<^const>\<open>None\<close> when the claims are not of the type MapClaims, and
  \<open>jwt_MarshalClaims None\<close> is the JSON text of the nil map that the code marshals then.\<close>

record 'c jwt_lib =
  jwt_ParseWithClaims :: "string \<Rightarrow> string \<Rightarrow> go_error + 'c jwt_token"
  jwt_MarshalClaims :: "'c option \<Rightarrow> string"

section \<open>The director\<close>

definition reject :: "request \<Rightarrow> string \<Rightarrow> int \<Rightarrow> int \<Rightarrow> (request \<times> status_error option) go" where
  "reject req msg status code =
     Inr (req, Some \<lparr>se_error = msg, se_StatusCode = status, se_ErrorCode = code\<rparr>)"

text \<open>The path without its first segment; slicing with \<open>[1:]\<close> is safe, a split is never empty.\<close>

definition api_path :: "string \<Rightarrow> string" where
  "api_path fullPath = strings_Join (tl (strings_Split CHR ''/'' fullPath)) ''/''"

definition inbound_rewrite_path :: "request \<Rightarrow> request" where
  "inbound_rewrite_path req =
     (let apiPath = api_path (url_Path (rq_URL req));
          u = (rq_URL req)\<lparr>url_Path := apiPath\<rparr>
      in req\<lparr>rq_URL := (if url_RawPath u \<noteq> '''' then u\<lparr>url_RawPath := apiPath\<rparr> else u)\<rparr>)"

definition parse_authorization :: "string \<Rightarrow> (string \<times> string) go" where
  "parse_authorization authHeaderValue =
     (if authHeaderValue = '''' then Inr (IdentityTypeValueUnauthorized, '''')
      else
        let authHeaderParts = strings_Split CHR '' '' authHeaderValue
        in go_bind (go_index authHeaderParts 0) (\<lambda>identityType.
           go_bind (go_index authHeaderParts 1) (\<lambda>identityRawValue.
             Inr (identityType, identityRawValue))))"

definition supported_identity_types :: "api_info \<Rightarrow> string list" where
  "supported_identity_types apiInfo =
     (if ai_SupportedIdentityType apiInfo = [] then [IdentityTypeValueUnauthorized]
      else ai_SupportedIdentityType apiInfo)"

definition apply_identity ::
    "'c jwt_lib \<Rightarrow> trusted_service_certificate \<Rightarrow> string \<Rightarrow> string \<Rightarrow> request \<Rightarrow>
     (request \<times> status_error option) go" where
  "apply_identity lib fromInfo identityType identityRawValue req =
     (if identityType = ''rpc'' then Inr (req, None)
      else if identityType = ''jwt'' then
        (case jwt_ParseWithClaims lib identityRawValue (ct_PublicKey (ts_Certificate fromInfo)) of
           Inl err \<Rightarrow>
             reject req (errors_Wrap err ''parse jwt token'') StatusBadRequest ErrCodeFailedToParseJWTToken
         | Inr jwtToken \<Rightarrow>
             if \<not> tok_Valid jwtToken then
               reject req ''invalid jwt token'' StatusBadRequest ErrCodeInvalidJWTToken
             else
               (let req' = req\<lparr>rq_Header :=
                      header_Set (rq_Header req) ''X-Auth-Claims'' (jwt_MarshalClaims lib (tok_Claims jwtToken))\<rparr>
                in case tok_Claims jwtToken of
                     None \<Rightarrow> reject req' ''invalid jwt claims'' StatusBadRequest 0
                   | Some _ \<Rightarrow> Inr (req', None)))
      else
        Inr (req\<lparr>rq_Header :=
               header_Set (rq_Header req) IdentityTypeHeaderKey IdentityTypeValueUnauthorized\<rparr>, None))"

definition inbound_authorize ::
    "'c jwt_lib \<Rightarrow> service_info \<Rightarrow> trusted_service_certificate \<Rightarrow> string \<Rightarrow> request \<Rightarrow> request \<Rightarrow>
     (request \<times> status_error option) go" where
  "inbound_authorize lib targetServiceInfo fromInfo apiPath request req =
     (case GetAPIInfoByPath targetServiceInfo apiPath of
        None \<Rightarrow>
          reject req (''api with path:'' @ apiPath @ '' does not exist'') StatusNotFound ErrCodeAPIPathNotFound
      | Some apiInfo \<Rightarrow>
          if rq_Method req \<notin> set (ai_Methods apiInfo) then
            reject req (''api method:'' @ rq_Method req @ '' does not exist'') StatusNotFound ErrCodeAPIMethodNotFound
          else
            go_bind (parse_authorization (header_Get (rq_Header request) ''Authorization''))
              (\<lambda>(identityType, identityRawValue).
                 if identityType \<notin> set (supported_identity_types apiInfo) then
                   reject req (''unsupported identity type:'' @ identityType) StatusForbidden
                     ErrCodeUnsupportedIdentityType
                 else apply_identity lib fromInfo identityType identityRawValue req))"

definition inbound_director ::
    "'c jwt_lib \<Rightarrow> service_info option \<Rightarrow> request \<Rightarrow> request \<Rightarrow> (request \<times> status_error option) go" where
  "inbound_director lib serviceInfo request req0 =
     (let apiPath = api_path (url_Path (rq_URL req0));
          req1 = inbound_rewrite_path req0
      in go_bind (go_deref (rq_TLS request)) (\<lambda>tls.
         go_bind (go_index (cs_PeerCertificates tls) 0) (\<lambda>peerCert.
         go_bind (NewServiceCertificate peerCert) (\<lambda>res.
           case res of
             Inl err \<Rightarrow>
               reject req1 (errors_Wrap err ''parse service rpc certificate from peer cert'')
                 StatusBadRequest ErrCodeInvalidPeerCertificate
           | Inr fromInfo \<Rightarrow>
               let req2 = req1\<lparr>rq_Header :=
                     header_Set (header_Set (rq_Header req1) ''X-From-Deploy-ID'' (ts_DeployID fromInfo))
                       ''X-From-Service-ID'' (ts_ServiceID fromInfo)\<rparr>;
                   deployID = header_Get (rq_Header req2) ''X-Target-Deploy-ID'';
                   serviceID = header_Get (rq_Header req2) ''X-Target-Service-ID''
               in if deployID = '''' then
                    reject req2 ''target deploy id header is missing'' StatusBadRequest
                      ErrCodeMissingTargetDeployIDHeader
                  else if serviceID = '''' then
                    reject req2 ''target service id header is missing'' StatusBadRequest
                      ErrCodeMissingTargetServiceIDHeader
                  else
                    (case serviceInfo of
                       None \<Rightarrow>
                         reject req2 (''target service id:'' @ serviceID @ '' does not exist'')
                           StatusNotFound ErrCodeTargetServiceIDNotFound
                     | Some targetServiceInfo \<Rightarrow>
                         inbound_authorize lib targetServiceInfo fromInfo apiPath request
                           (req2\<lparr>rq_Host := si_Host targetServiceInfo,
                                 rq_URL := (rq_URL req2)\<lparr>url_Host := si_Host targetServiceInfo\<rparr>\<rparr>))))))"

section \<open>The handler\<close>

definition ServiceRouteHandler_HandleActive :: "ctx_call list" where
  "ServiceRouteHandler_HandleActive = [CtxHandleActive]"

definition ServiceRouteHandler_HandleInactive :: "string \<Rightarrow> ctx_call list" where
  "ServiceRouteHandler_HandleInactive ex = [CtxHandleInactive ex]"

definition ServiceRouteHandler_HandleRead ::
    "(int \<Rightarrow> int \<Rightarrow> response_writer) \<Rightarrow> message \<Rightarrow> channel \<Rightarrow> channel \<times> ctx_call list" where
  "ServiceRouteHandler_HandleRead newWriter msg ch = proxy_read newWriter msg ch"

definition ServiceRouteHandler_HandleWrite ::
    "'c jwt_lib \<Rightarrow> network \<Rightarrow> service_route_handler \<Rightarrow> message \<Rightarrow> channel \<Rightarrow>
     (ctx_call list \<times> request list) go" where
  "ServiceRouteHandler_HandleWrite lib net s msg ch =
     proxy_write (inbound_director lib (srh_serviceInfo s)) net msg ch"

section \<open>The path and the Authorization header\<close>

lemma api_path_strip [simp]: "CHR ''/'' \<notin> set a \<Longrightarrow> api_path (a @ CHR ''/'' # b) = b"
  by (simp add: api_path_def strings_Join_tl_Split_sep)

lemma api_path_slash [simp]: "api_path (CHR ''/'' # b) = b"
  using api_path_strip [of "[]" b] by simp

lemma api_path_no_slash: "CHR ''/'' \<notin> set s \<Longrightarrow> api_path s = ''''"
  by (simp add: api_path_def strings_Join_tl_Split_no_sep)

lemma inbound_rewrite_path_fields [simp]:
  "rq_Header (inbound_rewrite_path r) = rq_Header r"
  "rq_Method (inbound_rewrite_path r) = rq_Method r"
  "rq_Body (inbound_rewrite_path r) = rq_Body r"
  "rq_TLS (inbound_rewrite_path r) = rq_TLS r"
  "url_Path (rq_URL (inbound_rewrite_path r)) = api_path (url_Path (rq_URL r))"
  "url_Scheme (rq_URL (inbound_rewrite_path r)) = url_Scheme (rq_URL r)"
  "url_RawQuery (rq_URL (inbound_rewrite_path r)) = url_RawQuery (rq_URL r)"
  by (simp_all add: inbound_rewrite_path_def Let_def)

definition auth_wellformed :: "string \<Rightarrow> bool" where
  "auth_wellformed v \<longleftrightarrow> v = '''' \<or> CHR '' '' \<in> set v"

definition auth_type :: "string \<Rightarrow> string" where
  "auth_type v = (if v = '''' then ''unauthorized'' else takeWhile (\<lambda>c. c \<noteq> CHR '' '') v)"

definition auth_value :: "string \<Rightarrow> string" where
  "auth_value v =
     takeWhile (\<lambda>c. c \<noteq> CHR '' '') (tl (dropWhile (\<lambda>c. c \<noteq> CHR '' '') v))"

lemma strings_Split_hd: "hd (strings_Split c s) = takeWhile (\<lambda>x. x \<noteq> c) s"
  by (induction s) (auto split: list.splits)

lemma parse_authorization_eq:
  "parse_authorization v =
     (if auth_wellformed v then Inr (auth_type v, auth_value v) else Inl IndexOutOfRange)"
proof (cases "v = ''''")
  case True
  then show ?thesis
    by (simp add: parse_authorization_def auth_wellformed_def auth_type_def auth_value_def
        IdentityTypeValueUnauthorized_def)
next
  case False
  show ?thesis
  proof (cases "CHR '' '' \<in> set v")
    case True
    then obtain a b where v: "v = a @ CHR '' '' # b" and a: "CHR '' '' \<notin> set a"
      by (meson split_list_first)
    have tw: "takeWhile (\<lambda>c. c \<noteq> CHR '' '') v = a" "dropWhile (\<lambda>c. c \<noteq> CHR '' '') v = CHR '' '' # b"
      using a by (auto simp: v takeWhile_append dropWhile_append)
    obtain y ys where "strings_Split CHR '' '' b = y # ys" using strings_Split_Cons_ex by blast
    moreover from this have "y = takeWhile (\<lambda>c. c \<noteq> CHR '' '') b"
      by (metis list.sel(1) strings_Split_hd)
    ultimately show ?thesis
      using True False a tw
      by (simp add: parse_authorization_def Let_def v strings_Split_append_sep auth_wellformed_def
          auth_type_def auth_value_def)
  next
    case no: False
    with False show ?thesis
      by (simp add: parse_authorization_def Let_def strings_Split_no_sep auth_wellformed_def go_index_def)
  qed
qed

end
