(* ===== verification/Inbound_Correct.thy ===== *)
theory Inbound_Correct
  imports Service_Router
begin

text \<open>
  What the inbound director guarantees. \<open>inbound_verdict\<close> is its specification: an ordered list
  of checks, each with its error code, of which the first that fails decides. The properties relate
  the director to it on every branch, characterise its panics, and follow an admitted request
  through the reverse proxy onto the network.
\<close>

section \<open>Specification\<close>

definition first_failure :: "(bool \<times> int) list \<Rightarrow> int option" where
  "first_failure checks = map_option snd (find fst checks)"

definition target_api :: "service_info option \<Rightarrow> request \<Rightarrow> api_info option" where
  "target_api svc req =
     Option.bind svc (\<lambda>s. GetAPIInfoByPath s (api_path (url_Path (rq_URL req))))"

definition routing_checks :: "service_info option \<Rightarrow> request \<Rightarrow> (bool \<times> int) list" where
  "routing_checks svc req =
     [(header_Get (rq_Header req) ''X-Target-Deploy-ID'' = '''', 40001),
      (header_Get (rq_Header req) ''X-Target-Service-ID'' = '''', 40002),
      (svc = None, 40401),
      (target_api svc req = None, 40402),
      (rq_Method req \<notin> set (ai_Methods (the (target_api svc req))), 40403)]"

definition identity_checks ::
    "'c jwt_lib \<Rightarrow> certificate \<Rightarrow> api_info \<Rightarrow> string \<Rightarrow> (bool \<times> int) list" where
  "identity_checks lib cert api auth =
     (let token = jwt_ParseWithClaims lib (auth_value auth) (ct_PublicKey cert);
          jwt = (auth_type auth = ''jwt'')
      in [(auth_type auth \<notin> set (supported_identity_types api), 40300),
          (jwt \<and> isl token, 40003),
          (jwt \<and> \<not> tok_Valid (projr token), 40004),
          (jwt \<and> tok_Claims (projr token) = None, 0)])"

definition inbound_verdict ::
    "'c jwt_lib \<Rightarrow> service_info option \<Rightarrow> certificate \<Rightarrow> string \<Rightarrow> request \<Rightarrow> int option" where
  "inbound_verdict lib svc cert auth req =
     first_failure (routing_checks svc req @ identity_checks lib cert (the (target_api svc req)) auth)"

text \<open>The HTTP status that goes with a code: its first three digits, and 400 for the code 0.\<close>

definition status_of_code :: "int \<Rightarrow> int" where
  "status_of_code code = (if code = 0 then 400 else code div 100)"

section \<open>The director in terms of its checks\<close>

definition peer_headers :: "certificate \<Rightarrow> header \<Rightarrow> header" where
  "peer_headers cert h =
     header_Set (header_Set h ''X-From-Deploy-ID'' (cert_deploy cert)) ''X-From-Service-ID'' (cert_service cert)"

lemma peer_headers_Get:
  "header_Get (peer_headers cert h) k =
     (if canonical_key k = ''X-From-Service-Id'' then cert_service cert
      else if canonical_key k = ''X-From-Deploy-Id'' then cert_deploy cert
      else header_Get h k)"
  by (simp add: peer_headers_def header_Get_Set)

definition inbound_base_request :: "certificate \<Rightarrow> request \<Rightarrow> request" where
  "inbound_base_request cert req =
     (inbound_rewrite_path req)\<lparr>rq_Header := peer_headers cert (rq_Header req)\<rparr>"

lemma inbound_base_fields [simp]:
  "rq_Header (inbound_base_request cert req) = peer_headers cert (rq_Header req)"
  "rq_Method (inbound_base_request cert req) = rq_Method req"
  "rq_Body (inbound_base_request cert req) = rq_Body req"
  "url_Scheme (rq_URL (inbound_base_request cert req)) = url_Scheme (rq_URL req)"
  "url_Path (rq_URL (inbound_base_request cert req)) = api_path (url_Path (rq_URL req))"
  "url_RawQuery (rq_URL (inbound_base_request cert req)) = url_RawQuery (rq_URL req)"
  by (simp_all add: inbound_base_request_def)

definition to_backend :: "service_info \<Rightarrow> request \<Rightarrow> request" where
  "to_backend s req = req\<lparr>rq_Host := si_Host s, rq_URL := (rq_URL req)\<lparr>url_Host := si_Host s\<rparr>\<rparr>"

lemma to_backend_fields [simp]:
  "rq_Header (to_backend s req) = rq_Header req"
  "rq_Method (to_backend s req) = rq_Method req"
  "rq_Body (to_backend s req) = rq_Body req"
  "rq_Host (to_backend s req) = si_Host s"
  "url_Host (rq_URL (to_backend s req)) = si_Host s"
  "url_Scheme (rq_URL (to_backend s req)) = url_Scheme (rq_URL req)"
  "url_Path (rq_URL (to_backend s req)) = url_Path (rq_URL req)"
  "url_RawPath (rq_URL (to_backend s req)) = url_RawPath (rq_URL req)"
  "url_RawQuery (rq_URL (to_backend s req)) = url_RawQuery (rq_URL req)"
  by (simp_all add: to_backend_def)

text \<open>The peer certificate the director looks at, if it gets that far.\<close>

definition peer_cert :: "request \<Rightarrow> certificate go" where
  "peer_cert request = go_bind (go_deref (rq_TLS request)) (\<lambda>tls. go_index (cs_PeerCertificates tls) 0)"

lemma inbound_director_no_peer:
  "peer_cert request = Inl p \<Longrightarrow> inbound_director lib svc request req = Inl p"
  unfolding inbound_director_def Let_def peer_cert_def
  by (auto simp: go_bind_eq_Inl_iff)

lemma inbound_director_peer:
  assumes "peer_cert request = Inr cert"
  shows "inbound_director lib svc request req =
    (if \<not> has_deploy cert then Inl IndexOutOfRange
     else if header_Get (rq_Header req) ''X-Target-Deploy-ID'' = '''' then
       reject (inbound_base_request cert req) ''target deploy id header is missing'' 400 40001
     else if header_Get (rq_Header req) ''X-Target-Service-ID'' = '''' then
       reject (inbound_base_request cert req) ''target service id header is missing'' 400 40002
     else
       (case svc of
          None \<Rightarrow> reject (inbound_base_request cert req)
            (''target service id:'' @ header_Get (rq_Header req) ''X-Target-Service-ID'' @ '' does not exist'') 404 40401
        | Some s \<Rightarrow> inbound_authorize lib s
            \<lparr>ts_ServiceID = cert_service cert, ts_DeployID = cert_deploy cert, ts_Certificate = cert\<rparr>
            (api_path (url_Path (rq_URL req))) request (to_backend s (inbound_base_request cert req))))"
proof -
  obtain tls where tls: "rq_TLS request = Some tls" "go_index (cs_PeerCertificates tls) 0 = Inr cert"
    using assms by (auto simp: peer_cert_def go_deref_def split: option.splits)
  show ?thesis
    unfolding inbound_director_def Let_def tls go_deref_Some go_bind_Inr NewServiceCertificate_eq
    by (simp add: inbound_base_request_def peer_headers_def to_backend_def error_code_defs
        header_Get_Set split: option.split)
qed

text \<open>The last part of the director, for a parsed Authorization header.\<close>

lemma apply_identity_code:
  "\<exists>out e. apply_identity lib info idt raw req = Inr (out, e) \<and>
     map_option se_ErrorCode e = first_failure
       [(idt = ''jwt'' \<and> isl (jwt_ParseWithClaims lib raw (ct_PublicKey (ts_Certificate info))), 40003),
        (idt = ''jwt'' \<and> \<not> tok_Valid (projr (jwt_ParseWithClaims lib raw (ct_PublicKey (ts_Certificate info)))), 40004),
        (idt = ''jwt'' \<and> tok_Claims (projr (jwt_ParseWithClaims lib raw (ct_PublicKey (ts_Certificate info)))) = None, 0)] \<and>
     map_option se_StatusCode e = map_option (status_of_code \<circ> se_ErrorCode) e"
  by (auto simp: apply_identity_def reject_def first_failure_def error_code_defs status_of_code_def
      Let_def split: sum.splits option.splits)

lemma inbound_authorize_code:
  assumes "auth_wellformed (header_Get (rq_Header request) ''Authorization'')"
  shows "\<exists>out e. inbound_authorize lib s info path request req = Inr (out, e) \<and>
     map_option se_ErrorCode e = first_failure
       ([(GetAPIInfoByPath s path = None, 40402),
         (rq_Method req \<notin> set (ai_Methods (the (GetAPIInfoByPath s path))), 40403)] @
        identity_checks lib (ts_Certificate info) (the (GetAPIInfoByPath s path))
          (header_Get (rq_Header request) ''Authorization'')) \<and>
     map_option se_StatusCode e = map_option (status_of_code \<circ> se_ErrorCode) e"
proof (cases "GetAPIInfoByPath s path")
  case None
  then show ?thesis
    by (simp add: inbound_authorize_def reject_def first_failure_def error_code_defs status_of_code_def)
next
  case (Some api)
  let ?auth = "header_Get (rq_Header request) ''Authorization''"
  show ?thesis
    using apply_identity_code [of lib info "auth_type ?auth" "auth_value ?auth" req] Some assms
    by (auto simp: inbound_authorize_def reject_def first_failure_def error_code_defs status_of_code_def
        parse_authorization_eq identity_checks_def Let_def)
qed

section \<open>Admission\<close>

definition inbound_admits ::
    "'c jwt_lib \<Rightarrow> service_info option \<Rightarrow> request \<Rightarrow> request \<Rightarrow> request \<Rightarrow> bool" where
  "inbound_admits lib svc request req out \<longleftrightarrow>
     (\<exists>cert s api. peer_cert request = Inr cert \<and> has_deploy cert \<and> svc = Some s \<and>
        header_Get (rq_Header req) ''X-Target-Deploy-ID'' \<noteq> '''' \<and>
        header_Get (rq_Header req) ''X-Target-Service-ID'' \<noteq> '''' \<and>
        GetAPIInfoByPath s (api_path (url_Path (rq_URL req))) = Some api \<and>
        rq_Method req \<in> set (ai_Methods api) \<and>
        (let auth = header_Get (rq_Header request) ''Authorization'' in
           auth_wellformed auth \<and> auth_type auth \<in> set (supported_identity_types api) \<and>
           (auth_type auth = ''jwt'' \<longrightarrow>
              (\<exists>tok c. jwt_ParseWithClaims lib (auth_value auth) (ct_PublicKey cert) = Inr tok \<and>
                 tok_Valid tok \<and> tok_Claims tok = Some c)) \<and>
           out = (to_backend s (inbound_base_request cert req))\<lparr>rq_Header :=
             (if auth_type auth = ''rpc'' then peer_headers cert (rq_Header req)
              else if auth_type auth = ''jwt'' then
                header_Set (peer_headers cert (rq_Header req)) ''X-Auth-Claims''
                  (jwt_MarshalClaims lib
                    (tok_Claims (projr (jwt_ParseWithClaims lib (auth_value auth) (ct_PublicKey cert)))))
              else header_Set (peer_headers cert (rq_Header req)) ''X-Identity-Type'' ''unauthorized'')\<rparr>))"

lemma apply_identity_None:
  assumes "apply_identity lib info idt raw req = Inr (out, None)"
  shows "(idt = ''jwt'' \<longrightarrow>
      (\<exists>tok c. jwt_ParseWithClaims lib raw (ct_PublicKey (ts_Certificate info)) = Inr tok \<and>
         tok_Valid tok \<and> tok_Claims tok = Some c)) \<and>
    out = req\<lparr>rq_Header :=
      (if idt = ''rpc'' then rq_Header req
       else if idt = ''jwt'' then header_Set (rq_Header req) ''X-Auth-Claims''
         (jwt_MarshalClaims lib (tok_Claims (projr (jwt_ParseWithClaims lib raw (ct_PublicKey (ts_Certificate info))))))
       else header_Set (rq_Header req) ''X-Identity-Type'' ''unauthorized'')\<rparr>"
  using assms
  by (auto simp: apply_identity_def reject_def Let_def IdentityTypeHeaderKey_def
      IdentityTypeValueUnauthorized_def split: if_splits sum.splits option.splits)

lemma inbound_authorize_None:
  assumes "inbound_authorize lib s info path request req = Inr (out, None)"
  shows "\<exists>api. GetAPIInfoByPath s path = Some api \<and> rq_Method req \<in> set (ai_Methods api) \<and>
    auth_wellformed (header_Get (rq_Header request) ''Authorization'') \<and>
    auth_type (header_Get (rq_Header request) ''Authorization'') \<in> set (supported_identity_types api) \<and>
    apply_identity lib info (auth_type (header_Get (rq_Header request) ''Authorization''))
      (auth_value (header_Get (rq_Header request) ''Authorization'')) req = Inr (out, None)"
  using assms
  by (auto simp: inbound_authorize_def reject_def parse_authorization_eq split: option.splits if_splits)

lemma inbound_director_admits:
  assumes "inbound_director lib svc request req = Inr (out, None)"
  shows "inbound_admits lib svc request req out"
proof -
  obtain cert where cert: "peer_cert request = Inr cert"
    using assms by (cases "peer_cert request") (simp_all add: inbound_director_no_peer)
  note d = assms [unfolded inbound_director_peer [OF cert]]
  from d obtain s where s: "svc = Some s" "has_deploy cert"
      "header_Get (rq_Header req) ''X-Target-Deploy-ID'' \<noteq> ''''"
      "header_Get (rq_Header req) ''X-Target-Service-ID'' \<noteq> ''''"
    by (auto simp: reject_def split: if_splits option.splits)
  with d have "inbound_authorize lib s
      \<lparr>ts_ServiceID = cert_service cert, ts_DeployID = cert_deploy cert, ts_Certificate = cert\<rparr>
      (api_path (url_Path (rq_URL req))) request (to_backend s (inbound_base_request cert req)) = Inr (out, None)"
    by simp
  from inbound_authorize_None [OF this] s cert show ?thesis
    by (auto simp: inbound_admits_def Let_def dest: apply_identity_None)
qed

interpretation inbound: guarded_director "inbound_director lib svc request" "inbound_admits lib svc request"
  for lib :: "'c jwt_lib" and svc request
  by unfold_locales (rule inbound_director_admits)

lemma inbound_HandleWrite_director:
  assumes "ServiceRouteHandler_HandleWrite lib net h (MResponseWriter rw) ch = Inr (calls, sent)"
    and "ch_attachment ch = Some (MRequest request)" and "r \<in> set sent"
  shows "\<exists>out. inbound_director lib (srh_serviceInfo h) request request = Inr (out, None) \<and>
    r = out\<lparr>rq_Header := outgoing_header (rq_Header out)\<rparr>"
proof -
  obtain rw' where "serve_guarded (inbound_director lib (srh_serviceInfo h) request) net request rw = Inr (rw', sent)"
    using assms(1)
    by (auto simp: ServiceRouteHandler_HandleWrite_def proxy_write_request [OF assms(2)] go_bind_eq_Inr_iff)
  from inbound.sent_admitted [OF this assms(3)] show ?thesis by blast
qed

lemma inbound_HandleWrite_sent:
  assumes "ServiceRouteHandler_HandleWrite lib net h (MResponseWriter rw) ch = Inr (calls, sent)"
    and "ch_attachment ch = Some (MRequest request)" and "r \<in> set sent"
  shows "\<exists>out. inbound_admits lib (srh_serviceInfo h) request request out \<and>
    r = out\<lparr>rq_Header := outgoing_header (rq_Header out)\<rparr>"
  using inbound_HandleWrite_director [OF assms] by (blast intro: inbound_director_admits)

section \<open>Properties\<close>

text \<open>
  C1. The inbound director implements its ordered list of checks: when the connection has a peer
  certificate that names a deployment and the Authorization header is empty or has a blank, the
  director returns, it records an error exactly when a check fails, the error code is that of the
  first check that fails, and the HTTP status of the error is the one that goes with this code.
\<close>

theorem inbound_director_refines_checks:
  assumes "peer_cert request = Inr cert" "has_deploy cert"
    and "auth_wellformed (header_Get (rq_Header request) ''Authorization'')"
  shows "\<exists>out e. inbound_director lib svc request req = Inr (out, e) \<and>
    map_option se_ErrorCode e =
      inbound_verdict lib svc cert (header_Get (rq_Header request) ''Authorization'') req \<and>
    map_option se_StatusCode e = map_option (status_of_code \<circ> se_ErrorCode) e"
proof (cases svc)
  case None
  then show ?thesis
    using assms(2)
    by (auto simp: inbound_director_peer [OF assms(1)] reject_def inbound_verdict_def first_failure_def
        routing_checks_def status_of_code_def)
next
  case (Some s)
  let ?req = "to_backend s (inbound_base_request cert req)"
  let ?info = "\<lparr>ts_ServiceID = cert_service cert, ts_DeployID = cert_deploy cert, ts_Certificate = cert\<rparr>"
  show ?thesis
    using assms(2) Some
      inbound_authorize_code [OF assms(3), of lib s ?info "api_path (url_Path (rq_URL req))" ?req]
    by (auto simp: inbound_director_peer [OF assms(1)] reject_def inbound_verdict_def
        routing_checks_def target_api_def status_of_code_def first_failure_def)
qed

text \<open>
  C32. When the inbound director panics: exactly when the request carries no TLS state, or the
  connection shows no certificate, or the certificate's subject has no organizational unit, or all
  routing checks pass and the Authorization header is not empty but has no blank.
\<close>

theorem inbound_director_panics_iff:
  "(\<exists>p. inbound_director lib svc request req = Inl p) \<longleftrightarrow>
     (\<exists>p. peer_cert request = Inl p) \<or>
     (\<exists>cert. peer_cert request = Inr cert \<and>
        (\<not> has_deploy cert \<or>
         first_failure (routing_checks svc req) = None \<and>
         \<not> auth_wellformed (header_Get (rq_Header request) ''Authorization'')))"
proof (cases "peer_cert request")
  case (Inl p)
  then show ?thesis by (auto simp: inbound_director_no_peer)
next
  case (Inr cert)
  have "apply_identity lib info idt raw r \<noteq> Inl p" for info idt raw r p
    by (simp add: apply_identity_def reject_def Let_def split: sum.splits option.splits)
  then show ?thesis
    using Inr
    by (auto simp: inbound_director_peer [OF Inr] reject_def inbound_authorize_def
        parse_authorization_eq first_failure_def routing_checks_def target_api_def
        split: option.splits if_splits)
qed

text \<open>
  C2. Only authorised requests reach the backend. Every request that the inbound handler puts on
  the network went to the host of the registered service, with the method and the body of the
  caller's request and the path without its first segment; the caller showed a certificate that
  names a deployment, named a target deployment and service, and called a registered path with one
  of its methods; its identity type is one that the API supports, and with the type jwt its token
  was parsed and found valid with the public key of the peer certificate.
\<close>

theorem inbound_sends_only_authorised:
  assumes "ServiceRouteHandler_HandleWrite lib net h (MResponseWriter rw) ch = Inr (calls, sent)"
    and "ch_attachment ch = Some (MRequest request)" and "r \<in> set sent"
  shows "\<exists>cert s api tok. peer_cert request = Inr cert \<and> has_deploy cert \<and>
    srh_serviceInfo h = Some s \<and> url_Host (rq_URL r) = si_Host s \<and> rq_Host r = si_Host s \<and>
    rq_Method r = rq_Method request \<and> rq_Body r = rq_Body request \<and>
    url_Path (rq_URL r) = api_path (url_Path (rq_URL request)) \<and>
    GetAPIInfoByPath s (url_Path (rq_URL r)) = Some api \<and> rq_Method r \<in> set (ai_Methods api) \<and>
    header_Get (rq_Header request) ''X-Target-Deploy-ID'' \<noteq> '''' \<and>
    header_Get (rq_Header request) ''X-Target-Service-ID'' \<noteq> '''' \<and>
    auth_type (header_Get (rq_Header request) ''Authorization'') \<in> set (supported_identity_types api) \<and>
    (auth_type (header_Get (rq_Header request) ''Authorization'') = ''jwt'' \<longrightarrow>
       jwt_ParseWithClaims lib (auth_value (header_Get (rq_Header request) ''Authorization''))
         (ct_PublicKey cert) = Inr tok \<and> tok_Valid tok)"
  using inbound_HandleWrite_sent [OF assms]
  by (fastforce simp: inbound_admits_def Let_def)

text \<open>The witness of the previous property is \<open>inbound_sends_only_authorised_witness\<close> below.\<close>

lemma inbound_HandleWrite_forwards:
  assumes "ch_attachment ch = Some (MRequest request)"
    and "inbound_director lib (srh_serviceInfo h) request request = Inr (out, None)"
    and "url_Scheme (rq_URL out) \<in> {''http'', ''https''}" "url_Host (rq_URL out) \<noteq> ''''"
    and "net (out\<lparr>rq_Header := outgoing_header (rq_Header out)\<rparr>) = Inr resp"
  shows "ServiceRouteHandler_HandleWrite lib net h (MResponseWriter rw) ch =
    Inr ([CtxHandleWrite (MResponseWriter (deliver_response resp rw))],
         [out\<lparr>rq_Header := outgoing_header (rq_Header out)\<rparr>])"
  using assms(3-)
  by (auto simp: ServiceRouteHandler_HandleWrite_def proxy_write_request [OF assms(1)]
      serve_guarded_admitted [of "inbound_director lib (srh_serviceInfo h) request", OF assms(2)] transport_RoundTrip_def)

lemma connection_listed_cong:
  "h ''Connection'' = h' ''Connection'' \<Longrightarrow> connection_listed h = connection_listed h'"
  by (simp add: connection_listed_def)

lemma peer_headers_apply:
  "peer_headers cert h k =
     (if k = ''X-From-Service-Id'' then Some [cert_service cert]
      else if k = ''X-From-Deploy-Id'' then Some [cert_deploy cert] else h k)"
  by (simp add: peer_headers_def header_Set_apply)

text \<open>The header map an admitted request leaves the director with, at the keys that matter.\<close>

lemma inbound_admits_header:
  assumes "inbound_admits lib svc request req out" "peer_cert request = Inr cert"
  shows "rq_Header out ''X-From-Deploy-Id'' = Some [cert_deploy cert]"
    and "rq_Header out ''X-From-Service-Id'' = Some [cert_service cert]"
    and "connection_listed (rq_Header out) = connection_listed (rq_Header req)"
  using assms
  by (auto simp: inbound_admits_def Let_def peer_headers_apply header_Set_apply
      intro!: connection_listed_cong)

lemma outgoing_header_apply:
  "k \<noteq> ''User-Agent'' \<Longrightarrow> outgoing_header h k = removeHopByHopHeaders h k"
  by (simp add: outgoing_header_def default_user_agent_def header_Set_apply)

lemma outgoing_header_keeps:
  "k \<notin> set hopHeaders \<Longrightarrow> k \<noteq> ''User-Agent'' \<Longrightarrow>
   k \<in> canonical_key ` set (connection_listed h) \<or> outgoing_header h k = h k"
  using removeHop_keeps [of k h] by (auto simp: outgoing_header_apply)

lemma from_keys_not_hop:
  "''X-From-Deploy-Id'' \<notin> set hopHeaders" "''X-From-Service-Id'' \<notin> set hopHeaders"
  "''X-Auth-Claims'' \<notin> set hopHeaders" "''X-Identity-Type'' \<notin> set hopHeaders"
  by (simp_all add: hopHeaders_def)

text \<open>
  C6. The caller's identity cannot be forged: in every request that reaches the backend through the
  inbound handler, and that did not list these headers in its Connection header, X-From-Deploy-ID
  and X-From-Service-ID are the organizational unit and the common name of the peer certificate,
  whatever headers the caller sent.
\<close>

theorem inbound_identity_headers_authentic:
  assumes "ServiceRouteHandler_HandleWrite lib net h (MResponseWriter rw) ch = Inr (calls, sent)"
    and "ch_attachment ch = Some (MRequest request)" and "r \<in> set sent"
    and "peer_cert request = Inr cert"
    and "''X-From-Deploy-Id'' \<notin> canonical_key ` set (connection_listed (rq_Header request))"
    and "''X-From-Service-Id'' \<notin> canonical_key ` set (connection_listed (rq_Header request))"
  shows "rq_Header r ''X-From-Deploy-Id'' = Some [cert_deploy cert] \<and>
         rq_Header r ''X-From-Service-Id'' = Some [cert_service cert]"
proof -
  obtain out where out: "inbound_admits lib (srh_serviceInfo h) request request out"
      and r: "r = out\<lparr>rq_Header := outgoing_header (rq_Header out)\<rparr>"
    using inbound_HandleWrite_sent [OF assms(1-3)] by blast
  note hd = inbound_admits_header [OF out assms(4)]
  show ?thesis
    using assms(5,6) hd by (simp add: r outgoing_header_apply removeHop_keeps from_keys_not_hop)
qed


text \<open>
  C8. A request that fails a check is answered by the sidecar itself: nothing is sent to the
  network, and the response writer that is passed on carries the status that goes with the code of
  the first failed check, the JSON body of the error and the content type application/json.
\<close>

theorem inbound_rejection_answered_locally:
  assumes "peer_cert request = Inr cert" "has_deploy cert"
    and "auth_wellformed (header_Get (rq_Header request) ''Authorization'')"
    and "inbound_verdict lib (srh_serviceInfo h) cert (header_Get (rq_Header request) ''Authorization'') request = Some code"
    and "ch_attachment ch = Some (MRequest request)"
  shows "\<exists>rw' e. ServiceRouteHandler_HandleWrite lib net h (MResponseWriter rw) ch =
      Inr ([CtxHandleWrite (MResponseWriter rw')], []) \<and>
    se_ErrorCode e = code \<and> se_StatusCode e = status_of_code code \<and>
    rw_statusCode rw' = status_of_code code \<and> rw_body rw' = rw_body rw @ status_error_body e \<and>
    (\<exists>vs. rw_headers rw' ''Content-Type'' = Some (vs @ [''application/json'']))"
proof -
  obtain out e where d: "inbound_director lib (srh_serviceInfo h) request request = Inr (out, Some e)"
      and e: "se_ErrorCode e = code" "se_StatusCode e = status_of_code code"
    using inbound_director_refines_checks [OF assms(1-3), of lib "srh_serviceInfo h" request] assms(4)
    by auto
  obtain resp where resp: "AsHttpResponse e = Inr resp"
      "serve_guarded (inbound_director lib (srh_serviceInfo h) request) net request rw =
        Inr (deliver_response resp rw, [])"
    using serve_guarded_rejected [of "inbound_director lib (srh_serviceInfo h) request", OF d] by blast
  have "removeHopByHopHeaders (rs_Header resp) ''Content-Type'' = Some [''application/json'']"
    using resp(1) by (auto simp: AsHttpResponse_def removeHopByHopHeaders_no_connection hopHeaders_def header_Set_def)
  moreover have "rs_StatusCode resp = status_of_code code" "rs_Body resp = status_error_body e"
    using resp(1) e by (auto simp: AsHttpResponse_def)
  ultimately show ?thesis
    using e resp(2)
    by (intro exI [of _ "deliver_response resp rw"] exI [of _ e])
      (auto simp: ServiceRouteHandler_HandleWrite_def proxy_write_request [OF assms(5)] copyHeader_def)
qed

text \<open>
  C40. The director sets no URL scheme. A request in origin form, whose URL has none, is therefore
  never forwarded: either the director panics, or the sidecar answers with the error of a check, or
  the transport refuses the URL and the caller gets the status 502.
\<close>

theorem inbound_origin_form_never_forwarded:
  assumes "ServiceRouteHandler_HandleWrite lib net h (MResponseWriter rw) ch = Inr (calls, sent)"
    and "ch_attachment ch = Some (MRequest request)"
    and "url_Scheme (rq_URL request) = ''''"
  shows "sent = [] \<and>
    (\<exists>rw'. calls = [CtxHandleWrite (MResponseWriter rw')] \<and>
      ((\<exists>out e. inbound_director lib (srh_serviceInfo h) request request = Inr (out, Some e)) \<or>
       rw_statusCode rw' = 502))"
proof -
  let ?dir = "inbound_director lib (srh_serviceInfo h) request"
  obtain out e where d: "?dir request = Inr (out, e)"
    using assms(1,2) serve_guarded_panic [of ?dir]
    by (cases "?dir request") (auto simp: ServiceRouteHandler_HandleWrite_def proxy_write_request)
  show ?thesis
  proof (cases e)
    case None
    with d have "inbound_admits lib (srh_serviceInfo h) request request out"
      by (simp add: inbound_director_admits)
    then have "url_Scheme (rq_URL out) = ''''"
      using assms(3) by (auto simp: inbound_admits_def Let_def)
    then show ?thesis
      using assms(1) d None
      by (auto simp: ServiceRouteHandler_HandleWrite_def proxy_write_request [OF assms(2)]
          serve_guarded_admitted [of ?dir] transport_RoundTrip_def)
  next
    case (Some se)
    with d assms(1) show ?thesis
      using serve_guarded_rejected [of ?dir request out se net rw]
      by (auto simp: ServiceRouteHandler_HandleWrite_def proxy_write_request [OF assms(2)])
  qed
qed

section \<open>Witnesses\<close>

definition sample_cert :: certificate where
  "sample_cert = \<lparr>ct_Raw = ''der'',
     ct_Subject = \<lparr>pn_Organization = [''JianLi''], pn_OrganizationalUnit = [''center''], pn_CommonName = ''company''\<rparr>,
     ct_PublicKey = ''pk''\<rparr>"

definition sample_request :: "string \<Rightarrow> header \<Rightarrow> request" where
  "sample_request scheme h =
     \<lparr>rq_Method = ''GET'',
      rq_URL = \<lparr>url_Scheme = scheme, url_Host = ''edge'', url_Path = ''/items'', url_RawPath = '''', url_RawQuery = ''''\<rparr>,
      rq_Host = ''edge'', rq_Header = h, rq_Body = ''b'', rq_ProtoMajor = 1, rq_ProtoMinor = 1,
      rq_TLS = Some \<lparr>cs_PeerCertificates = [sample_cert]\<rparr>, rq_RequestURI = ''/items''\<rparr>"

definition sample_header :: header where
  "sample_header = [''X-Target-Deploy-Id'' \<mapsto> [''hdu''], ''X-Target-Service-Id'' \<mapsto> [''storage''],
     ''Authorization'' \<mapsto> [''rpc x''], ''X-From-Deploy-Id'' \<mapsto> [''forged'']]"

definition sample_handler :: service_route_handler where
  "sample_handler = \<lparr>srh_serviceInfo = Some (ServiceInfo_AddHttpAPIInfo
     [\<lparr>ai_FullPath = ''items'', ai_Methods = [''GET''], ai_SupportedIdentityType = [''rpc'']\<rparr>]
     \<lparr>si_ID = ''storage'', si_PathRouterInfoMap = Map.empty, si_Host = ''backend''\<rparr>)\<rparr>"

definition sample_lib :: "string jwt_lib" where
  "sample_lib = \<lparr>jwt_ParseWithClaims = (\<lambda>_ _. Inl ''malformed''), jwt_MarshalClaims = (\<lambda>_. ''null'')\<rparr>"

definition sample_net :: network where
  "sample_net _ = Inr \<lparr>rs_StatusCode = 200, rs_Header = Map.empty, rs_Body = ''ok'', rs_ContentLength = 2\<rparr>"

abbreviation sample_channel :: "request \<Rightarrow> channel" where
  "sample_channel r \<equiv> \<lparr>ch_attachment = Some (MRequest r)\<rparr>"

lemma sample_peer [simp]: "peer_cert (sample_request scheme h) = Inr sample_cert"
  by (simp add: peer_cert_def sample_request_def)

lemma sample_cert_facts [simp]:
  "has_deploy sample_cert" "cert_deploy sample_cert = ''center''" "cert_service sample_cert = ''company''"
  by (simp_all add: sample_cert_def has_deploy_def cert_deploy_def cert_service_def)

text \<open>The sample request is admitted and, in absolute form, forwarded.\<close>

lemma sample_director:
  assumes "header_Get h ''X-Target-Deploy-ID'' \<noteq> ''''" "header_Get h ''X-Target-Service-ID'' \<noteq> ''''"
    and "header_Get h ''Authorization'' = ''rpc x''"
  shows "\<exists>out. inbound_director sample_lib (srh_serviceInfo sample_handler) (sample_request scheme h) (sample_request scheme h) =
      Inr (out, None) \<and> url_Scheme (rq_URL out) = scheme \<and> url_Host (rq_URL out) = ''backend''"
  using assms unfolding inbound_director_peer [OF sample_peer]
  by (simp add: sample_handler_def ServiceInfo_AddHttpAPIInfo_def put_api_def
      inbound_authorize_def GetAPIInfoByPath_def sample_request_def parse_authorization_eq auth_wellformed_def
      auth_type_def supported_identity_types_def apply_identity_def)

lemma sample_forwarded:
  assumes "header_Get h ''X-Target-Deploy-ID'' \<noteq> ''''" "header_Get h ''X-Target-Service-ID'' \<noteq> ''''"
    and "header_Get h ''Authorization'' = ''rpc x''"
  shows "\<exists>calls r. ServiceRouteHandler_HandleWrite sample_lib sample_net sample_handler
     (MResponseWriter (NewResponseWriter 1 1)) (sample_channel (sample_request ''http'' h)) = Inr (calls, [r])"
proof -
  obtain out where out: "inbound_director sample_lib (srh_serviceInfo sample_handler)
      (sample_request ''http'' h) (sample_request ''http'' h) = Inr (out, None)"
      "url_Scheme (rq_URL out) = ''http''" "url_Host (rq_URL out) = ''backend''"
    using sample_director [OF assms] by blast
  show ?thesis
    using inbound_HandleWrite_forwards [OF _ out(1), of "sample_channel (sample_request ''http'' h)" sample_net]
      out(2,3) by (simp add: sample_net_def)
qed

theorem inbound_director_refines_checks_witness:
  "\<exists>out e. inbound_director sample_lib None (sample_request ''http'' sample_header) (sample_request ''http'' sample_header) =
     Inr (out, Some e) \<and> se_ErrorCode e = 40401 \<and> se_StatusCode e = 404"
proof -
  let ?r = "sample_request ''http'' sample_header"
  have "auth_wellformed (header_Get (rq_Header ?r) ''Authorization'')"
    by (simp add: sample_request_def sample_header_def header_Get_def auth_wellformed_def)
  from inbound_director_refines_checks [OF sample_peer sample_cert_facts(1) this, of sample_lib None ?r]
  show ?thesis
    by (auto simp: inbound_verdict_def first_failure_def routing_checks_def sample_request_def
        sample_header_def header_Get_def status_of_code_def)
qed

theorem inbound_director_panics_iff_witness:
  "\<exists>p. inbound_director sample_lib (srh_serviceInfo sample_handler)
     (sample_request ''http'' (sample_header(''Authorization'' \<mapsto> [''rpc''])))
     (sample_request ''http'' (sample_header(''Authorization'' \<mapsto> [''rpc'']))) = Inl p"
  unfolding inbound_director_panics_iff
  by (simp add: first_failure_def routing_checks_def target_api_def sample_handler_def
      ServiceInfo_AddHttpAPIInfo_def put_api_def GetAPIInfoByPath_def auth_wellformed_def)
    (simp add: sample_request_def sample_header_def header_Get_def)

theorem inbound_sends_only_authorised_witness:
  "\<exists>calls r. ServiceRouteHandler_HandleWrite sample_lib sample_net sample_handler
     (MResponseWriter (NewResponseWriter 1 1)) (sample_channel (sample_request ''http'' sample_header)) =
       Inr (calls, [r]) \<and> url_Host (rq_URL r) = ''backend'' \<and> rq_Method r = ''GET''"
proof -
  obtain calls r where c: "ServiceRouteHandler_HandleWrite sample_lib sample_net sample_handler
      (MResponseWriter (NewResponseWriter 1 1)) (sample_channel (sample_request ''http'' sample_header)) = Inr (calls, [r])"
    using sample_forwarded [of sample_header] by (auto simp: sample_header_def header_Get_def)
  from inbound_sends_only_authorised [OF c, of "sample_request ''http'' sample_header" r] c
  show ?thesis by (auto simp: sample_handler_def sample_request_def)
qed

theorem inbound_identity_headers_authentic_witness:
  "\<exists>calls r. ServiceRouteHandler_HandleWrite sample_lib sample_net sample_handler
     (MResponseWriter (NewResponseWriter 1 1)) (sample_channel (sample_request ''http'' sample_header)) =
       Inr (calls, [r]) \<and> rq_Header r ''X-From-Deploy-Id'' = Some [''center'']"
proof -
  obtain calls r where c: "ServiceRouteHandler_HandleWrite sample_lib sample_net sample_handler
      (MResponseWriter (NewResponseWriter 1 1)) (sample_channel (sample_request ''http'' sample_header)) = Inr (calls, [r])"
    using sample_forwarded [of sample_header] by (auto simp: sample_header_def header_Get_def)
  have "connection_listed (rq_Header (sample_request ''http'' sample_header)) = []"
    by (simp add: connection_listed_def sample_request_def sample_header_def)
  with inbound_identity_headers_authentic [OF c, of "sample_request ''http'' sample_header" r sample_cert] c
  show ?thesis by simp
qed


theorem inbound_rejection_answered_locally_witness:
  "\<exists>rw'. ServiceRouteHandler_HandleWrite sample_lib sample_net \<lparr>srh_serviceInfo = None\<rparr>
     (MResponseWriter (NewResponseWriter 1 1)) (sample_channel (sample_request ''http'' sample_header)) =
       Inr ([CtxHandleWrite (MResponseWriter rw')], []) \<and> rw_statusCode rw' = 404"
proof -
  let ?r = "sample_request ''http'' sample_header"
  have a: "auth_wellformed (header_Get (rq_Header ?r) ''Authorization'')"
    by (simp add: sample_request_def sample_header_def header_Get_def auth_wellformed_def)
  have v: "inbound_verdict sample_lib (srh_serviceInfo \<lparr>srh_serviceInfo = None\<rparr>) sample_cert
      (header_Get (rq_Header ?r) ''Authorization'') ?r = Some 40401"
    by (simp add: inbound_verdict_def first_failure_def routing_checks_def sample_request_def
        sample_header_def header_Get_def)
  have ch: "ch_attachment (sample_channel ?r) = Some (MRequest ?r)" by simp
  from inbound_rejection_answered_locally [OF sample_peer sample_cert_facts(1) a v ch,
      of sample_net "NewResponseWriter 1 1"]
  show ?thesis by (auto simp: status_of_code_def)
qed

theorem inbound_origin_form_never_forwarded_witness:
  "\<exists>calls. ServiceRouteHandler_HandleWrite sample_lib sample_net sample_handler
     (MResponseWriter (NewResponseWriter 1 1)) (sample_channel (sample_request '''' sample_header)) = Inr (calls, []) \<and>
     (\<exists>rw'. calls = [CtxHandleWrite (MResponseWriter rw')] \<and> rw_statusCode rw' = 502)"
proof -
  let ?r = "sample_request '''' sample_header"
  obtain out where out: "inbound_director sample_lib (srh_serviceInfo sample_handler) ?r ?r = Inr (out, None)"
      "url_Scheme (rq_URL out) = ''''"
    using sample_director [of sample_header] by (auto simp: sample_header_def header_Get_def)
  then have c: "ServiceRouteHandler_HandleWrite sample_lib sample_net sample_handler
      (MResponseWriter (NewResponseWriter 1 1)) (sample_channel ?r) =
        Inr ([CtxHandleWrite (MResponseWriter (rw_WriteHeader 502 (NewResponseWriter 1 1)))], [])"
    by (simp add: ServiceRouteHandler_HandleWrite_def proxy_write_request transport_RoundTrip_def
        serve_guarded_admitted [of "inbound_director sample_lib (srh_serviceInfo sample_handler) ?r"])
  have "url_Scheme (rq_URL ?r) = ''''" by (simp add: sample_request_def)
  from inbound_origin_form_never_forwarded [OF c _ this] out(1) c show ?thesis by auto
qed

end
