(* ===== verification/Tls_Config.thy ===== *)
theory Tls_Config
  imports Go_Http
begin

text \<open>
  The TLS configurations of the sidecar (tls_utils.go and tls_config_factory.go) and what
  crypto/tls does with them when a peer shows its certificates. Verifying a chain against a pool of
  roots is a parameter \<open>verify\<close>; the handshake only says when it is consulted and with which pool.
\<close>

type_synonym rsa_key = string

record tls_certificate =
  tc_Certificate :: "string list"
  tc_PrivateKey :: rsa_key

text \<open>The policies of \<open>tls.ClientAuthType\<close>, the first being its zero value.\<close>

datatype client_auth =
    NoClientCert
  | RequestClientCert
  | RequireAnyClientCert
  | VerifyClientCertIfGiven
  | RequireAndVerifyClientCert

type_synonym cert_pool = "certificate list"

definition NewCertPool :: cert_pool where "NewCertPool = []"

definition AddCert :: "certificate \<Rightarrow> cert_pool \<Rightarrow> cert_pool" where
  "AddCert c pool = (if c \<in> set pool then pool else pool @ [c])"

text \<open>A nil pool is \<^const>\<open>None\<close>: the system's roots.\<close>

record tls_config =
  cfg_Certificates :: "tls_certificate list"
  cfg_RootCAs :: "cert_pool option"
  cfg_ClientAuth :: client_auth
  cfg_ClientCAs :: "cert_pool option"
  cfg_ServerName :: string
  cfg_InsecureSkipVerify :: bool

definition NewTLSCertificate :: "rsa_key \<Rightarrow> certificate list \<Rightarrow> tls_certificate" where
  "NewTLSCertificate serviceKey serviceCerts =
     \<lparr>tc_Certificate = map ct_Raw serviceCerts, tc_PrivateKey = serviceKey\<rparr>"

record server_tls_config_factory =
  stf_SelfKey :: rsa_key
  stf_SelfCert :: certificate
  stf_TrustDeployCerts :: "certificate list"

definition NewServerConfig :: "server_tls_config_factory \<Rightarrow> tls_config" where
  "NewServerConfig tcf =
     (let tlsCert = NewTLSCertificate (stf_SelfKey tcf) [stf_SelfCert tcf];
          caPool = fold AddCert (stf_TrustDeployCerts tcf) NewCertPool
      in \<lparr>cfg_Certificates = [tlsCert], cfg_RootCAs = None,
          cfg_ClientAuth = RequireAndVerifyClientCert, cfg_ClientCAs = Some caPool,
          cfg_ServerName = '''', cfg_InsecureSkipVerify = False\<rparr>)"

record client_tls_config_factory =
  ctf_SelfKey :: rsa_key
  ctf_SelfCert :: certificate
  ctf_ParentCert :: certificate

definition NewClientConfig :: "client_tls_config_factory \<Rightarrow> tls_config" where
  "NewClientConfig tsc =
     (let tlsCert = NewTLSCertificate (ctf_SelfKey tsc) [ctf_SelfCert tsc];
          caPool = AddCert (ctf_ParentCert tsc) NewCertPool
      in \<lparr>cfg_Certificates = [tlsCert], cfg_RootCAs = Some caPool,
          cfg_ClientAuth = NoClientCert, cfg_ClientCAs = None,
          cfg_ServerName = '''', cfg_InsecureSkipVerify = True\<rparr>)"

section \<open>When a handshake accepts the peer\<close>

type_synonym chain_verifier = "cert_pool option \<Rightarrow> certificate list \<Rightarrow> bool"

definition server_accepts :: "chain_verifier \<Rightarrow> tls_config \<Rightarrow> certificate list \<Rightarrow> bool" where
  "server_accepts verify cfg chain =
     (case cfg_ClientAuth cfg of
        NoClientCert \<Rightarrow> True
      | RequestClientCert \<Rightarrow> True
      | RequireAnyClientCert \<Rightarrow> chain \<noteq> []
      | VerifyClientCertIfGiven \<Rightarrow> chain = [] \<or> verify (cfg_ClientCAs cfg) chain
      | RequireAndVerifyClientCert \<Rightarrow> chain \<noteq> [] \<and> verify (cfg_ClientCAs cfg) chain)"

definition client_accepts :: "chain_verifier \<Rightarrow> tls_config \<Rightarrow> certificate list \<Rightarrow> bool" where
  "client_accepts verify cfg chain = (cfg_InsecureSkipVerify cfg \<or> verify (cfg_RootCAs cfg) chain)"

lemma set_fold_AddCert [simp]: "set (fold AddCert cs pool) = set pool \<union> set cs"
  by (induction cs arbitrary: pool) (auto simp: AddCert_def)

lemma distinct_fold_AddCert: "distinct pool \<Longrightarrow> distinct (fold AddCert cs pool)"
  by (induction cs arbitrary: pool) (auto simp: AddCert_def)

text \<open>
  A server built by the factory lets a client in only when it shows at least one certificate and
  its chain verifies against a pool that holds exactly the trusted deployment certificates, each
  once; it presents the service certificate with the service key.
\<close>

theorem server_config_requires_trusted_client:
  "(server_accepts verify (NewServerConfig tcf) chain \<longleftrightarrow>
      chain \<noteq> [] \<and> verify (cfg_ClientCAs (NewServerConfig tcf)) chain) \<and>
   (\<exists>pool. cfg_ClientCAs (NewServerConfig tcf) = Some pool \<and>
      set pool = set (stf_TrustDeployCerts tcf) \<and> distinct pool) \<and>
   cfg_Certificates (NewServerConfig tcf) =
     [\<lparr>tc_Certificate = [ct_Raw (stf_SelfCert tcf)], tc_PrivateKey = stf_SelfKey tcf\<rparr>]"
  by (simp add: NewServerConfig_def server_accepts_def Let_def NewCertPool_def NewTLSCertificate_def
      distinct_fold_AddCert)

text \<open>
  The client configuration holds the parent certificate in its pool of roots but skips
  verification: whatever the verifier says, a client built by the factory accepts every server,
  also one that shows no certificate that the parent has signed.
\<close>

theorem client_config_accepts_every_server:
  "client_accepts verify (NewClientConfig tsc) chain \<and>
   cfg_RootCAs (NewClientConfig tsc) = Some [ctf_ParentCert tsc]"
  by (simp add: client_accepts_def NewClientConfig_def Let_def AddCert_def NewCertPool_def)

end
