(* ===== verification/Tls_Wrapper.thy ===== *)
theory Tls_Wrapper
  imports Netty_Channel Service_Registry Tls_Config
begin

text \<open>
  The outbound side: TLSWrapperHandler of tls_wrapper.go. It keeps the map of known deployments and
  a transport with a client certificate, and forwards a request to the host of the deployment that
  the request names, under a path that starts with the target service.
\<close>

record tls_wrapper_handler =
  tw_transport :: tls_config
  tw_deployIDDeployInfoMap :: deploy_map

definition GetDeployInfo :: "tls_wrapper_handler \<Rightarrow> string \<Rightarrow> deploy_info option" where
  "GetDeployInfo t deployID = tw_deployIDDeployInfoMap t deployID"

definition NewTLSWrapperHandler ::
    "certificate \<Rightarrow> certificate \<Rightarrow> rsa_key \<Rightarrow> (string \<Rightarrow> string option) \<Rightarrow> tls_wrapper_handler" where
  "NewTLSWrapperHandler deployCert serviceCert serviceKey idDeployHostMap =
     (let tlsCert = NewTLSCertificate serviceKey [serviceCert];
          caPool = AddCert deployCert NewCertPool
      in \<lparr>tw_transport =
            \<lparr>cfg_Certificates = [tlsCert], cfg_RootCAs = Some caPool, cfg_ClientAuth = NoClientCert,
             cfg_ClientCAs = None, cfg_ServerName = '''', cfg_InsecureSkipVerify = False\<rparr>,
          tw_deployIDDeployInfoMap = deploy_map_of_hosts idDeployHostMap\<rparr>)"

definition AddDeploy :: "deploy_info list \<Rightarrow> tls_wrapper_handler \<Rightarrow> tls_wrapper_handler" where
  "AddDeploy deployInfos t =
     t\<lparr>tw_deployIDDeployInfoMap := fold put_deploy deployInfos (tw_deployIDDeployInfoMap t)\<rparr>"

section \<open>The director and the handler\<close>

definition outbound_director :: "tls_wrapper_handler \<Rightarrow> request \<Rightarrow> (request \<times> status_error option) go" where
  "outbound_director t req0 =
     (let req = req0\<lparr>rq_URL := (rq_URL req0)\<lparr>url_Scheme := ''https''\<rparr>\<rparr>;
          targetDeployID = header_Get (rq_Header req) ''X-Target-Deploy-ID'';
          targetServiceID = header_Get (rq_Header req) ''X-Target-Service-ID''
      in case GetDeployInfo t targetDeployID of
           None \<Rightarrow>
             Inr (req, Some \<lparr>se_error = ''deploy id:'' @ targetDeployID @ '' does not exist'',
                             se_StatusCode = StatusNotFound, se_ErrorCode = ErrCodeTargetDeployIDNotFound\<rparr>)
         | Some deployInfo \<Rightarrow>
             (let apiPath = url_Path (rq_URL req)
              in Inr (req\<lparr>rq_Host := di_Host deployInfo,
                         rq_URL := (rq_URL req)\<lparr>url_Host := di_Host deployInfo,
                                               url_Path := ''/'' @ targetServiceID @ apiPath,
                                               url_RawPath := ''''\<rparr>\<rparr>, None)))"

definition TLSWrapperHandler_HandleActive :: "ctx_call list" where
  "TLSWrapperHandler_HandleActive = [CtxHandleActive]"

definition TLSWrapperHandler_HandleInactive :: "string \<Rightarrow> ctx_call list" where
  "TLSWrapperHandler_HandleInactive ex = [CtxHandleInactive ex]"

definition TLSWrapperHandler_HandleRead ::
    "(int \<Rightarrow> int \<Rightarrow> response_writer) \<Rightarrow> message \<Rightarrow> channel \<Rightarrow> channel \<times> ctx_call list" where
  "TLSWrapperHandler_HandleRead newWriter msg ch = proxy_read newWriter msg ch"

definition TLSWrapperHandler_HandleWrite ::
    "network \<Rightarrow> tls_wrapper_handler \<Rightarrow> message \<Rightarrow> channel \<Rightarrow> (ctx_call list \<times> request list) go" where
  "TLSWrapperHandler_HandleWrite net t msg ch = proxy_write (\<lambda>_. outbound_director t) net msg ch"

section \<open>Admission\<close>

definition outbound_admits :: "tls_wrapper_handler \<Rightarrow> request \<Rightarrow> request \<Rightarrow> bool" where
  "outbound_admits t req out \<longleftrightarrow>
     (case GetDeployInfo t (header_Get (rq_Header req) ''X-Target-Deploy-ID'') of
        None \<Rightarrow> False
      | Some d \<Rightarrow>
          url_Scheme (rq_URL out) = ''https'' \<and> url_Host (rq_URL out) = di_Host d \<and> rq_Host out = di_Host d \<and>
          url_Path (rq_URL out) =
            ''/'' @ header_Get (rq_Header req) ''X-Target-Service-ID'' @ url_Path (rq_URL req) \<and>
          url_RawPath (rq_URL out) = '''' \<and> url_RawQuery (rq_URL out) = url_RawQuery (rq_URL req) \<and>
          rq_Header out = rq_Header req \<and> rq_Method out = rq_Method req \<and> rq_Body out = rq_Body req)"

interpretation outbound: guarded_director "outbound_director t" "outbound_admits t"
  for t
  by unfold_locales (auto simp: outbound_director_def outbound_admits_def Let_def split: option.splits)

lemma outbound_director_None:
  "GetDeployInfo t (header_Get (rq_Header req) ''X-Target-Deploy-ID'') = None \<Longrightarrow>
   \<exists>out. outbound_director t req =
     Inr (out, Some \<lparr>se_error = ''deploy id:'' @ header_Get (rq_Header req) ''X-Target-Deploy-ID'' @ '' does not exist'',
                     se_StatusCode = 404, se_ErrorCode = 40400\<rparr>)"
  by (simp add: outbound_director_def Let_def error_code_defs)

lemma outbound_director_Some:
  "GetDeployInfo t (header_Get (rq_Header req) ''X-Target-Deploy-ID'') = Some d \<Longrightarrow>
   \<exists>out. outbound_director t req = Inr (out, None)"
  by (simp add: outbound_director_def Let_def)

section \<open>What the handler sends\<close>

lemma outbound_HandleWrite_cases:
  "\<exists>rw' sent. TLSWrapperHandler_HandleWrite net t (MResponseWriter rw) \<lparr>ch_attachment = Some (MRequest request)\<rparr> =
      Inr ([CtxHandleWrite (MResponseWriter rw')], sent) \<and>
    (case GetDeployInfo t (header_Get (rq_Header request) ''X-Target-Deploy-ID'') of
       None \<Rightarrow> sent = [] \<and> rw_statusCode rw' = 404
     | Some d \<Rightarrow>
         if di_Host d = '''' then sent = [] \<and> rw_statusCode rw' = 502
         else (\<exists>r. sent = [r] \<and> url_Scheme (rq_URL r) = ''https'' \<and> url_Host (rq_URL r) = di_Host d \<and>
           url_Path (rq_URL r) =
             ''/'' @ header_Get (rq_Header request) ''X-Target-Service-ID'' @ url_Path (rq_URL request) \<and>
           url_RawQuery (rq_URL r) = url_RawQuery (rq_URL request) \<and>
           rq_Method r = rq_Method request \<and> rq_Body r = rq_Body request))"
proof (cases "GetDeployInfo t (header_Get (rq_Header request) ''X-Target-Deploy-ID'')")
  case None
  obtain out e where d: "outbound_director t request = Inr (out, Some e)" "se_StatusCode e = 404"
    using outbound_director_None [OF None] by auto
  obtain resp where "AsHttpResponse e = Inr resp"
      "serve_guarded (outbound_director t) net request rw = Inr (deliver_response resp rw, [])"
    using serve_guarded_rejected [of "outbound_director t", OF d(1)] by blast
  with None d(2) show ?thesis
    by (auto simp: TLSWrapperHandler_HandleWrite_def proxy_write_request AsHttpResponse_def)
next
  case (Some d)
  then obtain out where out: "outbound_director t request = Inr (out, None)"
    using outbound_director_Some by blast
  then have "outbound_admits t request out" by (rule outbound.admits_if_no_error)
  with Some show ?thesis
    by (auto simp: TLSWrapperHandler_HandleWrite_def proxy_write_request outbound_admits_def transport_RoundTrip_def
        serve_guarded_admitted [of "outbound_director t", OF out] split: sum.split)
qed

lemma outbound_sends_known:
  assumes "GetDeployInfo t (header_Get (rq_Header request) ''X-Target-Deploy-ID'') = Some d" "di_Host d \<noteq> ''''"
  shows "\<exists>calls r. TLSWrapperHandler_HandleWrite net t (MResponseWriter rw)
    \<lparr>ch_attachment = Some (MRequest request)\<rparr> = Inr (calls, [r])"
  using outbound_HandleWrite_cases [of net t rw request] assms by auto

section \<open>Properties\<close>

text \<open>
  The outbound handler never panics, and it sends a request exactly when the deployment it names
  is known and has a host: then exactly one request goes out, over https, to the host of this
  deployment, under the path that puts the target service before the caller's path, with method,
  query and body unchanged. Otherwise nothing is sent.
\<close>

theorem outbound_sends_iff_known:
  "\<exists>rw' sent. TLSWrapperHandler_HandleWrite net t (MResponseWriter rw) \<lparr>ch_attachment = Some (MRequest request)\<rparr> =
      Inr ([CtxHandleWrite (MResponseWriter rw')], sent) \<and>
    (case GetDeployInfo t (header_Get (rq_Header request) ''X-Target-Deploy-ID'') of
       None \<Rightarrow> sent = [] \<and> rw_statusCode rw' = 404
     | Some d \<Rightarrow>
         if di_Host d = '''' then sent = [] \<and> rw_statusCode rw' = 502
         else (\<exists>r. sent = [r] \<and> url_Scheme (rq_URL r) = ''https'' \<and> url_Host (rq_URL r) = di_Host d \<and>
           url_Path (rq_URL r) =
             ''/'' @ header_Get (rq_Header request) ''X-Target-Service-ID'' @ url_Path (rq_URL request) \<and>
           url_RawQuery (rq_URL r) = url_RawQuery (rq_URL request) \<and>
           rq_Method r = rq_Method request \<and> rq_Body r = rq_Body request))"
  by (rule outbound_HandleWrite_cases)

text \<open>
  The deployment map. A new handler knows exactly the deployments of the configured map of hosts,
  each under its own id; after AddDeploy the lookup of an id gives the deployment added last under
  this id, and what was known before where none was added.
\<close>

lemma deploy_lookup_after_add:
  "GetDeployInfo (AddDeploy ds (NewTLSWrapperHandler dc sc key hosts)) k =
     (case find (\<lambda>d. di_ID d = k) (rev ds) of
        Some d \<Rightarrow> Some d
      | None \<Rightarrow> map_option (\<lambda>host. \<lparr>di_ID = k, di_Host = host, di_IDServiceInfoMap = Map.empty\<rparr>) (hosts k))"
  unfolding GetDeployInfo_def AddDeploy_def
  by (simp add: deploy_registry.get_fold_put NewTLSWrapperHandler_def Let_def deploy_map_of_hosts_def)

text \<open>
  Unlike the client configuration of the session protocols, the transport of the outbound handler
  verifies the server, against the one certificate of the own deployment.
\<close>

lemma outbound_transport_verifies_server:
  "client_accepts verify (tw_transport (NewTLSWrapperHandler dc sc key hosts)) chain \<longleftrightarrow>
     verify (Some [dc]) chain"
  by (simp add: client_accepts_def NewTLSWrapperHandler_def Let_def AddCert_def NewCertPool_def)

end
