(* ===== verification/Sidecar_Pipelines.thy ===== *)
theory Sidecar_Pipelines
  imports Inbound_Correct Tls_Wrapper
begin

text \<open>
  The two netty servers (cmd/inbound and cmd/outbound): the handler that attaches the state of the TLS
  connection to a request, the pipelines the handlers are put into, the configurations the listeners
  get, and one decoded message going through a pipeline. The codec of go-netty, which decodes requests
  and encodes what the last handler passes on, is outside; it gives the messages that go in.
\<close>

section \<open>TLSCertHandler\<close>

text \<open>
  The raw transport of the channel is \<^const>\<open>None\<close> when it is no TLS connection; the type assertion
  panics then. The text of the panic for another message has the message printed with \<open>\%v\<close>.
\<close>

definition TLSCertHandler_HandleActive :: "ctx_call list" where
  "TLSCertHandler_HandleActive = [CtxHandleActive]"

definition TLSCertHandler_HandleRead ::
    "(message \<Rightarrow> string) \<Rightarrow> conn_state option \<Rightarrow> message \<Rightarrow> ctx_call list go" where
  "TLSCertHandler_HandleRead printed rawTransport msg =
     (case msg of
        MRequest request \<Rightarrow>
          (case rawTransport of
             None \<Rightarrow> Inl BadTypeAssertion
           | Some connState \<Rightarrow> Inr [CtxHandleRead (MRequest (request\<lparr>rq_TLS := Some connState\<rparr>))])
      | _ \<Rightarrow> Inl (PanicWith (''unknown message:'' @ printed msg)))"

definition TLSCertHandler_HandleWrite :: "message \<Rightarrow> ctx_call list" where
  "TLSCertHandler_HandleWrite msg = [CtxHandleWrite msg]"

definition TLSCertHandler_HandleInactive :: "string \<Rightarrow> ctx_call list" where
  "TLSCertHandler_HandleInactive ex = [CtxHandleInactive ex]"

section \<open>The servers\<close>

text \<open>
  The function Main of cmd/inbound returns nothing: the handler and the TLS configuration of the listener
  are local to it, the first caught by the pipeline's initializer and the second an option of the
  listener. \<open>inbound_Main\<close> gives both, as what the running server consists of; that a backend's reports
  (proto_impl/sidecar) reach this handler is a wiring that the repository leaves to its user.
\<close>

definition inbound_Main ::
    "certificate list \<Rightarrow> certificate \<Rightarrow> rsa_key \<Rightarrow> string \<Rightarrow> (service_route_handler \<times> tls_config) go" where
  "inbound_Main trustedDeployCerts serviceCert serviceKey serviceHost =
     (let tlsCert = NewTLSCertificate serviceKey [serviceCert];
          caPool = fold AddCert trustedDeployCerts NewCertPool
      in go_bind (NewServiceCertificate serviceCert) (\<lambda>res.
           case res of
             Inl err \<Rightarrow> Inl (PanicWith (errors_Wrap err ''invalid service certificate''))
           | Inr serviceCertInfo \<Rightarrow>
               Inr (NewServiceRouteHandler (ts_ServiceID serviceCertInfo) serviceHost,
                    \<lparr>cfg_Certificates = [tlsCert], cfg_RootCAs = Some caPool,
                     cfg_ClientAuth = RequireAndVerifyClientCert, cfg_ClientCAs = Some caPool,
                     cfg_ServerName = '''', cfg_InsecureSkipVerify = False\<rparr>)))"

definition outbound_Main ::
    "certificate \<Rightarrow> certificate \<Rightarrow> rsa_key \<Rightarrow> (string \<Rightarrow> string option) \<Rightarrow> tls_wrapper_handler" where
  "outbound_Main selfDeployCert serviceCert serviceKey deployIDHostMap =
     NewTLSWrapperHandler selfDeployCert serviceCert serviceKey deployIDHostMap"

text \<open>
  Where the servers listen, and what the callbacks do with the error with which a listener ends: nothing
  recovers their panics, which run in a goroutine of the bootstrap.
\<close>

definition inbound_address :: string where
  "inbound_address = ''0.0.0.0:'' @ show_int 30443"

definition outbound_address :: string where
  "outbound_address = ''tcp://localhost:'' @ show_int 30080"

definition inbound_bootstrap_end :: "go_error \<Rightarrow> unit go" where
  "inbound_bootstrap_end err = Inl (PanicWith (errors_Wrap err ''inbound bootstrap err''))"

definition outbound_bootstrap_end :: "go_error \<Rightarrow> unit go" where
  "outbound_bootstrap_end err = Inl (PanicWith (errors_Wrap err ''outbound bootstrap err''))"

text \<open>
  A message read by the last handler of a pipeline. What that handler writes to the channel goes
  through its own HandleWrite first, and what this passes on through the handlers before it.
\<close>

definition read_last ::
    "(message \<Rightarrow> channel \<Rightarrow> channel \<times> ctx_call list) \<Rightarrow>
     (message \<Rightarrow> channel \<Rightarrow> (ctx_call list \<times> request list) go) \<Rightarrow> message \<Rightarrow> channel \<Rightarrow>
     (ctx_call list \<times> request list) go" where
  "read_last hread hwrite msg ch =
     (case hread msg ch of
        (ch', [ChannelWrite m]) \<Rightarrow> hwrite m ch'
      | (ch', calls) \<Rightarrow> Inr (calls, []))"

definition write_before :: "(message \<Rightarrow> ctx_call list) \<Rightarrow> ctx_call list \<Rightarrow> ctx_call list" where
  "write_before hwrite calls =
     concat (map (\<lambda>c. case c of CtxHandleWrite m \<Rightarrow> hwrite m | _ \<Rightarrow> [c]) calls)"

definition inbound_pipeline ::
    "(int \<Rightarrow> int \<Rightarrow> response_writer) \<Rightarrow> (message \<Rightarrow> string) \<Rightarrow> 'c jwt_lib \<Rightarrow> network \<Rightarrow> service_route_handler \<Rightarrow>
     conn_state option \<Rightarrow> message \<Rightarrow> channel \<Rightarrow> (ctx_call list \<times> request list) go" where
  "inbound_pipeline newWriter printed lib net h rawTransport msg ch =
     go_bind (TLSCertHandler_HandleRead printed rawTransport msg) (\<lambda>calls.
       case calls of
         [CtxHandleRead m] \<Rightarrow>
           go_bind (read_last (ServiceRouteHandler_HandleRead newWriter) (ServiceRouteHandler_HandleWrite lib net h) m ch)
             (\<lambda>(out, sent). Inr (write_before TLSCertHandler_HandleWrite out, sent))
       | _ \<Rightarrow> Inr (calls, []))"

definition outbound_pipeline ::
    "(int \<Rightarrow> int \<Rightarrow> response_writer) \<Rightarrow> network \<Rightarrow> tls_wrapper_handler \<Rightarrow> message \<Rightarrow> channel \<Rightarrow>
     (ctx_call list \<times> request list) go" where
  "outbound_pipeline newWriter net t msg ch =
     read_last (TLSWrapperHandler_HandleRead newWriter) (TLSWrapperHandler_HandleWrite net t) msg ch"

section \<open>One request through the pipelines\<close>

lemma HandleRead_eq:
  "ServiceRouteHandler_HandleRead = proxy_read" "TLSWrapperHandler_HandleRead = proxy_read"
  by (simp_all add: fun_eq_iff ServiceRouteHandler_HandleRead_def TLSWrapperHandler_HandleRead_def)

lemma read_last_proxy:
  "read_last (proxy_read newWriter) hwrite (MRequest request) ch =
     hwrite (MResponseWriter (newWriter (rq_ProtoMajor request) (rq_ProtoMinor request)))
       (ch\<lparr>ch_attachment := Some (MRequest request)\<rparr>)"
  by (simp add: read_last_def proxy_read_def)

lemma inbound_pipeline_request:
  "inbound_pipeline newWriter printed lib net h (Some cs) (MRequest request) ch =
     go_bind (ServiceRouteHandler_HandleWrite lib net h
        (MResponseWriter (newWriter (rq_ProtoMajor request) (rq_ProtoMinor request)))
        (ch\<lparr>ch_attachment := Some (MRequest (request\<lparr>rq_TLS := Some cs\<rparr>))\<rparr>))
       (\<lambda>(out, sent). Inr (write_before TLSCertHandler_HandleWrite out, sent))"
  by (simp add: inbound_pipeline_def TLSCertHandler_HandleRead_def HandleRead_eq read_last_proxy)

lemma outbound_pipeline_request:
  "outbound_pipeline newWriter net t (MRequest request) ch =
     TLSWrapperHandler_HandleWrite net t
       (MResponseWriter (newWriter (rq_ProtoMajor request) (rq_ProtoMinor request)))
       (ch\<lparr>ch_attachment := Some (MRequest request)\<rparr>)"
  by (simp add: outbound_pipeline_def HandleRead_eq read_last_proxy)

lemma inbound_Main_eq:
  "inbound_Main trusted cert key host =
     (if has_deploy cert then
        Inr (NewServiceRouteHandler (cert_service cert) host,
             \<lparr>cfg_Certificates = [NewTLSCertificate key [cert]], cfg_RootCAs = Some (fold AddCert trusted []),
              cfg_ClientAuth = RequireAndVerifyClientCert, cfg_ClientCAs = Some (fold AddCert trusted []),
              cfg_ServerName = '''', cfg_InsecureSkipVerify = False\<rparr>)
      else Inl IndexOutOfRange)"
  by (simp add: inbound_Main_def NewServiceCertificate_eq NewCertPool_def Let_def)

text \<open>
  C4. What the inbound server lets through to the backend, from the listener to the network. Let the
  server be started with trusted certificates, let the backend report APIs, and let a client that the
  listener's configuration accepts send a request: whatever reaches the network goes to the configured
  host, calls a reported API with one of its methods, and comes from a client whose chain verifies
  against a pool of exactly the trusted certificates; unless the client's Connection header lists them,
  the identity headers name the deployment and the service of the client's own certificate.
\<close>

theorem inbound_server_guards_backend:
  assumes "inbound_Main trusted serviceCert serviceKey host = Inr (h0, cfg)"
    and "report_all reports (NewBackendToSidecarServiceImpl h0) = Inr b"
    and "server_accepts verify cfg (cs_PeerCertificates cs)"
    and "inbound_pipeline newWriter printed lib net (bs_routeHandler b) (Some cs) (MRequest request) ch = Inr (calls, sent)"
    and "r \<in> set sent"
  shows "\<exists>cert rest pool api. cs_PeerCertificates cs = cert # rest \<and>
    verify (Some pool) (cert # rest) \<and> set pool = set trusted \<and> has_deploy cert \<and>
    url_Host (rq_URL r) = host \<and>
    api \<in> set (concat reports) \<and> pb_FullPath api = url_Path (rq_URL r) \<and> rq_Method r \<in> set (pb_Methods api) \<and>
    (\<forall>k v. (k, v) \<in> {(''X-From-Deploy-Id'', cert_deploy cert), (''X-From-Service-Id'', cert_service cert)} \<longrightarrow>
       k \<in> canonical_key ` set (connection_listed (rq_Header request)) \<or> rq_Header r k = Some [v])"
proof -
  let ?req = "request\<lparr>rq_TLS := Some cs\<rparr>"
  have main: "h0 = NewServiceRouteHandler (cert_service serviceCert) host"
    "cfg_ClientAuth cfg = RequireAndVerifyClientCert" "cfg_ClientCAs cfg = Some (fold AddCert trusted [])"
    using assms(1) by (auto simp: inbound_Main_eq split: if_splits)
  let ?ini = "\<lparr>si_ID = cert_service serviceCert, si_PathRouterInfoMap = Map.empty, si_Host = host\<rparr> :: service_info"
  define s where "s = ServiceInfo_AddHttpAPIInfo (map api_info_of_pb (concat reports)) ?ini"
  have svc: "srh_serviceInfo (bs_routeHandler b) = Some s"
    using assms(2) report_all_Some [of "NewBackendToSidecarServiceImpl h0" ?ini reports]
    by (auto simp: main(1) NewBackendToSidecarServiceImpl_def NewServiceRouteHandler_def s_def)
  obtain cert rest where chain: "cs_PeerCertificates cs = cert # rest"
    and verified: "verify (Some (fold AddCert trusted [])) (cert # rest)"
    using assms(3) main(2,3) by (cases "cs_PeerCertificates cs") (auto simp: server_accepts_def)
  obtain out where w: "ServiceRouteHandler_HandleWrite lib net (bs_routeHandler b)
      (MResponseWriter (newWriter (rq_ProtoMajor request) (rq_ProtoMinor request)))
      (ch\<lparr>ch_attachment := Some (MRequest ?req)\<rparr>) = Inr (out, sent)"
    using assms(4) by (auto simp: inbound_pipeline_request go_bind_eq_Inr_iff)
  obtain r' where adm: "inbound_admits lib (Some s) ?req ?req r'"
    and r: "r = r'\<lparr>rq_Header := outgoing_header (rq_Header r')\<rparr>"
    using inbound_HandleWrite_sent [OF w _ assms(5)] svc by auto
  have peer: "peer_cert ?req = Inr cert" by (simp add: peer_cert_def chain)
  obtain a where a: "GetAPIInfoByPath s (url_Path (rq_URL r)) = Some a" "rq_Method r \<in> set (ai_Methods a)"
    and f: "has_deploy cert" "url_Host (rq_URL r) = si_Host s"
    using adm peer by (auto simp: inbound_admits_def Let_def r)
  obtain api where api: "api \<in> set (concat reports)" "a = api_info_of_pb api" "pb_FullPath api = url_Path (rq_URL r)"
    using a(1) unfolding s_def reported_lookup by (auto dest!: find_SomeD)
  note hd = inbound_admits_header [OF adm peer]
  have ids: "k \<in> canonical_key ` set (connection_listed (rq_Header request)) \<or> rq_Header r k = Some [v]"
    if "(k, v) \<in> {(''X-From-Deploy-Id'', cert_deploy cert), (''X-From-Service-Id'', cert_service cert)}" for k v
    using that hd outgoing_header_keeps [of k "rq_Header r'"] by (auto simp: r from_keys_not_hop)
  from chain verified f a api ids show ?thesis
    by (intro exI [of _ cert] exI [of _ rest] exI [of _ "fold AddCert trusted []"] exI [of _ api])
      (auto simp: s_def api_info_of_pb_def)
qed

text \<open>
  C35. How the inbound server at the other end sees a request of the outbound server: it was sent over
  https to the host that is configured for the deployment it names, and the path that the inbound
  director looks up is the target service followed by the caller's path, or, when an ingress takes the
  prefix with the service off, the caller's path without its first segment; the headers that name the
  target are unchanged unless the Connection header lists them.
\<close>

theorem outbound_request_as_inbound_sees_it:
  assumes "outbound_pipeline newWriter net (outbound_Main dc sc key hosts) (MRequest request) ch = Inr (calls, sent)"
    and "r \<in> set sent"
  shows "hosts (header_Get (rq_Header request) ''X-Target-Deploy-ID'') = Some (url_Host (rq_URL r)) \<and>
    url_Scheme (rq_URL r) = ''https'' \<and>
    api_path (url_Path (rq_URL r)) = header_Get (rq_Header request) ''X-Target-Service-ID'' @ url_Path (rq_URL request) \<and>
    (\<forall>p. url_Path (rq_URL r) = ''/'' @ header_Get (rq_Header request) ''X-Target-Service-ID'' @ p \<longrightarrow>
       p = url_Path (rq_URL request) \<and> api_path p = api_path (url_Path (rq_URL request))) \<and>
    (\<forall>k\<in>{''X-Target-Deploy-Id'', ''X-Target-Service-Id''}.
       k \<in> canonical_key ` set (connection_listed (rq_Header request)) \<or> rq_Header r k = rq_Header request k)"
proof -
  let ?t = "NewTLSWrapperHandler dc sc key hosts"
  obtain rw' where "serve_guarded (outbound_director ?t) net request
      (newWriter (rq_ProtoMajor request) (rq_ProtoMinor request)) = Inr (rw', sent)"
    using assms(1)
    by (auto simp: outbound_pipeline_request outbound_Main_def TLSWrapperHandler_HandleWrite_def
        proxy_write_request go_bind_eq_Inr_iff)
  from outbound.sent_admitted [OF this assms(2)] obtain out where adm: "outbound_admits ?t request out"
    and r: "r = out\<lparr>rq_Header := outgoing_header (rq_Header out)\<rparr>" by blast
  have keys: "''X-Target-Deploy-Id'' \<notin> set hopHeaders" "''X-Target-Service-Id'' \<notin> set hopHeaders"
    by (simp_all add: hopHeaders_def)
  have hd: "rq_Header out = rq_Header request"
    using adm by (auto simp: outbound_admits_def split: option.splits)
  have "k \<in> canonical_key ` set (connection_listed (rq_Header request)) \<or> rq_Header r k = rq_Header request k"
    if "k \<in> {''X-Target-Deploy-Id'', ''X-Target-Service-Id''}" for k
    using that keys outgoing_header_keeps [of k "rq_Header request"] by (auto simp: r hd)
  with adm show ?thesis
    by (auto simp: r outbound_admits_def GetDeployInfo_def NewTLSWrapperHandler_def Let_def
        deploy_map_of_hosts_def split: option.splits)
qed

section \<open>Witnesses\<close>

definition sample_report_items :: pb_HttpAPIInfo where
  "sample_report_items = \<lparr>pb_FullPath = ''items'', pb_Methods = [''GET''], pb_SupportedIdentityType = [''rpc'']\<rparr>"

lemma sample_reported:
  "report_all [[sample_report_items]] (NewBackendToSidecarServiceImpl (NewServiceRouteHandler ''storage'' ''backend'')) =
     Inr \<lparr>bs_routeHandler = sample_handler\<rparr>"
  using report_all_Some [of "NewBackendToSidecarServiceImpl (NewServiceRouteHandler ''storage'' ''backend'')" _
      "[[sample_report_items]]"]
  by (simp add: NewBackendToSidecarServiceImpl_def NewServiceRouteHandler_def del: report_all.simps)
    (simp add: sample_handler_def sample_report_items_def api_info_of_pb_def)

theorem inbound_server_guards_backend_witness:
  "\<exists>h0 cfg calls r. inbound_Main [sample_cert] (sample_cert\<lparr>ct_Subject := (ct_Subject sample_cert)\<lparr>pn_CommonName := ''storage''\<rparr>\<rparr>)
       ''key'' ''backend'' = Inr (h0, cfg) \<and>
     inbound_pipeline NewResponseWriter (\<lambda>_. '''') sample_lib sample_net sample_handler
       (Some \<lparr>cs_PeerCertificates = [sample_cert]\<rparr>) (MRequest (sample_request ''http'' sample_header)) \<lparr>ch_attachment = None\<rparr> =
       Inr (calls, [r]) \<and> url_Host (rq_URL r) = ''backend'' \<and> url_Path (rq_URL r) = ''items''"
proof -
  let ?cert = "sample_cert\<lparr>ct_Subject := (ct_Subject sample_cert)\<lparr>pn_CommonName := ''storage''\<rparr>\<rparr>"
  let ?cs = "\<lparr>cs_PeerCertificates = [sample_cert]\<rparr> :: conn_state"
  obtain cfg where m: "inbound_Main [sample_cert] ?cert ''key'' ''backend'' = Inr (NewServiceRouteHandler ''storage'' ''backend'', cfg)"
    and acc: "server_accepts (\<lambda>_ _. True) cfg (cs_PeerCertificates ?cs)"
    by (simp add: inbound_Main_eq has_deploy_def cert_service_def sample_cert_def server_accepts_def)
  have tls: "(sample_request ''http'' sample_header)\<lparr>rq_TLS := Some ?cs\<rparr> = sample_request ''http'' sample_header"
    by (simp add: sample_request_def)
  have proto: "rq_ProtoMajor (sample_request ''http'' sample_header) = 1" "rq_ProtoMinor (sample_request ''http'' sample_header) = 1"
    by (simp_all add: sample_request_def)
  obtain out r where w: "ServiceRouteHandler_HandleWrite sample_lib sample_net sample_handler
      (MResponseWriter (NewResponseWriter 1 1)) (sample_channel (sample_request ''http'' sample_header)) = Inr (out, [r])"
    using sample_forwarded [of sample_header] by (auto simp: sample_header_def header_Get_def)
  then obtain calls where p: "inbound_pipeline NewResponseWriter (\<lambda>_. '''') sample_lib sample_net
      (bs_routeHandler \<lparr>bs_routeHandler = sample_handler\<rparr>) (Some ?cs)
      (MRequest (sample_request ''http'' sample_header)) \<lparr>ch_attachment = None\<rparr> = Inr (calls, [r])"
    by (simp add: inbound_pipeline_request tls proto)
  from inbound_server_guards_backend [OF m sample_reported acc p, of r] m p show ?thesis
    by (auto simp: sample_report_items_def)
qed

theorem outbound_request_as_inbound_sees_it_witness:
  "\<exists>calls r. outbound_pipeline NewResponseWriter sample_net (outbound_Main sample_cert sample_cert ''key'' [''hdu'' \<mapsto> ''hdu.example''])
       (MRequest (sample_request ''http'' sample_header)) \<lparr>ch_attachment = None\<rparr> = Inr (calls, [r]) \<and>
     api_path (url_Path (rq_URL r)) = ''storage/items''"
proof -
  let ?t = "NewTLSWrapperHandler sample_cert sample_cert ''key'' [''hdu'' \<mapsto> ''hdu.example'']"
  have h: "header_Get (rq_Header (sample_request ''http'' sample_header)) ''X-Target-Deploy-ID'' = ''hdu''"
    "header_Get (rq_Header (sample_request ''http'' sample_header)) ''X-Target-Service-ID'' = ''storage''"
    by (simp_all add: sample_request_def sample_header_def header_Get_def)
  have k: "GetDeployInfo ?t ''hdu'' = Some \<lparr>di_ID = ''hdu'', di_Host = ''hdu.example'', di_IDServiceInfoMap = Map.empty\<rparr>"
    by (simp add: GetDeployInfo_def NewTLSWrapperHandler_def Let_def deploy_map_of_hosts_def)
  obtain calls r where p: "outbound_pipeline NewResponseWriter sample_net (outbound_Main sample_cert sample_cert ''key'' [''hdu'' \<mapsto> ''hdu.example''])
       (MRequest (sample_request ''http'' sample_header)) \<lparr>ch_attachment = None\<rparr> = Inr (calls, [r])"
    using outbound_sends_known [of ?t "sample_request ''http'' sample_header" _ sample_net "NewResponseWriter 1 1"] h k
    by (auto simp: outbound_pipeline_request outbound_Main_def sample_request_def)
  from outbound_request_as_inbound_sees_it [OF p, of r] h p show ?thesis
    by (auto simp: sample_request_def)
qed

end
