(* ===== verification/Go_Base64.thy ===== *)
theory Go_Base64
  imports Go_Prelude
begin

text \<open>
  Base64 with the standard alphabet and padding (package encoding/base64), as the transfer uses it
  for the SSL-Client-Cert header. The decoder is what a backend applies to that header; it shows
  that the encoding loses nothing.
\<close>

definition b64_char :: "nat \<Rightarrow> char" where
  "b64_char n =
     (if n < 26 then char_of (65 + n)
      else if n < 52 then char_of (71 + n)
      else if n < 62 then char_of (n - 4)
      else if n = 62 then CHR ''+'' else CHR ''/'')"

definition b64_val :: "char \<Rightarrow> nat option" where
  "b64_val c =
     (let n = of_char c in
      if 65 \<le> n \<and> n \<le> 90 then Some (n - 65)
      else if 97 \<le> n \<and> n \<le> 122 then Some (n - 71)
      else if 48 \<le> n \<and> n \<le> 57 then Some (n + 4)
      else if n = 43 then Some 62 else if n = 47 then Some 63 else None)"

fun b64_encode :: "string \<Rightarrow> string" where
  "b64_encode [] = []"
| "b64_encode [a] =
     (let x = of_char a in [b64_char (x div 4), b64_char (x mod 4 * 16), CHR ''='', CHR ''=''])"
| "b64_encode [a, b] =
     (let x = of_char a; y = of_char b
      in [b64_char (x div 4), b64_char (x mod 4 * 16 + y div 16), b64_char (y mod 16 * 4), CHR ''=''])"
| "b64_encode (a # b # c # r) =
     (let x = of_char a; y = of_char b; z = of_char c
      in b64_char (x div 4) # b64_char (x mod 4 * 16 + y div 16) #
         b64_char (y mod 16 * 4 + z div 64) # b64_char (z mod 64) # b64_encode r)"

definition quad_bytes :: "nat \<Rightarrow> nat \<Rightarrow> nat \<Rightarrow> nat \<Rightarrow> string" where
  "quad_bytes p q r s =
     [char_of (p * 4 + q div 16), char_of (q mod 16 * 16 + r div 4), char_of (r mod 4 * 64 + s)]"

fun b64_decode :: "string \<Rightarrow> string option" where
  "b64_decode [] = Some []"
| "b64_decode (a # b # c # d # rest) =
     (case (b64_val a, b64_val b) of
        (Some p, Some q) \<Rightarrow>
          if c = CHR ''='' then (if d = CHR ''='' \<and> rest = [] then Some (take 1 (quad_bytes p q 0 0)) else None)
          else (case b64_val c of
                  None \<Rightarrow> None
                | Some r \<Rightarrow>
                    if d = CHR ''='' then (if rest = [] then Some (take 2 (quad_bytes p q r 0)) else None)
                    else (case b64_val d of
                            None \<Rightarrow> None
                          | Some s \<Rightarrow> map_option (append (quad_bytes p q r s)) (b64_decode rest)))
      | _ \<Rightarrow> None)"
| "b64_decode _ = None"

lemma b64_val_char [simp]: "n < 64 \<Longrightarrow> b64_val (b64_char n) = Some n"
  by (auto simp: b64_val_def b64_char_def Let_def)

lemma b64_val_pad [simp]: "b64_val CHR ''='' = None"
  by (simp add: b64_val_def)

lemma b64_char_not_pad [simp]: "n < 64 \<Longrightarrow> b64_char n \<noteq> CHR ''=''"
  using b64_val_char [of n] by (metis b64_val_pad option.distinct(1))

lemma quad_bytes_1:
  assumes "x < 256"
  shows "take 1 (quad_bytes (x div 4) (x mod 4 * 16) 0 0) = [char_of x]"
proof -
  have "x div 4 * 4 + x mod 4 * 16 div 16 = x" by simp
  then show ?thesis by (simp add: quad_bytes_def)
qed

lemma quad_bytes_3:
  assumes "x < 256" "y < 256" "z < 256"
  shows "quad_bytes (x div 4) (x mod 4 * 16 + y div 16) (y mod 16 * 4 + z div 64) (z mod 64) =
    [char_of x, char_of y, char_of z]"
proof -
  have hi: "y div 16 < 16" "z div 64 < 4" using assms by auto
  have "x div 4 * 4 + (x mod 4 * 16 + y div 16) div 16 = x" using hi by simp
  moreover have "(x mod 4 * 16 + y div 16) mod 16 * 16 + (y mod 16 * 4 + z div 64) div 4 = y"
    using hi by simp
  moreover have "(y mod 16 * 4 + z div 64) mod 4 * 64 + z mod 64 = z" using hi by simp
  ultimately show ?thesis unfolding quad_bytes_def by simp
qed

lemma quad_bytes_2:
  assumes "x < 256" "y < 256"
  shows "take 2 (quad_bytes (x div 4) (x mod 4 * 16 + y div 16) (y mod 16 * 4) 0) = [char_of x, char_of y]"
  using quad_bytes_3 [OF assms, of 0] by (simp add: quad_bytes_def)

lemma sextet_bounds:
  fixes x y z :: nat
  assumes "x < 256" "y < 256" "z < 256"
  shows "x div 4 < 64" "x mod 4 * 16 + y div 16 < 64" "y mod 16 * 4 + z div 64 < 64"
    "x mod 4 * 16 < 64" "y mod 16 * 4 < 64" "z mod 64 < 64"
  using assms by (simp, linarith, linarith, linarith, linarith, simp)

lemma b64_decode_encode [simp]: "b64_decode (b64_encode s) = Some s"
proof (induction s rule: b64_encode.induct)
  case (2 a)
  define x :: nat where "x = of_char a"
  have x: "x < 256" and a: "char_of x = a" by (simp_all add: x_def)
  from x sextet_bounds [of x 0 0] quad_bytes_1 [OF x] show ?case
    by (simp add: Let_def a flip: x_def)
next
  case (3 a b)
  define x y :: nat where "x = of_char a" and "y = of_char b"
  have xy: "x < 256" "y < 256" and ab: "char_of x = a" "char_of y = b" by (simp_all add: x_def y_def)
  from xy sextet_bounds [of x y 0] show ?case
    by (simp add: Let_def quad_bytes_2 ab flip: x_def y_def)
next
  case (4 a b c r)
  define x y z :: nat where "x = of_char a" and "y = of_char b" and "z = of_char c"
  have xyz: "x < 256" "y < 256" "z < 256" and abc: "char_of x = a" "char_of y = b" "char_of z = c"
    by (simp_all add: x_def y_def z_def)
  from xyz sextet_bounds [of x y z] 4 show ?case
    by (simp add: Let_def quad_bytes_3 abc flip: x_def y_def z_def)
qed simp

end
