(* ===== verification/Go_Pem.thy ===== *)
theory Go_Pem
  imports Go_Base64 "HOL-Library.Sublist"
begin

text \<open>
  Package encoding/pem, as the certificate manager and the configuration use it: \<open>EncodeToMemory\<close> for
  blocks without headers, and \<open>Decode\<close>, whose second result (the text after the block) every caller
  drops. Of the headers of a block only whether there are any is kept, which is all that decides how
  the block is read.
\<close>

record pem_block =
  pb_Type :: string
  pb_Bytes :: string

abbreviation LF :: char where "LF \<equiv> CHR 0x0A"
abbreviation CR :: char where "CR \<equiv> CHR 0x0D"
abbreviation TAB :: char where "TAB \<equiv> CHR 0x09"

section \<open>Package bytes\<close>

text \<open>\<open>bytes.Cut\<close>: the text before and after the first occurrence of a separator.\<close>

fun bytes_Cut :: "string \<Rightarrow> string \<Rightarrow> (string \<times> string) option" where
  "bytes_Cut sep s =
     (if prefix sep s then Some ('''', drop (length sep) s)
      else (case s of [] \<Rightarrow> None | c # cs \<Rightarrow> map_option (apfst (Cons c)) (bytes_Cut sep cs)))"

declare bytes_Cut.simps [simp del]

lemma bytes_Cut_split: "bytes_Cut sep s = Some (a, b) \<Longrightarrow> s = a @ sep @ b"
proof (induction sep s arbitrary: a rule: bytes_Cut.induct)
  case (1 sep s)
  show ?case
  proof (cases "prefix sep s")
    case True
    with 1(2) show ?thesis by (auto simp: bytes_Cut.simps [of sep s] prefix_def)
  next
    case False
    then obtain c cs where s: "s = c # cs"
      using 1(2) by (cases s) (auto simp: bytes_Cut.simps [of sep "[]"])
    from False 1(2) s obtain a' where "bytes_Cut sep cs = Some (a', b)" "a = c # a'"
      by (auto simp: bytes_Cut.simps [of sep "c # cs"])
    with 1(1) False s show ?thesis by simp
  qed
qed

text \<open>
  A separator whose second byte does not occur in the text before it is found at its first
  occurrence.
\<close>

lemma bytes_Cut_found:
  assumes "d \<notin> set a" "c \<noteq> d"
  shows "bytes_Cut (c # d # sep) (a @ c # d # sep @ b) = Some (a, b)"
  using assms(1)
proof (induction a)
  case Nil
  show ?case by (simp add: bytes_Cut.simps)
next
  case (Cons x a)
  have "\<not> prefix (c # d # sep) ((x # a) @ c # d # sep @ b)"
    using Cons.prems assms(2) by (cases a) auto
  with Cons show ?case by (simp add: bytes_Cut.simps [of _ "x # _"])
qed

section \<open>Lines\<close>

text \<open>
  The first line of a text without the blanks at its end, and the text after it; a carriage return
  counts as part of the line end only before a line feed.
\<close>

definition trim_right :: "string \<Rightarrow> string" where
  "trim_right s = rev (dropWhile (\<lambda>c. c \<in> {CHR '' '', TAB}) (rev s))"

definition get_line :: "string \<Rightarrow> string \<times> string" where
  "get_line s =
     (let line = takeWhile (\<lambda>c. c \<noteq> LF) s; after = dropWhile (\<lambda>c. c \<noteq> LF) s;
          line' = (if after \<noteq> [] \<and> line \<noteq> [] \<and> last line = CR then butlast line else line)
      in (trim_right line', tl after))"

lemma snd_get_line: "snd (get_line s) = tl (dropWhile (\<lambda>c. c \<noteq> LF) s)"
  unfolding get_line_def Let_def by simp

lemma get_line_shrinks_le: "length (snd (get_line s)) \<le> length s"
  using length_dropWhile_le [of "\<lambda>c. c \<noteq> LF" s] unfolding snd_get_line by simp

lemma get_line_shrinks: "s \<noteq> [] \<Longrightarrow> length (snd (get_line s)) < length s"
  using length_dropWhile_le [of "\<lambda>c. c \<noteq> LF" s] length_greater_0_conv [of s]
  unfolding snd_get_line length_tl by linarith

lemma trim_right_id: "s = [] \<or> last s \<notin> {CHR '' '', TAB} \<Longrightarrow> trim_right s = s"
  by (cases s rule: rev_cases) (auto simp: trim_right_def)

lemma get_line_append:
  assumes "LF \<notin> set line" "line = [] \<or> last line \<notin> {CHR '' '', TAB, CR}"
  shows "get_line (line @ LF # rest) = (line, rest)"
proof -
  have "takeWhile (\<lambda>c. c \<noteq> LF) (line @ LF # rest) = line" "dropWhile (\<lambda>c. c \<noteq> LF) (line @ LF # rest) = LF # rest"
    using assms(1) by (induction line) auto
  moreover have "trim_right line = line" using assms(2) by (intro trim_right_id) auto
  moreover have "line \<noteq> [] \<Longrightarrow> last line \<noteq> CR" using assms(2) by auto
  ultimately show ?thesis unfolding get_line_def Let_def by auto
qed

section \<open>Encoding\<close>

text \<open>The line breaker: lines of 64 characters, each with a line feed at its end.\<close>

function break_lines :: "string \<Rightarrow> string" where
  "break_lines s = (if s = [] then [] else take 64 s @ LF # break_lines (drop 64 s))"
  by pat_completeness auto
termination by (relation "measure length") auto

declare break_lines.simps [simp del]

lemma break_lines_Nil [simp]: "break_lines [] = []"
  by (simp add: break_lines.simps)

definition pem_EncodeToMemory :: "pem_block \<Rightarrow> string" where
  "pem_EncodeToMemory b =
     ''-----BEGIN '' @ pb_Type b @ ''-----'' @ [LF] @ break_lines (b64_encode (pb_Bytes b)) @
     ''-----END '' @ pb_Type b @ ''-----'' @ [LF]"

section \<open>Decoding\<close>

text \<open>The end of the next start mark: at the very beginning, or at the beginning of a line.\<close>

definition pem_start :: "string \<Rightarrow> string option" where
  "pem_start rest =
     (if prefix ''-----BEGIN '' rest then Some (drop 11 rest)
      else map_option snd (bytes_Cut (LF # ''-----BEGIN '') rest))"

text \<open>The loop over the lines with a colon; it fails when the text ends.\<close>

function pem_headers :: "bool \<Rightarrow> string \<Rightarrow> (bool \<times> string) option" where
  "pem_headers some rest =
     (if rest = [] then None
      else if CHR '':'' \<in> set (fst (get_line rest)) then pem_headers True (snd (get_line rest))
      else Some (some, rest))"
  by pat_completeness auto
termination by (relation "measure (length \<circ> snd)") (auto intro: get_line_shrinks)

declare pem_headers.simps [simp del]

text \<open>
  What is between the headers and the end mark, and what is after it. Without headers the end mark
  may follow at once.
\<close>

definition pem_cut_end :: "bool \<Rightarrow> string \<Rightarrow> (string \<times> string) option" where
  "pem_cut_end some rest =
     (if \<not> some \<and> prefix ''-----END '' rest then Some ('''', drop 9 rest)
      else bytes_Cut (LF # ''-----END '') rest)"

text \<open>
  The end line has the type of the start line, five hyphens and nothing but blanks after them; then the
  text before it, without blanks and line ends, is decoded.
\<close>

definition pem_end_line_ok :: "string \<Rightarrow> string \<Rightarrow> bool" where
  "pem_end_line_ok typeLine endTrailer \<longleftrightarrow>
     (let endTrailerLen = length typeLine + 5 in
      endTrailerLen \<le> length endTrailer \<and> prefix typeLine (take endTrailerLen endTrailer) \<and>
      suffix ''-----'' (take endTrailerLen endTrailer) \<and> fst (get_line (drop endTrailerLen endTrailer)) = [])"

definition pem_body :: "string \<Rightarrow> bool \<Rightarrow> string \<Rightarrow> string option" where
  "pem_body typeLine some rest =
     (case pem_cut_end some rest of
        None \<Rightarrow> None
      | Some (base64Data, endTrailer) \<Rightarrow>
          if pem_end_line_ok typeLine endTrailer
          then b64_decode (filter (\<lambda>c. c \<notin> {CHR '' '', TAB, CR, LF}) base64Data) else None)"

lemma pem_start_shrinks: "pem_start rest = Some r \<Longrightarrow> length r < length rest"
  by (auto simp: pem_start_def prefix_def split: if_splits dest: bytes_Cut_split)

lemma pem_headers_shrinks: "pem_headers some rest = Some (h, r) \<Longrightarrow> length r \<le> length rest"
proof (induction some rest rule: pem_headers.induct)
  case (1 some rest)
  have "length (snd (get_line rest)) \<le> length rest" by (rule get_line_shrinks_le)
  with 1 show ?case
    by (auto simp: pem_headers.simps [of some rest] split: if_splits)
qed

text \<open>The search: a block that turns out not to be one is passed over.\<close>

function pem_Decode :: "string \<Rightarrow> pem_block option" where
  "pem_Decode rest =
     (case pem_start rest of
        None \<Rightarrow> None
      | Some r \<Rightarrow>
          (let line = fst (get_line r); next = snd (get_line r) in
           if \<not> suffix ''-----'' line then pem_Decode next
           else (let typeLine = take (length line - 5) line in
                 case pem_headers False next of
                   None \<Rightarrow> None
                 | Some (some, body) \<Rightarrow>
                     (case pem_body typeLine some body of
                        None \<Rightarrow> pem_Decode body
                      | Some data \<Rightarrow> Some \<lparr>pb_Type = typeLine, pb_Bytes = data\<rparr>))))"
  by pat_completeness auto
termination
proof (relation "measure length")
  fix rest r line "next"
  assume "pem_start rest = Some r" "line = fst (get_line r)" "next = snd (get_line r)"
  then show "(next, rest) \<in> measure length"
    using pem_start_shrinks [of rest r] get_line_shrinks_le [of r] by simp
next
  fix rest r line "next" typeLine hb some body
  assume "pem_start rest = Some r" "next = snd (get_line r)"
    "pem_headers False next = Some hb" "(some, body) = hb"
  then show "(body, rest) \<in> measure length"
    using pem_start_shrinks [of rest r] get_line_shrinks_le [of r] pem_headers_shrinks [of False "next" some body]
    by auto
qed simp

declare pem_Decode.simps [simp del]

section \<open>What was encoded is decoded\<close>

text \<open>No character of base64 text is a blank, a line end, a colon or a hyphen.\<close>

lemma b64_char_plain:
  "n < 64 \<Longrightarrow> b64_char n \<notin> {CHR '' '', TAB, CR, LF, CHR '':'', CHR ''-''}"
  by (auto simp: b64_char_def dest!: arg_cong [of _ _ "of_char :: char \<Rightarrow> nat"] split: if_splits)

lemma b64_encode_plain:
  "set (b64_encode s) \<inter> {CHR '' '', TAB, CR, LF, CHR '':'', CHR ''-''} = {}"
proof (induction s rule: b64_encode.induct)
  case (2 a)
  have "of_char a < (256 :: nat)" by simp
  from sextet_bounds [OF this this this] show ?case using b64_char_plain by (simp add: Let_def)
next
  case (3 a b)
  have "of_char a < (256 :: nat)" "of_char b < (256 :: nat)" by simp_all
  from sextet_bounds [OF this(1,2,2)] show ?case using b64_char_plain by (simp add: Let_def)
next
  case (4 a b c r)
  have "of_char a < (256 :: nat)" "of_char b < (256 :: nat)" "of_char c < (256 :: nat)" by simp_all
  from sextet_bounds [OF this] 4 show ?case using b64_char_plain by (simp add: Let_def)
qed simp

lemma set_break_lines: "set (break_lines s) \<subseteq> insert LF (set s)"
proof (induction s rule: break_lines.induct)
  case (1 s)
  then show ?case
    by (cases "s = []") (auto simp: break_lines.simps [of s] dest: in_set_takeD in_set_dropD)
qed

lemma filter_break_lines:
  "(\<And>c. c \<in> set s \<Longrightarrow> P c) \<Longrightarrow> \<not> P LF \<Longrightarrow> filter P (break_lines s) = s"
proof (induction s rule: break_lines.induct)
  case (1 s)
  show ?case
  proof (cases "s = []")
    case False
    have "filter P (take 64 s) = take 64 s" using 1(2) by (auto simp: filter_id_conv dest: in_set_takeD)
    moreover have "filter P (break_lines (drop 64 s)) = drop 64 s"
      using 1 False by (auto dest: in_set_dropD)
    ultimately show ?thesis using False 1(3) by (simp add: break_lines.simps [of s])
  qed (simp add: break_lines.simps)
qed

lemma break_lines_last: "s \<noteq> [] \<Longrightarrow> \<exists>t. break_lines s = t @ [LF]"
proof (induction s rule: break_lines.induct)
  case (1 s)
  show ?case
  proof (cases "drop 64 s = []")
    case True
    with 1(2) show ?thesis by (simp add: break_lines.simps [of s])
  next
    case False
    from 1(1) [OF 1(2) False] obtain t where "break_lines (drop 64 s) = t @ [LF]" ..
    with 1(2) show ?thesis by (simp add: break_lines.simps [of s])
  qed
qed

lemma break_lines_first:
  "s \<noteq> [] \<Longrightarrow> \<exists>line rest. break_lines s = line @ LF # rest \<and> line \<noteq> [] \<and> set line \<subseteq> set s"
  by (intro exI [of _ "take 64 s"] exI [of _ "break_lines (drop 64 s)"])
    (auto simp: break_lines.simps [of s] dest: in_set_takeD)

text \<open>The lines of a block, with what comes after it.\<close>

lemma pem_end_line_ok_encoded:
  "pem_end_line_ok t (t @ ''-----'' @ LF # post)"
proof -
  have "get_line (LF # post) = ([], post)" using get_line_append [of "[]"] by simp
  then show ?thesis by (simp add: pem_end_line_ok_def Let_def suffix_def)
qed

lemma pem_body_encoded:
  "pem_body t False (break_lines (b64_encode b) @ ''-----END '' @ t @ ''-----'' @ LF # post) = Some b"
proof -
  let ?keep = "\<lambda>c. c \<notin> {CHR '' '', TAB, CR, LF}"
  let ?b = "break_lines (b64_encode b)"
  have f: "filter ?keep ?b = b64_encode b"
    using b64_encode_plain [of b] by (intro filter_break_lines) auto
  have "\<exists>d64. pem_cut_end False (?b @ ''-----END '' @ t @ ''-----'' @ LF # post) =
      Some (d64, t @ ''-----'' @ LF # post) \<and> filter ?keep d64 = b64_encode b"
  proof (cases "b64_encode b = []")
    case True
    then show ?thesis by (simp add: pem_cut_end_def)
  next
    case False
    obtain d64 where d64: "?b = d64 @ [LF]" using break_lines_last [OF False] ..
    have "set d64 \<subseteq> insert LF (set (b64_encode b))" using set_break_lines [of "b64_encode b"] d64 by auto
    then have hy: "CHR ''-'' \<notin> set d64" using b64_encode_plain [of b] by auto
    have "\<not> prefix ''-----END '' (?b @ ''-----END '' @ t @ ''-----'' @ LF # post)"
      using hy d64 by (cases d64) auto
    moreover have "bytes_Cut (LF # ''-----END '') (d64 @ LF # ''-----END '' @ t @ ''-----'' @ LF # post) =
        Some (d64, t @ ''-----'' @ LF # post)"
      using bytes_Cut_found [OF hy, of LF "''----END ''"] by simp
    ultimately show ?thesis using f d64 by (auto simp: pem_cut_end_def)
  qed
  then show ?thesis using pem_end_line_ok_encoded [of t post] by (auto simp: pem_body_def)
qed

lemma pem_headers_encoded:
  assumes "CHR '':'' \<notin> set t" "LF \<notin> set t"
  shows "pem_headers False (break_lines (b64_encode b) @ ''-----END '' @ t @ ''-----'' @ LF # post) =
    Some (False, break_lines (b64_encode b) @ ''-----END '' @ t @ ''-----'' @ LF # post)"
proof (cases "b64_encode b = []")
  case True
  have "get_line ((''-----END '' @ t @ ''-----'') @ LF # post) = (''-----END '' @ t @ ''-----'', post)"
    using assms(2) by (intro get_line_append) auto
  with True assms(1) show ?thesis
    by (simp add: pem_headers.simps [of False "CHR ''-'' # _"])
next
  case False
  obtain line rest where l: "break_lines (b64_encode b) = line @ LF # rest" "line \<noteq> []" "set line \<subseteq> set (b64_encode b)"
    using break_lines_first [OF False] by blast
  have "last line \<in> set (b64_encode b)" using l(2,3) last_in_set by blast
  then have "get_line (line @ LF # rest @ ''-----END '' @ t @ ''-----'' @ LF # post) =
      (line, rest @ ''-----END '' @ t @ ''-----'' @ LF # post)"
    using l(3) b64_encode_plain [of b] by (intro get_line_append) auto
  moreover have "CHR '':'' \<notin> set line" using l(3) b64_encode_plain [of b] by auto
  ultimately show ?thesis using l(1) by (simp add: pem_headers.simps [of False "line @ _"])
qed

text \<open>
  The first block of a text is found after any text without a hyphen that ends its line, and nothing
  after the block matters.
\<close>

theorem pem_Decode_first:
  assumes "CHR '':'' \<notin> set t" "LF \<notin> set t" and "pre = [] \<or> (\<exists>p. pre = p @ [LF] \<and> CHR ''-'' \<notin> set p)"
  shows "pem_Decode (pre @ pem_EncodeToMemory \<lparr>pb_Type = t, pb_Bytes = b\<rparr> @ post) =
    Some \<lparr>pb_Type = t, pb_Bytes = b\<rparr>"
proof -
  let ?body = "break_lines (b64_encode b) @ ''-----END '' @ t @ ''-----'' @ LF # post"
  let ?r = "(t @ ''-----'') @ LF # ?body"
  have e: "pem_EncodeToMemory \<lparr>pb_Type = t, pb_Bytes = b\<rparr> @ post = ''-----BEGIN '' @ ?r"
    by (simp add: pem_EncodeToMemory_def)
  have "pem_start (pre @ ''-----BEGIN '' @ ?r) = Some ?r"
    using assms(3)
  proof
    assume "\<exists>p. pre = p @ [LF] \<and> CHR ''-'' \<notin> set p"
    then obtain p where p: "pre = p @ [LF]" "CHR ''-'' \<notin> set p" by blast
    have "\<not> prefix ''-----BEGIN '' (pre @ ''-----BEGIN '' @ ?r)" using p by (cases p) auto
    with p show ?thesis
      using bytes_Cut_found [OF p(2), of LF "''----BEGIN ''" ?r] by (simp add: pem_start_def)
  qed (simp add: pem_start_def)
  moreover have "get_line ?r = (t @ ''-----'', ?body)"
    using assms(2) by (intro get_line_append) auto
  ultimately show ?thesis
    unfolding e pem_Decode.simps [of "pre @ _"]
    using pem_headers_encoded [OF assms(1,2)] pem_body_encoded by (simp add: Let_def suffix_def)
qed

corollary pem_Decode_Encode:
  assumes "CHR '':'' \<notin> set t" "LF \<notin> set t"
  shows "pem_Decode (pem_EncodeToMemory \<lparr>pb_Type = t, pb_Bytes = b\<rparr>) = Some \<lparr>pb_Type = t, pb_Bytes = b\<rparr>"
  using pem_Decode_first [OF assms, of "[]" b "[]"] by simp

end
