(* ===== verification/Cert_Manager.thy ===== *)
theory Cert_Manager
  imports Trust_Center Tls_Config Go_Pem
begin

text \<open>
  Package cert_manager: reading certificates and keys from PEM text and files, writing them, and
  making new certificates. PEM text is that of \<open>Go_Pem\<close>; crypto/x509 and crypto/rsa, the file system,
  the clock and the random serial number are parameters. A function of the sources that panics on an
  error gives the panic as a value.
\<close>

section \<open>Names in certificates\<close>

text \<open>
  The name that a template is given (crypto/x509/pkix, Name), on top of the part that the trust center
  reads, and how it travels: ToRDNSequence lists its attributes, one set for the values of a field and
  one for each extra name, which replaces the field of its type; a parsed certificate has the name that
  FillFromRDNSequence collects. An extra name may have a value that is no string (\<^const>\<open>None\<close>).
\<close>

type_synonym attribute = "nat list \<times> string option"

record template_name = pkix_name +
  tn_Country :: "string list"
  tn_Locality :: "string list"
  tn_Province :: "string list"
  tn_StreetAddress :: "string list"
  tn_PostalCode :: "string list"
  tn_SerialNumber :: string
  tn_ExtraNames :: "attribute list"

abbreviation oidCommonName :: "nat list" where "oidCommonName \<equiv> [2, 5, 4, 3]"
abbreviation oidSerialNumber :: "nat list" where "oidSerialNumber \<equiv> [2, 5, 4, 5]"
abbreviation oidCountry :: "nat list" where "oidCountry \<equiv> [2, 5, 4, 6]"
abbreviation oidLocality :: "nat list" where "oidLocality \<equiv> [2, 5, 4, 7]"
abbreviation oidProvince :: "nat list" where "oidProvince \<equiv> [2, 5, 4, 8]"
abbreviation oidStreetAddress :: "nat list" where "oidStreetAddress \<equiv> [2, 5, 4, 9]"
abbreviation oidOrganization :: "nat list" where "oidOrganization \<equiv> [2, 5, 4, 10]"
abbreviation oidOrganizationalUnit :: "nat list" where "oidOrganizationalUnit \<equiv> [2, 5, 4, 11]"
abbreviation oidPostalCode :: "nat list" where "oidPostalCode \<equiv> [2, 5, 4, 17]"

definition appendRDNs :: "attribute list \<Rightarrow> string list \<Rightarrow> nat list \<Rightarrow> attribute list list" where
  "appendRDNs extraNames values oid =
     (if values = [] \<or> oid \<in> fst ` set extraNames then [] else [map (\<lambda>v. (oid, Some v)) values])"

definition ToRDNSequence :: "template_name \<Rightarrow> attribute list list" where
  "ToRDNSequence n =
     (let rdns = appendRDNs (tn_ExtraNames n); one = (\<lambda>v. if v = '''' then [] else [v])
      in rdns (tn_Country n) oidCountry @ rdns (pn_Organization n) oidOrganization @
         rdns (pn_OrganizationalUnit n) oidOrganizationalUnit @ rdns (tn_Locality n) oidLocality @
         rdns (tn_Province n) oidProvince @ rdns (tn_StreetAddress n) oidStreetAddress @
         rdns (tn_PostalCode n) oidPostalCode @ rdns (one (pn_CommonName n)) oidCommonName @
         rdns (one (tn_SerialNumber n)) oidSerialNumber @ map (\<lambda>a. [a]) (tn_ExtraNames n))"

definition fill_attribute :: "attribute \<Rightarrow> pkix_name \<Rightarrow> pkix_name" where
  "fill_attribute a n =
     (case a of
        (oid, Some v) \<Rightarrow>
          if oid = oidCommonName then n\<lparr>pn_CommonName := v\<rparr>
          else if oid = oidOrganization then n\<lparr>pn_Organization := pn_Organization n @ [v]\<rparr>
          else if oid = oidOrganizationalUnit then n\<lparr>pn_OrganizationalUnit := pn_OrganizationalUnit n @ [v]\<rparr>
          else n
      | (oid, None) \<Rightarrow> n)"

definition empty_name :: pkix_name where
  "empty_name = \<lparr>pn_Organization = [], pn_OrganizationalUnit = [], pn_CommonName = ''''\<rparr>"

definition FillFromRDNSequence :: "attribute list list \<Rightarrow> pkix_name" where
  "FillFromRDNSequence rdns = fold fill_attribute (concat rdns) empty_name"

text \<open>The values that a sequence of attributes has for one type.\<close>

definition attribute_values :: "nat list \<Rightarrow> attribute list \<Rightarrow> string list" where
  "attribute_values oid as = map (\<lambda>a. the (snd a)) (filter (\<lambda>a. fst a = oid \<and> snd a \<noteq> None) as)"

lemma attribute_values_simps [simp]:
  "attribute_values oid [] = []"
  "attribute_values oid (as @ bs) = attribute_values oid as @ attribute_values oid bs"
  "attribute_values oid (map (\<lambda>v. (oid', Some v)) vs) = (if oid = oid' then vs else [])"
  "oid \<notin> fst ` set as \<Longrightarrow> attribute_values oid as = []"
  by (auto simp: attribute_values_def filter_map comp_def filter_empty_conv)

lemma attribute_values_appendRDNs:
  "attribute_values oid (concat (appendRDNs extra vs oid')) =
     (if oid = oid' \<and> oid \<notin> fst ` set extra then vs else [])"
  by (auto simp: appendRDNs_def)

lemma concat_singletons: "concat (map (\<lambda>a. [a]) xs) = xs"
  by (induction xs) simp_all

lemma attribute_values_template:
  assumes "oid \<notin> fst ` set (tn_ExtraNames n)"
  shows "oid = oidOrganizationalUnit \<Longrightarrow>
      attribute_values oid (concat (ToRDNSequence n)) = pn_OrganizationalUnit n"
    and "oid = oidCommonName \<Longrightarrow>
      attribute_values oid (concat (ToRDNSequence n)) = (if pn_CommonName n = '''' then [] else [pn_CommonName n])"
    and "oid = oidOrganization \<Longrightarrow>
      attribute_values oid (concat (ToRDNSequence n)) = pn_Organization n"
  using assms by (auto simp: ToRDNSequence_def Let_def attribute_values_appendRDNs concat_singletons)

lemma fill_attributes:
  "pn_OrganizationalUnit (fold fill_attribute as n) =
     pn_OrganizationalUnit n @ attribute_values oidOrganizationalUnit as"
  "pn_Organization (fold fill_attribute as n) = pn_Organization n @ attribute_values oidOrganization as"
  "pn_CommonName (fold fill_attribute as n) = last (pn_CommonName n # attribute_values oidCommonName as)"
  by (induction as arbitrary: n)
    (auto simp: fill_attribute_def attribute_values_def split: option.split)

lemma mset_concat_list_all2:
  "list_all2 (\<lambda>r r'. mset r = mset r') xs ys \<Longrightarrow> mset (concat xs) = mset (concat ys)"
  by (induction rule: list_all2_induct) simp_all

lemma mset_attribute_values:
  "mset as = mset bs \<Longrightarrow> mset (attribute_values oid as) = mset (attribute_values oid bs)"
  by (simp add: attribute_values_def)

lemma mset_single_list: "mset xs = mset [x] \<Longrightarrow> xs = [x]"
  by (metis mset_single_iff_right mset.simps(1,2))

text \<open>Reordered within its sets, the template's name keeps its common name and its set of units.\<close>

lemma FillFromRDNSequence_reordered:
  assumes "list_all2 (\<lambda>r r'. mset r = mset r') (ToRDNSequence n) rdns"
    and "oidCommonName \<notin> fst ` set (tn_ExtraNames n)" "oidOrganizationalUnit \<notin> fst ` set (tn_ExtraNames n)"
  shows "pn_CommonName (FillFromRDNSequence rdns) = pn_CommonName n"
    and "mset (pn_OrganizationalUnit (FillFromRDNSequence rdns)) = mset (pn_OrganizationalUnit n)"
proof -
  have m: "mset (attribute_values oid (concat rdns)) = mset (attribute_values oid (concat (ToRDNSequence n)))" for oid
    using mset_attribute_values [OF mset_concat_list_all2 [OF assms(1)]] by simp
  show "mset (pn_OrganizationalUnit (FillFromRDNSequence rdns)) = mset (pn_OrganizationalUnit n)"
    using m [of oidOrganizationalUnit] attribute_values_template(1) [OF assms(3) refl]
    by (simp add: FillFromRDNSequence_def fill_attributes empty_name_def)
  have "attribute_values oidCommonName (concat rdns) = (if pn_CommonName n = '''' then [] else [pn_CommonName n])"
    using m [of oidCommonName] attribute_values_template(2) [OF assms(2) refl]
    by (auto dest: mset_single_list)
  then show "pn_CommonName (FillFromRDNSequence rdns) = pn_CommonName n"
    by (simp add: FillFromRDNSequence_def fill_attributes empty_name_def)
qed

lemma FillFromRDNSequence_plain:
  assumes "tn_ExtraNames n = []"
  shows "FillFromRDNSequence (ToRDNSequence n) =
    \<lparr>pn_Organization = pn_Organization n, pn_OrganizationalUnit = pn_OrganizationalUnit n,
     pn_CommonName = pn_CommonName n\<rparr>"
  using attribute_values_template [of _ n] assms
  by (intro pkix_name.equality)
    (simp_all add: FillFromRDNSequence_def fill_attributes empty_name_def)

section \<open>Keys, templates and the library\<close>

datatype private_key =
    RSAPrivateKey rsa_key
  | OtherPrivateKey

text \<open>The template of a certificate, with the fields that the code sets to other than the zero value.\<close>

record cert_template =
  tp_SerialNumber :: int
  tp_Issuer :: pkix_name
  tp_Subject :: template_name
  tp_NotBefore :: int
  tp_NotAfter :: int
  tp_ExtKeyUsage :: "string list"
  tp_BasicConstraintsValid :: bool
  tp_IsCA :: bool
  tp_DNSNames :: "string list"

text \<open>The parent that x509.CreateCertificate is called with: nothing, the template itself or a certificate.\<close>

datatype cert_parent =
    NilParent
  | TemplateItself
  | ParentCert certificate

record x509_lib =
  xl_ParseCertificate :: "string \<Rightarrow> go_error + certificate"
  xl_ParsePKCS8PrivateKey :: "string \<Rightarrow> go_error + private_key"
  xl_ParsePKCS1PrivateKey :: "string \<Rightarrow> go_error + rsa_key"
  xl_MarshalPKCS8PrivateKey :: "rsa_key \<Rightarrow> go_error + string"
  xl_CreateCertificate :: "cert_template \<Rightarrow> cert_parent \<Rightarrow> string \<Rightarrow> rsa_key option \<Rightarrow> (go_error + string) go"
  xl_PublicKey :: "rsa_key \<Rightarrow> string"

definition panic_on :: "go_error + 'a \<Rightarrow> 'a go" where
  "panic_on r = (case r of Inl err \<Rightarrow> Inl (PanicWith err) | Inr x \<Rightarrow> Inr x)"

lemma panic_on_simps [simp, go_simps]:
  "panic_on (Inl err) = Inl (PanicWith err)" "panic_on (Inr x) = Inr x"
  by (simp_all add: panic_on_def)

lemma panic_on_Inr [simp]: "panic_on r = Inr x \<longleftrightarrow> r = Inr x"
  by (cases r) simp_all

section \<open>Reading and writing\<close>

definition ReadSingleDerFromPEMData :: "string \<Rightarrow> string go" where
  "ReadSingleDerFromPEMData fileData =
     go_bind (go_deref (pem_Decode fileData)) (\<lambda>pemBlock. Inr (pb_Bytes pemBlock))"

definition ReadSingleDerFromPEMFile :: "(string \<Rightarrow> go_error + string) \<Rightarrow> string \<Rightarrow> string go" where
  "ReadSingleDerFromPEMFile readFile fileName =
     go_bind (panic_on (readFile fileName)) ReadSingleDerFromPEMData"

definition ParseX509CertificateFromData :: "x509_lib \<Rightarrow> string \<Rightarrow> certificate go" where
  "ParseX509CertificateFromData xl data =
     go_bind (ReadSingleDerFromPEMData data) (\<lambda>certDer. panic_on (xl_ParseCertificate xl certDer))"

definition ParseX509CertificateFromFile ::
    "x509_lib \<Rightarrow> (string \<Rightarrow> go_error + string) \<Rightarrow> string \<Rightarrow> certificate go" where
  "ParseX509CertificateFromFile xl readFile fileName =
     go_bind (ReadSingleDerFromPEMFile readFile fileName) (\<lambda>der. panic_on (xl_ParseCertificate xl der))"

definition assert_rsa :: "private_key \<Rightarrow> rsa_key go" where
  "assert_rsa k = (case k of RSAPrivateKey r \<Rightarrow> Inr r | OtherPrivateKey \<Rightarrow> Inl BadTypeAssertion)"

definition ParsePKCS8PEMPrivateKeyFromData :: "x509_lib \<Rightarrow> string \<Rightarrow> rsa_key go" where
  "ParsePKCS8PEMPrivateKeyFromData xl fileData =
     go_bind (ReadSingleDerFromPEMData fileData) (\<lambda>der.
       go_bind (panic_on (xl_ParsePKCS8PrivateKey xl der)) assert_rsa)"

definition ParsePKCS8PEMPrivateKeyFromFile ::
    "x509_lib \<Rightarrow> (string \<Rightarrow> go_error + string) \<Rightarrow> string \<Rightarrow> rsa_key go" where
  "ParsePKCS8PEMPrivateKeyFromFile xl readFile fileName =
     go_bind (ReadSingleDerFromPEMFile readFile fileName) (\<lambda>der.
       go_bind (panic_on (xl_ParsePKCS8PrivateKey xl der)) assert_rsa)"

definition ParsePEMPrivateKeyFromFile ::
    "x509_lib \<Rightarrow> (string \<Rightarrow> go_error + string) \<Rightarrow> string \<Rightarrow> rsa_key go" where
  "ParsePEMPrivateKeyFromFile xl readFile fileName =
     go_bind (ReadSingleDerFromPEMFile readFile fileName) (\<lambda>der.
       panic_on (xl_ParsePKCS1PrivateKey xl der))"

definition MarshalRSAPrivateKeyUsingPKCS8PEM :: "x509_lib \<Rightarrow> rsa_key \<Rightarrow> string go" where
  "MarshalRSAPrivateKeyUsingPKCS8PEM xl privateKey =
     go_bind (panic_on (xl_MarshalPKCS8PrivateKey xl privateKey)) (\<lambda>der.
       Inr (pem_EncodeToMemory \<lparr>pb_Type = ''PRIVATE KEY'', pb_Bytes = der\<rparr>))"

definition MarshalCertificateDerUsingPEM :: "string \<Rightarrow> string" where
  "MarshalCertificateDerUsingPEM der = pem_EncodeToMemory \<lparr>pb_Type = ''CERTIFICATE'', pb_Bytes = der\<rparr>"

section \<open>Making certificates\<close>

text \<open>
  The world gives the serial number, the two readings of the clock (the second one a year later) and
  the new key or an error. A pointer to a parent is \<^const>\<open>None\<close> when it is nil.
\<close>

record cert_world =
  cw_serial :: int
  cw_now :: int
  cw_nextYear :: int
  cw_GenerateKey :: "go_error + rsa_key"

definition certificate_template ::
    "cert_world \<Rightarrow> template_name \<Rightarrow> bool \<Rightarrow> certificate option \<Rightarrow> string list \<Rightarrow> cert_template" where
  "certificate_template cw subject willHaveChildren parentCert dnsNames =
     \<lparr>tp_SerialNumber = cw_serial cw,
      tp_Issuer = (case parentCert of
                     None \<Rightarrow> empty_name
                   | Some p \<Rightarrow> ct_Subject p),
      tp_Subject = subject, tp_NotBefore = cw_now cw, tp_NotAfter = cw_nextYear cw,
      tp_ExtKeyUsage = [''ServerAuth'', ''ClientAuth''],
      tp_BasicConstraintsValid = True, tp_IsCA = (parentCert = None \<or> willHaveChildren),
      tp_DNSNames = dnsNames\<rparr>"

text \<open>Without a parent and its key the certificate is its own parent, signed with the new key.\<close>

definition signing_parent :: "certificate option \<Rightarrow> rsa_key option \<Rightarrow> rsa_key \<Rightarrow> cert_parent \<times> rsa_key option" where
  "signing_parent parentCert parentKey privateKey =
     (if parentCert = None \<and> parentKey = None then (TemplateItself, Some privateKey)
      else ((case parentCert of None \<Rightarrow> NilParent | Some p \<Rightarrow> ParentCert p), parentKey))"

definition GenerateTLSCertificate ::
    "x509_lib \<Rightarrow> cert_world \<Rightarrow> template_name \<Rightarrow> bool \<Rightarrow> certificate option \<Rightarrow> rsa_key option \<Rightarrow> string list \<Rightarrow>
     (go_error + string \<times> rsa_key) go" where
  "GenerateTLSCertificate xl cw subject willHaveChildren parentCert parentKey dnsNames =
     (let cert = certificate_template cw subject willHaveChildren parentCert dnsNames
      in case cw_GenerateKey cw of
           Inl err \<Rightarrow> Inr (Inl (errors_Wrap err ''generate RSA key''))
         | Inr privateKey \<Rightarrow>
             (let (parent, signer) = signing_parent parentCert parentKey privateKey
              in go_bind (xl_CreateCertificate xl cert parent (xl_PublicKey xl privateKey) signer) (\<lambda>res.
                   case res of
                     Inl err \<Rightarrow> Inr (Inl (errors_Wrap err ''create certificate''))
                   | Inr certDer \<Rightarrow> Inr (Inr (certDer, privateKey)))))"

section \<open>Properties\<close>

text \<open>
  What is relied on. The bytes of a certificate that was created, when they parse, parse to themselves
  with the given public key and a name that is collected from the template's attributes; within a set the
  encoding orders the attributes anew (X.690, SET OF). A key that was marshalled is parsed back.
\<close>

definition x509_lawful :: "x509_lib \<Rightarrow> bool" where
  "x509_lawful xl \<longleftrightarrow>
     (\<forall>tmpl parent pub signer der cert.
        xl_CreateCertificate xl tmpl parent pub signer = Inr (Inr der) \<longrightarrow> xl_ParseCertificate xl der = Inr cert \<longrightarrow>
        ct_Raw cert = der \<and> ct_PublicKey cert = pub \<and>
        (\<exists>rdns. list_all2 (\<lambda>r r'. mset r = mset r') (ToRDNSequence (tp_Subject tmpl)) rdns \<and>
           ct_Subject cert = FillFromRDNSequence rdns)) \<and>
     (\<forall>k der. xl_MarshalPKCS8PrivateKey xl k = Inr der \<longrightarrow>
        xl_ParsePKCS8PrivateKey xl der = Inr (RSAPrivateKey k))"

lemma x509_lawfulD:
  assumes "x509_lawful xl"
  shows "xl_CreateCertificate xl tmpl parent pub signer = Inr (Inr der) \<Longrightarrow> xl_ParseCertificate xl der = Inr cert \<Longrightarrow>
      ct_Raw cert = der \<and> ct_PublicKey cert = pub \<and>
      (\<exists>rdns. list_all2 (\<lambda>r r'. mset r = mset r') (ToRDNSequence (tp_Subject tmpl)) rdns \<and>
         ct_Subject cert = FillFromRDNSequence rdns)"
    and "xl_MarshalPKCS8PrivateKey xl k = Inr der' \<Longrightarrow> xl_ParsePKCS8PrivateKey xl der' = Inr (RSAPrivateKey k)"
  using assms unfolding x509_lawful_def by blast+

text \<open>Reading the DER bytes of a PEM text: of its first block, whatever the type and what follows.\<close>

lemma ReadSingleDer_first:
  assumes "CHR '':'' \<notin> set t" "LF \<notin> set t" and "pre = [] \<or> (\<exists>p. pre = p @ [LF] \<and> CHR ''-'' \<notin> set p)"
  shows "ReadSingleDerFromPEMData (pre @ pem_EncodeToMemory \<lparr>pb_Type = t, pb_Bytes = der\<rparr> @ post) = Inr der"
  using pem_Decode_first [OF assms] by (simp add: ReadSingleDerFromPEMData_def)

lemma ReadSingleDer_Encode [simp]:
  "CHR '':'' \<notin> set t \<Longrightarrow> LF \<notin> set t \<Longrightarrow>
   ReadSingleDerFromPEMData (pem_EncodeToMemory \<lparr>pb_Type = t, pb_Bytes = der\<rparr>) = Inr der"
  using pem_Decode_Encode by (simp add: ReadSingleDerFromPEMData_def)

lemma ReadSingleDer_no_block:
  assumes "\<nexists>a b. data = a @ ''-----BEGIN '' @ b"
  shows "ReadSingleDerFromPEMData data = Inl NilDereference"
proof -
  have "bytes_Cut (LF # ''-----BEGIN '') data = None"
  proof (rule ccontr)
    assume "bytes_Cut (LF # ''-----BEGIN '') data \<noteq> None"
    then obtain a b where "bytes_Cut (LF # ''-----BEGIN '') data = Some (a, b)" by auto
    then have "data = (a @ [LF]) @ ''-----BEGIN '' @ b" by (auto dest: bytes_Cut_split)
    with assms show False by blast
  qed
  moreover have "\<not> prefix ''-----BEGIN '' data" using assms by (metis append_Nil prefixE)
  ultimately have "pem_start data = None" by (simp add: pem_start_def)
  then show ?thesis by (simp add: ReadSingleDerFromPEMData_def pem_Decode.simps [of data])
qed

lemma GenerateTLSCertificate_created:
  assumes "GenerateTLSCertificate xl cw subject ch parent parentKey dns = Inr (Inr (der, key))"
  obtains p signer where
    "xl_CreateCertificate xl (certificate_template cw subject ch parent dns) p (xl_PublicKey xl key) signer = Inr (Inr der)"
    "cw_GenerateKey cw = Inr key"
proof -
  obtain k where k: "cw_GenerateKey cw = Inr k"
    using assms by (cases "cw_GenerateKey cw") (auto simp: GenerateTLSCertificate_def)
  obtain p signer where p: "signing_parent parent parentKey k = (p, signer)" by fastforce
  let ?create = "xl_CreateCertificate xl (certificate_template cw subject ch parent dns) p (xl_PublicKey xl k) signer"
  obtain res where res: "?create = Inr res"
    using assms k p by (auto simp: GenerateTLSCertificate_def Let_def go_bind_eq_Inr_iff)
  with assms k p that show thesis by (cases res) (auto simp: GenerateTLSCertificate_def Let_def)
qed

text \<open>
  C36. The life of a certificate. A certificate and a key that GenerateTLSCertificate made, written as
  PEM text and read back as the sidecar reads its configuration, give exactly the key and, if the
  certificate parses at all, a certificate for the new key with the bytes that were made; its identity
  in the trust center has the common name of the subject it was made for as the service and one of the
  subject's organizational units as the deployment: the only one when there is one; which one of several
  is left to the encoding, which sorts them. (The subject's extra names must not replace these two
  fields.) The PEM text is the one that encoding/pem writes, with its line breaks and base64.
\<close>

theorem generated_certificate_identity:
  assumes "x509_lawful xl"
    and "GenerateTLSCertificate xl cw subject ch parent parentKey dns = Inr (Inr (der, key))"
    and "pn_OrganizationalUnit subject \<noteq> []"
    and "oidCommonName \<notin> fst ` set (tn_ExtraNames subject)" "oidOrganizationalUnit \<notin> fst ` set (tn_ExtraNames subject)"
    and "xl_ParseCertificate xl der = Inr cert"
    and "MarshalRSAPrivateKeyUsingPKCS8PEM xl key = Inr keyPem"
  shows "ParseX509CertificateFromData xl (MarshalCertificateDerUsingPEM der) = Inr cert \<and>
    ct_Raw cert = der \<and> ct_PublicKey cert = xl_PublicKey xl key \<and>
    (\<exists>d. NewServiceCertificate cert =
        Inr (Inr \<lparr>ts_ServiceID = pn_CommonName subject, ts_DeployID = d, ts_Certificate = cert\<rparr>) \<and>
      d \<in> set (pn_OrganizationalUnit subject) \<and> (\<forall>u. pn_OrganizationalUnit subject = [u] \<longrightarrow> d = u)) \<and>
    ParsePKCS8PEMPrivateKeyFromData xl keyPem = Inr key"
proof -
  note law = x509_lawfulD [OF assms(1)]
  obtain p signer where "xl_CreateCertificate xl (certificate_template cw subject ch parent dns) p
      (xl_PublicKey xl key) signer = Inr (Inr der)"
    using assms(2) by (rule GenerateTLSCertificate_created)
  from law(1) [OF this assms(6)] obtain rdns where c: "ct_Raw cert = der" "ct_PublicKey cert = xl_PublicKey xl key"
    "list_all2 (\<lambda>r r'. mset r = mset r') (ToRDNSequence subject) rdns" "ct_Subject cert = FillFromRDNSequence rdns"
    by (auto simp: certificate_template_def)
  note name = FillFromRDNSequence_reordered [OF c(3) assms(4,5), folded c(4)]
  obtain d ds where d: "pn_OrganizationalUnit (ct_Subject cert) = d # ds"
    using name(2) assms(3) by (cases "pn_OrganizationalUnit (ct_Subject cert)") auto
  have "d \<in> set (pn_OrganizationalUnit subject)"
    using mset_eq_setD [OF name(2)] d by auto
  moreover have "d = u" if "pn_OrganizationalUnit subject = [u]" for u
    using mset_single_list [of "d # ds" u] name(2) d that by simp
  ultimately have "\<exists>d. NewServiceCertificate cert =
        Inr (Inr \<lparr>ts_ServiceID = pn_CommonName subject, ts_DeployID = d, ts_Certificate = cert\<rparr>) \<and>
      d \<in> set (pn_OrganizationalUnit subject) \<and> (\<forall>u. pn_OrganizationalUnit subject = [u] \<longrightarrow> d = u)"
    using name(1) d by (intro exI [of _ d]) (simp add: NewServiceCertificate_def Let_def)
  moreover have "ParseX509CertificateFromData xl (MarshalCertificateDerUsingPEM der) = Inr cert"
    using assms(6) by (simp add: ParseX509CertificateFromData_def MarshalCertificateDerUsingPEM_def)
  moreover obtain kder where "xl_MarshalPKCS8PrivateKey xl key = Inr kder"
    "keyPem = pem_EncodeToMemory \<lparr>pb_Type = ''PRIVATE KEY'', pb_Bytes = kder\<rparr>"
    using assms(7) by (auto simp: MarshalRSAPrivateKeyUsingPKCS8PEM_def go_bind_eq_Inr_iff)
  moreover from this have "ParsePKCS8PEMPrivateKeyFromData xl keyPem = Inr key"
    by (simp add: ParsePKCS8PEMPrivateKeyFromData_def law(2) assert_rsa_def)
  ultimately show ?thesis using c by simp
qed

definition toy_subject :: pkix_name where
  "toy_subject = \<lparr>pn_Organization = [''JianLi''], pn_OrganizationalUnit = [''center''], pn_CommonName = ''company''\<rparr>"

text \<open>A library for certificates that all have one subject.\<close>

definition toy_x509 :: x509_lib where
  "toy_x509 = \<lparr>
     xl_ParseCertificate = (\<lambda>der. Inr \<lparr>ct_Raw = der, ct_Subject = toy_subject, ct_PublicKey = der\<rparr>),
     xl_ParsePKCS8PrivateKey = (\<lambda>der. Inr (RSAPrivateKey der)),
     xl_ParsePKCS1PrivateKey = (\<lambda>der. Inr der),
     xl_MarshalPKCS8PrivateKey = (\<lambda>k. Inr k),
     xl_CreateCertificate = (\<lambda>t p pub signer. Inr (Inl ''unsupported'')),
     xl_PublicKey = (\<lambda>k. ''pub-'' @ k)\<rparr>"

text \<open>
  A library whose certificates are the unit, the common name and the public key with commas between
  them; it makes certificates for subjects with one unit and nothing else.
\<close>

definition comma_subject :: "string \<Rightarrow> string \<Rightarrow> template_name" where
  "comma_subject ou cn = \<lparr>pn_Organization = [], pn_OrganizationalUnit = [ou], pn_CommonName = cn,
     tn_Country = [], tn_Locality = [], tn_Province = [], tn_StreetAddress = [], tn_PostalCode = [],
     tn_SerialNumber = '''', tn_ExtraNames = []\<rparr>"

definition comma_x509 :: x509_lib where
  "comma_x509 = \<lparr>
     xl_ParseCertificate = (\<lambda>der.
       case strings_Split CHR '','' der of
         [ou, cn, pub] \<Rightarrow> Inr \<lparr>ct_Raw = der,
           ct_Subject = \<lparr>pn_Organization = [], pn_OrganizationalUnit = [ou], pn_CommonName = cn\<rparr>,
           ct_PublicKey = pub\<rparr>
       | _ \<Rightarrow> Inl ''malformed certificate''),
     xl_ParsePKCS8PrivateKey = (\<lambda>der. Inr (RSAPrivateKey der)),
     xl_ParsePKCS1PrivateKey = (\<lambda>der. Inr der),
     xl_MarshalPKCS8PrivateKey = (\<lambda>k. Inr k),
     xl_CreateCertificate = (\<lambda>t p pub signer. Inr (
       case pn_OrganizationalUnit (tp_Subject t) of
         [ou] \<Rightarrow>
           (let cn = pn_CommonName (tp_Subject t)
            in if tp_Subject t = comma_subject ou cn \<and> CHR '','' \<notin> set ou \<union> set cn
               then Inr (ou @ CHR '','' # cn @ CHR '','' # pub) else Inl ''unsupported'')
       | _ \<Rightarrow> Inl ''unsupported'')),
     xl_PublicKey = (\<lambda>k. ''pub-'' @ k)\<rparr>"

lemma comma_x509_created:
  assumes "xl_CreateCertificate comma_x509 tmpl parent pub signer = Inr (Inr der)"
  obtains ou cn where "tp_Subject tmpl = comma_subject ou cn" "CHR '','' \<notin> set ou" "CHR '','' \<notin> set cn"
    "der = ou @ CHR '','' # cn @ CHR '','' # pub"
  using assms by (auto simp: comma_x509_def Let_def split: list.splits if_splits)

lemma comma_x509_parsed:
  assumes "xl_ParseCertificate comma_x509 (ou @ CHR '','' # cn @ CHR '','' # pub) = Inr cert"
    and "CHR '','' \<notin> set ou" "CHR '','' \<notin> set cn"
  shows "cert = \<lparr>ct_Raw = ou @ CHR '','' # cn @ CHR '','' # pub,
    ct_Subject = \<lparr>pn_Organization = [], pn_OrganizationalUnit = [ou], pn_CommonName = cn\<rparr>, ct_PublicKey = pub\<rparr>"
proof -
  have split: "strings_Split CHR '','' (ou @ CHR '','' # cn @ CHR '','' # pub) = ou # cn # strings_Split CHR '','' pub"
    using assms(2,3) by (simp add: strings_Split_append_sep)
  then obtain x where x: "strings_Split CHR '','' pub = [x]"
    using assms(1) by (auto simp: comma_x509_def split: list.splits)
  then have "x = pub" using strings_Join_Split [of "CHR '',''" pub] by simp
  with assms(1) split x show ?thesis by (simp add: comma_x509_def)
qed

lemma comma_x509_lawful: "x509_lawful comma_x509"
proof -
  have "ct_Raw cert = der \<and> ct_PublicKey cert = pub \<and>
      ct_Subject cert = FillFromRDNSequence (ToRDNSequence (tp_Subject tmpl))"
    if "xl_CreateCertificate comma_x509 tmpl parent pub signer = Inr (Inr der)"
      "xl_ParseCertificate comma_x509 der = Inr cert" for tmpl parent pub signer der cert
  proof -
    from that(1) obtain ou cn where c: "tp_Subject tmpl = comma_subject ou cn" "CHR '','' \<notin> set ou"
      "CHR '','' \<notin> set cn" "der = ou @ CHR '','' # cn @ CHR '','' # pub"
      by (rule comma_x509_created)
    have "FillFromRDNSequence (ToRDNSequence (comma_subject ou cn)) =
        \<lparr>pn_Organization = [], pn_OrganizationalUnit = [ou], pn_CommonName = cn\<rparr>"
      using FillFromRDNSequence_plain [of "comma_subject ou cn"] by (simp add: comma_subject_def)
    with comma_x509_parsed [OF that(2) [unfolded c(4)] c(2,3)] c show ?thesis by simp
  qed
  moreover have "list_all2 (\<lambda>r r'. mset r = mset r') rs rs" for rs :: "attribute list list"
    by (simp add: list_all2_same)
  ultimately show ?thesis
    unfolding x509_lawful_def by (intro conjI allI impI) (blast+, simp add: comma_x509_def)
qed

text \<open>Made, written and read back.\<close>

theorem generated_certificate_identity_witness:
  "\<exists>der cert. GenerateTLSCertificate comma_x509
       \<lparr>cw_serial = 7, cw_now = 0, cw_nextYear = 365, cw_GenerateKey = Inr ''k''\<rparr>
       (comma_subject ''center'' ''company'') False None None [] = Inr (Inr (der, ''k'')) \<and>
     ParseX509CertificateFromData comma_x509 (MarshalCertificateDerUsingPEM der) = Inr cert \<and>
     cert_deploy cert = ''center'' \<and> cert_service cert = ''company''"
proof -
  let ?cw = "\<lparr>cw_serial = 7, cw_now = 0, cw_nextYear = 365, cw_GenerateKey = Inr ''k''\<rparr>"
  let ?s = "comma_subject ''center'' ''company''"
  let ?der = "''center,company,pub-k''"
  have g: "GenerateTLSCertificate comma_x509 ?cw ?s False None None [] = Inr (Inr (?der, ''k''))"
    by (simp add: GenerateTLSCertificate_def signing_parent_def certificate_template_def comma_x509_def Let_def)
      (simp add: comma_subject_def)
  have s: "pn_OrganizationalUnit ?s = [''center'']" "pn_CommonName ?s = ''company''" "tn_ExtraNames ?s = []"
    by (simp_all add: comma_subject_def)
  obtain cert where c: "xl_ParseCertificate comma_x509 ?der = Inr cert"
    by (simp add: comma_x509_def)
  have k: "MarshalRSAPrivateKeyUsingPKCS8PEM comma_x509 ''k'' =
      Inr (pem_EncodeToMemory \<lparr>pb_Type = ''PRIVATE KEY'', pb_Bytes = ''k''\<rparr>)"
    by (simp add: MarshalRSAPrivateKeyUsingPKCS8PEM_def comma_x509_def)
  from generated_certificate_identity [OF comma_x509_lawful g _ _ _ c k] s
  have "ParseX509CertificateFromData comma_x509 (MarshalCertificateDerUsingPEM ?der) = Inr cert"
    "NewServiceCertificate cert =
      Inr (Inr \<lparr>ts_ServiceID = ''company'', ts_DeployID = ''center'', ts_Certificate = cert\<rparr>)"
    by auto
  with g show ?thesis
    by (intro exI [of _ ?der] exI [of _ cert]) (auto simp: NewServiceCertificate_eq split: if_splits)
qed

text \<open>
  C39. A text with several PEM blocks, such as a certificate with its chain, counts as its first block:
  after lines without a hyphen and before anything, the certificate or key that is read is the one of
  the first block, of whatever type this block claims to be; the rest of the chain is lost. The same
  holds for the entries of the configuration, which are read with the same function.
\<close>

theorem pem_text_first_block:
  assumes "CHR '':'' \<notin> set t" "LF \<notin> set t" and "pre = [] \<or> (\<exists>p. pre = p @ [LF] \<and> CHR ''-'' \<notin> set p)"
  shows "ParseX509CertificateFromData xl (pre @ pem_EncodeToMemory \<lparr>pb_Type = t, pb_Bytes = der\<rparr> @ post) =
      panic_on (xl_ParseCertificate xl der) \<and>
    ParsePKCS8PEMPrivateKeyFromData xl (pre @ pem_EncodeToMemory \<lparr>pb_Type = t, pb_Bytes = der\<rparr> @ post) =
      go_bind (panic_on (xl_ParsePKCS8PrivateKey xl der)) assert_rsa"
  using ReadSingleDer_first [OF assms]
  by (simp add: ParseX509CertificateFromData_def ParsePKCS8PEMPrivateKeyFromData_def)

theorem pem_text_first_block_witness:
  "ParseX509CertificateFromData toy_x509
     ((''subject=company'' @ [LF]) @ pem_EncodeToMemory \<lparr>pb_Type = ''CERTIFICATE'', pb_Bytes = ''leaf''\<rparr> @
      pem_EncodeToMemory \<lparr>pb_Type = ''CERTIFICATE'', pb_Bytes = ''issuer''\<rparr>) =
   Inr \<lparr>ct_Raw = ''leaf'', ct_Subject = toy_subject, ct_PublicKey = ''leaf''\<rparr>"
proof -
  have c: "CHR '':'' \<notin> set ''CERTIFICATE''" "LF \<notin> set ''CERTIFICATE''" by simp_all
  have p: "''subject=company'' @ [LF] = [] \<or>
      (\<exists>p. ''subject=company'' @ [LF] = p @ [LF] \<and> CHR ''-'' \<notin> set p)"
    by (intro disjI2 exI [of _ "''subject=company''"]) simp
  from pem_text_first_block [OF c p, of toy_x509 "''leaf''"
      "pem_EncodeToMemory \<lparr>pb_Type = ''CERTIFICATE'', pb_Bytes = ''issuer''\<rparr>"]
  show ?thesis by (simp add: toy_x509_def)
qed

end
