(* ===== verification/Session_Messages.thy ===== *)
theory Session_Messages
  imports Go_Prelude
begin

text \<open>
  The messages of the HTTP session protocol (http_handler/model.go) and their JSON form. The six
  structs share the member names connectionID, data, n, err and size; a JSON object is the record of
  these members, each present or not. Marshalling sets the members of the struct, binding reads
  them and leaves the zero value where a member is missing, so that a struct can be bound from the
  JSON of another one, as the client does with the errors of the server.
\<close>

record json_obj =
  jo_connectionID :: "int option"
  jo_data :: "string option"
  jo_n :: "int option"
  jo_err :: "string option"
  jo_size :: "int option"

definition json_empty :: json_obj where
  "json_empty = \<lparr>jo_connectionID = None, jo_data = None, jo_n = None, jo_err = None, jo_size = None\<rparr>"

definition member_or :: "'a \<Rightarrow> 'a option \<Rightarrow> 'a" where
  "member_or z m = (case m of None \<Rightarrow> z | Some x \<Rightarrow> x)"

lemma member_or_simps [simp]: "member_or z None = z" "member_or z (Some x) = x"
  by (simp_all add: member_or_def)

record NewRequestResponse =
  nr_ConnectionID :: int
  nr_Err :: string

record TransactRequest =
  tq_Data :: string

record TransactResponse =
  tp_N :: int
  tp_Err :: string

record ReadRequest =
  rr_Size :: int

record ReadResponse =
  rp_Data :: string
  rp_N :: int
  rp_Err :: string

record CloseResponse =
  cp_Err :: string

definition json_NewRequestResponse :: "NewRequestResponse \<Rightarrow> json_obj" where
  "json_NewRequestResponse r =
     json_empty\<lparr>jo_connectionID := Some (nr_ConnectionID r), jo_err := Some (nr_Err r)\<rparr>"

definition json_TransactRequest :: "TransactRequest \<Rightarrow> json_obj" where
  "json_TransactRequest r = json_empty\<lparr>jo_data := Some (tq_Data r)\<rparr>"

definition json_TransactResponse :: "TransactResponse \<Rightarrow> json_obj" where
  "json_TransactResponse r = json_empty\<lparr>jo_n := Some (tp_N r), jo_err := Some (tp_Err r)\<rparr>"

definition json_ReadRequest :: "ReadRequest \<Rightarrow> json_obj" where
  "json_ReadRequest r = json_empty\<lparr>jo_size := Some (rr_Size r)\<rparr>"

definition json_ReadResponse :: "ReadResponse \<Rightarrow> json_obj" where
  "json_ReadResponse r =
     json_empty\<lparr>jo_data := Some (rp_Data r), jo_n := Some (rp_N r), jo_err := Some (rp_Err r)\<rparr>"

definition json_CloseResponse :: "CloseResponse \<Rightarrow> json_obj" where
  "json_CloseResponse r = json_empty\<lparr>jo_err := Some (cp_Err r)\<rparr>"

definition bind_NewRequestResponse :: "json_obj \<Rightarrow> NewRequestResponse" where
  "bind_NewRequestResponse j =
     \<lparr>nr_ConnectionID = member_or 0 (jo_connectionID j), nr_Err = member_or '''' (jo_err j)\<rparr>"

definition bind_TransactRequest :: "json_obj \<Rightarrow> TransactRequest" where
  "bind_TransactRequest j = \<lparr>tq_Data = member_or '''' (jo_data j)\<rparr>"

definition bind_TransactResponse :: "json_obj \<Rightarrow> TransactResponse" where
  "bind_TransactResponse j = \<lparr>tp_N = member_or 0 (jo_n j), tp_Err = member_or '''' (jo_err j)\<rparr>"

definition bind_ReadRequest :: "json_obj \<Rightarrow> ReadRequest" where
  "bind_ReadRequest j = \<lparr>rr_Size = member_or 0 (jo_size j)\<rparr>"

definition bind_ReadResponse :: "json_obj \<Rightarrow> ReadResponse" where
  "bind_ReadResponse j =
     \<lparr>rp_Data = member_or '''' (jo_data j), rp_N = member_or 0 (jo_n j), rp_Err = member_or '''' (jo_err j)\<rparr>"

definition bind_CloseResponse :: "json_obj \<Rightarrow> CloseResponse" where
  "bind_CloseResponse j = \<lparr>cp_Err = member_or '''' (jo_err j)\<rparr>"

lemmas json_defs =
  json_empty_def json_NewRequestResponse_def json_TransactRequest_def json_TransactResponse_def
  json_ReadRequest_def json_ReadResponse_def json_CloseResponse_def

lemmas bind_defs =
  bind_NewRequestResponse_def bind_TransactRequest_def bind_TransactResponse_def
  bind_ReadRequest_def bind_ReadResponse_def bind_CloseResponse_def

lemma bind_json [simp]:
  "bind_NewRequestResponse (json_NewRequestResponse a) = a"
  "bind_TransactRequest (json_TransactRequest b) = b"
  "bind_TransactResponse (json_TransactResponse c) = c"
  "bind_ReadRequest (json_ReadRequest d) = d"
  "bind_ReadResponse (json_ReadResponse e) = e"
  "bind_CloseResponse (json_CloseResponse f) = f"
  by (simp_all add: json_defs bind_defs)

lemma bind_other [simp]:
  "tp_Err (bind_TransactResponse (json_ReadResponse e)) = rp_Err e"
  "tp_N (bind_TransactResponse (json_ReadResponse e)) = rp_N e"
  "cp_Err (bind_CloseResponse (json_ReadResponse e)) = rp_Err e"
  "rp_Err (bind_ReadResponse (json_TransactResponse c)) = tp_Err c"
  "rp_N (bind_ReadResponse (json_TransactResponse c)) = tp_N c"
  "rp_Data (bind_ReadResponse (json_TransactResponse c)) = ''''"
  by (simp_all add: json_defs bind_defs)

end
