(* ===== verification/Session_Server.thy ===== *)
theory Session_Server
  imports Session_Messages
begin

text \<open>
  The session endpoints of HttpSidecarServer.InitRequestRouter (http_handler/server_main.go):
  newRequest, clientWrite, clientRead and clientClose, with the middleware that finds the session of
  a request. The state is the map of sessions that the four closures share, the connections they
  refer to (a handle holds the index of its connection, as the source's handle holds a pointer), the
  writes that clientWrite has started as goroutines and that have not reached the connection yet,
  and the connections whose transfer was started. The in-memory connection (mock_conn) and the TLS
  session on its server end are the parameter \<open>conn_ops\<close>.
\<close>

datatype 'a outcome =
    Returns 'a
  | Panics go_panic
  | Blocks

record 'c conn_ops =
  co_new :: 'c
  co_client_write :: "string \<Rightarrow> 'c \<Rightarrow> (nat \<times> go_error option) \<times> 'c"
  co_client_read :: "nat \<Rightarrow> 'c \<Rightarrow> ((go_error + string) \<times> 'c) option"
  co_protocol_close :: "'c \<Rightarrow> go_error option \<times> 'c"
  co_internal :: "'c \<Rightarrow> 'c list"

text \<open>
  A write gives the number of bytes it has written and an error, as an io.Writer does. Reading gives
  \<^const>\<open>None\<close> while there is nothing to read. Closing the protocol connection is
  done while the client's end is drained, as the handler arranges it. \<open>co_internal\<close> lists what
  the transfer on the server's end may turn the connection into on its own.

  What the connection is documented to do with written bytes: \<open>received\<close> are the bytes that its
  server end has been given so far. A write adds the \<open>n\<close> first bytes of its data, where \<open>n\<close> is the
  length it reports, and reports an error when these are not all (package io, Writer); nothing else
  adds or removes any.
\<close>

definition lawful_conn :: "'c conn_ops \<Rightarrow> ('c \<Rightarrow> string) \<Rightarrow> bool" where
  "lawful_conn ops received \<longleftrightarrow>
     received (co_new ops) = '''' \<and>
     (\<forall>data c n err c'. co_client_write ops data c = ((n, err), c') \<longrightarrow>
        n \<le> length data \<and> (err = None \<longrightarrow> n = length data) \<and> received c' = received c @ take n data) \<and>
     (\<forall>n c r c'. co_client_read ops n c = Some (r, c') \<longrightarrow> received c' = received c) \<and>
     (\<forall>c e c'. co_protocol_close ops c = (e, c') \<longrightarrow> received c' = received c) \<and>
     (\<forall>c c'. c' \<in> set (co_internal ops c) \<longrightarrow> received c' = received c)"

lemma lawful_connD:
  assumes "lawful_conn ops received"
  shows "received (co_new ops) = ''''"
    and "co_client_write ops data c = ((n, err), c') \<Longrightarrow>
      n \<le> length data \<and> (err = None \<longrightarrow> n = length data) \<and> received c' = received c @ take n data"
    and "co_client_read ops n c = Some (r, c') \<Longrightarrow> received c' = received c"
    and "co_protocol_close ops c = (e, c') \<Longrightarrow> received c' = received c"
    and "c' \<in> set (co_internal ops c) \<Longrightarrow> received c' = received c"
  using assms unfolding lawful_conn_def by blast+

record client_handle =
  cl_connectionID :: int
  cl_conn :: nat

record 'c server =
  sv_clientMap :: "(int, client_handle) mapping"
  sv_conns :: "'c list"
  sv_writes :: "(nat \<times> string) list"
  sv_transfers :: "nat list"

type_synonym reply = "int \<times> json_obj"

definition new_server :: "'c server" where
  "new_server = \<lparr>sv_clientMap = Mapping.empty, sv_conns = [], sv_writes = [], sv_transfers = []\<rparr>"

section \<open>The middleware\<close>

definition connection_id_middleware :: "'c server \<Rightarrow> string \<Rightarrow> reply + client_handle" where
  "connection_id_middleware s connectionIDStr =
     (case strconv_ParseInt connectionIDStr of
        None \<Rightarrow>
          Inl (400, json_ReadResponse
                 \<lparr>rp_Data = '''', rp_N = 0, rp_Err = ''invalid connection id:'' @ connectionIDStr\<rparr>)
      | Some connectionID \<Rightarrow>
          (case Mapping.lookup (sv_clientMap s) connectionID of
             None \<Rightarrow>
               Inl (404, json_ReadResponse
                      \<lparr>rp_Data = '''', rp_N = 0,
                       rp_Err = ''connection id:'' @ show_int connectionID @ '' does not exist''\<rparr>)
           | Some handle \<Rightarrow> Inr handle))"

section \<open>The handlers\<close>

text \<open>
  newRequest reads the size of the map under the lock and stores the new handle after it has
  released the lock; the two parts are separate, so that other handlers can run between them.
\<close>

definition newRequest_id :: "'c server \<Rightarrow> int" where
  "newRequest_id s = int (Mapping.size (sv_clientMap s))"

definition newRequest_store :: "'c conn_ops \<Rightarrow> int \<Rightarrow> 'c server \<Rightarrow> reply \<times> 'c server" where
  "newRequest_store ops connectionID s =
     (let underlyingConn = length (sv_conns s);
          handle = \<lparr>cl_connectionID = connectionID, cl_conn = underlyingConn\<rparr>
      in ((200, json_NewRequestResponse \<lparr>nr_ConnectionID = connectionID, nr_Err = ''''\<rparr>),
          s\<lparr>sv_clientMap := Mapping.update connectionID handle (sv_clientMap s),
            sv_conns := sv_conns s @ [co_new ops],
            sv_transfers := sv_transfers s @ [underlyingConn]\<rparr>))"

definition newRequest :: "'c conn_ops \<Rightarrow> 'c server \<Rightarrow> reply \<times> 'c server" where
  "newRequest ops s = newRequest_store ops (newRequest_id s) s"

text \<open>
  The other three endpoints: the middleware finds the handle, then the handler works on the handle.
  Between the two other requests can run, so that a handler may work on a handle whose session has
  been closed; \<open>clientWrite\<close>, \<open>clientRead\<close> and \<open>clientClose\<close> are the runs without such a gap.
\<close>

definition clientWrite_on :: "client_handle \<Rightarrow> go_error + json_obj \<Rightarrow> 'c server \<Rightarrow> reply \<times> 'c server" where
  "clientWrite_on handle body s =
     (case body of
        Inl err \<Rightarrow>
          ((400, json_TransactResponse \<lparr>tp_N = 0, tp_Err = errors_Wrap err ''bind json body err''\<rparr>), s)
      | Inr j \<Rightarrow>
          (let data = tq_Data (bind_TransactRequest j);
               writeSize = int (length data)
           in ((200, json_TransactResponse \<lparr>tp_N = writeSize, tp_Err = ''''\<rparr>),
               s\<lparr>sv_writes := sv_writes s @ [(cl_conn handle, data)]\<rparr>)))"

definition clientWrite :: "'c server \<Rightarrow> string \<Rightarrow> go_error + json_obj \<Rightarrow> reply \<times> 'c server" where
  "clientWrite s connectionIDStr body =
     (case connection_id_middleware s connectionIDStr of
        Inl resp \<Rightarrow> (resp, s)
      | Inr handle \<Rightarrow> clientWrite_on handle body s)"

text \<open>
  The goroutine that clientWrite starts: any of the started writes may run next. The length and the
  error that the write gives are only printed.
\<close>

definition deliver_write ::
    "'c conn_ops \<Rightarrow> nat \<Rightarrow> 'c server \<Rightarrow> (nat \<times> go_error option) \<times> 'c server" where
  "deliver_write ops i s =
     (case sv_writes s ! i of
        (c, data) \<Rightarrow>
          (case co_client_write ops data (sv_conns s ! c) of
             ((actualWriteLength, err), c') \<Rightarrow>
               ((actualWriteLength, err),
                s\<lparr>sv_conns := (sv_conns s)[c := c'],
                  sv_writes := take i (sv_writes s) @ drop (Suc i) (sv_writes s)\<rparr>)))"

definition clientRead_on ::
    "'c conn_ops \<Rightarrow> client_handle \<Rightarrow> go_error + json_obj \<Rightarrow> 'c server \<Rightarrow> (reply \<times> 'c server) outcome" where
  "clientRead_on ops handle body s =
     (case body of
        Inl err \<Rightarrow>
          Returns ((400, json_ReadResponse
             \<lparr>rp_Data = '''', rp_N = 0, rp_Err = errors_Wrap err ''bind request body''\<rparr>), s)
      | Inr j \<Rightarrow>
          (let sz = rr_Size (bind_ReadRequest j)
           in if sz < 0 then Panics (PanicWith ''makeslice: len out of range'')
              else
                (case co_client_read ops (nat sz) (sv_conns s ! cl_conn handle) of
                   None \<Rightarrow> Blocks
                 | Some (Inl err, c') \<Rightarrow>
                     Returns ((500, json_TransactResponse
                        \<lparr>tp_N = 0, tp_Err = errors_Wrap err ''read pending data''\<rparr>),
                        s\<lparr>sv_conns := (sv_conns s)[cl_conn handle := c']\<rparr>)
                 | Some (Inr data, c') \<Rightarrow>
                     Returns ((200, json_ReadResponse
                        \<lparr>rp_Data = data, rp_N = int (length data), rp_Err = ''''\<rparr>),
                        s\<lparr>sv_conns := (sv_conns s)[cl_conn handle := c']\<rparr>))))"

definition clientRead ::
    "'c conn_ops \<Rightarrow> 'c server \<Rightarrow> string \<Rightarrow> go_error + json_obj \<Rightarrow> (reply \<times> 'c server) outcome" where
  "clientRead ops s connectionIDStr body =
     (case connection_id_middleware s connectionIDStr of
        Inl resp \<Rightarrow> Returns (resp, s)
      | Inr handle \<Rightarrow> clientRead_on ops handle body s)"

definition clientClose_on :: "'c conn_ops \<Rightarrow> client_handle \<Rightarrow> 'c server \<Rightarrow> reply \<times> 'c server" where
  "clientClose_on ops handle s =
     (case co_protocol_close ops (sv_conns s ! cl_conn handle) of
        (Some err, c') \<Rightarrow>
          ((500, json_CloseResponse \<lparr>cp_Err = errors_Wrap err ''close protocol conn''\<rparr>),
           s\<lparr>sv_conns := (sv_conns s)[cl_conn handle := c']\<rparr>)
      | (None, c') \<Rightarrow>
          ((200, json_CloseResponse \<lparr>cp_Err = ''''\<rparr>),
           s\<lparr>sv_conns := (sv_conns s)[cl_conn handle := c'],
             sv_clientMap := Mapping.delete (cl_connectionID handle) (sv_clientMap s)\<rparr>))"

definition clientClose :: "'c conn_ops \<Rightarrow> 'c server \<Rightarrow> string \<Rightarrow> reply \<times> 'c server" where
  "clientClose ops s connectionIDStr =
     (case connection_id_middleware s connectionIDStr of
        Inl resp \<Rightarrow> (resp, s)
      | Inr handle \<Rightarrow> clientClose_on ops handle s)"

section \<open>Invariant of the session map\<close>

text \<open>
  Every session is stored under the id it carries, refers to a connection that exists, and no two
  sessions share a connection; started writes and transfers refer to existing connections.
\<close>

definition map_ok :: "nat \<Rightarrow> (int, client_handle) mapping \<Rightarrow> bool" where
  "map_ok n m \<longleftrightarrow>
     (\<forall>k h. Mapping.lookup m k = Some h \<longrightarrow> cl_connectionID h = k \<and> cl_conn h < n)"

definition map_unshared :: "(int, client_handle) mapping \<Rightarrow> bool" where
  "map_unshared m \<longleftrightarrow>
     (\<forall>k h k' h'. Mapping.lookup m k = Some h \<longrightarrow> Mapping.lookup m k' = Some h' \<longrightarrow>
        cl_conn h = cl_conn h' \<longrightarrow> k = k')"

definition server_wf :: "'c server \<Rightarrow> bool" where
  "server_wf s \<longleftrightarrow>
     finite (Mapping.keys (sv_clientMap s)) \<and>
     map_ok (length (sv_conns s)) (sv_clientMap s) \<and>
     map_unshared (sv_clientMap s) \<and>
     (\<forall>w\<in>set (sv_writes s). fst w < length (sv_conns s)) \<and>
     (\<forall>c\<in>set (sv_transfers s). c < length (sv_conns s))"

lemma map_okD:
  "map_ok n m \<Longrightarrow> Mapping.lookup m k = Some h \<Longrightarrow> cl_connectionID h = k \<and> cl_conn h < n"
  by (simp add: map_ok_def)

lemma map_ok_update: "map_ok n m \<Longrightarrow> map_ok (Suc n) (Mapping.update k \<lparr>cl_connectionID = k, cl_conn = n\<rparr> m)"
  unfolding map_ok_def lookup_update' by (simp add: less_SucI)

lemma map_unshared_update:
  assumes "map_ok n m" "map_unshared m"
  shows "map_unshared (Mapping.update k \<lparr>cl_connectionID = k, cl_conn = n\<rparr> m)"
proof -
  have old: "cl_conn h \<noteq> n" if "Mapping.lookup m j = Some h" for j h
    using map_okD [OF assms(1) that] by simp
  show ?thesis
    unfolding map_unshared_def lookup_update'
    using old assms(2) [unfolded map_unshared_def] by simp metis
qed

lemma map_ok_delete: "map_ok n m \<Longrightarrow> map_ok n (Mapping.delete k m)"
  by (simp add: map_ok_def lookup_delete')

lemma map_unshared_delete: "map_unshared m \<Longrightarrow> map_unshared (Mapping.delete k m)"
  unfolding map_unshared_def lookup_delete' by (metis option.distinct(1))

lemma server_wf_new [simp]: "server_wf new_server"
  by (simp add: server_wf_def new_server_def map_ok_def map_unshared_def)

lemma server_wf_store: "server_wf s \<Longrightarrow> server_wf (snd (newRequest_store ops k s))"
  by (auto simp: server_wf_def newRequest_store_def Let_def map_ok_update map_unshared_update less_SucI)

lemma server_wf_update_conn: "server_wf s \<Longrightarrow> server_wf (s\<lparr>sv_conns := (sv_conns s)[c := x]\<rparr>)"
  by (simp add: server_wf_def)

lemma middleware_wf:
  "server_wf s \<Longrightarrow> connection_id_middleware s idStr = Inr h \<Longrightarrow>
   strconv_ParseInt idStr = Some (cl_connectionID h) \<and>
   Mapping.lookup (sv_clientMap s) (cl_connectionID h) = Some h \<and> cl_conn h < length (sv_conns s)"
  by (auto simp: server_wf_def connection_id_middleware_def dest: map_okD split: option.splits)

lemma server_wf_clientWrite_on:
  "server_wf s \<Longrightarrow> cl_conn h < length (sv_conns s) \<Longrightarrow> server_wf (snd (clientWrite_on h body s))"
  by (auto simp: clientWrite_on_def Let_def server_wf_def split: sum.split)

lemma server_wf_clientWrite:
  assumes "server_wf s" shows "server_wf (snd (clientWrite s idStr body))"
  using middleware_wf [OF assms] assms
  by (cases "connection_id_middleware s idStr") (auto simp: clientWrite_def server_wf_clientWrite_on)

lemma server_wf_clientRead_on:
  "server_wf s \<Longrightarrow> clientRead_on ops h body s = Returns (resp, s') \<Longrightarrow> server_wf s'"
  by (auto simp: clientRead_on_def Let_def server_wf_update_conn
      split: sum.splits option.splits prod.splits if_splits)

lemma server_wf_clientRead:
  "server_wf s \<Longrightarrow> clientRead ops s idStr body = Returns (resp, s') \<Longrightarrow> server_wf s'"
  by (auto simp: clientRead_def server_wf_clientRead_on split: sum.splits)

lemma server_wf_delete:
  "server_wf s \<Longrightarrow> server_wf (s\<lparr>sv_clientMap := Mapping.delete k (sv_clientMap s)\<rparr>)"
  by (simp add: server_wf_def map_ok_delete map_unshared_delete)

lemma server_wf_clientClose_on:
  assumes "server_wf s" shows "server_wf (snd (clientClose_on ops h s))"
proof -
  obtain e c' where "co_protocol_close ops (sv_conns s ! cl_conn h) = (e, c')"
    by (cases "co_protocol_close ops (sv_conns s ! cl_conn h)")
  moreover note server_wf_update_conn [OF assms, of "cl_conn h" c']
  moreover from this have "server_wf (s\<lparr>sv_conns := (sv_conns s)[cl_conn h := c'],
      sv_clientMap := Mapping.delete (cl_connectionID h) (sv_clientMap s)\<rparr>)"
    using server_wf_delete [of "s\<lparr>sv_conns := (sv_conns s)[cl_conn h := c']\<rparr>"] by simp
  ultimately show ?thesis by (cases e) (simp_all add: clientClose_on_def)
qed

lemma server_wf_clientClose:
  assumes "server_wf s" shows "server_wf (snd (clientClose ops s idStr))"
  using assms by (auto simp: clientClose_def server_wf_clientClose_on split: sum.split)

lemma server_wf_deliver:
  "server_wf s \<Longrightarrow> i < length (sv_writes s) \<Longrightarrow> server_wf (snd (deliver_write ops i s))"
  unfolding deliver_write_def
  by (auto simp: server_wf_def split: prod.split dest: in_set_takeD in_set_dropD)

end
