(* ===== verification/Session_Correct.thy ===== *)
theory Session_Correct
  imports Session_Server
begin

text \<open>
  Properties of the session endpoints, first of single handlers, then of sequences of them: which
  ids newRequest hands out, what an error reply leaves unchanged, that the requests of one session do
  not touch another, and when an id is handed out a second time while its session is alive.
\<close>

section \<open>Looking a session up\<close>

lemma middleware_printed:
  assumes "- (2 ^ 63) \<le> k" "k < 2 ^ 63"
  shows "connection_id_middleware s (show_int k) =
    (case Mapping.lookup (sv_clientMap s) k of
       None \<Rightarrow> Inl (404, json_ReadResponse
         \<lparr>rp_Data = '''', rp_N = 0, rp_Err = ''connection id:'' @ show_int k @ '' does not exist''\<rparr>)
     | Some h \<Rightarrow> Inr h)"
  using assms by (simp add: connection_id_middleware_def)

lemma middleware_error:
  "connection_id_middleware s idStr = Inl (status, j) \<Longrightarrow>
   status \<in> {400, 404} \<and> (\<exists>msg. msg \<noteq> '''' \<and> jo_err j = Some msg)"
  by (auto simp: connection_id_middleware_def json_defs split: option.splits)

text \<open>
  A request with a connection id that is no number or that no session has changes nothing: each
  of the three endpoints answers with the middleware's reply, status 400 or 404 and a non-empty error
  text that a client of any endpoint reads from the reply.
\<close>

theorem unknown_session_changes_nothing:
  assumes "\<And>k h. strconv_ParseInt idStr = Some k \<Longrightarrow> Mapping.lookup (sv_clientMap s) k \<noteq> Some h"
  shows "\<exists>status j. status \<in> {400, 404} \<and>
    clientWrite s idStr body = ((status, j), s) \<and>
    clientRead ops s idStr body = Returns ((status, j), s) \<and>
    clientClose ops s idStr = ((status, j), s) \<and>
    tp_Err (bind_TransactResponse j) \<noteq> '''' \<and> rp_Err (bind_ReadResponse j) \<noteq> '''' \<and>
    cp_Err (bind_CloseResponse j) \<noteq> ''''"
proof -
  obtain status j where r: "connection_id_middleware s idStr = Inl (status, j)"
    using assms by (cases "connection_id_middleware s idStr")
      (auto simp: connection_id_middleware_def split: option.splits)
  with middleware_error [OF r] show ?thesis
    by (auto simp: clientWrite_def clientRead_def clientClose_def clientClose_on_def bind_defs)
qed

theorem unknown_session_changes_nothing_witness:
  "\<exists>status j. clientWrite (new_server :: unit server) ''x1'' (Inl ''eof'') = ((status, j), new_server) \<and> status \<in> {400, 404}"
proof -
  have "Mapping.lookup (sv_clientMap (new_server :: unit server)) k \<noteq> Some h" for k h
    by (simp add: new_server_def)
  from unknown_session_changes_nothing [of "''x1''" new_server "Inl ''eof''"
      "\<lparr>co_new = (), co_client_write = (\<lambda>_ c. ((0, None), c)), co_client_read = (\<lambda>_ _. None), co_protocol_close = (\<lambda>c. (None, c)), co_internal = (\<lambda>_. [])\<rparr>",
      OF this]
  show ?thesis by blast
qed

section \<open>Opening sessions one after the other\<close>

fun open_sessions :: "'c conn_ops \<Rightarrow> nat \<Rightarrow> 'c server \<Rightarrow> int list \<times> 'c server" where
  "open_sessions ops 0 s = ([], s)"
| "open_sessions ops (Suc n) s =
     (let (ids, s1) = open_sessions ops n s;
          ((status, j), s2) = newRequest ops s1
      in (ids @ [nr_ConnectionID (bind_NewRequestResponse j)], s2))"

definition opened :: "'c conn_ops \<Rightarrow> nat \<Rightarrow> 'c server \<Rightarrow> bool" where
  "opened ops n s \<longleftrightarrow>
     Mapping.keys (sv_clientMap s) = int ` {..<n} \<and> length (sv_conns s) = n \<and>
     (\<forall>i<n. Mapping.lookup (sv_clientMap s) (int i) = Some \<lparr>cl_connectionID = int i, cl_conn = i\<rparr>)"

lemma opened_size: "opened ops n s \<Longrightarrow> Mapping.size (sv_clientMap s) = n"
  by (simp add: opened_def Mapping.size_def card_image)

lemma newRequest_opened:
  assumes "opened ops n s"
  shows "fst (newRequest ops s) = (200, json_NewRequestResponse \<lparr>nr_ConnectionID = int n, nr_Err = ''''\<rparr>)"
    and "opened ops (Suc n) (snd (newRequest ops s))"
  using assms
  by (auto simp: newRequest_def newRequest_store_def newRequest_id_def Let_def opened_size opened_def
      lookup_update' lessThan_Suc less_Suc_eq)

lemma open_sessions_opened:
  "opened ops n (snd (open_sessions ops n new_server)) \<and>
   fst (open_sessions ops n new_server) = map int [0..<n]"
proof (induction n)
  case 0
  show ?case by (simp add: opened_def new_server_def)
next
  case (Suc n)
  obtain ids s1 where s1: "open_sessions ops n new_server = (ids, s1)"
    by (metis prod.exhaust)
  with Suc newRequest_opened [of ops n s1] show ?case
    by (auto simp: Let_def split: prod.splits)
qed

lemma server_wf_newRequest: "server_wf s \<Longrightarrow> server_wf (snd (newRequest ops s))"
  by (simp add: newRequest_def server_wf_store)

lemma server_wf_open_sessions: "server_wf (snd (open_sessions ops n new_server))"
proof (induction n)
  case (Suc n)
  then show ?case
    using server_wf_newRequest [of "snd (open_sessions ops n new_server)" ops]
    by (auto simp: Let_def split: prod.splits)
qed simp

text \<open>
  Sessions that are opened one after the other on a new server, with none closed, get the ids
  0, 1, 2 and so on, and all of them stay alive: each id finds its own handle, on a connection of
  its own.
\<close>

theorem sequential_sessions_fresh:
  "fst (open_sessions ops n new_server) = map int [0..<n] \<and>
   (\<forall>i<n. Mapping.lookup (sv_clientMap (snd (open_sessions ops n new_server))) (int i) =
      Some \<lparr>cl_connectionID = int i, cl_conn = i\<rparr>)"
  using open_sessions_opened [of ops n] by (simp add: opened_def)

definition echo_ops :: "string conn_ops" where
  "echo_ops = \<lparr>co_new = '''', co_client_write = (\<lambda>data c. ((length data, None), c @ data)),
     co_client_read = (\<lambda>n c. if c = '''' then None else Some (Inr (take n c), drop n c)),
     co_protocol_close = (\<lambda>c. (None, '''')), co_internal = (\<lambda>_. [])\<rparr>"

theorem sequential_sessions_fresh_witness:
  "fst (open_sessions echo_ops 2 new_server) = [0, 1]"
  using sequential_sessions_fresh [of echo_ops 2] by (simp add: upt_rec)

section \<open>Closing a session and the next id\<close>

lemma clientClose_printed:
  assumes "- (2 ^ 63) \<le> k" "k < 2 ^ 63"
    and "Mapping.lookup (sv_clientMap s) k = Some h" "cl_connectionID h = k"
    and "co_protocol_close ops (sv_conns s ! cl_conn h) = (None, c')"
  shows "clientClose ops s (show_int k) =
    ((200, json_CloseResponse \<lparr>cp_Err = ''''\<rparr>),
     s\<lparr>sv_conns := (sv_conns s)[cl_conn h := c'],
       sv_clientMap := Mapping.delete k (sv_clientMap s)\<rparr>)"
  using assms by (simp add: clientClose_def clientClose_on_def middleware_printed)

text \<open>
  C29. An id is handed out again while its session is alive. After n sessions have been opened, closing
  any session but the last leaves n - 1 entries, so that the next newRequest answers with the id
  n - 1 of the last session, which is still open; from then on this id finds the new connection, and
  no id finds the connection of the old session any more.
\<close>

theorem reused_id_hijacks_live_session:
  assumes "Suc k < n" "int n \<le> 2 ^ 63"
    and "s = snd (open_sessions ops n new_server)"
    and "fst (co_protocol_close ops (sv_conns s ! k)) = None"
    and "s1 = snd (clientClose ops s (show_int (int k)))"
    and "newRequest ops s1 = ((status, j), s2)"
  shows "nr_ConnectionID (bind_NewRequestResponse j) = int (n - 1) \<and>
    Mapping.lookup (sv_clientMap s1) (int (n - 1)) = Some \<lparr>cl_connectionID = int (n - 1), cl_conn = n - 1\<rparr> \<and>
    Mapping.lookup (sv_clientMap s2) (int (n - 1)) = Some \<lparr>cl_connectionID = int (n - 1), cl_conn = n\<rparr> \<and>
    (\<forall>id h. Mapping.lookup (sv_clientMap s2) id = Some h \<longrightarrow> cl_conn h \<noteq> n - 1)"
proof -
  have o: "opened ops n s" using open_sessions_opened [of ops n] assms(3) by simp
  obtain c' where c': "co_protocol_close ops (sv_conns s ! k) = (None, c')"
    using assms(4) by (cases "co_protocol_close ops (sv_conns s ! k)") simp
  have lk: "Mapping.lookup (sv_clientMap s) (int i) = Some \<lparr>cl_connectionID = int i, cl_conn = i\<rparr>" if "i < n" for i
    using o that by (simp add: opened_def)
  have s1: "s1 = s\<lparr>sv_conns := (sv_conns s)[k := c'], sv_clientMap := Mapping.delete (int k) (sv_clientMap s)\<rparr>"
    using clientClose_printed [of "int k" s "\<lparr>cl_connectionID = int k, cl_conn = k\<rparr>" ops c'] lk [of k] c' assms(1,2,5)
    by simp
  have size: "Mapping.size (sv_clientMap s1) = n - 1"
    using o assms(1) by (simp add: s1 size_delete opened_size) (simp add: opened_def)
  have keys: "id \<in> int ` {..<n}" if "Mapping.lookup (sv_clientMap s) id = Some h" for id h
    using that o by (auto simp: opened_def keys_dom_lookup dom_def)
  have len: "length (sv_conns s1) = n" using o by (simp add: s1 opened_def)
  have s2: "sv_clientMap s2 = Mapping.update (int (n - 1)) \<lparr>cl_connectionID = int (n - 1), cl_conn = n\<rparr> (sv_clientMap s1)"
    "nr_ConnectionID (bind_NewRequestResponse j) = int (n - 1)"
    using assms(6) by (auto simp: newRequest_def newRequest_store_def newRequest_id_def Let_def size len)
  have "cl_conn h \<noteq> n - 1" if "Mapping.lookup (sv_clientMap s2) id = Some h" for id h
  proof (cases "id = int (n - 1)")
    case True
    with that s2 assms(1) show ?thesis by auto
  next
    case False
    with that s2 have "Mapping.lookup (sv_clientMap s) id = Some h"
      by (auto simp: s1 lookup_update' lookup_delete' split: if_splits)
    with keys [OF this] lk False show ?thesis by auto
  qed
  then show ?thesis
    using s2 lk [of "n - 1"] assms(1) by (auto simp: s1 lookup_delete')
qed

theorem reused_id_hijacks_live_session_witness:
  "nr_ConnectionID (bind_NewRequestResponse
     (snd (fst (newRequest echo_ops (snd (clientClose echo_ops (snd (open_sessions echo_ops 2 new_server)) (show_int (int 0)))))))) = 1"
proof -
  let ?s = "snd (open_sessions echo_ops 2 new_server)"
  let ?s1 = "snd (clientClose echo_ops ?s (show_int (int 0)))"
  obtain status j s2 where n: "newRequest echo_ops ?s1 = ((status, j), s2)"
    by (metis prod.exhaust)
  have c: "fst (co_protocol_close echo_ops (sv_conns ?s ! 0)) = None" by (simp add: echo_ops_def)
  from reused_id_hijacks_live_session [OF _ _ refl c refl n] n show ?thesis by simp
qed

section \<open>Isolation of sessions\<close>

lemma deliver_write_other:
  "fst (sv_writes s ! i) \<noteq> c \<Longrightarrow> sv_conns (snd (deliver_write ops i s)) ! c = sv_conns s ! c"
  by (auto simp: deliver_write_def split: prod.split)

text \<open>
  C15. The requests of one session do not touch another. In a well-formed server, a clientWrite, a
  clientRead or a clientClose that names another id leaves a session's entry, the state of its
  connection and the writes that are under way to this connection as they are; and when the goroutine
  that a clientWrite has started runs, it leaves the session's connection as it is, too.
\<close>

theorem sessions_isolated:
  assumes "server_wf s" "Mapping.lookup (sv_clientMap s) k = Some h"
    and "strconv_ParseInt idStr = Some k'" "k' \<noteq> k"
    and "s' = snd (clientWrite s idStr body) \<or>
         (\<exists>resp. clientRead ops s idStr body = Returns (resp, s')) \<or>
         s' = snd (clientClose ops s idStr)"
  shows "Mapping.lookup (sv_clientMap s') k = Some h \<and>
    sv_conns s' ! cl_conn h = sv_conns s ! cl_conn h \<and>
    filter (\<lambda>x. fst x = cl_conn h) (sv_writes s') = filter (\<lambda>x. fst x = cl_conn h) (sv_writes s) \<and>
    (\<forall>i. length (sv_writes s) \<le> i \<and> i < length (sv_writes s') \<longrightarrow>
       sv_conns (snd (deliver_write ops i s')) ! cl_conn h = sv_conns s ! cl_conn h)"
proof (cases "connection_id_middleware s idStr")
  case (Inl resp)
  with assms(2,5) show ?thesis by (auto simp: clientWrite_def clientRead_def clientClose_def clientClose_on_def)
next
  case (Inr g)
  have g: "cl_connectionID g = k'" "Mapping.lookup (sv_clientMap s) k' = Some g"
    using middleware_wf [OF assms(1) Inr] assms(3) by auto
  then have ne: "cl_conn g \<noteq> cl_conn h"
    using assms(1,2,4) by (auto simp: server_wf_def map_unshared_def)
  from assms(5) show ?thesis
  proof (elim disjE exE)
    assume "s' = snd (clientWrite s idStr body)"
    with Inr assms(2) ne show ?thesis
      by (auto simp: clientWrite_def clientWrite_on_def Let_def deliver_write_other less_Suc_eq split: sum.split)
  next
    fix resp assume "clientRead ops s idStr body = Returns (resp, s')"
    with Inr assms(2) ne show ?thesis
      by (auto simp: clientRead_def clientRead_on_def Let_def split: sum.splits if_splits option.splits prod.splits)
  next
    assume "s' = snd (clientClose ops s idStr)"
    with Inr assms(2,4) ne g show ?thesis
      by (auto simp: clientClose_def clientClose_on_def lookup_delete' split: prod.split option.split)
  qed
qed

theorem sessions_isolated_witness:
  "\<exists>s. s = snd (clientWrite (snd (open_sessions echo_ops 2 new_server)) (show_int 0)
       (Inr (json_TransactRequest \<lparr>tq_Data = ''hi''\<rparr>))) \<and>
     sv_writes s = [(0, ''hi'')] \<and> sv_conns (snd (deliver_write echo_ops 0 s)) ! 1 = ''''"
proof -
  let ?s = "snd (open_sessions echo_ops 2 new_server)"
  let ?b = "Inr (json_TransactRequest \<lparr>tq_Data = ''hi''\<rparr>)"
  have o: "opened echo_ops 2 ?s" using open_sessions_opened [of echo_ops 2] by simp
  have wf: "server_wf ?s" by (simp add: server_wf_open_sessions)
  have l: "Mapping.lookup (sv_clientMap ?s) 0 = Some \<lparr>cl_connectionID = 0, cl_conn = 0\<rparr>"
    "Mapping.lookup (sv_clientMap ?s) 1 = Some \<lparr>cl_connectionID = 1, cl_conn = 1\<rparr>"
    using o by (auto simp: opened_def dest: spec [of _ 0] spec [of _ 1])
  have p: "strconv_ParseInt (show_int 0) = Some 0" by simp
  have c: "sv_writes ?s = []" "sv_conns ?s = ['''', '''']"
    by (simp_all add: numeral_2_eq_2 newRequest_def newRequest_store_def new_server_def echo_ops_def Let_def)
  have w: "sv_writes (snd (clientWrite ?s (show_int 0) ?b)) = [(0, ''hi'')]"
    using l(1) c(1) by (simp add: clientWrite_def clientWrite_on_def middleware_printed Let_def)
  from sessions_isolated [OF wf l(2) p, of "snd (clientWrite ?s (show_int 0) ?b)" ?b echo_ops] w c
  show ?thesis by auto
qed

end
