(* ===== verification/Session_Client.thy ===== *)
theory Session_Client
  imports Session_Correct
begin

text \<open>
  The client's end of an HTTP session: MockClientConn of http_handler/client_conn.go, a connection
  whose reads and writes are requests to the session endpoints. The HTTP client (gout) with the
  network and the server behind it is a parameter: it maps a call and the state of the world to the
  decoded JSON reply or an error. The local pair of connections (mock_conn) that carries received
  bytes to the reader is a parameter, too. The client's laws are proved once over the contract of the
  service, and the endpoints of \<open>Session_Server\<close> are shown to satisfy the contract.
\<close>

record http_call =
  hc_method :: string
  hc_url :: string
  hc_connectionID :: "int option"
  hc_json :: "json_obj option"

type_synonym 'w http_service = "http_call \<Rightarrow> 'w \<Rightarrow> ((go_error + json_obj) \<times> 'w) outcome"

record 'p pipe_ops =
  po_new :: 'p
  po_server_write :: "string \<Rightarrow> 'p \<Rightarrow> 'p"
  po_client_read :: "nat \<Rightarrow> 'p \<Rightarrow> ((go_error + string) \<times> 'p) option"
  po_close :: "'p \<Rightarrow> go_error option \<times> 'p"

record 'p mock_client =
  mc_connectionID :: int
  mc_underlyingConn :: 'p
  mc_serverBaseUrl :: string

definition outcome_bind :: "'a outcome \<Rightarrow> ('a \<Rightarrow> 'b outcome) \<Rightarrow> 'b outcome" where
  "outcome_bind m f = (case m of Returns x \<Rightarrow> f x | Panics p \<Rightarrow> Panics p | Blocks \<Rightarrow> Blocks)"

lemma outcome_bind_simps [simp]:
  "outcome_bind (Returns x) f = f x" "outcome_bind (Panics p) f = Panics p" "outcome_bind Blocks f = Blocks"
  by (simp_all add: outcome_bind_def)

lemma outcome_bind_Returns:
  "outcome_bind m f = Returns y \<longleftrightarrow> (\<exists>x. m = Returns x \<and> f x = Returns y)"
  by (cases m) auto

lemma outcome_bind_Panics:
  "outcome_bind m f = Panics p \<longleftrightarrow> m = Panics p \<or> (\<exists>x. m = Returns x \<and> f x = Panics p)"
  by (cases m) auto

definition err_opt :: "string \<Rightarrow> go_error option" where
  "err_opt e = (if e \<noteq> '''' then Some e else None)"

section \<open>The operations\<close>

definition newRequest_call :: "string \<Rightarrow> http_call" where
  "newRequest_call base =
     \<lparr>hc_method = ''POST'', hc_url = base @ ''/newRequest'', hc_connectionID = None, hc_json = None\<rparr>"

definition clientWrite_call :: "string \<Rightarrow> int \<Rightarrow> string \<Rightarrow> http_call" where
  "clientWrite_call base connectionID b =
     \<lparr>hc_method = ''PUT'', hc_url = base @ ''/clientWrite'', hc_connectionID = Some connectionID,
      hc_json = Some (json_TransactRequest \<lparr>tq_Data = b\<rparr>)\<rparr>"

definition clientRead_call :: "string \<Rightarrow> int \<Rightarrow> nat \<Rightarrow> http_call" where
  "clientRead_call base connectionID readSize =
     \<lparr>hc_method = ''PUT'', hc_url = base @ ''/clientRead'', hc_connectionID = Some connectionID,
      hc_json = Some (json_ReadRequest \<lparr>rr_Size = int readSize\<rparr>)\<rparr>"

definition clientClose_call :: "string \<Rightarrow> int \<Rightarrow> http_call" where
  "clientClose_call base connectionID =
     \<lparr>hc_method = ''PUT'', hc_url = base @ ''/clientClose'', hc_connectionID = Some connectionID,
      hc_json = None\<rparr>"

definition NewMockClientConn :: "'p pipe_ops \<Rightarrow> string \<Rightarrow> 'p mock_client" where
  "NewMockClientConn po serverBaseUrl =
     \<lparr>mc_connectionID = 0, mc_underlyingConn = po_new po, mc_serverBaseUrl = serverBaseUrl\<rparr>"

definition MockClientConn_Init ::
    "'w http_service \<Rightarrow> 'p mock_client \<Rightarrow> 'w \<Rightarrow> (go_error option \<times> 'p mock_client \<times> 'w) outcome" where
  "MockClientConn_Init http m w =
     outcome_bind (http (newRequest_call (mc_serverBaseUrl m)) w) (\<lambda>(res, w').
       case res of
         Inl err \<Rightarrow> Returns (Some (errors_Wrap err ''http request err''), m, w')
       | Inr j \<Rightarrow>
           (let newConnectionResponse = bind_NewRequestResponse j
            in if nr_Err newConnectionResponse \<noteq> '''' then Returns (Some (nr_Err newConnectionResponse), m, w')
               else Returns (None, m\<lparr>mc_connectionID := nr_ConnectionID newConnectionResponse\<rparr>, w')))"

definition MockClientConn_Write ::
    "'w http_service \<Rightarrow> 'p mock_client \<Rightarrow> string \<Rightarrow> 'w \<Rightarrow> ((int \<times> go_error option) \<times> 'w) outcome" where
  "MockClientConn_Write http m b w =
     outcome_bind (http (clientWrite_call (mc_serverBaseUrl m) (mc_connectionID m) b) w) (\<lambda>(res, w').
       case res of
         Inl err \<Rightarrow> Returns ((0, Some err), w')
       | Inr j \<Rightarrow>
           (let transactResponse = bind_TransactResponse j
            in Returns ((tp_N transactResponse, err_opt (tp_Err transactResponse)), w')))"

definition doReadPendingData ::
    "'w http_service \<Rightarrow> 'p mock_client \<Rightarrow> nat \<Rightarrow> 'w \<Rightarrow> ((string \<times> int \<times> go_error option) \<times> 'w) outcome" where
  "doReadPendingData http m readSize w =
     outcome_bind (http (clientRead_call (mc_serverBaseUrl m) (mc_connectionID m) readSize) w) (\<lambda>(res, w').
       case res of
         Inl err \<Rightarrow> Returns (('''', 0, Some (errors_Wrap err ''http request err'')), w')
       | Inr j \<Rightarrow>
           (let r = bind_ReadResponse j in Returns ((rp_Data r, rp_N r, err_opt (rp_Err r)), w')))"

text \<open>
  The slice \<open>data[:n]\<close> of decoded bytes: the decoder allocates whole groups of three bytes, so that n
  may exceed the length up to the next multiple of three; beyond that, or below zero, Go panics.
\<close>

definition decoded_slice :: "string \<Rightarrow> int \<Rightarrow> string go" where
  "decoded_slice data n =
     (let capacity = (length data + 2) div 3 * 3
      in if 0 \<le> n \<and> n \<le> int capacity
         then Inr (take (nat n) (data @ replicate (capacity - length data) (CHR 0x00)))
         else Inl IndexOutOfRange)"

lemma decoded_slice_all [simp]: "decoded_slice data (int (length data)) = Inr data"
  by (simp add: decoded_slice_def Let_def)

text \<open>
  Read takes the size of the caller's buffer. The slice is taken by the goroutine that writes it to
  the local pair of connections; the read that follows waits for this write.
\<close>

definition MockClientConn_Read ::
    "'w http_service \<Rightarrow> 'p pipe_ops \<Rightarrow> 'p mock_client \<Rightarrow> nat \<Rightarrow> 'w \<Rightarrow>
     ((string \<times> int \<times> go_error option) \<times> 'p mock_client \<times> 'w) outcome" where
  "MockClientConn_Read http po m requiredSize w =
     outcome_bind (doReadPendingData http m requiredSize w) (\<lambda>((data, n, err), w').
       case err of
         Some e \<Rightarrow> Returns (('''', n, Some (errors_Wrap e ''read pending data'')), m, w')
       | None \<Rightarrow>
           (case decoded_slice data n of
              Inl p \<Rightarrow> Panics p
            | Inr chunk \<Rightarrow>
                (case po_client_read po requiredSize (po_server_write po chunk (mc_underlyingConn m)) of
                   None \<Rightarrow> Blocks
                 | Some (Inl e, p') \<Rightarrow> Returns (('''', 0, Some e), m\<lparr>mc_underlyingConn := p'\<rparr>, w')
                 | Some (Inr d, p') \<Rightarrow> Returns ((d, int (length d), None), m\<lparr>mc_underlyingConn := p'\<rparr>, w'))))"

definition MockClientConn_WriteForRead :: "'p pipe_ops \<Rightarrow> 'p mock_client \<Rightarrow> string \<Rightarrow> 'p mock_client" where
  "MockClientConn_WriteForRead po m data =
     m\<lparr>mc_underlyingConn := po_server_write po data (mc_underlyingConn m)\<rparr>"

definition MockClientConn_Close ::
    "'w http_service \<Rightarrow> 'p pipe_ops \<Rightarrow> 'p mock_client \<Rightarrow> 'w \<Rightarrow> (go_error option \<times> 'p mock_client \<times> 'w) outcome" where
  "MockClientConn_Close http po m w =
     outcome_bind (http (clientClose_call (mc_serverBaseUrl m) (mc_connectionID m)) w) (\<lambda>(res, w').
       case res of
         Inl err \<Rightarrow> Returns (Some (errors_Wrap err ''http request err''), m, w')
       | Inr j \<Rightarrow>
           (let closeResponse = bind_CloseResponse j
            in if cp_Err closeResponse \<noteq> '''' then Returns (Some (cp_Err closeResponse), m, w')
               else (case po_close po (mc_underlyingConn m) of
                       (e, p') \<Rightarrow> Returns (e, m\<lparr>mc_underlyingConn := p'\<rparr>, w'))))"

text \<open>The rest of net.Conn: the addresses are not implemented, and deadlines are accepted but not kept.\<close>

definition MockClientConn_LocalAddr :: "'p mock_client \<Rightarrow> string go" where
  "MockClientConn_LocalAddr m = Inl (PanicWith ''implement me'')"

definition MockClientConn_RemoteAddr :: "'p mock_client \<Rightarrow> string go" where
  "MockClientConn_RemoteAddr m = Inl (PanicWith ''implement me'')"

definition MockClientConn_SetDeadline :: "int \<Rightarrow> 'p mock_client \<Rightarrow> go_error option \<times> 'p mock_client" where
  "MockClientConn_SetDeadline t m = (None, m)"

definition MockClientConn_SetReadDeadline :: "int \<Rightarrow> 'p mock_client \<Rightarrow> go_error option \<times> 'p mock_client" where
  "MockClientConn_SetReadDeadline t m = (None, m)"

definition MockClientConn_SetWriteDeadline :: "int \<Rightarrow> 'p mock_client \<Rightarrow> go_error option \<times> 'p mock_client" where
  "MockClientConn_SetWriteDeadline t m = (None, m)"

section \<open>Case analysis of a result\<close>

lemma Init_cases:
  assumes "MockClientConn_Init http m w = Returns (None, m', w')"
  obtains j where "http (newRequest_call (mc_serverBaseUrl m)) w = Returns (Inr j, w')"
    "nr_Err (bind_NewRequestResponse j) = ''''"
    "m' = m\<lparr>mc_connectionID := nr_ConnectionID (bind_NewRequestResponse j)\<rparr>"
  using assms
  by (cases "http (newRequest_call (mc_serverBaseUrl m)) w")
    (auto simp: MockClientConn_Init_def Let_def split: prod.splits sum.splits if_splits)

lemma Write_cases:
  assumes "MockClientConn_Write http m b w = Returns ((n, e), w')"
  obtains (err) err where
      "http (clientWrite_call (mc_serverBaseUrl m) (mc_connectionID m) b) w = Returns (Inl err, w')" "n = 0" "e = Some err"
    | (reply) j where
      "http (clientWrite_call (mc_serverBaseUrl m) (mc_connectionID m) b) w = Returns (Inr j, w')"
      "n = tp_N (bind_TransactResponse j)" "e = err_opt (tp_Err (bind_TransactResponse j))"
  using assms
  by (cases "http (clientWrite_call (mc_serverBaseUrl m) (mc_connectionID m) b) w")
    (auto simp: MockClientConn_Write_def Let_def split: prod.splits sum.splits)

lemma doRead_cases:
  assumes "doReadPendingData http m n w = Returns ((data, k, e), w')"
  obtains (err) err where
      "http (clientRead_call (mc_serverBaseUrl m) (mc_connectionID m) n) w = Returns (Inl err, w')"
      "e = Some (errors_Wrap err ''http request err'')"
    | (reply) j where
      "http (clientRead_call (mc_serverBaseUrl m) (mc_connectionID m) n) w = Returns (Inr j, w')"
      "data = rp_Data (bind_ReadResponse j)" "k = rp_N (bind_ReadResponse j)"
      "e = err_opt (rp_Err (bind_ReadResponse j))"
  using assms
  by (cases "http (clientRead_call (mc_serverBaseUrl m) (mc_connectionID m) n) w")
    (auto simp: doReadPendingData_def Let_def split: prod.splits sum.splits)

lemma Read_panic_cases:
  assumes "MockClientConn_Read http po m n w = Panics p"
  obtains (call) "http (clientRead_call (mc_serverBaseUrl m) (mc_connectionID m) n) w = Panics p"
    | (slice) data k w' where "doReadPendingData http m n w = Returns ((data, k, None), w')"
      "decoded_slice data k = Inl p"
proof (cases "doReadPendingData http m n w")
  case (Returns r)
  with assms slice show ?thesis
    by (cases r) (auto simp: MockClientConn_Read_def split: prod.splits option.splits sum.splits)
next
  case (Panics q)
  with assms have "q = p" by (simp add: MockClientConn_Read_def)
  with Panics call show ?thesis
    by (cases "http (clientRead_call (mc_serverBaseUrl m) (mc_connectionID m) n) w")
      (auto simp: doReadPendingData_def Let_def split: prod.splits sum.splits)
qed (use assms in \<open>simp add: MockClientConn_Read_def\<close>)

lemma Close_cases:
  assumes "MockClientConn_Close http po m w = Returns (None, m', w')"
  obtains j p' where "http (clientClose_call (mc_serverBaseUrl m) (mc_connectionID m)) w = Returns (Inr j, w')"
    "cp_Err (bind_CloseResponse j) = ''''" "m' = m\<lparr>mc_underlyingConn := p'\<rparr>"
  using assms
  by (cases "http (clientClose_call (mc_serverBaseUrl m) (mc_connectionID m)) w")
    (auto simp: MockClientConn_Close_def Let_def split: prod.splits sum.splits if_splits)

end
