(* ===== verification/Session_Steps.thy ===== *)
theory Session_Steps
  imports Session_Server "HOL-Library.Multiset"
begin

text \<open>
  The session endpoints under concurrency (http_handler/server_main.go). Requests interleave at the
  points where the handlers let go of the state: newRequest between reading the size of the map and
  storing the handle, the other endpoints between the middleware and the handler, clientWrite between
  its reply and the goroutine's write, clientRead while it waits for data. A waiting clientRead holds
  the read lock of its handle, which clientWrite and clientClose need exclusively; a lock is named by
  the connection of its handle, since every handle has its own. A reply with status 200 of clientWrite
  is recorded in \<open>w_accepted\<close>, and the write of its goroutine in \<open>w_delivered\<close>, with the length and the
  error that the goroutine prints.
\<close>

datatype client_op =
    OpWrite "go_error + json_obj"
  | OpRead "go_error + json_obj"
  | OpClose

record 'c world =
  w_server :: "'c server"
  w_allocating :: "int list"
  w_tasks :: "(client_handle \<times> client_op) list"
  w_reading :: "(client_handle \<times> (go_error + json_obj)) list"
  w_accepted :: "(nat \<times> string) list"
  w_delivered :: "((nat \<times> string) \<times> (nat \<times> go_error option)) list"

definition world_init :: "'c world" where
  "world_init = \<lparr>w_server = new_server, w_allocating = [], w_tasks = [], w_reading = [],
     w_accepted = [], w_delivered = []\<rparr>"

definition drop_at :: "nat \<Rightarrow> 'a list \<Rightarrow> 'a list" where
  "drop_at i xs = take i xs @ drop (Suc i) xs"

definition read_locked :: "nat \<Rightarrow> 'c world \<Rightarrow> bool" where
  "read_locked c w \<longleftrightarrow> (\<exists>r\<in>set (w_reading w). cl_conn (fst r) = c)"

definition accepted_data :: "client_handle \<Rightarrow> go_error + json_obj \<Rightarrow> (nat \<times> string) list" where
  "accepted_data h body =
     (case body of Inl _ \<Rightarrow> [] | Inr j \<Rightarrow> [(cl_conn h, tq_Data (bind_TransactRequest j))])"

inductive session_step :: "'c conn_ops \<Rightarrow> 'c world \<Rightarrow> 'c world \<Rightarrow> bool" for ops where
  step_allocate:
    "session_step ops w (w\<lparr>w_allocating := w_allocating w @ [newRequest_id (w_server w)]\<rparr>)"
| step_store:
    "i < length (w_allocating w) \<Longrightarrow>
     session_step ops w
       (w\<lparr>w_server := snd (newRequest_store ops (w_allocating w ! i) (w_server w)),
          w_allocating := drop_at i (w_allocating w)\<rparr>)"
| step_lookup:
    "connection_id_middleware (w_server w) idStr = Inr h \<Longrightarrow>
     session_step ops w (w\<lparr>w_tasks := w_tasks w @ [(h, op)]\<rparr>)"
| step_write:
    "i < length (w_tasks w) \<Longrightarrow> w_tasks w ! i = (h, OpWrite body) \<Longrightarrow> \<not> read_locked (cl_conn h) w \<Longrightarrow>
     session_step ops w
       (w\<lparr>w_server := snd (clientWrite_on h body (w_server w)),
          w_tasks := drop_at i (w_tasks w),
          w_accepted := w_accepted w @ accepted_data h body\<rparr>)"
| step_deliver:
    "i < length (sv_writes (w_server w)) \<Longrightarrow> deliver_write ops i (w_server w) = (res, s') \<Longrightarrow>
     session_step ops w
       (w\<lparr>w_server := s', w_delivered := w_delivered w @ [(sv_writes (w_server w) ! i, res)]\<rparr>)"
| step_read:
    "i < length (w_tasks w) \<Longrightarrow> w_tasks w ! i = (h, OpRead body) \<Longrightarrow>
     clientRead_on ops h body (w_server w) = Returns (resp, s') \<Longrightarrow>
     session_step ops w (w\<lparr>w_server := s', w_tasks := drop_at i (w_tasks w)\<rparr>)"
| step_read_panic:
    "i < length (w_tasks w) \<Longrightarrow> w_tasks w ! i = (h, OpRead body) \<Longrightarrow>
     clientRead_on ops h body (w_server w) = Panics p \<Longrightarrow>
     session_step ops w (w\<lparr>w_tasks := drop_at i (w_tasks w)\<rparr>)"
| step_read_wait:
    "i < length (w_tasks w) \<Longrightarrow> w_tasks w ! i = (h, OpRead body) \<Longrightarrow>
     clientRead_on ops h body (w_server w) = Blocks \<Longrightarrow>
     session_step ops w
       (w\<lparr>w_tasks := drop_at i (w_tasks w), w_reading := w_reading w @ [(h, body)]\<rparr>)"
| step_read_wake:
    "i < length (w_reading w) \<Longrightarrow> w_reading w ! i = (h, body) \<Longrightarrow>
     clientRead_on ops h body (w_server w) = Returns (resp, s') \<Longrightarrow>
     session_step ops w (w\<lparr>w_server := s', w_reading := drop_at i (w_reading w)\<rparr>)"
| step_close:
    "i < length (w_tasks w) \<Longrightarrow> w_tasks w ! i = (h, OpClose) \<Longrightarrow> \<not> read_locked (cl_conn h) w \<Longrightarrow>
     session_step ops w
       (w\<lparr>w_server := snd (clientClose_on ops h (w_server w)), w_tasks := drop_at i (w_tasks w)\<rparr>)"
| step_transfer:
    "c < length (sv_conns (w_server w)) \<Longrightarrow> x \<in> set (co_internal ops (sv_conns (w_server w) ! c)) \<Longrightarrow>
     session_step ops w
       (w\<lparr>w_server := (w_server w)\<lparr>sv_conns := (sv_conns (w_server w))[c := x]\<rparr>\<rparr>)"

inductive_cases session_stepE: "session_step ops w w'"

abbreviation session_steps :: "'c conn_ops \<Rightarrow> 'c world \<Rightarrow> 'c world \<Rightarrow> bool" where
  "session_steps ops \<equiv> (session_step ops)\<^sup>*\<^sup>*"

abbreviation session_reachable :: "'c conn_ops \<Rightarrow> 'c world \<Rightarrow> bool" where
  "session_reachable ops \<equiv> session_steps ops world_init"

lemma in_drop_at: "x \<in> set (drop_at i xs) \<Longrightarrow> x \<in> set xs"
  by (auto simp: drop_at_def dest: in_set_takeD in_set_dropD)

lemma mset_drop_at: "i < length xs \<Longrightarrow> mset xs = add_mset (xs ! i) (mset (drop_at i xs))"
  unfolding drop_at_def by (subst id_take_nth_drop [of i xs]) simp_all

section \<open>Invariant of the reachable states\<close>

definition world_wf :: "'c world \<Rightarrow> bool" where
  "world_wf w \<longleftrightarrow>
     server_wf (w_server w) \<and>
     sv_transfers (w_server w) = [0..<length (sv_conns (w_server w))] \<and>
     (\<forall>t\<in>set (w_tasks w). cl_conn (fst t) < length (sv_conns (w_server w))) \<and>
     (\<forall>r\<in>set (w_reading w). cl_conn (fst r) < length (sv_conns (w_server w)))"

definition same_size :: "'c server \<Rightarrow> 'c server \<Rightarrow> bool" where
  "same_size s s' \<longleftrightarrow> length (sv_conns s') = length (sv_conns s) \<and> sv_transfers s' = sv_transfers s"

lemma same_size_on:
  "same_size s (snd (clientWrite_on h body s))"
  "clientRead_on ops h body s = Returns (resp, s') \<Longrightarrow> same_size s s'"
  "same_size s (snd (clientClose_on ops h s))"
  "same_size s (snd (deliver_write ops i s))"
  by (auto simp: same_size_def clientWrite_on_def clientRead_on_def clientClose_on_def deliver_write_def Let_def
      split: sum.splits option.splits prod.splits if_splits)

lemma world_wf_same_size:
  assumes "world_wf w" "same_size (w_server w) (w_server w')" "server_wf (w_server w')"
    and "set (w_tasks w') \<subseteq> set (w_tasks w)" "set (w_reading w') \<subseteq> set (w_reading w)"
  shows "world_wf w'"
  using assms by (auto simp: world_wf_def same_size_def)

lemma world_wf_init: "world_wf world_init"
  by (simp add: world_wf_def world_init_def) (simp add: new_server_def)

lemma world_wf_step:
  assumes "session_step ops w w'" "world_wf w" shows "world_wf w'"
  using assms
proof cases
  case (step_allocate)
  with assms(2) show ?thesis by (simp add: world_wf_def)
next
  case (step_store i)
  with assms(2) show ?thesis
    using server_wf_store [of "w_server w" ops "w_allocating w ! i"]
    by (auto simp: world_wf_def) (auto simp: newRequest_store_def Let_def less_SucI)
next
  case (step_lookup idStr h op)
  with assms(2) show ?thesis
    using middleware_wf [of "w_server w" idStr h] by (auto simp: world_wf_def)
next
  case (step_write i h body)
  then have "(h, OpWrite body) \<in> set (w_tasks w)" by (metis nth_mem)
  then have "cl_conn h < length (sv_conns (w_server w))" "server_wf (w_server w)"
    using assms(2) by (auto simp: world_wf_def)
  then show ?thesis
    unfolding step_write(1)
    by (intro world_wf_same_size [OF assms(2)])
      (auto simp: same_size_on server_wf_clientWrite_on dest: in_drop_at)
next
  case (step_deliver i res s')
  then have "same_size (w_server w) s'" "server_wf s'"
    using same_size_on(4) [of "w_server w" ops i] server_wf_deliver [of "w_server w" i ops] assms(2)
    by (simp_all add: world_wf_def)
  with step_deliver(1) show ?thesis
    by (intro world_wf_same_size [OF assms(2)]) auto
next
  case (step_read i h body resp s')
  with assms(2) show ?thesis
    by (intro world_wf_same_size [OF assms(2)])
      (auto simp: world_wf_def intro: same_size_on server_wf_clientRead_on dest: in_drop_at)
next
  case (step_read_panic i h body p)
  then show ?thesis
    using assms(2) by (auto simp: world_wf_def dest: in_drop_at)
next
  case (step_read_wait i h body)
  then have "(h, OpRead body) \<in> set (w_tasks w)" by (metis nth_mem)
  with step_read_wait assms(2) show ?thesis by (auto simp: world_wf_def dest: in_drop_at)
next
  case (step_read_wake i h body resp s')
  with assms(2) show ?thesis
    by (intro world_wf_same_size [OF assms(2)])
      (auto simp: world_wf_def intro: same_size_on server_wf_clientRead_on dest: in_drop_at)
next
  case (step_close i h)
  with assms(2) show ?thesis
    by (intro world_wf_same_size [OF assms(2)])
      (auto simp: world_wf_def same_size_on intro: server_wf_clientClose_on dest: in_drop_at)
next
  case (step_transfer c x)
  with assms(2) show ?thesis by (auto simp: world_wf_def server_wf_update_conn)
qed

lemma world_wf_steps: "session_steps ops w w' \<Longrightarrow> world_wf w \<Longrightarrow> world_wf w'"
  by (induction rule: rtranclp_induct) (blast intro: world_wf_step)+

text \<open>
  C12. The session table stays well formed whatever the interleaving: in every reachable state each
  session is stored under its own id, refers to a connection that exists and that no other session
  refers to, and exactly one transfer has been started for every connection.
\<close>

theorem session_table_invariant:
  assumes "session_reachable ops w"
  shows "server_wf (w_server w) \<and> sv_transfers (w_server w) = [0..<length (sv_conns (w_server w))]"
  using world_wf_steps [OF assms world_wf_init] by (simp add: world_wf_def)

section \<open>Accepted writes are carried out once, failed or pending\<close>

text \<open>What a write of the goroutine has put into its connection.\<close>

definition written :: "(nat \<times> string) \<times> (nat \<times> go_error option) \<Rightarrow> string" where
  "written d = (case d of ((c, data), (n, err)) \<Rightarrow> take n data)"

definition written_to :: "nat \<Rightarrow> ((nat \<times> string) \<times> (nat \<times> go_error option)) list \<Rightarrow> string" where
  "written_to c ds = concat (map written (filter (\<lambda>d. fst (fst d) = c) ds))"

lemma written_to_simps [simp]:
  "written_to c [] = ''''"
  "written_to c (ds @ ds') = written_to c ds @ written_to c ds'"
  "written_to c [d] = (if fst (fst d) = c then written d else '''')"
  by (simp_all add: written_to_def)

definition honest_result :: "(nat \<times> string) \<times> (nat \<times> go_error option) \<Rightarrow> bool" where
  "honest_result d = (case d of ((c, data), (n, err)) \<Rightarrow> n \<le> length data \<and> (err = None \<longrightarrow> n = length data))"

definition writes_balanced :: "('c \<Rightarrow> string) \<Rightarrow> 'c world \<Rightarrow> bool" where
  "writes_balanced received w \<longleftrightarrow>
     mset (w_accepted w) = mset (map fst (w_delivered w)) + mset (sv_writes (w_server w)) \<and>
     (\<forall>c<length (sv_conns (w_server w)).
        received (sv_conns (w_server w) ! c) = written_to c (w_delivered w)) \<and>
     (\<forall>d\<in>set (w_delivered w). honest_result d \<and> fst (fst d) < length (sv_conns (w_server w)))"

lemma sv_writes_on:
  "sv_writes (snd (clientWrite_on h body s)) = sv_writes s @ accepted_data h body"
  "clientRead_on ops h body s = Returns (resp, s') \<Longrightarrow> sv_writes s' = sv_writes s"
  "sv_writes (snd (clientClose_on ops h s)) = sv_writes s"
  "sv_writes (snd (newRequest_store ops k s)) = sv_writes s"
  "sv_writes (snd (deliver_write ops i s)) = drop_at i (sv_writes s)"
  by (auto simp: clientWrite_on_def accepted_data_def clientRead_on_def clientClose_on_def newRequest_store_def
      deliver_write_def drop_at_def Let_def split: sum.splits option.splits prod.splits if_splits)

lemma nth_update_if: "i < length xs \<Longrightarrow> (xs[c := x]) ! i = (if c = i then x else xs ! i)"
  by (cases "c = i") simp_all

text \<open>The endpoints leave what a connection has received as it is; only a goroutine's write adds to it.\<close>

lemma received_on:
  assumes "lawful_conn ops received" "c < length (sv_conns s)"
  shows "received (sv_conns (snd (clientWrite_on h body s)) ! c) = received (sv_conns s ! c)"
    and "clientRead_on ops h body s = Returns (resp, s') \<Longrightarrow> received (sv_conns s' ! c) = received (sv_conns s ! c)"
    and "received (sv_conns (snd (clientClose_on ops h s)) ! c) = received (sv_conns s ! c)"
    and "received (sv_conns (snd (newRequest_store ops k s)) ! c) = received (sv_conns s ! c)"
  using assms(2)
  by (auto simp: clientWrite_on_def clientRead_on_def clientClose_on_def newRequest_store_def Let_def
      nth_update_if nth_append dest: lawful_connD(3,4) [OF assms(1)]
      split: sum.splits option.splits prod.splits if_splits)

lemma received_deliver:
  assumes "lawful_conn ops received" "deliver_write ops i s = (res, s')" "c < length (sv_conns s)"
  shows "received (sv_conns s' ! c) = received (sv_conns s ! c) @ written_to c [(sv_writes s ! i, res)]"
    and "honest_result (sv_writes s ! i, res)"
proof -
  obtain c0 data where w: "sv_writes s ! i = (c0, data)" by (cases "sv_writes s ! i")
  obtain n err c' where r: "co_client_write ops data (sv_conns s ! c0) = ((n, err), c')"
    by (metis prod.exhaust)
  note law = lawful_connD(2) [OF assms(1) r]
  from assms(2) w r have d: "res = (n, err)" "sv_conns s' = (sv_conns s)[c0 := c']"
    by (auto simp: deliver_write_def)
  show "received (sv_conns s' ! c) = received (sv_conns s ! c) @ written_to c [(sv_writes s ! i, res)]"
    using assms(3) law by (simp add: d w nth_update_if written_def)
  show "honest_result (sv_writes s ! i, res)"
    using law by (simp add: d w honest_result_def)
qed

lemma sv_conns_store:
  "sv_conns (snd (newRequest_store ops k s)) = sv_conns s @ [co_new ops]"
  by (simp add: newRequest_store_def Let_def)

lemma written_to_none: "(\<forall>d\<in>set ds. fst (fst d) \<noteq> c) \<Longrightarrow> written_to c ds = ''''"
  by (simp add: written_to_def)

lemma writes_balanced_same:
  assumes "writes_balanced received w"
    and "w_accepted w' = w_accepted w" "w_delivered w' = w_delivered w"
    and "sv_writes (w_server w') = sv_writes (w_server w)"
    and "length (sv_conns (w_server w')) = length (sv_conns (w_server w))"
    and "\<And>c. c < length (sv_conns (w_server w)) \<Longrightarrow>
      received (sv_conns (w_server w') ! c) = received (sv_conns (w_server w) ! c)"
  shows "writes_balanced received w'"
  using assms by (simp add: writes_balanced_def)

lemma same_lengthD: "same_size s s' \<Longrightarrow> length (sv_conns s') = length (sv_conns s)"
  by (simp add: same_size_def)

lemmas same_length_on = same_size_on [THEN same_lengthD]

lemma writes_balanced_deliver:
  assumes law: "lawful_conn ops received" and b: "writes_balanced received w" and wf: "world_wf w"
    and i: "i < length (sv_writes (w_server w))" and d: "deliver_write ops i (w_server w) = (res, s')"
  shows "writes_balanced received
    (w\<lparr>w_server := s', w_delivered := w_delivered w @ [(sv_writes (w_server w) ! i, res)]\<rparr>)"
proof -
  let ?s = "w_server w"
  have s': "sv_writes s' = drop_at i (sv_writes ?s)" "length (sv_conns s') = length (sv_conns ?s)"
    using sv_writes_on(5) [of ops i ?s] same_length_on(4) [of ops i ?s] d by simp_all
  have "sv_writes ?s ! i \<in> set (sv_writes ?s)" using i by simp
  then have c: "fst (sv_writes ?s ! i) < length (sv_conns ?s)"
    using wf by (auto simp: world_wf_def server_wf_def)
  with received_deliver [OF law d] b s' show ?thesis
    by (simp add: writes_balanced_def mset_drop_at [OF i])
qed

lemma writes_balanced_store:
  assumes law: "lawful_conn ops received" and b: "writes_balanced received w"
  shows "writes_balanced received
    (w\<lparr>w_server := snd (newRequest_store ops k (w_server w)), w_allocating := ks\<rparr>)"
proof -
  have "written_to (length (sv_conns (w_server w))) (w_delivered w) = ''''"
    using b by (intro written_to_none) (auto simp: writes_balanced_def)
  with b lawful_connD(1) [OF law] show ?thesis
    by (auto simp: writes_balanced_def sv_writes_on sv_conns_store nth_append less_Suc_eq)
qed

lemma writes_balanced_step:
  assumes law: "lawful_conn ops received" and "session_step ops w w'"
    and wf: "world_wf w" and b: "writes_balanced received w"
  shows "writes_balanced received w'"
  using assms(2)
proof cases
  case (step_store i)
  then show ?thesis using writes_balanced_store [OF law b] by simp
next
  case (step_write i h body)
  then show ?thesis
    using b received_on(1) [OF law, of _ "w_server w" h body] same_length_on(1) [of h body "w_server w"]
    by (simp add: writes_balanced_def sv_writes_on)
next
  case (step_deliver i res s')
  then show ?thesis using writes_balanced_deliver [OF law b wf] by simp
next
  case (step_transfer c x)
  then show ?thesis
    by (intro writes_balanced_same [OF b]) (auto simp: nth_update_if dest: lawful_connD(5) [OF law])
qed (use received_on [OF law] in \<open>auto intro!: writes_balanced_same [OF b] simp: sv_writes_on same_length_on\<close>)

lemma writes_balanced_init: "writes_balanced received world_init"
  by (simp add: writes_balanced_def world_init_def new_server_def)

lemma writes_balanced_steps:
  assumes "lawful_conn ops received" "session_steps ops w w'"
  shows "world_wf w \<Longrightarrow> writes_balanced received w \<Longrightarrow> world_wf w' \<and> writes_balanced received w'"
  using assms(2)
  by (induction rule: rtranclp_induct) (blast intro: world_wf_step writes_balanced_step [OF assms(1)])+

text \<open>
  C13. What becomes of a write that clientWrite has accepted, whatever the interleaving. Every
  accepted write is carried out exactly once or its goroutine has not run yet; the bytes that the
  server end of a connection has been given are exactly what the writes carried out on this
  connection have put there, in the order in which they ran; and a write has put all of its bytes
  there unless it gave an error. (The error comes after the reply with status 200, and is only
  printed.)
\<close>

theorem accepted_writes_conserved:
  assumes "lawful_conn ops received" "session_reachable ops w"
  shows "mset (w_accepted w) = mset (map fst (w_delivered w)) + mset (sv_writes (w_server w)) \<and>
    (\<forall>c<length (sv_conns (w_server w)).
       received (sv_conns (w_server w) ! c) =
         concat (map (\<lambda>((_, data), (n, _)). take n data) (filter (\<lambda>d. fst (fst d) = c) (w_delivered w)))) \<and>
    (\<forall>((c, data), (n, err))\<in>set (w_delivered w).
       c < length (sv_conns (w_server w)) \<and> n \<le> length data \<and> (err = None \<longrightarrow> n = length data))"
proof -
  have w: "written = (\<lambda>((_, data), (n, _)). take n data)"
    by (rule ext) (simp add: written_def split: prod.split)
  from writes_balanced_steps [OF assms world_wf_init writes_balanced_init] show ?thesis
    by (fastforce simp: writes_balanced_def written_to_def w honest_result_def)
qed

end
