(* ===== verification/Session_Protocol.thy ===== *)
theory Session_Protocol
  imports Session_Client Session_Steps
begin

text \<open>
  The two ends of an HTTP session together. The locale \<open>session_service\<close> is what a client relies
  on: which reply each call may get and when a session id is alive. The client's laws are proved
  from it; the endpoints of the session server, reached by the routes they are registered under,
  satisfy it, so that the laws hold for the client and the server of the program.
\<close>

section \<open>The contract of the service\<close>

locale session_service =
  fixes base :: string
    and service :: "'w http_service"
    and alive :: "'w \<Rightarrow> int \<Rightarrow> bool"
    and inv :: "'w \<Rightarrow> bool"
  assumes inv_step: "inv w \<Longrightarrow> service c w = Returns (res, w') \<Longrightarrow> inv w'"
    and opened: "service (newRequest_call base) w = Returns (Inr j, w') \<Longrightarrow>
      nr_Err (bind_NewRequestResponse j) = '''' \<Longrightarrow> alive w' (nr_ConnectionID (bind_NewRequestResponse j))"
    and write_reply: "service (clientWrite_call base k b) w = Returns (Inr j, w') \<Longrightarrow>
      tp_N (bind_TransactResponse j) =
        (if tp_Err (bind_TransactResponse j) = '''' then int (length b) else 0)"
    and read_reply: "service (clientRead_call base k n) w = Returns (Inr j, w') \<Longrightarrow>
      rp_N (bind_ReadResponse j) = int (length (rp_Data (bind_ReadResponse j)))"
    and closed: "inv w \<Longrightarrow> service (clientClose_call base k) w = Returns (Inr j, w') \<Longrightarrow>
      cp_Err (bind_CloseResponse j) = '''' \<Longrightarrow> \<not> alive w' k"
    and gone: "\<not> alive w k \<Longrightarrow>
      c \<in> {clientWrite_call base k b, clientRead_call base k n, clientClose_call base k} \<Longrightarrow>
      \<exists>j e. service c w = Returns (Inr j, w) \<and> jo_err j = Some e \<and> e \<noteq> ''''"
begin

lemma write_contract:
  assumes "MockClientConn_Write service m b w = Returns ((n, e), w')" "mc_serverBaseUrl m = base"
  shows "n = (if e = None then int (length b) else 0)"
  using assms(1)
proof (cases rule: Write_cases)
  case (reply j)
  then show ?thesis using write_reply [of "mc_connectionID m" b w j w'] assms(2) by (simp add: err_opt_def)
qed simp

lemma read_never_panics:
  assumes "\<And>c w p. service c w \<noteq> Panics p" "mc_serverBaseUrl m = base"
  shows "MockClientConn_Read service po m n w \<noteq> Panics p"
proof
  assume "MockClientConn_Read service po m n w = Panics p"
  then show False
  proof (cases rule: Read_panic_cases)
    case (slice data k w')
    from slice(1) have "k = int (length data)"
      by (cases rule: doRead_cases) (use read_reply assms(2) in auto)
    with slice(2) show False by simp
  qed (use assms(1) in simp)
qed

lemma init_alive:
  assumes "MockClientConn_Init service m w = Returns (None, m', w')" "mc_serverBaseUrl m = base"
  shows "alive w' (mc_connectionID m') \<and> mc_serverBaseUrl m' = base"
  using assms(1) by (cases rule: Init_cases) (use assms(2) opened in auto)

lemma close_ends:
  assumes "inv w" "MockClientConn_Close service po m w = Returns (None, m', w')" "mc_serverBaseUrl m = base"
  shows "\<not> alive w' (mc_connectionID m') \<and> mc_serverBaseUrl m' = base"
  using assms(2) by (cases rule: Close_cases) (use assms(1,3) closed in auto)

lemma dead_fails:
  assumes "\<not> alive w (mc_connectionID m)" "mc_serverBaseUrl m = base"
  shows "\<exists>e. MockClientConn_Write service m b w = Returns ((0, Some e), w)"
    and "\<exists>k e. MockClientConn_Read service po m n w = Returns (('''', k, Some e), m, w)"
    and "\<exists>e. MockClientConn_Close service po m w = Returns (Some e, m, w)"
proof -
  note g = gone [OF assms(1)]
  obtain j e where "service (clientWrite_call base (mc_connectionID m) b) w = Returns (Inr j, w)"
    "jo_err j = Some e" "e \<noteq> ''''"
    using g [of "clientWrite_call base (mc_connectionID m) b" b 0] by auto
  moreover from this write_reply have "tp_N (bind_TransactResponse j) = 0"
    by (fastforce simp: bind_defs)
  ultimately show "\<exists>e. MockClientConn_Write service m b w = Returns ((0, Some e), w)"
    using assms(2) by (simp add: MockClientConn_Write_def bind_defs err_opt_def Let_def)
  obtain j e where "service (clientRead_call base (mc_connectionID m) n) w = Returns (Inr j, w)"
    "jo_err j = Some e" "e \<noteq> ''''"
    using g [of "clientRead_call base (mc_connectionID m) n" b n] by auto
  then show "\<exists>k e. MockClientConn_Read service po m n w = Returns (('''', k, Some e), m, w)"
    using assms(2)
    by (simp add: MockClientConn_Read_def doReadPendingData_def bind_defs err_opt_def Let_def)
  obtain j e where "service (clientClose_call base (mc_connectionID m)) w = Returns (Inr j, w)"
    "jo_err j = Some e" "e \<noteq> ''''"
    using g [of "clientClose_call base (mc_connectionID m)" b 0] by auto
  then show "\<exists>e. MockClientConn_Close service po m w = Returns (Some e, m, w)"
    using assms(2) by (simp add: MockClientConn_Close_def bind_defs Let_def)
qed

end

section \<open>The routes of the session server\<close>

text \<open>
  The dispatch of a client's call to the endpoint that InitRequestRouter registers for it. A body
  that the client does not send reads as end of file. The engine recovers a panic of a handler and
  answers without a body; the error that the client's decoder then reports is the parameter
  \<open>emptyBody\<close>, and \<open>noRoute\<close> is its error for the text page of an unknown route.
\<close>

definition InitRequestRouter ::
    "'c conn_ops \<Rightarrow> go_error \<Rightarrow> go_error \<Rightarrow> string \<Rightarrow> 'c server http_service" where
  "InitRequestRouter ops emptyBody noRoute base call s =
     (let idStr = (case hc_connectionID call of None \<Rightarrow> '''' | Some k \<Rightarrow> show_int k);
          body = (case hc_json call of None \<Rightarrow> Inl ''EOF'' | Some j \<Rightarrow> Inr j);
          answer = (\<lambda>((status, j), s'). Returns (Inr j, s'))
      in if hc_method call = ''POST'' \<and> hc_url call = base @ ''/newRequest'' then answer (newRequest ops s)
         else if hc_method call = ''PUT'' \<and> hc_url call = base @ ''/clientWrite'' then
           answer (clientWrite s idStr body)
         else if hc_method call = ''PUT'' \<and> hc_url call = base @ ''/clientRead'' then
           (case clientRead ops s idStr body of
              Returns r \<Rightarrow> answer r
            | Panics p \<Rightarrow> Returns (Inl emptyBody, s)
            | Blocks \<Rightarrow> Blocks)
         else if hc_method call = ''PUT'' \<and> hc_url call = base @ ''/clientClose'' then
           answer (clientClose ops s idStr)
         else Returns (Inl noRoute, s))"

lemma InitRequestRouter_calls:
  "InitRequestRouter ops eb nr base (newRequest_call base) s =
     (case newRequest ops s of ((status, j), s') \<Rightarrow> Returns (Inr j, s'))"
  "InitRequestRouter ops eb nr base (clientWrite_call base k b) s =
     (case clientWrite s (show_int k) (Inr (json_TransactRequest \<lparr>tq_Data = b\<rparr>)) of
        ((status, j), s') \<Rightarrow> Returns (Inr j, s'))"
  "InitRequestRouter ops eb nr base (clientRead_call base k n) s =
     (case clientRead ops s (show_int k) (Inr (json_ReadRequest \<lparr>rr_Size = int n\<rparr>)) of
        Returns ((status, j), s') \<Rightarrow> Returns (Inr j, s') | Panics p \<Rightarrow> Returns (Inl eb, s) | Blocks \<Rightarrow> Blocks)"
  "InitRequestRouter ops eb nr base (clientClose_call base k) s =
     (case clientClose ops s (show_int k) of ((status, j), s') \<Rightarrow> Returns (Inr j, s'))"
  by (simp_all add: InitRequestRouter_def newRequest_call_def clientWrite_call_def clientRead_call_def
      clientClose_call_def Let_def case_prod_beta split: outcome.split)

section \<open>The server satisfies the contract\<close>

definition session_alive :: "'c server \<Rightarrow> int \<Rightarrow> bool" where
  "session_alive s k \<longleftrightarrow> Mapping.lookup (sv_clientMap s) k \<noteq> None"

lemma server_wf_InitRequestRouter:
  assumes "server_wf s" "InitRequestRouter ops eb nr base c s = Returns (res, s')"
  shows "server_wf s'"
proof -
  note wf = server_wf_newRequest [OF assms(1), of ops] server_wf_clientWrite [OF assms(1)]
    server_wf_clientRead [OF assms(1), of ops] server_wf_clientClose [OF assms(1), of ops]
  from assms(2) show ?thesis
    unfolding InitRequestRouter_def Let_def
    using wf assms(1)
    by (auto split: if_splits outcome.splits prod.splits) (metis snd_conv)+
qed

lemma dead_middleware:
  assumes "\<not> session_alive s k"
  obtains status j e where "connection_id_middleware s (show_int k) = Inl (status, j)" "jo_err j = Some e" "e \<noteq> ''''"
proof (cases "connection_id_middleware s (show_int k)")
  case (Inl r)
  with middleware_error [of s "show_int k" "fst r" "snd r"] that show ?thesis by (cases r) auto
next
  case (Inr h)
  with assms show ?thesis
    by (auto simp: connection_id_middleware_def strconv_ParseInt_printed session_alive_def
        split: option.splits if_splits)
qed

lemma middleware_error_reply:
  "connection_id_middleware s idStr = Inl (status, j) \<Longrightarrow>
   tp_N (bind_TransactResponse j) = 0 \<and> tp_Err (bind_TransactResponse j) \<noteq> '''' \<and>
   rp_N (bind_ReadResponse j) = 0 \<and> rp_Data (bind_ReadResponse j) = '''' \<and>
   cp_Err (bind_CloseResponse j) \<noteq> ''''"
  by (auto simp: connection_id_middleware_def split: option.splits)

interpretation http_session: session_service base "InitRequestRouter ops eb nr base" session_alive server_wf
  for base and ops :: "'c conn_ops" and eb nr
proof
  fix s s' :: "'c server" and c res j k b n
  let ?srv = "InitRequestRouter ops eb nr base"
  show "server_wf s \<Longrightarrow> ?srv c s = Returns (res, s') \<Longrightarrow> server_wf s'"
    by (rule server_wf_InitRequestRouter)
  show "?srv (newRequest_call base) s = Returns (Inr j, s') \<Longrightarrow> nr_Err (bind_NewRequestResponse j) = '''' \<Longrightarrow>
      session_alive s' (nr_ConnectionID (bind_NewRequestResponse j))"
    by (auto simp: InitRequestRouter_calls newRequest_def newRequest_store_def Let_def session_alive_def)
  show "?srv (clientWrite_call base k b) s = Returns (Inr j, s') \<Longrightarrow>
      tp_N (bind_TransactResponse j) =
        (if tp_Err (bind_TransactResponse j) = '''' then int (length b) else 0)"
    by (cases "connection_id_middleware s (show_int k)")
      (auto simp: InitRequestRouter_calls clientWrite_def clientWrite_on_def Let_def
        dest: middleware_error_reply split: prod.splits)
  show "?srv (clientRead_call base k n) s = Returns (Inr j, s') \<Longrightarrow>
      rp_N (bind_ReadResponse j) = int (length (rp_Data (bind_ReadResponse j)))"
    by (cases "connection_id_middleware s (show_int k)")
      (auto simp: InitRequestRouter_calls clientRead_def clientRead_on_def Let_def
        dest: middleware_error_reply split: prod.splits outcome.splits option.splits sum.splits)
  show "\<not> session_alive s k \<Longrightarrow>
      c \<in> {clientWrite_call base k b, clientRead_call base k n, clientClose_call base k} \<Longrightarrow>
      \<exists>j e. ?srv c s = Returns (Inr j, s) \<and> jo_err j = Some e \<and> e \<noteq> ''''"
    by (erule dead_middleware)
      (auto simp: InitRequestRouter_calls clientWrite_def clientRead_def clientClose_def)
  assume wf: "server_wf s" and r: "?srv (clientClose_call base k) s = Returns (Inr j, s')"
    and ok: "cp_Err (bind_CloseResponse j) = ''''"
  from r ok obtain h where h: "connection_id_middleware s (show_int k) = Inr h"
    by (cases "connection_id_middleware s (show_int k)")
      (auto simp: InitRequestRouter_calls clientClose_def dest: middleware_error_reply)
  from middleware_wf [OF wf h] have "cl_connectionID h = k"
    by (auto simp: strconv_ParseInt_printed split: if_splits)
  with r ok h show "\<not> session_alive s' k"
    by (auto simp: InitRequestRouter_calls clientClose_def clientClose_on_def errors_Wrap_def
        session_alive_def lookup_delete' split: prod.splits option.splits)
qed

section \<open>Properties\<close>

text \<open>
  C19. A client's Write keeps the contract of an io.Writer: it reports the whole length and no error,
  or the length 0 and an error. In the first case the session exists and the bytes are queued for its
  connection; in the second case the server has not changed.
\<close>

theorem client_write_all_or_error:
  assumes "MockClientConn_Write (InitRequestRouter ops eb nr base) m b s = Returns ((n, e), s')"
    and "mc_serverBaseUrl m = base"
  shows "(e = None \<and> n = int (length b) \<and>
      (\<exists>h. Mapping.lookup (sv_clientMap s) (mc_connectionID m) = Some h \<and>
           s' = s\<lparr>sv_writes := sv_writes s @ [(cl_conn h, b)]\<rparr>)) \<or>
    (e \<noteq> None \<and> n = 0 \<and> s' = s)"
proof -
  let ?srv = "InitRequestRouter ops eb nr base"
  have n: "n = (if e = None then int (length b) else 0)"
    by (rule http_session.write_contract [OF assms])
  from assms(1) show ?thesis
  proof (cases rule: Write_cases)
    case (err err)
    then show ?thesis using assms(2) by (simp add: InitRequestRouter_calls case_prod_beta)
  next
    case (reply j)
    show ?thesis
    proof (cases "connection_id_middleware s (show_int (mc_connectionID m))")
      case (Inl r)
      with reply assms(2) n middleware_error_reply [of s "show_int (mc_connectionID m)" "fst r" "snd r"]
      show ?thesis by (cases r) (auto simp: InitRequestRouter_calls clientWrite_def err_opt_def)
    next
      case (Inr h)
      then have "Mapping.lookup (sv_clientMap s) (mc_connectionID m) = Some h"
        by (auto simp: connection_id_middleware_def strconv_ParseInt_printed split: option.splits if_splits)
      with Inr reply assms(2) n show ?thesis
        by (auto simp: InitRequestRouter_calls clientWrite_def clientWrite_on_def Let_def err_opt_def)
    qed
  qed
qed

text \<open>
  A client's Read never panics against this server: the slice of the decoded bytes that it takes
  is always in range, for every buffer size, connection state and session id.
\<close>

theorem client_read_never_panics:
  "MockClientConn_Read (InitRequestRouter ops eb nr (mc_serverBaseUrl m)) po m n s \<noteq> Panics p"
proof (rule http_session.read_never_panics [OF _ refl])
  show "InitRequestRouter ops eb nr (mc_serverBaseUrl m) c w \<noteq> Panics q" for c w q
    by (auto simp: InitRequestRouter_def Let_def case_prod_beta split: outcome.split)
qed

text \<open>
  What may happen on the server, in any interleaving, while no newRequest is about to hand out the
  id k: a newRequest that has read the size k of the map has k among the ids it is allocating.
\<close>

definition unissued_step :: "'c conn_ops \<Rightarrow> int \<Rightarrow> 'c world \<Rightarrow> 'c world \<Rightarrow> bool" where
  "unissued_step ops k w w' \<longleftrightarrow> session_step ops w w' \<and> k \<notin> set (w_allocating w)"

lemma clientMap_on:
  "sv_clientMap (snd (clientWrite_on h body s)) = sv_clientMap s"
  "clientRead_on ops h body s = Returns (resp, s') \<Longrightarrow> sv_clientMap s' = sv_clientMap s"
  "sv_clientMap (snd (deliver_write ops i s)) = sv_clientMap s"
  by (auto simp: clientWrite_on_def clientRead_on_def deliver_write_def Let_def
      split: sum.splits option.splits prod.splits if_splits)

lemma dead_on:
  assumes "\<not> session_alive s k"
  shows "\<not> session_alive (snd (clientClose_on ops h s)) k"
    and "k' \<noteq> k \<Longrightarrow> \<not> session_alive (snd (newRequest_store ops k' s)) k"
  using assms
  by (auto simp: session_alive_def clientClose_on_def newRequest_store_def Let_def lookup_update' lookup_delete'
      split: prod.splits option.splits)

lemma dead_step:
  assumes "unissued_step ops k w w'" "\<not> session_alive (w_server w) k"
  shows "\<not> session_alive (w_server w') k"
proof -
  from assms(1) have "session_step ops w w'" and k: "k \<notin> set (w_allocating w)"
    by (simp_all add: unissued_step_def)
  from this(1) show ?thesis
  proof cases
    case (step_store i)
    then have "w_allocating w ! i \<noteq> k" using k by (metis nth_mem)
    with step_store dead_on(2) [OF assms(2)] show ?thesis by simp
  next
    case (step_write i h body)
    with assms(2) show ?thesis by (simp add: session_alive_def clientMap_on)
  next
    case (step_deliver i res s')
    with assms(2) clientMap_on(3) [of ops i "w_server w"] show ?thesis by (simp add: session_alive_def)
  next
    case (step_read i h body resp s')
    with assms(2) show ?thesis by (simp add: session_alive_def clientMap_on(2))
  next
    case (step_read_wake i h body resp s')
    with assms(2) show ?thesis by (simp add: session_alive_def clientMap_on(2))
  next
    case (step_close i h)
    with dead_on(1) [OF assms(2)] show ?thesis by simp
  qed (use assms(2) in \<open>simp_all add: session_alive_def\<close>)
qed

lemma dead_steps:
  "(unissued_step ops k)\<^sup>*\<^sup>* w w' \<Longrightarrow> \<not> session_alive (w_server w) k \<Longrightarrow> \<not> session_alive (w_server w') k"
  by (induction rule: rtranclp_induct) (auto dest: dead_step)

text \<open>
  C18. After a successful Close the session stays gone until its id is handed out again: whatever
  other requests, goroutines and transfers do on the server afterwards, in any interleaving, as long
  as no newRequest is about to hand out the id, every Write, Read and further Close of the client
  returns an error and leaves the server as it is.
\<close>

theorem client_use_after_close_fails:
  assumes "server_wf (w_server w)"
    and "MockClientConn_Close (InitRequestRouter ops eb nr base) po m (w_server w) = Returns (None, m', s')"
    and "mc_serverBaseUrl m = base"
    and "(unissued_step ops (mc_connectionID m'))\<^sup>*\<^sup>* (w\<lparr>w_server := s'\<rparr>) w2"
  shows "(\<exists>e. MockClientConn_Write (InitRequestRouter ops eb nr base) m' b (w_server w2) =
      Returns ((0, Some e), w_server w2)) \<and>
    (\<exists>k e. MockClientConn_Read (InitRequestRouter ops eb nr base) po m' n (w_server w2) =
      Returns (('''', k, Some e), m', w_server w2)) \<and>
    (\<exists>e. MockClientConn_Close (InitRequestRouter ops eb nr base) po m' (w_server w2) =
      Returns (Some e, m', w_server w2))"
proof -
  have "\<not> session_alive s' (mc_connectionID m')" and base: "mc_serverBaseUrl m' = base"
    using http_session.close_ends [OF assms(1-3)] by simp_all
  then have "\<not> session_alive (w_server w2) (mc_connectionID m')"
    using dead_steps [OF assms(4)] by simp
  with base show ?thesis
    using http_session.dead_fails [of "w_server w2" m' base ops eb nr] by blast
qed

lemma middleware_alive:
  assumes "Mapping.lookup (sv_clientMap s) k = Some h" "- (2 ^ 63) \<le> k" "k < 2 ^ 63"
  shows "connection_id_middleware s (show_int k) = Inr h"
  using assms by (simp add: middleware_printed)

text \<open>
  C20. A new session carries the client's bytes to a connection of its own: Init succeeds, the first
  Write reports the whole length, and once the goroutine of the server has run, a new connection, on
  which a transfer has been started, has exactly these bytes; the other connections are unchanged.
\<close>

theorem client_session_carries_bytes:
  assumes "int (Mapping.size (sv_clientMap s)) < 2 ^ 63" "mc_serverBaseUrl m = base"
  shows "\<exists>m' s1 s2. MockClientConn_Init (InitRequestRouter ops eb nr base) m s = Returns (None, m', s1) \<and>
    MockClientConn_Write (InitRequestRouter ops eb nr base) m' b s1 = Returns ((int (length b), None), s2) \<and>
    sv_transfers s2 = sv_transfers s @ [length (sv_conns s)] \<and>
    fst (deliver_write ops (length (sv_writes s)) s2) = fst (co_client_write ops b (co_new ops)) \<and>
    sv_conns (snd (deliver_write ops (length (sv_writes s)) s2)) =
      sv_conns s @ [snd (co_client_write ops b (co_new ops))] \<and>
    sv_writes (snd (deliver_write ops (length (sv_writes s)) s2)) = sv_writes s"
proof -
  let ?k = "int (Mapping.size (sv_clientMap s))"
  let ?h = "\<lparr>cl_connectionID = ?k, cl_conn = length (sv_conns s)\<rparr>"
  let ?m = "m\<lparr>mc_connectionID := ?k\<rparr>"
  define s1 where "s1 = snd (newRequest ops s)"
  have init: "MockClientConn_Init (InitRequestRouter ops eb nr base) m s = Returns (None, ?m, s1)"
    using assms(2)
    by (simp add: MockClientConn_Init_def InitRequestRouter_calls newRequest_def newRequest_store_def
        newRequest_id_def Let_def s1_def)
  have "Mapping.lookup (sv_clientMap s1) ?k = Some ?h"
    by (simp add: s1_def newRequest_def newRequest_store_def newRequest_id_def Let_def)
  then have "connection_id_middleware s1 (show_int ?k) = Inr ?h"
    by (rule middleware_alive) (use assms(1) in auto)
  then have "MockClientConn_Write (InitRequestRouter ops eb nr base) ?m b s1 =
      Returns ((int (length b), None), s1\<lparr>sv_writes := sv_writes s1 @ [(length (sv_conns s), b)]\<rparr>)"
    using assms(2)
    by (simp add: MockClientConn_Write_def InitRequestRouter_calls clientWrite_def clientWrite_on_def
        err_opt_def Let_def)
  with init show ?thesis
    by (intro exI conjI)
      (assumption | simp add: s1_def newRequest_def newRequest_store_def deliver_write_def Let_def split: prod.split)+
qed

text \<open>The local pair of connections hands a chunk that fits the reader's buffer to the next read.\<close>

definition pipe_carries :: "'p pipe_ops \<Rightarrow> nat \<Rightarrow> 'p \<Rightarrow> bool" where
  "pipe_carries po n p \<longleftrightarrow>
     (\<forall>d. length d \<le> n \<longrightarrow> (\<exists>p'. po_client_read po n (po_server_write po d p) = Some (Inr d, p')))"

text \<open>
  C21. What the server's end of a session answers to a read is what the client's Read returns: the
  bytes, all of them, or the error with the messages of both ends in front of it.
\<close>

theorem client_read_relays:
  assumes "Mapping.lookup (sv_clientMap s) (mc_connectionID m) = Some h"
    and "- (2 ^ 63) \<le> mc_connectionID m" "mc_connectionID m < 2 ^ 63" "mc_serverBaseUrl m = base"
    and "co_client_read ops n (sv_conns s ! cl_conn h) = Some (r, c')"
    and "\<And>d. r = Inr d \<Longrightarrow> length d \<le> n" "pipe_carries po n (mc_underlyingConn m)"
  shows "\<exists>m'. MockClientConn_Read (InitRequestRouter ops eb nr base) po m n s =
    Returns (case r of Inl err \<Rightarrow> ('''', 0, Some (''read pending data: read pending data: '' @ err))
             | Inr d \<Rightarrow> (d, int (length d), None),
      m', s\<lparr>sv_conns := (sv_conns s)[cl_conn h := c']\<rparr>)"
proof -
  let ?id = "mc_connectionID m"
  have r: "clientRead ops s (show_int ?id) (Inr (json_ReadRequest \<lparr>rr_Size = int n\<rparr>)) =
    clientRead_on ops h (Inr (json_ReadRequest \<lparr>rr_Size = int n\<rparr>)) s"
    using middleware_alive [OF assms(1-3)] by (simp add: clientRead_def)
  show ?thesis
  proof (cases r)
    case (Inl err)
    with assms(4,5) r show ?thesis
      by (simp add: MockClientConn_Read_def doReadPendingData_def InitRequestRouter_calls
          clientRead_on_def Let_def err_opt_def errors_Wrap_def)
  next
    case (Inr d)
    then obtain p' where "po_client_read po n (po_server_write po d (mc_underlyingConn m)) = Some (Inr d, p')"
      using assms(6,7) by (auto simp: pipe_carries_def)
    with Inr assms(4,5) r show ?thesis
      by (simp add: MockClientConn_Read_def doReadPendingData_def InitRequestRouter_calls
          clientRead_on_def Let_def err_opt_def)
  qed
qed

section \<open>Witnesses\<close>

text \<open>An io.Pipe as a list of chunks: a read takes from the first chunk and waits when there is none.\<close>

definition chunk_pipe :: "string list pipe_ops" where
  "chunk_pipe = \<lparr>po_new = [], po_server_write = (\<lambda>d p. p @ [d]),
     po_client_read = (\<lambda>n p. case p of [] \<Rightarrow> None
       | d # ds \<Rightarrow> Some (Inr (take n d), if drop n d = [] then ds else drop n d # ds)),
     po_close = (\<lambda>p. (None, []))\<rparr>"

lemma sample_ops_simps [simp]:
  "co_client_write echo_ops d (co_new echo_ops) = ((length d, None), d)"
  "pipe_carries chunk_pipe n []"
  "po_close chunk_pipe p = (None, [])"
  "co_protocol_close echo_ops c = (None, '''')"
  by (simp_all add: chunk_pipe_def echo_ops_def pipe_carries_def)

lemma new_server_fields [simp]:
  "sv_clientMap new_server = Mapping.empty" "sv_conns new_server = []" "sv_writes new_server = []"
  by (simp_all add: new_server_def)

definition echo_server :: "string server" where
  "echo_server = snd (open_sessions echo_ops 1 new_server)"

lemma echo_server_facts [simp]:
  "server_wf echo_server"
  "Mapping.lookup (sv_clientMap echo_server) 0 = Some \<lparr>cl_connectionID = 0, cl_conn = 0\<rparr>"
  using server_wf_open_sessions [of echo_ops 1] open_sessions_opened [of echo_ops 1]
  by (simp_all add: echo_server_def opened_def)

abbreviation echo_routes :: "string server http_service" where
  "echo_routes \<equiv> InitRequestRouter echo_ops ''EOF'' ''invalid character'' ''http://a''"

abbreviation sample_client :: "string list mock_client" where
  "sample_client \<equiv> NewMockClientConn chunk_pipe ''http://a''"

lemma sample_client_facts [simp]:
  "mc_connectionID sample_client = 0" "mc_serverBaseUrl sample_client = ''http://a''"
  "mc_underlyingConn sample_client = []"
  by (simp_all add: NewMockClientConn_def chunk_pipe_def)

theorem client_write_all_or_error_witness:
  "MockClientConn_Write echo_routes sample_client ''hi'' new_server =
     Returns ((0, Some ''connection id:0 does not exist''), new_server)"
proof -
  obtain n e s' where r: "MockClientConn_Write echo_routes sample_client ''hi'' new_server = Returns ((n, e), s')"
    and e: "e = Some ''connection id:0 does not exist''"
  proof -
    have "show_int 0 = ''0''" by code_simp
    with middleware_printed [of 0 "new_server :: string server"] that show thesis
      by (simp add: MockClientConn_Write_def InitRequestRouter_calls clientWrite_def new_server_def err_opt_def Let_def)
  qed
  from client_write_all_or_error [OF r] r e show ?thesis by simp
qed

text \<open>
  With two sessions open, the first is closed, and then a newRequest gets as far as reading the size of
  the map, which is 1.
\<close>

theorem client_use_after_close_fails_witness:
  "\<exists>(m' :: string list mock_client) (w2 :: string world) e. w_allocating w2 = [1] \<and>
     MockClientConn_Write echo_routes m' ''hi'' (w_server w2) = Returns ((0, Some e), w_server w2)"
proof -
  let ?s = "snd (open_sessions echo_ops 2 new_server)"
  let ?w = "world_init\<lparr>w_server := ?s\<rparr>"
  have o: "opened echo_ops 2 ?s" using open_sessions_opened [of echo_ops 2] by simp
  have wf: "server_wf (w_server ?w)" by (simp add: server_wf_open_sessions)
  have l: "Mapping.lookup (sv_clientMap ?s) 0 = Some \<lparr>cl_connectionID = 0, cl_conn = 0\<rparr>"
    using o by (auto simp: opened_def dest: spec [of _ 0])
  then have "connection_id_middleware ?s (show_int 0) = Inr \<lparr>cl_connectionID = 0, cl_conn = 0\<rparr>"
    by (rule middleware_alive) simp_all
  then obtain m' s' where c: "MockClientConn_Close echo_routes chunk_pipe sample_client (w_server ?w) = Returns (None, m', s')"
    and s': "sv_clientMap s' = Mapping.delete 0 (sv_clientMap ?s)" and m': "mc_connectionID m' = 0"
    by (simp add: MockClientConn_Close_def InitRequestRouter_calls clientClose_def clientClose_on_def)
  have "newRequest_id s' = 1"
    using o opened_size [OF o] by (simp add: newRequest_id_def s' size_delete opened_def)
  then have "unissued_step echo_ops (mc_connectionID m') (?w\<lparr>w_server := s'\<rparr>) (?w\<lparr>w_server := s', w_allocating := [1]\<rparr>)"
    using step_allocate [of echo_ops "?w\<lparr>w_server := s'\<rparr>"] by (simp add: unissued_step_def world_init_def)
  then have "(unissued_step echo_ops (mc_connectionID m'))\<^sup>*\<^sup>* (?w\<lparr>w_server := s'\<rparr>) (?w\<lparr>w_server := s', w_allocating := [1]\<rparr>)"
    by (rule r_into_rtranclp)
  from client_use_after_close_fails [OF wf c _ this, of "''hi''" 0]
  obtain e where "MockClientConn_Write echo_routes m' ''hi'' s' = Returns ((0, Some e), s')" by auto
  then show ?thesis by (intro exI [of _ m'] exI [of _ "?w\<lparr>w_server := s', w_allocating := [1]\<rparr>"] exI [of _ e]) simp
qed

theorem client_session_carries_bytes_witness:
  "\<exists>m' s1 s2. MockClientConn_Init echo_routes sample_client new_server = Returns (None, m', s1) \<and>
     MockClientConn_Write echo_routes m' ''hi'' s1 = Returns ((2, None), s2) \<and>
     sv_conns (snd (deliver_write echo_ops 0 s2)) = [''hi'']"
  using client_session_carries_bytes [of "new_server :: string server" sample_client "''http://a''" echo_ops "''EOF''"
      "''invalid character''" "''hi''"]
  by auto

theorem client_read_relays_witness:
  "\<exists>m' s'. MockClientConn_Read echo_routes chunk_pipe sample_client 3
     (echo_server\<lparr>sv_conns := [''hello'']\<rparr>) = Returns ((''hel'', 3, None), m', s')"
proof -
  have p: "pipe_carries chunk_pipe 3 (mc_underlyingConn sample_client)"
    by simp
  have r: "co_client_read echo_ops 3 (sv_conns (echo_server\<lparr>sv_conns := [''hello'']\<rparr>) ! cl_conn \<lparr>cl_connectionID = 0, cl_conn = 0\<rparr>) =
      Some (Inr ''hel'', ''lo'')"
    by (simp add: echo_ops_def)
  from client_read_relays [OF _ _ _ _ r _ p, of "''http://a''" "''EOF''" "''invalid character''"]
  show ?thesis by auto
qed

end
