(* ===== verification/Request_Transfer.thy ===== *)
theory Request_Transfer
  imports Go_Base64 Trust_Center Tls_Config
begin

text \<open>
  DoTransfer of transfer.go: one request is read from a TLS connection, marked with the identity of
  the peer, sent to the backend, and the response is written back. The outside world is the record
  \<open>transfer_env\<close>: what \<open>http.ReadRequest\<close> makes of the bytes on the connection, the state of the
  connection, the backend as the HTTP client (gout) sees it, and the error, if any, of writing the
  response. The result records what went to the backend and what was written to the connection,
  and how the function ended; an explicit panic carries the text of its error.
\<close>

record transfer_env =
  te_ReadRequest :: "go_error + request"
  te_ConnectionState :: conn_state
  te_backend :: "request \<Rightarrow> go_error + response"
  te_write :: "response \<Rightarrow> go_error option"

record transfer_result =
  tr_sent :: "request list"
  tr_written :: "response list"
  tr_end :: "unit go"

text \<open>The identity headers replace what the request has under their keys.\<close>

definition attach_identity ::
    "(request \<Rightarrow> certificate \<Rightarrow> (go_error + header) go) \<Rightarrow> request \<Rightarrow> certificate \<Rightarrow> request go" where
  "attach_identity handle r peerCert =
     go_bind (handle r peerCert) (\<lambda>res.
       case res of
         Inl err \<Rightarrow> Inl (PanicWith err)
       | Inr identityHttpHeader \<Rightarrow> Inr (r\<lparr>rq_Header := rq_Header r ++ identityHttpHeader\<rparr>))"

definition backend_request :: "conn_state \<Rightarrow> string \<Rightarrow> request \<Rightarrow> request go" where
  "backend_request tlsConnState backendServiceHost r0 =
     (let r1 = r0\<lparr>rq_TLS := Some tlsConnState\<rparr>
      in go_bind (go_index (cs_PeerCertificates tlsConnState) 0) (\<lambda>peerCert.
         let peerCertDERB64 = b64_encode (ct_Raw peerCert);
             r2 = r1\<lparr>rq_Header := header_Set (rq_Header r1) ''SSL-Client-Cert'' peerCertDERB64\<rparr>
         in go_bind (attach_identity HandleIdentity r2 peerCert) (\<lambda>r3.
            Inr (r3\<lparr>rq_URL := (rq_URL r3)\<lparr>url_Scheme := ''http'', url_Host := backendServiceHost\<rparr>,
                    rq_RequestURI := ''''\<rparr>))))"

definition DoTransfer :: "transfer_env \<Rightarrow> string \<Rightarrow> transfer_result" where
  "DoTransfer env backendServiceHost =
     (case te_ReadRequest env of
        Inl err \<Rightarrow> \<lparr>tr_sent = [], tr_written = [], tr_end = Inl (PanicWith err)\<rparr>
      | Inr r0 \<Rightarrow>
          (case backend_request (te_ConnectionState env) backendServiceHost r0 of
             Inl p \<Rightarrow> \<lparr>tr_sent = [], tr_written = [], tr_end = Inl p\<rparr>
           | Inr r \<Rightarrow>
               (case te_backend env r of
                  Inl err \<Rightarrow>
                    \<lparr>tr_sent = [r], tr_written = [],
                     tr_end = Inl (PanicWith (errors_Wrap err ''request backend service''))\<rparr>
                | Inr resp \<Rightarrow>
                    (let resp' = resp\<lparr>rs_Header :=
                           header_Set (rs_Header resp) ''X-Request-Url'' (url_String (rq_URL r))\<rparr>
                     in \<lparr>tr_sent = [r], tr_written = [resp'],
                         tr_end = (case te_write env resp' of
                                     None \<Rightarrow> Inr ()
                                   | Some err \<Rightarrow> Inl (PanicWith err))\<rparr>))))"

section \<open>Facts from the contract of the identity handler\<close>

text \<open>
  The loop over the returned header in the source assigns key by key in an order that Go leaves
  open; \<open>attach_identity\<close> is this loop in any order.
\<close>

lemma attach_identity_any_order:
  assumes "handle r c = Inr (Inr h)" "enumerates kvs h"
  shows "attach_identity handle r c = Inr (r\<lparr>rq_Header := range_assign kvs (rq_Header r)\<rparr>)"
  using assms by (simp add: attach_identity_def range_assign_any_order)

context identity_handler
begin

lemma attach_identity_cases:
  "attach_identity handle r c = Inr r' \<Longrightarrow>
   \<exists>h. handle r c = Inr (Inr h) \<and> r' = r\<lparr>rq_Header := rq_Header r ++ h\<rparr>"
  by (cases "handle r c") (auto simp: attach_identity_def split: sum.splits)

lemma attached_identity:
  assumes "attach_identity handle r c = Inr r'"
    and "header_Get (rq_Header r) ''X-Identity-Type'' = ''cert-rpc''"
  shows "header_Get (rq_Header r') ''X-From-Deploy'' = cert_deploy c"
    and "header_Get (rq_Header r') ''X-From-Service'' = cert_service c"
proof -
  obtain h where h: "handle r c = Inr (Inr h)" and r': "r' = r\<lparr>rq_Header := rq_Header r ++ h\<rparr>"
    using attach_identity_cases [OF assms(1)] by blast
  note merged = merged_attests [OF h assms(2), of "rq_Header r"]
  show "header_Get (rq_Header r') ''X-From-Deploy'' = cert_deploy c" using merged(1) by (simp add: r')
  show "header_Get (rq_Header r') ''X-From-Service'' = cert_service c" using merged(2) by (simp add: r')
qed

lemma attached_frame:
  assumes "attach_identity handle r c = Inr r'"
    and "canonical_key k \<notin> {''X-Identity-Type'', ''X-From-Deploy'', ''X-From-Service''}"
  shows "header_Get (rq_Header r') k = header_Get (rq_Header r) k"
proof -
  obtain h where "handle r c = Inr (Inr h)" "r' = r\<lparr>rq_Header := rq_Header r ++ h\<rparr>"
    using attach_identity_cases [OF assms(1)] by blast
  with merged_frame [OF _ assms(2)] show ?thesis by simp
qed

lemma attached_fields:
  assumes "attach_identity handle r c = Inr r'"
  shows "rq_URL r' = rq_URL r \<and> rq_Method r' = rq_Method r \<and> rq_Body r' = rq_Body r \<and> rq_TLS r' = rq_TLS r"
  using attach_identity_cases [OF assms] by auto

end

lemma backend_request_cases:
  assumes "backend_request cs host r0 = Inr r"
  shows "\<exists>cert rest r3. cs_PeerCertificates cs = cert # rest \<and>
    attach_identity HandleIdentity
      (r0\<lparr>rq_TLS := Some cs, rq_Header := header_Set (rq_Header r0) ''SSL-Client-Cert'' (b64_encode (ct_Raw cert))\<rparr>)
      cert = Inr r3 \<and>
    r = r3\<lparr>rq_URL := (rq_URL r3)\<lparr>url_Scheme := ''http'', url_Host := host\<rparr>, rq_RequestURI := ''''\<rparr>"
  using assms
  by (auto simp: backend_request_def Let_def go_bind_eq_Inr_iff go_index_zero_eq split: list.splits)

lemma DoTransfer_sent:
  "r \<in> set (tr_sent (DoTransfer env host)) \<Longrightarrow>
   \<exists>r0. te_ReadRequest env = Inr r0 \<and> backend_request (te_ConnectionState env) host r0 = Inr r"
  by (auto simp: DoTransfer_def Let_def split: sum.splits)

text \<open>What every request that a transfer sends has of the request it read and of the peer.\<close>

lemma sent_identity:
  assumes "r \<in> set (tr_sent (DoTransfer env host))"
  obtains r0 cert rest where "te_ReadRequest env = Inr r0" "cs_PeerCertificates (te_ConnectionState env) = cert # rest"
    "rq_URL r = (rq_URL r0)\<lparr>url_Scheme := ''http'', url_Host := host\<rparr>"
    "rq_Method r = rq_Method r0" "rq_Body r = rq_Body r0"
    "header_Get (rq_Header r) ''SSL-Client-Cert'' = b64_encode (ct_Raw cert)"
    "header_Get (rq_Header r0) ''X-Identity-Type'' = ''cert-rpc'' \<Longrightarrow>
       header_Get (rq_Header r) ''X-From-Deploy'' = cert_deploy cert \<and>
       header_Get (rq_Header r) ''X-From-Service'' = cert_service cert"
proof -
  obtain r0 where r0: "te_ReadRequest env = Inr r0" "backend_request (te_ConnectionState env) host r0 = Inr r"
    using DoTransfer_sent [OF assms] by blast
  from backend_request_cases [OF r0(2)] obtain cert rest r3 where
    c: "cs_PeerCertificates (te_ConnectionState env) = cert # rest" and
    a: "attach_identity HandleIdentity
      (r0\<lparr>rq_TLS := Some (te_ConnectionState env),
          rq_Header := header_Set (rq_Header r0) ''SSL-Client-Cert'' (b64_encode (ct_Raw cert))\<rparr>) cert = Inr r3" and
    r: "r = r3\<lparr>rq_URL := (rq_URL r3)\<lparr>url_Scheme := ''http'', url_Host := host\<rparr>, rq_RequestURI := ''''\<rparr>"
    by blast
  show thesis
    by (rule that [OF r0(1) c])
      (use r rpc_identity.attached_fields [OF a] rpc_identity.attached_identity [OF a]
      rpc_identity.attached_frame [OF a, of "''SSL-Client-Cert''"]
      in \<open>simp_all add: header_Get_Set\<close>)
qed

section \<open>Properties\<close>

text \<open>
  C9. What the backend is told about the peer. Every request that DoTransfer sends goes over http to
  the configured backend with the caller's method, path, query and body; its SSL-Client-Cert header
  decodes to the DER bytes of the peer certificate, whatever the caller sent under this name; and
  when the caller asks for the identity type cert-rpc, X-From-Deploy and X-From-Service are the
  organizational unit and the common name of the peer certificate.
\<close>

theorem transfer_marks_peer:
  assumes "r \<in> set (tr_sent (DoTransfer env host))"
  shows "\<exists>r0 cert rest. te_ReadRequest env = Inr r0 \<and>
    cs_PeerCertificates (te_ConnectionState env) = cert # rest \<and>
    rq_URL r = (rq_URL r0)\<lparr>url_Scheme := ''http'', url_Host := host\<rparr> \<and>
    rq_Method r = rq_Method r0 \<and> rq_Body r = rq_Body r0 \<and>
    b64_decode (header_Get (rq_Header r) ''SSL-Client-Cert'') = Some (ct_Raw cert) \<and>
    (header_Get (rq_Header r0) ''X-Identity-Type'' = ''cert-rpc'' \<longrightarrow>
       header_Get (rq_Header r) ''X-From-Deploy'' = cert_deploy cert \<and>
       header_Get (rq_Header r) ''X-From-Service'' = cert_service cert)"
  using assms by (rule sent_identity) (simp add: exI)

text \<open>
  The identity that a backend reads is only attested for the identity type cert-rpc. With any
  other type, the empty one included, DoTransfer passes on the X-From-Deploy and X-From-Service
  headers exactly as the caller wrote them; without a type the backend sees user-anonymous.
\<close>

theorem transfer_passes_unattested_identity:
  assumes "te_ReadRequest env = Inr r0" "r \<in> set (tr_sent (DoTransfer env host))"
    and "header_Get (rq_Header r0) ''X-Identity-Type'' \<noteq> ''cert-rpc''"
  shows "header_Get (rq_Header r) ''X-From-Deploy'' = header_Get (rq_Header r0) ''X-From-Deploy'' \<and>
    header_Get (rq_Header r) ''X-From-Service'' = header_Get (rq_Header r0) ''X-From-Service'' \<and>
    header_Get (rq_Header r) ''X-Identity-Type'' =
      (if header_Get (rq_Header r0) ''X-Identity-Type'' = '''' then ''user-anonymous''
       else header_Get (rq_Header r0) ''X-Identity-Type'')"
proof -
  have "backend_request (te_ConnectionState env) host r0 = Inr r"
    using DoTransfer_sent [OF assms(2)] assms(1) by auto
  from backend_request_cases [OF this] obtain cert r3 where
    a: "attach_identity HandleIdentity
      (r0\<lparr>rq_TLS := Some (te_ConnectionState env),
          rq_Header := header_Set (rq_Header r0) ''SSL-Client-Cert'' (b64_encode (ct_Raw cert))\<rparr>) cert = Inr r3" and
    r: "rq_Header r = rq_Header r3"
    by auto
  let ?r2 = "r0\<lparr>rq_TLS := Some (te_ConnectionState env),
          rq_Header := header_Set (rq_Header r0) ''SSL-Client-Cert'' (b64_encode (ct_Raw cert))\<rparr>"
  have idt: "header_Get (rq_Header ?r2) ''X-Identity-Type'' = header_Get (rq_Header r0) ''X-Identity-Type''"
    by (simp add: header_Get_Set)
  show ?thesis
  proof (cases "header_Get (rq_Header r0) ''X-Identity-Type'' = ''''")
    case True
    with a HandleIdentity_anonymous [of ?r2 cert] idt r show ?thesis
      by (auto simp: attach_identity_def header_Get_upd header_Get_Set)
  next
    case False
    with a HandleIdentity_other [of ?r2 cert] idt r assms(3) show ?thesis
      by (auto simp: attach_identity_def header_Get_Set)
  qed
qed

text \<open>
  The request that a backend gets, written out: the header the caller sent with the peer's
  certificate and the identity that goes with the requested identity type.
\<close>

definition marked_header :: "certificate \<Rightarrow> header \<Rightarrow> header" where
  "marked_header cert h =
     (let h1 = header_Set h ''SSL-Client-Cert'' (b64_encode (ct_Raw cert));
          t = header_Get h ''X-Identity-Type''
      in if t = '''' then h1(''X-Identity-Type'' \<mapsto> [''user-anonymous''])
         else if t = ''cert-rpc'' then
           h1(''X-From-Deploy'' \<mapsto> [cert_deploy cert], ''X-From-Service'' \<mapsto> [cert_service cert])
         else h1)"

definition marked_request :: "conn_state \<Rightarrow> string \<Rightarrow> certificate \<Rightarrow> request \<Rightarrow> request" where
  "marked_request cs host cert r0 =
     r0\<lparr>rq_TLS := Some cs, rq_Header := marked_header cert (rq_Header r0),
        rq_URL := (rq_URL r0)\<lparr>url_Scheme := ''http'', url_Host := host\<rparr>, rq_RequestURI := ''''\<rparr>"

definition tagged_response :: "request \<Rightarrow> response \<Rightarrow> response" where
  "tagged_response r resp =
     resp\<lparr>rs_Header := header_Set (rs_Header resp) ''X-Request-Url'' (url_String (rq_URL r))\<rparr>"

lemma attach_identity_marked:
  assumes "rq_Header r = header_Set h ''SSL-Client-Cert'' (b64_encode (ct_Raw cert))"
  shows "attach_identity HandleIdentity r cert =
    (if header_Get h ''X-Identity-Type'' = ''cert-rpc'' \<and> \<not> has_deploy cert then Inl IndexOutOfRange
     else Inr (r\<lparr>rq_Header := marked_header cert h\<rparr>))"
proof -
  have t: "header_Get (rq_Header r) ''X-Identity-Type'' = header_Get h ''X-Identity-Type''"
    by (simp add: assms header_Get_Set)
  consider "header_Get h ''X-Identity-Type'' = ''''" | "header_Get h ''X-Identity-Type'' = ''cert-rpc''"
    | "header_Get h ''X-Identity-Type'' \<notin> {'''', ''cert-rpc''}" by blast
  then show ?thesis
  proof cases
    case 1
    then show ?thesis
      using HandleIdentity_anonymous [of r cert] t
      by (simp add: attach_identity_def assms marked_header_def Let_def)
  next
    case 2
    then show ?thesis
      using HandleIdentity_rpc [of r cert] t
      by (simp add: attach_identity_def assms marked_header_def Let_def fun_upd_twist)
  next
    case 3
    then show ?thesis
      using HandleIdentity_other [of r cert] t
      by (simp add: attach_identity_def assms [symmetric] marked_header_def Let_def)
  qed
qed

lemma backend_request_marked:
  "backend_request cs host r0 =
     (case cs_PeerCertificates cs of
        [] \<Rightarrow> Inl IndexOutOfRange
      | cert # _ \<Rightarrow>
          if header_Get (rq_Header r0) ''X-Identity-Type'' = ''cert-rpc'' \<and> \<not> has_deploy cert
          then Inl IndexOutOfRange else Inr (marked_request cs host cert r0))"
  by (cases "cs_PeerCertificates cs")
    (simp_all add: backend_request_def Let_def go_index_zero_eq marked_request_def
      attach_identity_marked)

lemma transfer_returns_iff:
  "tr_end (DoTransfer env host) = Inr () \<longleftrightarrow>
     (\<exists>r0 cert rest resp. te_ReadRequest env = Inr r0 \<and>
        cs_PeerCertificates (te_ConnectionState env) = cert # rest \<and>
        (header_Get (rq_Header r0) ''X-Identity-Type'' = ''cert-rpc'' \<longrightarrow> has_deploy cert) \<and>
        te_backend env (marked_request (te_ConnectionState env) host cert r0) = Inr resp \<and>
        te_write env (tagged_response (marked_request (te_ConnectionState env) host cert r0) resp) = None)"
  by (auto simp: DoTransfer_def Let_def backend_request_marked tagged_response_def
      split: sum.splits option.splits list.splits if_splits)

text \<open>
  C11. When DoTransfer returns normally and when it panics. It returns exactly when the request can
  be read, the peer showed a certificate, a request with the identity type cert-rpc comes with a
  certificate that names a deployment, the backend answers the marked request, and the response can
  be written with the header X-Request-Url added; then exactly this request was sent and exactly this
  response was written. In every other case it panics.
\<close>

theorem transfer_completes_iff:
  "tr_end (DoTransfer env host) = Inr () \<longleftrightarrow>
     (\<exists>r0 cert rest r resp. te_ReadRequest env = Inr r0 \<and>
        cs_PeerCertificates (te_ConnectionState env) = cert # rest \<and>
        (header_Get (rq_Header r0) ''X-Identity-Type'' \<noteq> ''cert-rpc'' \<or> has_deploy cert) \<and>
        r = marked_request (te_ConnectionState env) host cert r0 \<and> te_backend env r = Inr resp \<and>
        te_write env (tagged_response r resp) = None \<and>
        tr_sent (DoTransfer env host) = [r] \<and> tr_written (DoTransfer env host) = [tagged_response r resp])"
  by (auto simp: DoTransfer_def Let_def backend_request_marked tagged_response_def
      split: sum.splits option.splits list.splits if_splits)

section \<open>Witnesses\<close>

definition transfer_sample_cert :: certificate where
  "transfer_sample_cert = \<lparr>ct_Raw = ''der'',
     ct_Subject = \<lparr>pn_Organization = [''JianLi''], pn_OrganizationalUnit = [''center''], pn_CommonName = ''company''\<rparr>,
     ct_PublicKey = ''pk''\<rparr>"

definition transfer_sample_env :: "header \<Rightarrow> transfer_env" where
  "transfer_sample_env h =
     \<lparr>te_ReadRequest = Inr \<lparr>rq_Method = ''GET'',
        rq_URL = \<lparr>url_Scheme = '''', url_Host = '''', url_Path = ''/items'', url_RawPath = '''', url_RawQuery = ''''\<rparr>,
        rq_Host = ''storage'', rq_Header = h, rq_Body = '''', rq_ProtoMajor = 1, rq_ProtoMinor = 1,
        rq_TLS = None, rq_RequestURI = ''/items''\<rparr>,
      te_ConnectionState = \<lparr>cs_PeerCertificates = [transfer_sample_cert]\<rparr>,
      te_backend = (\<lambda>_. Inr \<lparr>rs_StatusCode = 200, rs_Header = Map.empty, rs_Body = ''ok'', rs_ContentLength = 2\<rparr>),
      te_write = (\<lambda>_. None)\<rparr>"

lemma transfer_sample_sent:
  "\<exists>r. tr_sent (DoTransfer (transfer_sample_env h) host) = [r]"
  by (auto simp: DoTransfer_def transfer_sample_env_def backend_request_def attach_identity_def Let_def
      HandleIdentity_def NewServiceCertificate_eq transfer_sample_cert_def has_deploy_def)

theorem transfer_completes_iff_witness:
  "tr_end (DoTransfer (transfer_sample_env Map.empty) ''backend:80'') = Inr ()"
proof -
  let ?env = "transfer_sample_env Map.empty"
  obtain r0 where "te_ReadRequest ?env = Inr r0" "rq_Header r0 = Map.empty"
    by (simp add: transfer_sample_env_def)
  then show ?thesis
    unfolding transfer_completes_iff
    by (auto simp: transfer_sample_env_def header_Get_def DoTransfer_def backend_request_marked
        tagged_response_def Let_def)
qed

theorem transfer_marks_peer_witness:
  "\<exists>r. tr_sent (DoTransfer (transfer_sample_env [''X-Identity-Type'' \<mapsto> [''cert-rpc''],
        ''X-From-Deploy'' \<mapsto> [''forged'']]) ''backend:80'') = [r] \<and>
     header_Get (rq_Header r) ''X-From-Deploy'' = ''center'' \<and>
     b64_decode (header_Get (rq_Header r) ''SSL-Client-Cert'') = Some ''der''"
proof -
  let ?env = "transfer_sample_env [''X-Identity-Type'' \<mapsto> [''cert-rpc''], ''X-From-Deploy'' \<mapsto> [''forged'']]"
  obtain r where r: "tr_sent (DoTransfer ?env ''backend:80'') = [r]"
    using transfer_sample_sent by blast
  with transfer_marks_peer [of r ?env "''backend:80''"] show ?thesis
    by (auto simp: transfer_sample_env_def header_Get_def transfer_sample_cert_def cert_deploy_def)
qed

theorem transfer_passes_unattested_identity_witness:
  "\<exists>r. tr_sent (DoTransfer (transfer_sample_env [''X-From-Deploy'' \<mapsto> [''forged'']]) ''backend:80'') = [r] \<and>
     header_Get (rq_Header r) ''X-From-Deploy'' = ''forged'' \<and>
     header_Get (rq_Header r) ''X-Identity-Type'' = ''user-anonymous''"
proof -
  let ?h = "[''X-From-Deploy'' \<mapsto> [''forged'']]"
  obtain r where r: "tr_sent (DoTransfer (transfer_sample_env ?h) ''backend:80'') = [r]"
    using transfer_sample_sent by blast
  obtain r0 where r0: "te_ReadRequest (transfer_sample_env ?h) = Inr r0" "rq_Header r0 = ?h"
    by (simp add: transfer_sample_env_def)
  have "header_Get (rq_Header r0) ''X-Identity-Type'' \<noteq> ''cert-rpc''"
    using r0 by (simp add: header_Get_def)
  from transfer_passes_unattested_identity [OF r0(1) _ this, of r "''backend:80''"] r r0 show ?thesis
    by (simp add: header_Get_def)
qed

end
