(* ===== verification/Wrap_Router.thy ===== *)
theory Wrap_Router
  imports Session_Protocol Request_Transfer
begin

text \<open>
  The caller's side of the session protocols: the /wrap endpoints (InitWrapRouter of
  http_handler/server_main.go and of ws_handler/server_main.go), which turn a plain request with
  X-Target headers into a request over TLS, and the two clients that do it, NewHttpClient
  (http_handler/http_client.go) over a session of \<open>Session_Client\<close> and NewWSClient
  (ws_handler/ws_client.go) over a web socket. The source has the endpoint and the client twice, and so
  has this theory. Parameters are \<open>http.NewRequest\<close>, what crypto/tls
  and net/http do on an established connection (\<open>tls_ops\<close>), and the web socket with its context
  (\<open>ws_ops\<close>). The type \<open>'t\<close> is the state of everything below the TLS client.
\<close>

record 't tls_ops =
  tl_Write :: "tls_config \<Rightarrow> request \<Rightarrow> 't \<Rightarrow> go_error option \<times> 't"
  tl_ReadResponse :: "request \<Rightarrow> 't \<Rightarrow> (go_error + response) \<times> 't"
  tl_ReadBody :: "'t \<Rightarrow> (go_error + string) \<times> 't"
  tl_Close :: "'t \<Rightarrow> 't"

text \<open>
  \<open>tl_Write\<close> is \<open>request.Write\<close> on a new TLS client with this configuration; \<open>tl_ReadBody\<close> reads the
  body of the response to its end; the clients ignore the error of closing. \<open>ws_NetConn\<close> makes a
  connection of the web socket under a context that expires after so many seconds, and
  \<open>ws_cancelFn\<close> is the function that cancels this context.
\<close>

record 't ws_ops =
  ws_Dial :: "string \<Rightarrow> 't \<Rightarrow> (go_error \<times> 't) + 't"
  ws_NetConn :: "nat \<Rightarrow> 't \<Rightarrow> 't"
  ws_cancelFn :: "'t \<Rightarrow> 't"

section \<open>The client over HTTP\<close>

definition NewHttpClient ::
    "'w http_service \<Rightarrow> 'p pipe_ops \<Rightarrow> ('p mock_client \<times> 'w) tls_ops \<Rightarrow> string \<Rightarrow> tls_config \<Rightarrow> request \<Rightarrow> 'w \<Rightarrow>
     ((go_error + response) \<times> 'w) outcome" where
  "NewHttpClient http po tops serverBaseUrl tlsConfig req w =
     outcome_bind (MockClientConn_Init http (NewMockClientConn po serverBaseUrl) w) (\<lambda>(err, clientConn, w1).
       case err of
         Some e \<Rightarrow> Panics (PanicWith e)
       | None \<Rightarrow>
           (case tl_Write tops tlsConfig req (clientConn, w1) of
              (Some e, t2) \<Rightarrow> Panics (PanicWith (errors_Wrap e ''write http request''))
            | (None, t2) \<Rightarrow>
                (case tl_ReadResponse tops req t2 of
                   (Inl e, t3) \<Rightarrow> Returns (Inl (errors_Wrap e ''read http response''), snd t3)
                 | (Inr resp, t3) \<Rightarrow>
                     (case tl_ReadBody tops t3 of
                        (Inl e, t4) \<Rightarrow> Returns (Inl (errors_Wrap e ''read response body''), snd t4)
                      | (Inr respBodyData, t4) \<Rightarrow>
                          Returns (Inr (resp\<lparr>rs_Body := respBodyData\<rparr>), snd (tl_Close tops t4))))))"

section \<open>The client over a web socket\<close>

text \<open>The context is cancelled on every return; a panic leaves no state to speak of.\<close>

definition NewWSClient ::
    "'t ws_ops \<Rightarrow> 't tls_ops \<Rightarrow> string \<Rightarrow> tls_config \<Rightarrow> request \<Rightarrow> 't \<Rightarrow> ((go_error + response) \<times> 't) outcome" where
  "NewWSClient ws tops serverBaseUrl tlsConfig request t =
     (let targetWSURL = serverBaseUrl @ ''/tlsRequest''
      in case ws_Dial ws targetWSURL t of
           Inl (err, t1) \<Rightarrow> Panics (PanicWith err)
         | Inr t1 \<Rightarrow>
             (case tl_Write tops tlsConfig request (ws_NetConn ws 60 t1) of
                (Some err, t2) \<Rightarrow> Panics (PanicWith err)
              | (None, t2) \<Rightarrow>
                  (case tl_ReadResponse tops request t2 of
                     (Inl err, t3) \<Rightarrow> Returns (Inl (errors_Wrap err ''read http response''), ws_cancelFn ws t3)
                   | (Inr response, t3) \<Rightarrow>
                       (case tl_ReadBody tops t3 of
                          (Inl err, t4) \<Rightarrow> Returns (Inl (errors_Wrap err ''read response body''), ws_cancelFn ws t4)
                        | (Inr respBodyData, t4) \<Rightarrow>
                            Returns (Inr (response\<lparr>rs_Body := respBodyData\<rparr>), ws_cancelFn ws (tl_Close tops t4))))))"

section \<open>The endpoints\<close>

text \<open>
  What a handler leaves in gin's writer: the header map and one call that renders the reply. Both
  clients hand over a body that is already in memory, so that reading it again cannot fail.
\<close>

datatype gin_render =
    GinJSON int string
  | GinData int string string

record wrap_reply =
  wp_header :: header
  wp_render :: gin_render

type_synonym new_request = "string \<Rightarrow> string \<Rightarrow> string \<Rightarrow> go_error + request"

text \<open>The two servers, as far as the endpoints read them.\<close>

record sidecar_server =
  ss_ServerTLSConfigFactory :: server_tls_config_factory
  ss_ClientTLSConfigFactory :: client_tls_config_factory
  ss_BackendServiceHost :: string
  ss_DeployIDHostMap :: "string \<Rightarrow> string option"

subsection \<open>Over HTTP\<close>

definition wrap_serverBaseUrl :: "string \<Rightarrow> string \<Rightarrow> string" where
  "wrap_serverBaseUrl deployHost targetServiceID = ''http://'' @ deployHost @ ''/'' @ targetServiceID @ ''/http''"

definition wrap_realUrl :: "header \<Rightarrow> string" where
  "wrap_realUrl h =
     ''http://'' @ header_Get h ''X-Target-Service'' @ header_Get h ''X-Target-Path'' @ ''?'' @
     header_Get h ''X-Target-Query''"

definition wrap_outgoing :: "new_request \<Rightarrow> request \<Rightarrow> go_error + request" where
  "wrap_outgoing httpNewRequest c =
     (case httpNewRequest (header_Get (rq_Header c) ''X-Target-Method'') (wrap_realUrl (rq_Header c)) (rq_Body c) of
        Inl err \<Rightarrow> Inl err
      | Inr req \<Rightarrow>
          Inr (req\<lparr>rq_Header := header_Set (rq_Header c) IdentityTypeHeaderKey IdentityTypeCertRPC\<rparr>))"

definition HttpSidecarServer_InitWrapRouter ::
    "sidecar_server \<Rightarrow> new_request \<Rightarrow> 'w http_service \<Rightarrow> 'p pipe_ops \<Rightarrow> ('p mock_client \<times> 'w) tls_ops \<Rightarrow>
     request \<Rightarrow> header \<Rightarrow> 'w \<Rightarrow> (wrap_reply \<times> 'w) outcome" where
  "HttpSidecarServer_InitWrapRouter h httpNewRequest http po tops c writerHeader w =
     (let tlsConfig = NewClientConfig (ss_ClientTLSConfigFactory h);
          targetDeployID = header_Get (rq_Header c) ''X-Target-Deploy'';
          targetServiceID = header_Get (rq_Header c) ''X-Target-Service'';
          answer = (\<lambda>r. \<lparr>wp_header = writerHeader, wp_render = r\<rparr>)
      in case ss_DeployIDHostMap h targetDeployID of
           None \<Rightarrow>
             Returns (answer (GinJSON StatusNotFound (''deploy id:'' @ targetDeployID @ '' does not exist'')), w)
         | Some deployHost \<Rightarrow>
             (case wrap_outgoing httpNewRequest c of
                Inl err \<Rightarrow> Returns (answer (GinJSON StatusBadRequest (errors_Wrap err ''new http request'')), w)
              | Inr req \<Rightarrow>
                  outcome_bind
                    (NewHttpClient http po tops (wrap_serverBaseUrl deployHost targetServiceID) tlsConfig req w)
                    (\<lambda>(res, w').
                       case res of
                         Inl err \<Rightarrow>
                           Returns (answer (GinJSON StatusInternalServerError (errors_Wrap err ''do tls request'')), w')
                       | Inr resp \<Rightarrow>
                           Returns (\<lparr>wp_header = writerHeader ++ rs_Header resp,
                             wp_render = GinData (rs_StatusCode resp)
                               (header_Get (rs_Header resp) ''Content-Type'') (rs_Body resp)\<rparr>, w'))))"

subsection \<open>Over a web socket\<close>

definition ws_wrap_serverBaseUrl :: "string \<Rightarrow> string \<Rightarrow> string" where
  "ws_wrap_serverBaseUrl deployHost targetServiceID = ''http://'' @ deployHost @ ''/'' @ targetServiceID"

definition ws_wrap_realUrl :: "header \<Rightarrow> string" where
  "ws_wrap_realUrl h =
     (let targetPath = header_Get h ''X-Target-Path''; targetQuery = header_Get h ''X-Target-Query'';
          targetServiceID = header_Get h ''X-Target-Service''
      in ''http://'' @ targetServiceID @ targetPath @ ''?'' @ targetQuery)"

definition ws_wrap_outgoing :: "new_request \<Rightarrow> request \<Rightarrow> go_error + request" where
  "ws_wrap_outgoing httpNewRequest c =
     (let targetMethod = header_Get (rq_Header c) ''X-Target-Method''
      in case httpNewRequest targetMethod (ws_wrap_realUrl (rq_Header c)) (rq_Body c) of
           Inl err \<Rightarrow> Inl err
         | Inr req \<Rightarrow>
             Inr (req\<lparr>rq_Header := header_Set (rq_Header c) IdentityTypeHeaderKey IdentityTypeCertRPC\<rparr>))"

definition WebSocketSidecarServer_InitWrapRouter ::
    "sidecar_server \<Rightarrow> new_request \<Rightarrow> 't ws_ops \<Rightarrow> 't tls_ops \<Rightarrow>
     request \<Rightarrow> header \<Rightarrow> 't \<Rightarrow> (wrap_reply \<times> 't) outcome" where
  "WebSocketSidecarServer_InitWrapRouter h httpNewRequest ws tops c writerHeader t =
     (let targetDeployID = header_Get (rq_Header c) ''X-Target-Deploy'';
          targetServiceID = header_Get (rq_Header c) ''X-Target-Service'';
          answer = (\<lambda>r. \<lparr>wp_header = writerHeader, wp_render = r\<rparr>)
      in case ss_DeployIDHostMap h targetDeployID of
           None \<Rightarrow>
             Returns (answer (GinJSON StatusNotFound (''deploy id:'' @ targetDeployID @ '' does not exist'')), t)
         | Some deployHost \<Rightarrow>
             (case ws_wrap_outgoing httpNewRequest c of
                Inl err \<Rightarrow> Returns (answer (GinJSON StatusBadRequest (errors_Wrap err ''new http request'')), t)
              | Inr req \<Rightarrow>
                  (let tlsConfig = NewClientConfig (ss_ClientTLSConfigFactory h)
                   in outcome_bind
                        (NewWSClient ws tops (ws_wrap_serverBaseUrl deployHost targetServiceID) tlsConfig req t)
                        (\<lambda>(res, t').
                           case res of
                             Inl err \<Rightarrow>
                               Returns (answer (GinJSON StatusInternalServerError (errors_Wrap err ''do tls request'')), t')
                           | Inr resp \<Rightarrow>
                               Returns (\<lparr>wp_header = writerHeader ++ rs_Header resp,
                                 wp_render = GinData (rs_StatusCode resp)
                                   (header_Get (rs_Header resp) ''Content-Type'') (rs_Body resp)\<rparr>, t')))))"

section \<open>Case analysis\<close>

lemma NewHttpClient_cases:
  assumes "NewHttpClient http po tops base cfg req w = Returns (res, w')"
  obtains m w1 t1 r t2 where "MockClientConn_Init http (NewMockClientConn po base) w = Returns (None, m, w1)"
    "tl_Write tops cfg req (m, w1) = (None, t1)" "tl_ReadResponse tops req t1 = (r, t2)"
    "(res, w') = (case r of
       Inl e \<Rightarrow> (Inl (errors_Wrap e ''read http response''), snd t2)
     | Inr resp \<Rightarrow>
         (case tl_ReadBody tops t2 of
            (Inl e, t3) \<Rightarrow> (Inl (errors_Wrap e ''read response body''), snd t3)
          | (Inr body, t3) \<Rightarrow> (Inr (resp\<lparr>rs_Body := body\<rparr>), snd (tl_Close tops t3))))"
proof -
  obtain err m w1 where i: "MockClientConn_Init http (NewMockClientConn po base) w = Returns (err, m, w1)"
    using assms by (auto simp: NewHttpClient_def outcome_bind_Returns)
  obtain e t1 where wr: "tl_Write tops cfg req (m, w1) = (e, t1)" by (metis prod.exhaust)
  obtain r t2 where rd: "tl_ReadResponse tops req t1 = (r, t2)" by (metis prod.exhaust)
  obtain b t3 where bd: "tl_ReadBody tops t2 = (b, t3)" by (metis prod.exhaust)
  have "err = None" using assms i by (cases err) (simp_all add: NewHttpClient_def)
  moreover from this assms i wr have "e = None" by (cases e) (simp_all add: NewHttpClient_def)
  ultimately show thesis
    using that [of m w1 t1 r t2] assms i wr rd bd
    by (cases r; cases b) (simp_all add: NewHttpClient_def)
qed

lemma NewHttpClient_Inr:
  assumes "NewHttpClient http po tops base cfg req w = Returns (Inr resp, w')"
  obtains m w1 t1 resp0 t2 body t3 where
    "MockClientConn_Init http (NewMockClientConn po base) w = Returns (None, m, w1)"
    "tl_Write tops cfg req (m, w1) = (None, t1)"
    "tl_ReadResponse tops req t1 = (Inr resp0, t2)" "tl_ReadBody tops t2 = (Inr body, t3)"
    "resp = resp0\<lparr>rs_Body := body\<rparr>" "w' = snd (tl_Close tops t3)"
  using assms
proof (rule NewHttpClient_cases)
  fix m w1 t1 r t2
  assume "MockClientConn_Init http (NewMockClientConn po base) w = Returns (None, m, w1)"
    "tl_Write tops cfg req (m, w1) = (None, t1)" "tl_ReadResponse tops req t1 = (r, t2)"
    "(Inr resp, w') = (case r of
       Inl e \<Rightarrow> (Inl (errors_Wrap e ''read http response''), snd t2)
     | Inr resp \<Rightarrow>
         (case tl_ReadBody tops t2 of
            (Inl e, t3) \<Rightarrow> (Inl (errors_Wrap e ''read response body''), snd t3)
          | (Inr body, t3) \<Rightarrow> (Inr (resp\<lparr>rs_Body := body\<rparr>), snd (tl_Close tops t3))))"
  with that show thesis
    by (cases r; cases "tl_ReadBody tops t2"; cases "fst (tl_ReadBody tops t2)") auto
qed

lemma NewHttpClient_Inl:
  assumes "NewHttpClient http po tops base cfg req w = Returns (Inl err, w')"
  obtains m w1 t1 t2 where "MockClientConn_Init http (NewMockClientConn po base) w = Returns (None, m, w1)"
    "tl_Write tops cfg req (m, w1) = (None, t1)"
    "\<exists>r. tl_ReadResponse tops req t1 = (r, t2)" "w' = snd t2 \<or> (\<exists>b t3. tl_ReadBody tops t2 = (b, t3) \<and> w' = snd t3)"
  using assms
proof (rule NewHttpClient_cases)
  fix m w1 t1 r t2
  assume "MockClientConn_Init http (NewMockClientConn po base) w = Returns (None, m, w1)"
    "tl_Write tops cfg req (m, w1) = (None, t1)" "tl_ReadResponse tops req t1 = (r, t2)"
    "(Inl err, w') = (case r of
       Inl e \<Rightarrow> (Inl (errors_Wrap e ''read http response''), snd t2)
     | Inr resp \<Rightarrow>
         (case tl_ReadBody tops t2 of
            (Inl e, t3) \<Rightarrow> (Inl (errors_Wrap e ''read response body''), snd t3)
          | (Inr body, t3) \<Rightarrow> (Inr (resp\<lparr>rs_Body := body\<rparr>), snd (tl_Close tops t3))))"
  with that [of m w1 t1 t2] show thesis
    by (cases r; cases "tl_ReadBody tops t2"; cases "fst (tl_ReadBody tops t2)") auto
qed

lemma NewWSClient_Inr:
  assumes "NewWSClient ws tops base cfg req t = Returns (Inr resp, t')"
  obtains t0 t1 resp0 t2 body t3 where "ws_Dial ws (base @ ''/tlsRequest'') t = Inr t0"
    "tl_Write tops cfg req (ws_NetConn ws 60 t0) = (None, t1)"
    "tl_ReadResponse tops req t1 = (Inr resp0, t2)" "tl_ReadBody tops t2 = (Inr body, t3)"
    "resp = resp0\<lparr>rs_Body := body\<rparr>" "t' = ws_cancelFn ws (tl_Close tops t3)"
  using assms by (auto simp: NewWSClient_def Let_def split: prod.splits option.splits sum.splits)

text \<open>The reply of either endpoint: one it makes itself, or the target's response.\<close>

lemma HttpSidecarServer_InitWrapRouter_cases:
  assumes "HttpSidecarServer_InitWrapRouter h nr http po tops c wh w = Returns (reply, w')"
  obtains (own) status msg where "wp_render reply = GinJSON status msg" "wp_header reply = wh"
    | (data) host req resp where "ss_DeployIDHostMap h (header_Get (rq_Header c) ''X-Target-Deploy'') = Some host"
      "wrap_outgoing nr c = Inr req"
      "NewHttpClient http po tops (wrap_serverBaseUrl host (header_Get (rq_Header c) ''X-Target-Service''))
         (NewClientConfig (ss_ClientTLSConfigFactory h)) req w = Returns (Inr resp, w')"
      "wp_header reply = wh ++ rs_Header resp"
      "wp_render reply = GinData (rs_StatusCode resp) (header_Get (rs_Header resp) ''Content-Type'') (rs_Body resp)"
proof (cases "ss_DeployIDHostMap h (header_Get (rq_Header c) ''X-Target-Deploy'')")
  case None
  with assms show ?thesis by (intro own) (auto simp: HttpSidecarServer_InitWrapRouter_def Let_def)
next
  case (Some host)
  show ?thesis
  proof (cases "wrap_outgoing nr c")
    case (Inl e)
    with assms Some show ?thesis by (intro own) (auto simp: HttpSidecarServer_InitWrapRouter_def Let_def)
  next
    case (Inr req)
    let ?call = "NewHttpClient http po tops (wrap_serverBaseUrl host (header_Get (rq_Header c) ''X-Target-Service''))
      (NewClientConfig (ss_ClientTLSConfigFactory h)) req w"
    obtain res where "?call = Returns (res, w')"
      using assms Some Inr
      by (cases ?call) (auto simp: HttpSidecarServer_InitWrapRouter_def Let_def split: sum.splits)
    then show ?thesis
      using assms Some Inr own data by (cases res) (auto simp: HttpSidecarServer_InitWrapRouter_def Let_def)
  qed
qed

lemma WebSocketSidecarServer_InitWrapRouter_cases:
  assumes "WebSocketSidecarServer_InitWrapRouter h nr ws tops c wh t = Returns (reply, t')"
  obtains (own) status msg where "wp_render reply = GinJSON status msg" "wp_header reply = wh"
    | (data) host req resp where "ss_DeployIDHostMap h (header_Get (rq_Header c) ''X-Target-Deploy'') = Some host"
      "ws_wrap_outgoing nr c = Inr req"
      "NewWSClient ws tops (ws_wrap_serverBaseUrl host (header_Get (rq_Header c) ''X-Target-Service''))
         (NewClientConfig (ss_ClientTLSConfigFactory h)) req t = Returns (Inr resp, t')"
      "wp_header reply = wh ++ rs_Header resp"
      "wp_render reply = GinData (rs_StatusCode resp) (header_Get (rs_Header resp) ''Content-Type'') (rs_Body resp)"
proof (cases "ss_DeployIDHostMap h (header_Get (rq_Header c) ''X-Target-Deploy'')")
  case None
  with assms show ?thesis by (intro own) (auto simp: WebSocketSidecarServer_InitWrapRouter_def Let_def)
next
  case (Some host)
  show ?thesis
  proof (cases "ws_wrap_outgoing nr c")
    case (Inl e)
    with assms Some show ?thesis by (intro own) (auto simp: WebSocketSidecarServer_InitWrapRouter_def Let_def)
  next
    case (Inr req)
    let ?call = "NewWSClient ws tops (ws_wrap_serverBaseUrl host (header_Get (rq_Header c) ''X-Target-Service''))
      (NewClientConfig (ss_ClientTLSConfigFactory h)) req t"
    obtain res where "?call = Returns (res, t')"
      using assms Some Inr
      by (cases ?call) (auto simp: WebSocketSidecarServer_InitWrapRouter_def Let_def split: sum.splits)
    then show ?thesis
      using assms Some Inr own data by (cases res) (auto simp: WebSocketSidecarServer_InitWrapRouter_def Let_def)
  qed
qed

lemma wrap_outgoing_identity:
  assumes "wrap_outgoing nr c = Inr r \<or> ws_wrap_outgoing nr c = Inr r"
  shows "header_Get (rq_Header r) ''X-Identity-Type'' = ''cert-rpc''"
proof -
  obtain r0 where "r = r0\<lparr>rq_Header := header_Set (rq_Header c) ''X-Identity-Type'' ''cert-rpc''\<rparr>"
    using assms
    by (auto simp: wrap_outgoing_def ws_wrap_outgoing_def Let_def IdentityTypeHeaderKey_def IdentityTypeCertRPC_def
        split: sum.splits)
  then show ?thesis by simp
qed

lemma attested_by_transfer:
  assumes "wrap_outgoing nr c = Inr r \<or> ws_wrap_outgoing nr c = Inr r" "te_ReadRequest env = Inr r0"
    and "header_Get (rq_Header r0) ''X-Identity-Type'' = header_Get (rq_Header r) ''X-Identity-Type''"
    and "cs_PeerCertificates (te_ConnectionState env) = [cert]"
    and "b \<in> set (tr_sent (DoTransfer env host))"
  shows "header_Get (rq_Header b) ''X-From-Deploy'' = cert_deploy cert \<and>
    header_Get (rq_Header b) ''X-From-Service'' = cert_service cert \<and>
    b64_decode (header_Get (rq_Header b) ''SSL-Client-Cert'') = Some (ct_Raw cert)"
proof -
  have "header_Get (rq_Header r0) ''X-Identity-Type'' = ''cert-rpc''"
    using wrap_outgoing_identity [OF assms(1)] assms(3) by simp
  with assms(2,4) sent_identity [OF assms(5)] show ?thesis by (metis Inr_inject b64_decode_encode list.inject)
qed

section \<open>Properties\<close>

text \<open>
  C5. End to end, a backend learns who called, and the caller cannot choose what it learns. Take a
  request that one of the /wrap endpoints writes to its TLS client, a transfer at the other end that reads a
  request with the same X-Identity-Type from a connection on which the client showed the certificate
  of its configuration: then whatever headers the original request had, a request that the transfer
  sends to the backend names the deployment and the service of the wrapping sidecar's certificate
  and carries its DER bytes.
\<close>

theorem wrapped_request_attested:
  assumes "wrap_outgoing httpNewRequest c = Inr r \<or> ws_wrap_outgoing httpNewRequest c = Inr r"
    and "te_ReadRequest env = Inr r0"
    and "header_Get (rq_Header r0) ''X-Identity-Type'' = header_Get (rq_Header r) ''X-Identity-Type''"
    and "cs_PeerCertificates (te_ConnectionState env) =
      map x509_parse (tc_Certificate (hd (cfg_Certificates (NewClientConfig f))))"
    and "x509_parse (ct_Raw (ctf_SelfCert f)) = ctf_SelfCert f"
    and "b \<in> set (tr_sent (DoTransfer env host))"
  shows "header_Get (rq_Header b) ''X-From-Deploy'' = cert_deploy (ctf_SelfCert f) \<and>
    header_Get (rq_Header b) ''X-From-Service'' = cert_service (ctf_SelfCert f) \<and>
    b64_decode (header_Get (rq_Header b) ''SSL-Client-Cert'') = Some (ct_Raw (ctf_SelfCert f))"
proof -
  have "cs_PeerCertificates (te_ConnectionState env) = [ctf_SelfCert f]"
    using assms(4,5) by (simp add: NewClientConfig_def NewTLSCertificate_def Let_def)
  with attested_by_transfer [OF assms(1-3) _ assms(6)] show ?thesis by blast
qed

text \<open>
  C30. A data reply of the /wrap endpoint is what the target answered. It is given only for a known
  deployment, after a session with the deployment's base address was opened, the request was written
  to a TLS client with the factory's configuration, and a response and its whole body were read; it
  has the status and body of this response and its headers on top of those already in the writer,
  and the TLS connection has been closed.
\<close>

theorem wrap_relays_target_response:
  assumes "HttpSidecarServer_InitWrapRouter h nr http po tops c wh w = Returns (reply, w')"
    and "wp_render reply = GinData status ct body"
  shows "\<exists>host req m w1 t1 resp t2 t3.
    ss_DeployIDHostMap h (header_Get (rq_Header c) ''X-Target-Deploy'') = Some host \<and>
    wrap_outgoing nr c = Inr req \<and>
    MockClientConn_Init http (NewMockClientConn po
      (''http://'' @ host @ ''/'' @ header_Get (rq_Header c) ''X-Target-Service'' @ ''/http'')) w = Returns (None, m, w1) \<and>
    tl_Write tops (NewClientConfig (ss_ClientTLSConfigFactory h)) req (m, w1) = (None, t1) \<and>
    tl_ReadResponse tops req t1 = (Inr resp, t2) \<and> tl_ReadBody tops t2 = (Inr body, t3) \<and>
    w' = snd (tl_Close tops t3) \<and>
    status = rs_StatusCode resp \<and> ct = header_Get (rs_Header resp) ''Content-Type'' \<and>
    wp_header reply = wh ++ rs_Header resp"
using assms(1)
proof (cases rule: HttpSidecarServer_InitWrapRouter_cases)
  case (own code msg)
  with assms(2) show ?thesis by simp
next
  case (data host req resp')
  from data(3) obtain m w1 t1 resp t2 body' t3 where
    "MockClientConn_Init http (NewMockClientConn po
      (wrap_serverBaseUrl host (header_Get (rq_Header c) ''X-Target-Service''))) w = Returns (None, m, w1)"
    "tl_Write tops (NewClientConfig (ss_ClientTLSConfigFactory h)) req (m, w1) = (None, t1)"
    "tl_ReadResponse tops req t1 = (Inr resp, t2)" "tl_ReadBody tops t2 = (Inr body', t3)"
    "resp' = resp\<lparr>rs_Body := body'\<rparr>" "w' = snd (tl_Close tops t3)"
    by (rule NewHttpClient_Inr)
  moreover from this data assms(2) have "status = rs_StatusCode resp" "ct = header_Get (rs_Header resp) ''Content-Type''"
    "wp_header reply = wh ++ rs_Header resp" "body' = body"
    by auto
  ultimately show ?thesis using data(1,2) unfolding wrap_serverBaseUrl_def by blast
qed

text \<open>
  A target that cannot be reached makes the /wrap endpoints panic instead of giving the reply 500
  that they prepare for errors: over HTTP when newRequest fails, over a web socket when dialling
  fails. An unknown deployment, in contrast, is answered with 404 and changes nothing.
\<close>

theorem wrap_unreachable_target_panics:
  assumes "wrap_outgoing nr c = Inr req" "ws_wrap_outgoing nr c = Inr req'"
    and "\<And>call w. hc_method call = ''POST'' \<Longrightarrow> http call w = Returns (Inl err, w)"
    and "\<And>url t. ws_Dial ws url t = Inl (err, t)"
  shows "case ss_DeployIDHostMap h (header_Get (rq_Header c) ''X-Target-Deploy'') of
      Some host \<Rightarrow>
        HttpSidecarServer_InitWrapRouter h nr http po tops c wh w = Panics (PanicWith (''http request err: '' @ err)) \<and>
        WebSocketSidecarServer_InitWrapRouter h nr ws tops' c wh t = Panics (PanicWith err)
    | None \<Rightarrow>
        (\<exists>msg. HttpSidecarServer_InitWrapRouter h nr http po tops c wh w =
           Returns (\<lparr>wp_header = wh, wp_render = GinJSON 404 msg\<rparr>, w) \<and>
         WebSocketSidecarServer_InitWrapRouter h nr ws tops' c wh t =
           Returns (\<lparr>wp_header = wh, wp_render = GinJSON 404 msg\<rparr>, t))"
  using assms(1,2,4) assms(3) [of "newRequest_call base" for base]
  by (auto simp: HttpSidecarServer_InitWrapRouter_def WebSocketSidecarServer_InitWrapRouter_def
      NewHttpClient_def NewWSClient_def MockClientConn_Init_def newRequest_call_def NewMockClientConn_def
      errors_Wrap_def Let_def split: option.split)

text \<open>What the operations of the TLS client do to the server's sessions: they close none.\<close>

definition keeps_sessions :: "('p mock_client \<times> 'c server) tls_ops \<Rightarrow> bool" where
  "keeps_sessions tops \<longleftrightarrow>
     (\<forall>cfg req t k. session_alive (snd t) k \<longrightarrow> session_alive (snd (snd (tl_Write tops cfg req t))) k) \<and>
     (\<forall>req t k. session_alive (snd t) k \<longrightarrow> session_alive (snd (snd (tl_ReadResponse tops req t))) k) \<and>
     (\<forall>t k. session_alive (snd t) k \<longrightarrow> session_alive (snd (snd (tl_ReadBody tops t))) k)"

lemma keeps_sessionsD:
  assumes "keeps_sessions tops"
  shows "session_alive (snd t) k \<Longrightarrow> tl_Write tops cfg req t = (e, t') \<Longrightarrow> session_alive (snd t') k"
    and "session_alive (snd t) k \<Longrightarrow> tl_ReadResponse tops req t = (r, t') \<Longrightarrow> session_alive (snd t') k"
    and "session_alive (snd t) k \<Longrightarrow> tl_ReadBody tops t = (b, t') \<Longrightarrow> session_alive (snd t') k"
  using assms unfolding keeps_sessions_def by (metis snd_conv)+

text \<open>
  C33. A request that fails after its session was opened leaks the session: when NewHttpClient returns
  an error against the session server, and writing the request and reading the response close no
  session themselves, then the session that it opened is still in the server's map.
\<close>

theorem failed_request_leaks_session:
  assumes "NewHttpClient (InitRequestRouter ops eb nr base) po tops base cfg req s = Returns (Inl err, s')"
    and "keeps_sessions tops"
  shows "session_alive s' (int (Mapping.size (sv_clientMap s)))"
proof -
  let ?k = "int (Mapping.size (sv_clientMap s))"
  obtain m s1 t1 t2 where
    i: "MockClientConn_Init (InitRequestRouter ops eb nr base) (NewMockClientConn po base) s = Returns (None, m, s1)"
    and wr: "tl_Write tops cfg req (m, s1) = (None, t1)"
    and rd: "\<exists>r. tl_ReadResponse tops req t1 = (r, t2)"
    and end_: "s' = snd t2 \<or> (\<exists>b t3. tl_ReadBody tops t2 = (b, t3) \<and> s' = snd t3)"
    using assms(1) by (rule NewHttpClient_Inl)
  have "mc_connectionID m = ?k"
    using i by (simp add: MockClientConn_Init_def NewMockClientConn_def InitRequestRouter_calls newRequest_def
        newRequest_store_def newRequest_id_def Let_def) auto
  then have "session_alive (snd (m, s1)) ?k"
    using http_session.init_alive [OF i] by (simp add: NewMockClientConn_def)
  note alive = keeps_sessionsD(1) [OF assms(2) this wr]
  from rd have "session_alive (snd t2) ?k" by (auto dest: keeps_sessionsD(2) [OF assms(2) alive])
  with end_ show ?thesis by (auto dest: keeps_sessionsD(3) [OF assms(2)])
qed

section \<open>Witnesses\<close>

definition sample_factory :: client_tls_config_factory where
  "sample_factory = \<lparr>ctf_SelfKey = ''key'', ctf_SelfCert = transfer_sample_cert, ctf_ParentCert = transfer_sample_cert\<rparr>"

definition sample_caller :: request where
  "sample_caller = \<lparr>rq_Method = ''POST'',
     rq_URL = \<lparr>url_Scheme = '''', url_Host = '''', url_Path = ''/wrap'', url_RawPath = '''', url_RawQuery = ''''\<rparr>,
     rq_Host = ''localhost'',
     rq_Header = [''X-Target-Deploy'' \<mapsto> [''hdu''], ''X-Target-Service'' \<mapsto> [''storage''],
       ''X-From-Deploy'' \<mapsto> [''forged''], ''X-Identity-Type'' \<mapsto> [''cert-student'']],
     rq_Body = '''', rq_ProtoMajor = 1, rq_ProtoMinor = 1, rq_TLS = None, rq_RequestURI = ''/wrap''\<rparr>"

definition sample_NewRequest :: new_request where
  "sample_NewRequest method u body = Inr (sample_caller\<lparr>rq_Method := method, rq_Body := body, rq_Header := Map.empty\<rparr>)"

definition sample_sidecar :: sidecar_server where
  "sample_sidecar = \<lparr>
     ss_ServerTLSConfigFactory = \<lparr>stf_SelfKey = ''key'', stf_SelfCert = transfer_sample_cert, stf_TrustDeployCerts = []\<rparr>,
     ss_ClientTLSConfigFactory = sample_factory, ss_BackendServiceHost = ''backend:80'',
     ss_DeployIDHostMap = [''hdu'' \<mapsto> ''hdu.example'']\<rparr>"

definition sample_tls :: "(go_error + response) \<Rightarrow> 't tls_ops" where
  "sample_tls answer = \<lparr>tl_Write = (\<lambda>_ _ t. (None, t)), tl_ReadResponse = (\<lambda>_ t. (answer, t)),
     tl_ReadBody = (\<lambda>t. (Inr ''ok'', t)), tl_Close = (\<lambda>t. t)\<rparr>"

lemma sample_outgoing:
  "\<exists>r. wrap_outgoing sample_NewRequest sample_caller = Inr r"
  "\<exists>r. ws_wrap_outgoing sample_NewRequest sample_caller = Inr r"
  by (simp_all add: wrap_outgoing_def ws_wrap_outgoing_def sample_NewRequest_def)

definition sample_ws :: "(go_error + 't) \<Rightarrow> 't ws_ops" where
  "sample_ws r = \<lparr>ws_Dial = (\<lambda>_ t. case r of Inl err \<Rightarrow> Inl (err, t) | Inr t' \<Rightarrow> Inr t'),
     ws_NetConn = (\<lambda>_ t. t), ws_cancelFn = (\<lambda>t. t)\<rparr>"

theorem wrapped_request_attested_witness:
  "\<exists>r b. wrap_outgoing sample_NewRequest sample_caller = Inr r \<and>
     tr_sent (DoTransfer (transfer_sample_env (rq_Header r)) ''backend:80'') = [b] \<and>
     header_Get (rq_Header b) ''X-From-Deploy'' = ''center''"
proof -
  obtain r where r: "wrap_outgoing sample_NewRequest sample_caller = Inr r"
    using sample_outgoing(1) by blast
  obtain b where b: "tr_sent (DoTransfer (transfer_sample_env (rq_Header r)) ''backend:80'') = [b]"
    using transfer_sample_sent by blast
  obtain r0 where r0: "te_ReadRequest (transfer_sample_env (rq_Header r)) = Inr r0" "rq_Header r0 = rq_Header r"
    by (simp add: transfer_sample_env_def)
  have p: "cs_PeerCertificates (te_ConnectionState (transfer_sample_env (rq_Header r))) =
      map (\<lambda>_. transfer_sample_cert) (tc_Certificate (hd (cfg_Certificates (NewClientConfig sample_factory))))"
    by (simp add: transfer_sample_env_def NewClientConfig_def NewTLSCertificate_def Let_def)
  have s: "(\<lambda>_. transfer_sample_cert) (ct_Raw (ctf_SelfCert sample_factory)) = ctf_SelfCert sample_factory"
    by (simp add: sample_factory_def)
  from wrapped_request_attested [OF disjI1 [OF r] r0(1) _ p s, of b "''backend:80''"] r b r0(2) show ?thesis
    by (simp add: sample_factory_def transfer_sample_cert_def cert_deploy_def)
qed

lemma sample_init:
  "MockClientConn_Init (InitRequestRouter echo_ops eb nr base) (NewMockClientConn po base) new_server =
     Returns (None, NewMockClientConn po base, snd (newRequest echo_ops new_server))"
  by (simp add: MockClientConn_Init_def NewMockClientConn_def InitRequestRouter_calls newRequest_def
      newRequest_store_def newRequest_id_def Let_def)

theorem failed_request_leaks_session_witness:
  "\<exists>err s'. NewHttpClient echo_routes chunk_pipe (sample_tls (Inl ''EOF'')) ''http://a'' (NewClientConfig sample_factory)
     sample_caller new_server = Returns (Inl err, s') \<and> session_alive s' 0"
proof -
  have k: "keeps_sessions (sample_tls (Inl ''EOF'') :: (string list mock_client \<times> string server) tls_ops)"
    by (simp add: keeps_sessions_def sample_tls_def)
  obtain err s' where r: "NewHttpClient echo_routes chunk_pipe (sample_tls (Inl ''EOF'')) ''http://a''
      (NewClientConfig sample_factory) sample_caller new_server = Returns (Inl err, s')"
    by (simp add: NewHttpClient_def sample_init sample_tls_def)
  from failed_request_leaks_session [OF r k] r show ?thesis by simp
qed

lemma sample_target [simp]:
  "ss_DeployIDHostMap sample_sidecar (header_Get (rq_Header sample_caller) ''X-Target-Deploy'') = Some ''hdu.example''"
proof -
  have "canonical_key ''X-Target-Deploy'' = ''X-Target-Deploy''" by code_simp
  then show ?thesis by (simp add: sample_sidecar_def sample_caller_def header_Get_def)
qed

theorem wrap_unreachable_target_panics_witness:
  "HttpSidecarServer_InitWrapRouter sample_sidecar sample_NewRequest (\<lambda>call w. Returns (Inl ''refused'', w)) chunk_pipe
     (sample_tls (Inl ''EOF'')) sample_caller Map.empty () = Panics (PanicWith ''http request err: refused'')"
proof -
  obtain r where r: "wrap_outgoing sample_NewRequest sample_caller = Inr r"
    using sample_outgoing(1) by blast
  obtain r' where r': "ws_wrap_outgoing sample_NewRequest sample_caller = Inr r'"
    using sample_outgoing(2) by blast
  from wrap_unreachable_target_panics [OF r r', of "\<lambda>call w. Returns (Inl ''refused'', w)" "''refused''" "sample_ws (Inl ''refused'')"
      sample_sidecar chunk_pipe "sample_tls (Inl ''EOF'')" Map.empty "()" "sample_tls (Inl ''EOF'')" "()"]
  show ?thesis by (simp add: sample_ws_def)
qed

theorem wrap_relays_target_response_witness:
  "\<exists>reply s'. HttpSidecarServer_InitWrapRouter sample_sidecar sample_NewRequest
     (InitRequestRouter echo_ops ''EOF'' ''page'' ''http://hdu.example/storage/http'') chunk_pipe
     (sample_tls (Inr \<lparr>rs_StatusCode = 200, rs_Header = Map.empty, rs_Body = '''', rs_ContentLength = 2\<rparr>))
     sample_caller Map.empty new_server = Returns (reply, s') \<and>
     wp_render reply = GinData 200 '''' ''ok''"
proof -
  let ?http = "InitRequestRouter echo_ops ''EOF'' ''page'' ''http://hdu.example/storage/http''"
  let ?tls = "sample_tls (Inr \<lparr>rs_StatusCode = 200, rs_Header = Map.empty, rs_Body = '''', rs_ContentLength = 2\<rparr>)"
  obtain r where r: "wrap_outgoing sample_NewRequest sample_caller = Inr r"
    using sample_outgoing(1) by blast
  have svc: "header_Get (rq_Header sample_caller) ''X-Target-Service'' = ''storage''"
  proof -
    have "canonical_key ''X-Target-Service'' = ''X-Target-Service''" by code_simp
    then show ?thesis by (simp add: sample_caller_def header_Get_def)
  qed
  obtain reply s' ct body where w: "HttpSidecarServer_InitWrapRouter sample_sidecar sample_NewRequest ?http chunk_pipe ?tls
      sample_caller Map.empty new_server = Returns (reply, s')" "wp_render reply = GinData 200 ct body"
    using r sample_init [of "''EOF''" "''page''" "''http://hdu.example/storage/http''" chunk_pipe]
    by (simp add: HttpSidecarServer_InitWrapRouter_def wrap_serverBaseUrl_def svc NewHttpClient_def
        sample_tls_def Let_def)
  from wrap_relays_target_response [OF w] w show ?thesis
    by (auto simp: sample_tls_def header_Get_def)
qed

end
