(* ===== verification/Sidecar_Main.thy ===== *)
theory Sidecar_Main
  imports Cert_Manager Wrap_Router
begin

text \<open>
  Loading the configuration (package config) and wiring the two servers (cmd/main.go). How config-tv
  reads the raw data of an entry with its plugins, and the unmarshalled configuration itself, are
  parameters; a plugin may panic. The two engines that gin runs are outside; what is modelled is which
  values the routes of both servers get and where the loading panics. The sections and entries of the
  configuration are pointers that the code follows without a check; a missing one is a panic.
\<close>

section \<open>The configuration\<close>

type_synonym 'v read_raw = "'v \<Rightarrow> string go"

definition CertificateTypeAndValue_ReadAndParse :: "x509_lib \<Rightarrow> 'v read_raw \<Rightarrow> 'v \<Rightarrow> certificate go" where
  "CertificateTypeAndValue_ReadAndParse xl readRawData x =
     go_bind (readRawData x) (\<lambda>rawData.
     go_bind (ReadSingleDerFromPEMData rawData) (\<lambda>der.
       case xl_ParseCertificate xl der of
         Inl err \<Rightarrow> Inl (PanicWith (errors_Wrap err ''err parse x509 certificate from der''))
       | Inr cert \<Rightarrow> Inr cert))"

definition RSAPrivateKeyTypeAndValue_ReadAndParse :: "x509_lib \<Rightarrow> 'v read_raw \<Rightarrow> 'v \<Rightarrow> rsa_key go" where
  "RSAPrivateKeyTypeAndValue_ReadAndParse xl readRawData x =
     go_bind (readRawData x) (\<lambda>rawData.
     go_bind (ReadSingleDerFromPEMData rawData) (\<lambda>der.
       case xl_ParsePKCS8PrivateKey xl der of
         Inl err \<Rightarrow> Inl (PanicWith (errors_Wrap err ''err parse pkcs1 rsa private key from der''))
       | Inr privateKeyObj \<Rightarrow> assert_rsa privateKeyObj))"

record 'v inbound_config =
  ic_TrustedDeployCertificates :: "'v option list"
  ic_BackendServiceHost :: string

record 'v outbound_config =
  oc_SelfDeployCertificate :: "'v option"
  oc_DeployIDHostMap :: "string \<Rightarrow> string option"

record 'v rpc_config =
  rc_BackendServiceKey :: "'v option"
  rc_BackendServiceCertificate :: "'v option"
  rc_Inbound :: "'v inbound_config option"
  rc_Outbound :: "'v outbound_config option"

text \<open>Of the plugin configuration in the field Config nothing is read.\<close>

record 'v sidecar_config =
  sc_RPC :: "'v rpc_config option"

section \<open>The wiring\<close>

fun map_go :: "('a \<Rightarrow> 'b go) \<Rightarrow> 'a list \<Rightarrow> 'b list go" where
  "map_go f [] = Inr []"
| "map_go f (x # xs) = go_bind (f x) (\<lambda>y. go_bind (map_go f xs) (\<lambda>ys. Inr (y # ys)))"

text \<open>What main reads before it makes the engine: the trusted certificates, its own, and the key.\<close>

definition main_certs ::
    "x509_lib \<Rightarrow> 'v read_raw \<Rightarrow> 'v sidecar_config \<Rightarrow> (certificate list \<times> certificate \<times> rsa_key) go" where
  "main_certs xl readRawData mainConfig =
     go_bind (go_deref (sc_RPC mainConfig)) (\<lambda>rpc.
     go_bind (go_deref (rc_Inbound rpc)) (\<lambda>inbound.
     go_bind (map_go (\<lambda>item. go_bind (go_deref item) (CertificateTypeAndValue_ReadAndParse xl readRawData))
                (ic_TrustedDeployCertificates inbound)) (\<lambda>trustedDeployCerts.
     go_bind (go_bind (go_deref (rc_BackendServiceCertificate rpc))
                (CertificateTypeAndValue_ReadAndParse xl readRawData)) (\<lambda>serviceCert.
     go_bind (go_bind (go_deref (rc_BackendServiceKey rpc))
                (RSAPrivateKeyTypeAndValue_ReadAndParse xl readRawData)) (\<lambda>serviceKey.
       Inr (trustedDeployCerts, serviceCert, serviceKey))))))"

text \<open>The web socket server and the HTTP server, in this order.\<close>

definition main_wiring ::
    "'v sidecar_config \<Rightarrow> certificate list \<times> certificate \<times> rsa_key \<Rightarrow> (sidecar_server \<times> sidecar_server) go" where
  "main_wiring mainConfig = (\<lambda>(trustedDeployCerts, serviceCert, serviceKey).
     let serverTLSConfigFactory =
           \<lparr>stf_SelfKey = serviceKey, stf_SelfCert = serviceCert, stf_TrustDeployCerts = trustedDeployCerts\<rparr>
     in go_bind (go_index trustedDeployCerts 0) (\<lambda>parentCert.
     let clientTLSConfigFactory =
           \<lparr>ctf_SelfKey = serviceKey, ctf_SelfCert = serviceCert, ctf_ParentCert = parentCert\<rparr>
     in go_bind (go_deref (sc_RPC mainConfig)) (\<lambda>rpc.
        go_bind (go_deref (rc_Outbound rpc)) (\<lambda>outbound.
        go_bind (go_deref (rc_Inbound rpc)) (\<lambda>inbound.
     let websocketSidecarServer =
           \<lparr>ss_ServerTLSConfigFactory = serverTLSConfigFactory, ss_ClientTLSConfigFactory = clientTLSConfigFactory,
            ss_BackendServiceHost = ic_BackendServiceHost inbound,
            ss_DeployIDHostMap = oc_DeployIDHostMap outbound\<rparr>;
         httpSidecarServer =
           \<lparr>ss_ServerTLSConfigFactory = serverTLSConfigFactory, ss_ClientTLSConfigFactory = clientTLSConfigFactory,
            ss_BackendServiceHost = ic_BackendServiceHost inbound,
            ss_DeployIDHostMap = oc_DeployIDHostMap outbound\<rparr>
     in Inr (websocketSidecarServer, httpSidecarServer))))))"

text \<open>
  Both together; main makes the engine and its cross-origin middleware in between
  (\<open>Sidecar_Wiring\<close>).
\<close>

definition main_servers ::
    "x509_lib \<Rightarrow> 'v read_raw \<Rightarrow> 'v sidecar_config \<Rightarrow> (sidecar_server \<times> sidecar_server) go" where
  "main_servers xl readRawData mainConfig =
     go_bind (main_certs xl readRawData mainConfig) (main_wiring mainConfig)"

text \<open>What the entries of a configuration stand for, when they are present.\<close>

definition reads_cert :: "x509_lib \<Rightarrow> 'v read_raw \<Rightarrow> 'v option \<Rightarrow> certificate \<Rightarrow> bool" where
  "reads_cert xl rd item c \<longleftrightarrow> (\<exists>v. item = Some v \<and> CertificateTypeAndValue_ReadAndParse xl rd v = Inr c)"

definition reads_key :: "x509_lib \<Rightarrow> 'v read_raw \<Rightarrow> 'v option \<Rightarrow> rsa_key \<Rightarrow> bool" where
  "reads_key xl rd item k \<longleftrightarrow> (\<exists>v. item = Some v \<and> RSAPrivateKeyTypeAndValue_ReadAndParse xl rd v = Inr k)"

lemma go_deref_Inr [simp]: "go_deref p = Inr x \<longleftrightarrow> p = Some x"
  by (cases p) auto

lemma map_go_Inr: "map_go f xs = Inr ys \<longleftrightarrow> list_all2 (\<lambda>x y. f x = Inr y) xs ys"
  by (induction xs arbitrary: ys) (auto simp: go_bind_eq_Inr_iff list_all2_Cons1)

lemma go_index_zero_Inr: "go_index xs 0 = Inr x \<longleftrightarrow> xs \<noteq> [] \<and> x = hd xs"
  by (cases xs) auto

lemma main_servers_Inr:
  "main_servers xl rd mainConfig = Inr (ws, hs) \<longleftrightarrow>
     (\<exists>rpc inbound outbound trusted cert key.
        sc_RPC mainConfig = Some rpc \<and> rc_Inbound rpc = Some inbound \<and> rc_Outbound rpc = Some outbound \<and>
        list_all2 (reads_cert xl rd) (ic_TrustedDeployCertificates inbound) trusted \<and> trusted \<noteq> [] \<and>
        reads_cert xl rd (rc_BackendServiceCertificate rpc) cert \<and>
        reads_key xl rd (rc_BackendServiceKey rpc) key \<and>
        hs = \<lparr>ss_ServerTLSConfigFactory = \<lparr>stf_SelfKey = key, stf_SelfCert = cert, stf_TrustDeployCerts = trusted\<rparr>,
              ss_ClientTLSConfigFactory = \<lparr>ctf_SelfKey = key, ctf_SelfCert = cert, ctf_ParentCert = hd trusted\<rparr>,
              ss_BackendServiceHost = ic_BackendServiceHost inbound,
              ss_DeployIDHostMap = oc_DeployIDHostMap outbound\<rparr> \<and>
        ws = hs)"
  unfolding main_servers_def main_certs_def main_wiring_def Let_def reads_cert_def [abs_def] reads_key_def [abs_def]
  by (auto simp: go_bind_eq_Inr_iff map_go_Inr go_index_zero_Inr)

lemma main_servers_cases:
  assumes "main_servers xl rd mainConfig = Inr (ws, hs)"
  obtains rpc inbound outbound trusted cert key where
    "sc_RPC mainConfig = Some rpc" "rc_Inbound rpc = Some inbound" "rc_Outbound rpc = Some outbound"
    "list_all2 (reads_cert xl rd) (ic_TrustedDeployCertificates inbound) trusted"
    "reads_cert xl rd (rc_BackendServiceCertificate rpc) cert"
    "reads_key xl rd (rc_BackendServiceKey rpc) key"
    "trusted \<noteq> []"
    "hs = \<lparr>ss_ServerTLSConfigFactory = \<lparr>stf_SelfKey = key, stf_SelfCert = cert, stf_TrustDeployCerts = trusted\<rparr>,
           ss_ClientTLSConfigFactory = \<lparr>ctf_SelfKey = key, ctf_SelfCert = cert, ctf_ParentCert = hd trusted\<rparr>,
           ss_BackendServiceHost = ic_BackendServiceHost inbound,
           ss_DeployIDHostMap = oc_DeployIDHostMap outbound\<rparr>"
    "ws = hs"
  using assms unfolding main_servers_Inr by blast

lemma reads_cert_unique: "reads_cert xl rd item c \<Longrightarrow> reads_cert xl rd item c' \<Longrightarrow> c = c'"
  by (auto simp: reads_cert_def)

lemma list_all2_reads_cert_set:
  "list_all2 (reads_cert xl rd) items cs \<Longrightarrow> t \<in> set cs \<longleftrightarrow> (\<exists>item\<in>set items. reads_cert xl rd item t)"
  by (induction rule: list_all2_induct) (auto dest: reads_cert_unique)

section \<open>Properties\<close>

lemma ReadAndParse_parsed:
  assumes "reads_cert xl rd item cert"
  obtains der where "xl_ParseCertificate xl der = Inr cert"
proof -
  from assms obtain v where v: "CertificateTypeAndValue_ReadAndParse xl rd v = Inr cert"
    by (auto simp: reads_cert_def)
  obtain der where d: "(case xl_ParseCertificate xl der of
      Inl err \<Rightarrow> Inl (PanicWith (errors_Wrap err ''err parse x509 certificate from der'')) | Inr c \<Rightarrow> Inr c) = Inr cert"
    using v by (auto simp: CertificateTypeAndValue_ReadAndParse_def go_bind_eq_Inr_iff)
  then show thesis by (cases "xl_ParseCertificate xl der") (auto intro: that)
qed

text \<open>
  C3. Two sidecars that main has started, one calling the other. Let the listener's TLS configuration
  accept the chain that the caller's clients present, let one of the caller's wrap endpoints produce a request
  and the listener's transfer read it with the same identity type: the caller's certificate verifies
  against exactly the certificates that the listener was configured to trust, and the listener's
  backend, at its configured host, is told the deployment and service of the caller's configured
  certificate, whatever headers the original request had.
\<close>

theorem started_sidecars_authenticate:
  assumes "main_servers xl rd callerConfig = Inr (wsA, hA)"
    and "main_servers xl rd listenerConfig = Inr (wsB, hB)"
    and "list_all2 (\<lambda>der c. xl_ParseCertificate xl der = Inr c)
      (tc_Certificate (hd (cfg_Certificates (NewClientConfig (ss_ClientTLSConfigFactory hA)))))
      (cs_PeerCertificates (te_ConnectionState env))"
    and "\<And>der c. xl_ParseCertificate xl der = Inr c \<Longrightarrow> ct_Raw c = der"
    and "server_accepts verify (NewServerConfig (ss_ServerTLSConfigFactory hB)) (cs_PeerCertificates (te_ConnectionState env))"
    and "wrap_outgoing httpNewRequest c = Inr r \<or> ws_wrap_outgoing httpNewRequest c = Inr r"
    and "te_ReadRequest env = Inr r0"
    and "header_Get (rq_Header r0) ''X-Identity-Type'' = header_Get (rq_Header r) ''X-Identity-Type''"
    and "b \<in> set (tr_sent (DoTransfer env (ss_BackendServiceHost hB)))"
  shows "\<exists>caller inbound listener cert pool.
    sc_RPC callerConfig = Some caller \<and> sc_RPC listenerConfig = Some listener \<and> rc_Inbound listener = Some inbound \<and>
    reads_cert xl rd (rc_BackendServiceCertificate caller) cert \<and>
    verify (Some pool) [cert] \<and>
    (\<forall>t. t \<in> set pool \<longleftrightarrow> (\<exists>item\<in>set (ic_TrustedDeployCertificates inbound). reads_cert xl rd item t)) \<and>
    url_Host (rq_URL b) = ic_BackendServiceHost inbound \<and>
    header_Get (rq_Header b) ''X-From-Deploy'' = cert_deploy cert \<and>
    header_Get (rq_Header b) ''X-From-Service'' = cert_service cert"
proof -
  obtain caller certA keyA trustA where a:
    "reads_cert xl rd (rc_BackendServiceCertificate caller) certA"
    "ss_ClientTLSConfigFactory hA = \<lparr>ctf_SelfKey = keyA, ctf_SelfCert = certA, ctf_ParentCert = hd trustA\<rparr>"
    "sc_RPC callerConfig = Some caller"
    using assms(1) by (rule main_servers_cases) auto
  obtain listener inbound trusted certB keyB where b:
    "list_all2 (reads_cert xl rd) (ic_TrustedDeployCertificates inbound) trusted"
    "ss_ServerTLSConfigFactory hB = \<lparr>stf_SelfKey = keyB, stf_SelfCert = certB, stf_TrustDeployCerts = trusted\<rparr>"
    "ss_BackendServiceHost hB = ic_BackendServiceHost inbound"
    "sc_RPC listenerConfig = Some listener" "rc_Inbound listener = Some inbound"
    using assms(2) by (rule main_servers_cases) auto
  have "xl_ParseCertificate xl (ct_Raw certA) = Inr certA"
    using a(1) by (rule ReadAndParse_parsed) (use assms(4) in blast)
  then have peers: "cs_PeerCertificates (te_ConnectionState env) = [certA]"
    using assms(3) a(2) by (auto simp: NewClientConfig_def NewTLSCertificate_def Let_def list_all2_Cons1)
  have trust: "t \<in> set trusted \<longleftrightarrow> (\<exists>item\<in>set (ic_TrustedDeployCertificates inbound). reads_cert xl rd item t)" for t
    using b(1) by (rule list_all2_reads_cert_set)
  have "verify (Some (fold AddCert trusted [])) [certA]"
    using assms(5) peers b(2) by (simp add: server_accepts_def NewServerConfig_def Let_def NewCertPool_def)
  moreover have "header_Get (rq_Header b) ''X-From-Deploy'' = cert_deploy certA \<and>
      header_Get (rq_Header b) ''X-From-Service'' = cert_service certA"
    using attested_by_transfer [OF assms(6-8) _ assms(9)] peers by simp
  moreover have "url_Host (rq_URL b) = ic_BackendServiceHost inbound"
    using DoTransfer_sent [OF assms(9)] b(3)
    by (auto dest!: backend_request_cases)
  ultimately show ?thesis
    using a(1,3) b(4,5) trust
    by (intro exI [of _ caller] exI [of _ inbound] exI [of _ listener] exI [of _ certA]
        exI [of _ "fold AddCert trusted []"]) simp
qed

section \<open>Witnesses\<close>

abbreviation toy_cert_pem :: string where
  "toy_cert_pem \<equiv> pem_EncodeToMemory \<lparr>pb_Type = ''CERTIFICATE'', pb_Bytes = ''der''\<rparr>"

abbreviation toy_key_pem :: string where
  "toy_key_pem \<equiv> pem_EncodeToMemory \<lparr>pb_Type = ''PRIVATE KEY'', pb_Bytes = ''key''\<rparr>"

definition toy_config :: "string sidecar_config" where
  "toy_config = \<lparr>sc_RPC = Some
     \<lparr>rc_BackendServiceKey = Some toy_key_pem, rc_BackendServiceCertificate = Some toy_cert_pem,
      rc_Inbound = Some \<lparr>ic_TrustedDeployCertificates = [Some toy_cert_pem], ic_BackendServiceHost = ''backend:80''\<rparr>,
      rc_Outbound = Some \<lparr>oc_SelfDeployCertificate = None, oc_DeployIDHostMap = [''hdu'' \<mapsto> ''hdu.example'']\<rparr>\<rparr>\<rparr>"

definition toy_cert :: certificate where
  "toy_cert = \<lparr>ct_Raw = ''der'', ct_Subject = toy_subject, ct_PublicKey = ''der''\<rparr>"

lemma toy_read:
  "CertificateTypeAndValue_ReadAndParse toy_x509 Inr toy_cert_pem = Inr toy_cert"
  "RSAPrivateKeyTypeAndValue_ReadAndParse toy_x509 Inr toy_key_pem = Inr ''key''"
  by (simp_all add: CertificateTypeAndValue_ReadAndParse_def RSAPrivateKeyTypeAndValue_ReadAndParse_def
      toy_x509_def toy_cert_def assert_rsa_def)

definition toy_sidecar :: sidecar_server where
  "toy_sidecar = \<lparr>ss_ServerTLSConfigFactory = \<lparr>stf_SelfKey = ''key'', stf_SelfCert = toy_cert, stf_TrustDeployCerts = [toy_cert]\<rparr>,
     ss_ClientTLSConfigFactory = \<lparr>ctf_SelfKey = ''key'', ctf_SelfCert = toy_cert, ctf_ParentCert = toy_cert\<rparr>,
     ss_BackendServiceHost = ''backend:80'', ss_DeployIDHostMap = [''hdu'' \<mapsto> ''hdu.example'']\<rparr>"

lemma toy_certs: "main_certs toy_x509 Inr toy_config = Inr ([toy_cert], toy_cert, ''key'')"
  by (simp add: main_certs_def toy_config_def toy_read)

lemma toy_wiring: "main_wiring toy_config ([toy_cert], toy_cert, ''key'') = Inr (toy_sidecar, toy_sidecar)"
  by (simp add: main_wiring_def toy_config_def toy_sidecar_def Let_def)

lemma toy_main: "main_servers toy_x509 Inr toy_config = Inr (toy_sidecar, toy_sidecar)"
  by (simp add: main_servers_def toy_certs toy_wiring)

theorem started_sidecars_authenticate_witness:
  "\<exists>r b. wrap_outgoing sample_NewRequest sample_caller = Inr r \<and>
     tr_sent (DoTransfer ((transfer_sample_env (rq_Header r))\<lparr>te_ConnectionState := \<lparr>cs_PeerCertificates = [toy_cert]\<rparr>\<rparr>)
       ''backend:80'') = [b] \<and>
     header_Get (rq_Header b) ''X-From-Deploy'' = ''center''"
proof -
  obtain r where r: "wrap_outgoing sample_NewRequest sample_caller = Inr r"
    using sample_outgoing(1) by blast
  let ?env = "(transfer_sample_env (rq_Header r))\<lparr>te_ConnectionState := \<lparr>cs_PeerCertificates = [toy_cert]\<rparr>\<rparr>"
  have deploy: "has_deploy toy_cert" "cert_deploy toy_cert = ''center''"
    by (simp_all add: has_deploy_def cert_deploy_def toy_cert_def toy_subject_def)
  obtain r0 where r0: "te_ReadRequest ?env = Inr r0" "rq_Header r0 = rq_Header r"
    by (simp add: transfer_sample_env_def)
  obtain b where b: "tr_sent (DoTransfer ?env (ss_BackendServiceHost toy_sidecar)) = [b]"
    using deploy(1) by (auto simp: DoTransfer_def backend_request_marked transfer_sample_env_def Let_def)
  have p: "list_all2 (\<lambda>der c. xl_ParseCertificate toy_x509 der = Inr c)
      (tc_Certificate (hd (cfg_Certificates (NewClientConfig (ss_ClientTLSConfigFactory toy_sidecar)))))
      (cs_PeerCertificates (te_ConnectionState ?env))"
    by (simp add: toy_sidecar_def NewClientConfig_def NewTLSCertificate_def toy_x509_def toy_cert_def)
  have l: "ct_Raw c = der" if "xl_ParseCertificate toy_x509 der = Inr c" for der c
    using that by (auto simp: toy_x509_def)
  have acc: "server_accepts (\<lambda>_ _. True) (NewServerConfig (ss_ServerTLSConfigFactory toy_sidecar))
      (cs_PeerCertificates (te_ConnectionState ?env))"
    by (simp add: server_accepts_def NewServerConfig_def Let_def)
  from started_sidecars_authenticate [OF toy_main toy_main p l acc disjI1 [OF r] r0(1), of b] b r r0(2) deploy(2) show ?thesis
    by (auto simp: toy_config_def toy_read toy_sidecar_def reads_cert_def)
qed

end
