(* ===== verification/Sidecar_Wiring.thy ===== *)
theory Sidecar_Wiring
  imports Sidecar_Main
begin

text \<open>
  The whole of cmd/main.go: the plugins, the configuration, the two servers, the routes of both engines
  with their cross-origin settings, and what ends the process. The route tables come from the four
  functions that register routes (InitRequestRouter and InitWrapRouter of both servers). config-tv, its
  plugins, gin and gin-contrib/cors are outside: their calls are parameters, and of gin the joining of a
  group's path with a relative path.
\<close>

section \<open>Routes\<close>

text \<open>A route is registered with the handler it runs; the handler closes over its server.\<close>

datatype route_handler =
    HNewRequest sidecar_server
  | HClientWrite sidecar_server
  | HClientRead sidecar_server
  | HClientClose sidecar_server
  | HHttpWrap sidecar_server
  | HTlsRequest sidecar_server
  | HWsWrap sidecar_server

record route =
  ro_method :: string
  ro_path :: string
  ro_handler :: route_handler

type_synonym join_paths = "string \<Rightarrow> string \<Rightarrow> string"

definition http_request_routes :: "join_paths \<Rightarrow> string \<Rightarrow> sidecar_server \<Rightarrow> route list" where
  "http_request_routes join basePath h =
     [\<lparr>ro_method = ''POST'', ro_path = join basePath ''/newRequest'', ro_handler = HNewRequest h\<rparr>,
      \<lparr>ro_method = ''PUT'', ro_path = join basePath ''/clientWrite'', ro_handler = HClientWrite h\<rparr>,
      \<lparr>ro_method = ''PUT'', ro_path = join basePath ''/clientRead'', ro_handler = HClientRead h\<rparr>,
      \<lparr>ro_method = ''PUT'', ro_path = join basePath ''/clientClose'', ro_handler = HClientClose h\<rparr>]"

definition http_wrap_routes :: "join_paths \<Rightarrow> string \<Rightarrow> sidecar_server \<Rightarrow> route list" where
  "http_wrap_routes join basePath h =
     [\<lparr>ro_method = ''POST'', ro_path = join basePath ''/wrap'', ro_handler = HHttpWrap h\<rparr>]"

definition ws_request_routes :: "join_paths \<Rightarrow> string \<Rightarrow> sidecar_server \<Rightarrow> route list" where
  "ws_request_routes join basePath h =
     [\<lparr>ro_method = ''GET'', ro_path = join basePath ''/tlsRequest'', ro_handler = HTlsRequest h\<rparr>]"

definition ws_wrap_routes :: "join_paths \<Rightarrow> string \<Rightarrow> sidecar_server \<Rightarrow> route list" where
  "ws_wrap_routes join basePath h =
     [\<lparr>ro_method = ''POST'', ro_path = join basePath ''/wrap'', ro_handler = HWsWrap h\<rparr>]"

definition find_route :: "route list \<Rightarrow> string \<Rightarrow> string \<Rightarrow> route_handler option" where
  "find_route rs method path =
     map_option ro_handler (find (\<lambda>r. ro_method r = method \<and> ro_path r = path) rs)"

section \<open>Cross-origin settings\<close>

text \<open>The fields of \<open>cors.Config\<close> that main sets, on top of the defaults of the package.\<close>

record cors_config =
  cc_AllowOriginFunc :: "(string \<Rightarrow> bool) option"
  cc_AllowAllOrigins :: bool
  cc_AllowWebSockets :: bool
  cc_AllowHeaders :: "string list"
  cc_ExposeHeaders :: "string list"

definition main_cors :: "cors_config \<Rightarrow> cors_config" where
  "main_cors defaultConfig =
     defaultConfig\<lparr>cc_AllowOriginFunc := Some (\<lambda>origin. True), cc_AllowAllOrigins := False,
       cc_AllowWebSockets := True,
       cc_AllowHeaders := cc_AllowHeaders defaultConfig @ [''X-Connection-ID''],
       cc_ExposeHeaders := cc_ExposeHeaders defaultConfig @ [''X-Connection-ID'']\<rparr>"

section \<open>The function main\<close>

text \<open>
  What main takes from outside: the plugin configuration (a pointer to a struct with a map), the
  constructors of the two plugins, the reader of the main configuration and of a configured value,
  cors.DefaultConfig, and cors.New, which only checks its argument here, since the middleware it makes
  is named by its configuration. All but the default configuration may panic.
\<close>

record ('c, 'p, 'v) main_env =
  me_GetConfigPluginConfigFromEnv :: "(string \<Rightarrow> 'c) option go"
  me_secretPluginName :: string
  me_configmapPluginName :: string
  me_NewK8sSecretPlugin :: "'c \<Rightarrow> 'p go"
  me_NewK8sConfigPlugin :: "'c \<Rightarrow> 'p go"
  me_UnmarshalMainConfig :: "(string \<Rightarrow> 'p option) \<Rightarrow> 'v sidecar_config go"
  me_ReadRawData :: "(string \<Rightarrow> 'p option) \<Rightarrow> 'v read_raw"
  me_CorsDefault :: cors_config
  me_CorsNew :: "cors_config \<Rightarrow> unit go"

record engine =
  en_addr :: string
  en_cors :: cors_config
  en_routes :: "route list"

definition main_pluginMap :: "('c, 'p, 'v) main_env \<Rightarrow> (string \<Rightarrow> 'p option) go" where
  "main_pluginMap me =
     go_bind (me_GetConfigPluginConfigFromEnv me) (\<lambda>configPluginConfig.
     go_bind (go_deref configPluginConfig) (\<lambda>plugin.
     go_bind (me_NewK8sSecretPlugin me (plugin (me_secretPluginName me))) (\<lambda>k8sSecretTypeKVPlugin.
     go_bind (go_deref configPluginConfig) (\<lambda>plugin.
     go_bind (me_NewK8sConfigPlugin me (plugin (me_configmapPluginName me))) (\<lambda>k8sConfigMapTypeKVPlugin.
       Inr [me_secretPluginName me \<mapsto> k8sSecretTypeKVPlugin,
            me_configmapPluginName me \<mapsto> k8sConfigMapTypeKVPlugin])))))"

definition main_corsMiddleware :: "('c, 'p, 'v) main_env \<Rightarrow> cors_config go" where
  "main_corsMiddleware me =
     (let config = main_cors (me_CorsDefault me)
      in go_bind (me_CorsNew me config) (\<lambda>_. Inr config))"

definition sidecar_main :: "x509_lib \<Rightarrow> join_paths \<Rightarrow> ('c, 'p, 'v) main_env \<Rightarrow> engine list go" where
  "sidecar_main xl join me =
     go_bind (main_pluginMap me) (\<lambda>pluginMap.
     go_bind (me_UnmarshalMainConfig me pluginMap) (\<lambda>mainConfig.
     go_bind (main_certs xl (me_ReadRawData me pluginMap) mainConfig) (\<lambda>certs.
     go_bind (main_corsMiddleware me) (\<lambda>corsMiddleware.
     go_bind (main_wiring mainConfig certs) (\<lambda>(websocketSidecarServer, httpSidecarServer).
       let wsGroup = join ''/'' ''/''; httpGroup = join ''/'' ''/http''
       in Inr
         [\<lparr>en_addr = '':9090'', en_cors = corsMiddleware,
           en_routes = ws_request_routes join wsGroup websocketSidecarServer @
             http_request_routes join httpGroup httpSidecarServer\<rparr>,
          \<lparr>en_addr = '':18080'', en_cors = corsMiddleware,
           en_routes = ws_wrap_routes join ''/'' websocketSidecarServer @
             http_wrap_routes join httpGroup httpSidecarServer\<rparr>])))))"

text \<open>
  After the engines were started in goroutines main waits. An engine that stops with an error panics in
  its goroutine; the interrupt signal lets main return.
\<close>

datatype main_event =
    EngineStopped string "go_error option"
  | InterruptSignal

datatype main_end =
    MainReturns
  | ProcessPanics go_panic

fun main_wait :: "main_event list \<Rightarrow> main_end option" where
  "main_wait [] = None"
| "main_wait (EngineStopped addr None # es) = main_wait es"
| "main_wait (EngineStopped addr (Some err) # es) = Some (ProcessPanics (PanicWith err))"
| "main_wait (InterruptSignal # es) = Some MainReturns"

section \<open>Properties\<close>

text \<open>
  What gin does when it joins the path of a group and a relative path, for groups and routes of one
  segment, that is without further slashes and without dots.
\<close>

definition path_segment :: "string \<Rightarrow> bool" where
  "path_segment s \<longleftrightarrow> s \<noteq> [] \<and> CHR ''/'' \<notin> set s \<and> CHR ''.'' \<notin> set s"

definition lawful_join :: "join_paths \<Rightarrow> bool" where
  "lawful_join join \<longleftrightarrow>
     join ''/'' ''/'' = ''/'' \<and>
     (\<forall>s. path_segment s \<longrightarrow> join ''/'' (CHR ''/'' # s) = CHR ''/'' # s) \<and>
     (\<forall>g s. path_segment g \<and> path_segment s \<longrightarrow>
        join (CHR ''/'' # g) (CHR ''/'' # s) = CHR ''/'' # g @ CHR ''/'' # s)"

lemma lawful_joinD:
  assumes "lawful_join join"
  shows "join ''/'' ''/'' = ''/''"
    "path_segment s \<Longrightarrow> join ''/'' (CHR ''/'' # s) = CHR ''/'' # s"
    "path_segment s \<Longrightarrow> join ''/http'' (CHR ''/'' # s) = ''/http/'' @ s"
proof -
  show "join ''/'' ''/'' = ''/''" using assms unfolding lawful_join_def by blast
  show "join ''/'' (CHR ''/'' # s) = CHR ''/'' # s" if "path_segment s"
    using assms that unfolding lawful_join_def by blast
  have "path_segment ''http''" by (simp add: path_segment_def)
  then have "join (CHR ''/'' # ''http'') (CHR ''/'' # s) = CHR ''/'' # ''http'' @ CHR ''/'' # s" if "path_segment s"
    using assms that unfolding lawful_join_def by blast
  then show "join ''/http'' (CHR ''/'' # s) = ''/http/'' @ s" if "path_segment s" using that by simp
qed

text \<open>The routes of both engines, with their paths.\<close>

definition started_engines :: "cors_config \<Rightarrow> sidecar_server \<Rightarrow> sidecar_server \<Rightarrow> engine list" where
  "started_engines cors ws hs =
       [\<lparr>en_addr = '':9090'', en_cors = cors,
         en_routes = [\<lparr>ro_method = ''GET'', ro_path = ''/tlsRequest'', ro_handler = HTlsRequest ws\<rparr>,
           \<lparr>ro_method = ''POST'', ro_path = ''/http/newRequest'', ro_handler = HNewRequest hs\<rparr>,
           \<lparr>ro_method = ''PUT'', ro_path = ''/http/clientWrite'', ro_handler = HClientWrite hs\<rparr>,
           \<lparr>ro_method = ''PUT'', ro_path = ''/http/clientRead'', ro_handler = HClientRead hs\<rparr>,
           \<lparr>ro_method = ''PUT'', ro_path = ''/http/clientClose'', ro_handler = HClientClose hs\<rparr>]\<rparr>,
        \<lparr>en_addr = '':18080'', en_cors = cors,
         en_routes = [\<lparr>ro_method = ''POST'', ro_path = ''/wrap'', ro_handler = HWsWrap ws\<rparr>,
           \<lparr>ro_method = ''POST'', ro_path = ''/http/wrap'', ro_handler = HHttpWrap hs\<rparr>]\<rparr>]"

lemma sidecar_main_engines:
  assumes "sidecar_main xl join me = Inr engines" "lawful_join join"
  obtains pluginMap mainConfig ws hs where "main_pluginMap me = Inr pluginMap" "me_UnmarshalMainConfig me pluginMap = Inr mainConfig"
    "main_servers xl (me_ReadRawData me pluginMap) mainConfig = Inr (ws, hs)" "ws = hs"
    "engines = started_engines (main_cors (me_CorsDefault me)) ws hs"
proof -
  obtain pluginMap mainConfig ws hs where p: "main_pluginMap me = Inr pluginMap" "me_UnmarshalMainConfig me pluginMap = Inr mainConfig"
    "main_servers xl (me_ReadRawData me pluginMap) mainConfig = Inr (ws, hs)"
    using assms(1) by (auto simp: sidecar_main_def main_servers_def go_bind_eq_Inr_iff)
  moreover from p(3) have "ws = hs" by (rule main_servers_cases) simp
  ultimately show thesis
    using assms(1) lawful_joinD [OF assms(2)]
    by (intro that) (auto simp: sidecar_main_def main_servers_def main_corsMiddleware_def go_bind_eq_Inr_iff
        Let_def http_request_routes_def http_wrap_routes_def
        ws_request_routes_def ws_wrap_routes_def path_segment_def started_engines_def)
qed

text \<open>
  An engine serves a call of a client that was given this base address: the path that follows the
  address has a route for the method of the call.
\<close>

definition serves :: "engine \<Rightarrow> string \<Rightarrow> http_call \<Rightarrow> route_handler \<Rightarrow> bool" where
  "serves e base call handler \<longleftrightarrow>
     take (length base) (hc_url call) = base \<and>
     find_route (en_routes e) (hc_method call) (drop (length base) (hc_url call)) = Some handler"

text \<open>
  C26. What main starts fits what the clients call. A client with the public address followed by /http as
  its base address reaches, with each of its four calls, the endpoint that the call is meant for; the
  web socket endpoint is at /tlsRequest. No other path is served on the public port, the wrap endpoints
  least of all; these are on the other port only. No two routes of an engine collide. Both ports answer
  pages of every origin, and all routes act for the one service certificate and the one backend of the
  configuration.
\<close>

theorem sidecar_main_serves_clients:
  assumes "sidecar_main xl join me = Inr engines" "lawful_join join"
  shows "\<exists>public wrap ws hs. engines = [public, wrap] \<and> en_addr public = '':9090'' \<and> en_addr wrap = '':18080'' \<and>
    serves public base (newRequest_call (base @ ''/http'')) (HNewRequest hs) \<and>
    serves public base (clientWrite_call (base @ ''/http'') k b) (HClientWrite hs) \<and>
    serves public base (clientRead_call (base @ ''/http'') k n) (HClientRead hs) \<and>
    serves public base (clientClose_call (base @ ''/http'') k) (HClientClose hs) \<and>
    find_route (en_routes public) ''GET'' ''/tlsRequest'' = Some (HTlsRequest ws) \<and>
    find_route (en_routes wrap) ''POST'' ''/wrap'' = Some (HWsWrap ws) \<and>
    find_route (en_routes wrap) ''POST'' ''/http/wrap'' = Some (HHttpWrap hs) \<and>
    map ro_handler (en_routes public) =
      [HTlsRequest ws, HNewRequest hs, HClientWrite hs, HClientRead hs, HClientClose hs] \<and>
    map ro_handler (en_routes wrap) = [HWsWrap ws, HHttpWrap hs] \<and>
    (\<forall>e \<in> {public, wrap}. distinct (map (\<lambda>r. (ro_method r, ro_path r)) (en_routes e)) \<and>
       (\<exists>f. cc_AllowOriginFunc (en_cors e) = Some f \<and> (\<forall>origin. f origin))) \<and>
    ss_BackendServiceHost ws = ss_BackendServiceHost hs \<and>
    ctf_SelfCert (ss_ClientTLSConfigFactory ws) = stf_SelfCert (ss_ServerTLSConfigFactory hs)"
proof -
  obtain pluginMap mainConfig ws hs where e: "main_servers xl (me_ReadRawData me pluginMap) mainConfig = Inr (ws, hs)" "ws = hs"
    "engines = started_engines (main_cors (me_CorsDefault me)) ws hs"
    using assms by (rule sidecar_main_engines)
  have certs: "ctf_SelfCert (ss_ClientTLSConfigFactory ws) = stf_SelfCert (ss_ServerTLSConfigFactory hs)"
    using e(1) by (rule main_servers_cases) simp
  show ?thesis
    unfolding e(3) started_engines_def
    by (rule exI, rule exI, rule exI [of _ ws], rule exI [of _ hs], intro conjI, rule refl)
      (use certs e(2) in \<open>auto simp: find_route_def newRequest_call_def clientWrite_call_def clientRead_call_def
        clientClose_call_def main_cors_def serves_def split: if_splits\<close>)
qed

text \<open>
  A configuration with which main can start its servers. The certificate of the own deployment in the
  outbound section is not among its parts: main never reads it.
\<close>

definition config_complete :: "x509_lib \<Rightarrow> 'v read_raw \<Rightarrow> 'v sidecar_config \<Rightarrow> bool" where
  "config_complete xl rd mainConfig \<longleftrightarrow>
     (\<exists>rpc inbound outbound.
        sc_RPC mainConfig = Some rpc \<and> rc_Inbound rpc = Some inbound \<and> rc_Outbound rpc = Some outbound \<and>
        ic_TrustedDeployCertificates inbound \<noteq> [] \<and>
        (\<forall>item\<in>set (ic_TrustedDeployCertificates inbound). \<exists>c. reads_cert xl rd item c) \<and>
        (\<exists>c. reads_cert xl rd (rc_BackendServiceCertificate rpc) c) \<and>
        (\<exists>k. reads_key xl rd (rc_BackendServiceKey rpc) k))"

lemma ex_list_all2: "(\<exists>ys. list_all2 R xs ys) \<longleftrightarrow> (\<forall>x\<in>set xs. \<exists>y. R x y)"
  by (induction xs) (auto simp: list_all2_Cons1)

lemma main_servers_iff_complete:
  "(\<exists>ws hs. main_servers xl rd mainConfig = Inr (ws, hs)) \<longleftrightarrow> config_complete xl rd mainConfig"
proof
  assume "\<exists>ws hs. main_servers xl rd mainConfig = Inr (ws, hs)"
  then obtain rpc inbound outbound trusted cert key where c: "sc_RPC mainConfig = Some rpc"
    "rc_Inbound rpc = Some inbound" "rc_Outbound rpc = Some outbound"
    "list_all2 (reads_cert xl rd) (ic_TrustedDeployCertificates inbound) trusted" "trusted \<noteq> []"
    "reads_cert xl rd (rc_BackendServiceCertificate rpc) cert" "reads_key xl rd (rc_BackendServiceKey rpc) key"
    unfolding main_servers_Inr by blast
  from c(4,5) have "ic_TrustedDeployCertificates inbound \<noteq> []" by auto
  moreover have "\<forall>item\<in>set (ic_TrustedDeployCertificates inbound). \<exists>c. reads_cert xl rd item c"
    using c(4) ex_list_all2 [of "reads_cert xl rd" "ic_TrustedDeployCertificates inbound"] by blast
  ultimately show "config_complete xl rd mainConfig" unfolding config_complete_def using c by blast
next
  assume "config_complete xl rd mainConfig"
  then obtain rpc inbound outbound cert key where c: "sc_RPC mainConfig = Some rpc" "rc_Inbound rpc = Some inbound"
    "rc_Outbound rpc = Some outbound" "ic_TrustedDeployCertificates inbound \<noteq> []"
    "\<forall>item\<in>set (ic_TrustedDeployCertificates inbound). \<exists>c. reads_cert xl rd item c"
    "reads_cert xl rd (rc_BackendServiceCertificate rpc) cert" "reads_key xl rd (rc_BackendServiceKey rpc) key"
    unfolding config_complete_def by blast
  then obtain trusted where "list_all2 (reads_cert xl rd) (ic_TrustedDeployCertificates inbound) trusted"
    using ex_list_all2 [of "reads_cert xl rd" "ic_TrustedDeployCertificates inbound"] by blast
  moreover from this c(4) have "trusted \<noteq> []" by auto
  ultimately show "\<exists>ws hs. main_servers xl rd mainConfig = Inr (ws, hs)"
    unfolding main_servers_Inr using c(1-3,6,7) by blast
qed

text \<open>
  C25. When the sidecar starts. main reaches its servers exactly when the plugin configuration is there,
  both plugins are made, the main configuration is read, all its sections are present, at least one
  deployment certificate is trusted, every trusted certificate, the service certificate and the service
  key are given and parse, and the cross-origin settings pass the check of cors.New; in every other
  case it panics before any server is started. The own deployment certificate of the outbound section
  is not needed.
\<close>

theorem sidecar_main_starts_iff:
  "(\<exists>engines. sidecar_main xl join me = Inr engines) \<longleftrightarrow>
     (\<exists>plugin secretPlugin configmapPlugin mainConfig pluginMap.
        me_GetConfigPluginConfigFromEnv me = Inr (Some plugin) \<and>
        me_NewK8sSecretPlugin me (plugin (me_secretPluginName me)) = Inr secretPlugin \<and>
        me_NewK8sConfigPlugin me (plugin (me_configmapPluginName me)) = Inr configmapPlugin \<and>
        pluginMap = [me_secretPluginName me \<mapsto> secretPlugin, me_configmapPluginName me \<mapsto> configmapPlugin] \<and>
        me_UnmarshalMainConfig me pluginMap = Inr mainConfig \<and>
        config_complete xl (me_ReadRawData me pluginMap) mainConfig \<and>
        me_CorsNew me (main_cors (me_CorsDefault me)) = Inr ())"
  unfolding main_servers_iff_complete [symmetric] sidecar_main_def main_pluginMap_def main_corsMiddleware_def
    main_servers_def
  by (auto simp: go_bind_eq_Inr_iff Let_def)

section \<open>Witness\<close>

definition toy_join :: join_paths where
  "toy_join g s = (if g = ''/'' then s else g @ s)"

definition toy_env :: "(unit, unit, string) main_env" where
  "toy_env = \<lparr>me_GetConfigPluginConfigFromEnv = Inr (Some (\<lambda>_. ())), me_secretPluginName = ''k8s_secret'', me_configmapPluginName = ''k8s_configmap'',
     me_NewK8sSecretPlugin = Inr, me_NewK8sConfigPlugin = Inr, me_UnmarshalMainConfig = (\<lambda>_. Inr toy_config),
     me_ReadRawData = (\<lambda>_. Inr),
     me_CorsDefault = \<lparr>cc_AllowOriginFunc = None, cc_AllowAllOrigins = False, cc_AllowWebSockets = False,
       cc_AllowHeaders = [''Origin''], cc_ExposeHeaders = []\<rparr>,
     me_CorsNew = (\<lambda>_. Inr ())\<rparr>"

lemmas toy_main_simps = sidecar_main_def main_pluginMap_def main_corsMiddleware_def toy_env_def toy_certs toy_wiring

theorem sidecar_main_serves_clients_witness:
  "\<exists>public wrap. sidecar_main toy_x509 toy_join toy_env = Inr [public, wrap] \<and>
     serves public ''http://host:9090'' (clientRead_call ''http://host:9090/http'' 3 512) (HClientRead toy_sidecar)"
proof -
  have r: "\<exists>engines. sidecar_main toy_x509 toy_join toy_env = Inr engines"
    by (simp add: toy_main_simps Let_def)
  then obtain engines where e: "sidecar_main toy_x509 toy_join toy_env = Inr engines" by blast
  have l: "lawful_join toy_join" by (auto simp: lawful_join_def toy_join_def path_segment_def)
  obtain public wrap where "engines = [public, wrap]"
    "\<exists>hs. serves public ''http://host:9090'' (clientRead_call (''http://host:9090'' @ ''/http'') 3 512) (HClientRead hs)"
    using sidecar_main_serves_clients [OF e l, of "''http://host:9090''" 3 "[]" 512] by blast
  moreover from e have "map ro_handler (en_routes (hd engines)) ! 3 = HClientRead toy_sidecar"
    by (auto simp: toy_main_simps Let_def http_request_routes_def ws_request_routes_def)
  moreover from e have "find_route (en_routes (hd engines)) ''PUT'' ''/http/clientRead'' = Some (HClientRead toy_sidecar)"
    by (auto simp: toy_main_simps Let_def http_request_routes_def
        ws_request_routes_def find_route_def toy_join_def)
  ultimately show ?thesis
    using e by (auto simp: serves_def clientRead_call_def)
qed

end
