(* ===== verification/Session_Races.thy ===== *)
theory Session_Races
  imports Session_Steps Session_Correct
begin

text \<open>
  What the interleaving of the session endpoints allows and excludes. An executable scheduler names
  every step of \<open>session_step\<close> by an action; it is sound and complete for the step relation, so
  that a schedule is shown to be possible by running it.
\<close>

datatype action =
    Allocate
  | Store nat
  | Lookup string client_op
  | Run nat
  | Deliver nat
  | Wake nat
  | Internal nat nat

definition run_task :: "'c conn_ops \<Rightarrow> nat \<Rightarrow> client_handle \<Rightarrow> client_op \<Rightarrow> 'c world \<Rightarrow> 'c world option" where
  "run_task ops i h op w =
     (case op of
        OpWrite body \<Rightarrow>
          if read_locked (cl_conn h) w then None
          else Some (w\<lparr>w_server := snd (clientWrite_on h body (w_server w)),
                       w_tasks := drop_at i (w_tasks w),
                       w_accepted := w_accepted w @ accepted_data h body\<rparr>)
      | OpRead body \<Rightarrow>
          (case clientRead_on ops h body (w_server w) of
             Returns (resp, s') \<Rightarrow> Some (w\<lparr>w_server := s', w_tasks := drop_at i (w_tasks w)\<rparr>)
           | Panics p \<Rightarrow> Some (w\<lparr>w_tasks := drop_at i (w_tasks w)\<rparr>)
           | Blocks \<Rightarrow> Some (w\<lparr>w_tasks := drop_at i (w_tasks w), w_reading := w_reading w @ [(h, body)]\<rparr>))
      | OpClose \<Rightarrow>
          if read_locked (cl_conn h) w then None
          else Some (w\<lparr>w_server := snd (clientClose_on ops h (w_server w)),
                       w_tasks := drop_at i (w_tasks w)\<rparr>))"

fun run_action :: "'c conn_ops \<Rightarrow> action \<Rightarrow> 'c world \<Rightarrow> 'c world option" where
  "run_action ops Allocate w = Some (w\<lparr>w_allocating := w_allocating w @ [newRequest_id (w_server w)]\<rparr>)"
| "run_action ops (Store i) w =
     (if i < length (w_allocating w)
      then Some (w\<lparr>w_server := snd (newRequest_store ops (w_allocating w ! i) (w_server w)),
                   w_allocating := drop_at i (w_allocating w)\<rparr>)
      else None)"
| "run_action ops (Lookup idStr op) w =
     (case connection_id_middleware (w_server w) idStr of
        Inl _ \<Rightarrow> None
      | Inr h \<Rightarrow> Some (w\<lparr>w_tasks := w_tasks w @ [(h, op)]\<rparr>))"
| "run_action ops (Run i) w =
     (if i < length (w_tasks w) then run_task ops i (fst (w_tasks w ! i)) (snd (w_tasks w ! i)) w else None)"
| "run_action ops (Deliver i) w =
     (if i < length (sv_writes (w_server w))
      then (case deliver_write ops i (w_server w) of
              (res, s') \<Rightarrow>
                Some (w\<lparr>w_server := s', w_delivered := w_delivered w @ [(sv_writes (w_server w) ! i, res)]\<rparr>))
      else None)"
| "run_action ops (Wake i) w =
     (if i < length (w_reading w) then
        (case clientRead_on ops (fst (w_reading w ! i)) (snd (w_reading w ! i)) (w_server w) of
           Returns (resp, s') \<Rightarrow> Some (w\<lparr>w_server := s', w_reading := drop_at i (w_reading w)\<rparr>)
         | _ \<Rightarrow> None)
      else None)"
| "run_action ops (Internal c k) w =
     (if c < length (sv_conns (w_server w)) \<and> k < length (co_internal ops (sv_conns (w_server w) ! c))
      then Some (w\<lparr>w_server := (w_server w)\<lparr>sv_conns :=
                   (sv_conns (w_server w))[c := co_internal ops (sv_conns (w_server w) ! c) ! k]\<rparr>\<rparr>)
      else None)"

fun run_schedule :: "'c conn_ops \<Rightarrow> action list \<Rightarrow> 'c world \<Rightarrow> 'c world option" where
  "run_schedule ops [] w = Some w"
| "run_schedule ops (a # as) w =
     (case run_action ops a w of None \<Rightarrow> None | Some w' \<Rightarrow> run_schedule ops as w')"

lemma run_task_step:
  assumes "i < length (w_tasks w)" "w_tasks w ! i = (h, op)" "run_task ops i h op w = Some w'"
  shows "session_step ops w w'"
proof (cases op)
  case (OpWrite body)
  with assms step_write [of i w h body ops] show ?thesis
    by (auto simp: run_task_def split: if_splits)
next
  case (OpRead body)
  with assms show ?thesis
    using step_read [of i w h body ops] step_read_panic [of i w h body ops] step_read_wait [of i w h body ops]
    by (auto simp: run_task_def split: outcome.splits)
next
  case OpClose
  with assms step_close [of i w h ops] show ?thesis
    by (auto simp: run_task_def split: if_splits)
qed

lemma run_action_step: "run_action ops a w = Some w' \<Longrightarrow> session_step ops w w'"
proof (cases a)
  case (Run i)
  assume "run_action ops a w = Some w'"
  with Run show ?thesis
    using run_task_step [of i w "fst (w_tasks w ! i)" "snd (w_tasks w ! i)" ops w'] by (auto split: if_splits)
next
  case (Wake i)
  assume "run_action ops a w = Some w'"
  with Wake show ?thesis
    using step_read_wake [of i w "fst (w_reading w ! i)" "snd (w_reading w ! i)" ops]
    by (auto split: if_splits outcome.splits)
qed (auto split: if_splits sum.splits prod.splits intro: session_step.intros)

lemma step_run_action: "session_step ops w w' \<Longrightarrow> \<exists>a. run_action ops a w = Some w'"
proof (induction rule: session_step.cases)
  case (step_allocate w) then show ?case by (auto intro: exI [of _ Allocate])
next
  case (step_store i w) then show ?case by (auto intro: exI [of _ "Store i"])
next
  case (step_lookup w idStr h op) then show ?case by (auto intro: exI [of _ "Lookup idStr op"])
next
  case (step_write i w h body) then show ?case
    by (auto intro!: exI [of _ "Run i"] simp: run_task_def)
next
  case (step_deliver i w res s') then show ?case by (auto intro: exI [of _ "Deliver i"])
next
  case (step_read i w h body resp s') then show ?case
    by (auto intro!: exI [of _ "Run i"] simp: run_task_def)
next
  case (step_read_panic i w h body p) then show ?case
    by (auto intro!: exI [of _ "Run i"] simp: run_task_def)
next
  case (step_read_wait i w h body) then show ?case
    by (auto intro!: exI [of _ "Run i"] simp: run_task_def)
next
  case (step_read_wake i w h body resp s') then show ?case
    by (auto intro!: exI [of _ "Wake i"])
next
  case (step_close i w h) then show ?case
    by (auto intro!: exI [of _ "Run i"] simp: run_task_def)
next
  case (step_transfer c w x)
  then obtain k where "k < length (co_internal ops (sv_conns (w_server w) ! c))"
    "x = co_internal ops (sv_conns (w_server w) ! c) ! k" by (metis in_set_conv_nth)
  with step_transfer show ?case by (auto intro!: exI [of _ "Internal c k"])
qed

lemma run_schedule_steps: "run_schedule ops as w = Some w' \<Longrightarrow> session_steps ops w w'"
  by (induction as arbitrary: w)
    (auto split: option.splits intro: converse_rtranclp_into_rtranclp run_action_step)

lemma steps_run_schedule: "session_steps ops w w' \<Longrightarrow> \<exists>as. run_schedule ops as w = Some w'"
proof (induction rule: converse_rtranclp_induct)
  case base
  show ?case by (rule exI [of _ "[]"]) simp
next
  case (step w w1)
  then obtain a as where "run_action ops a w = Some w1" "run_schedule ops as w1 = Some w'"
    using step_run_action by blast
  then show ?case by (intro exI [of _ "a # as"]) simp
qed

section \<open>What the interleaving allows\<close>

lemma middleware_zero:
  assumes "Mapping.lookup (sv_clientMap s) 0 = Some h"
  shows "connection_id_middleware s ''0'' = Inr h"
proof -
  have "show_int 0 = ''0''" by code_simp
  with middleware_printed [of 0 s] assms show ?thesis by simp
qed

lemmas schedule_simps =
  world_init_def new_server_def newRequest_id_def newRequest_store_def Let_def middleware_zero
  run_task_def read_locked_def clientWrite_on_def accepted_data_def deliver_write_def drop_at_def

text \<open>
  The bytes of a session can reach the TLS server in another order than the client wrote them.
  For any two writes of one session, the second one sent only after the first has been answered with
  status 200, there is a run in which the connection gets the second before the first.
\<close>

theorem accepted_writes_may_reorder:
  "\<exists>w. session_reachable ops w \<and> w_accepted w = [(0, a), (0, b)] \<and>
     map fst (w_delivered w) = [(0, b), (0, a)] \<and>
     sv_conns (w_server w) =
       [snd (co_client_write ops a (snd (co_client_write ops b (co_new ops))))]"
proof -
  let ?wr = "\<lambda>d. OpWrite (Inr (json_TransactRequest \<lparr>tq_Data = d\<rparr>))"
  let ?sched = "[Allocate, Store 0, Lookup ''0'' (?wr a), Run 0, Lookup ''0'' (?wr b), Run 0, Deliver 1, Deliver 0]"
  obtain r1 c1 r2 c2 where c: "co_client_write ops b (co_new ops) = (r1, c1)" "co_client_write ops a c1 = (r2, c2)"
    by (metis prod.exhaust)
  obtain w where w: "run_schedule ops ?sched world_init = Some w" "w_accepted w = [(0, a), (0, b)]"
    "w_delivered w = [((0, b), r1), ((0, a), r2)]" "sv_conns (w_server w) = [c2]"
    by (cases r1; cases r2) (simp add: schedule_simps lookup_update' c)
  from run_schedule_steps [OF w(1)] show ?thesis by (rule exI [of _ w, OF conjI]) (simp add: w c)
qed

text \<open>
  Two newRequests that both read the size of the map before either stores its handle get the same
  id: from the initial state a state is reachable in which both are about to answer with id 0, and
  from there one in which two connections with a transfer each exist, but only one session, whose id
  finds the second connection.
\<close>

theorem concurrent_newRequests_share_id:
  "\<exists>w w'. session_reachable ops w \<and> w_allocating w = [0, 0] \<and> session_steps ops w w' \<and>
     w_allocating w' = [] \<and> sv_transfers (w_server w') = [0, 1] \<and>
     Mapping.keys (sv_clientMap (w_server w')) = {0} \<and>
     Mapping.lookup (sv_clientMap (w_server w')) 0 = Some \<lparr>cl_connectionID = 0, cl_conn = 1\<rparr>"
proof -
  obtain w where w: "run_schedule ops [Allocate, Allocate] world_init = Some w" "w_allocating w = [0, 0]"
    and w': "w_server w = new_server"
    by (simp add: world_init_def newRequest_id_def) (simp add: new_server_def)
  obtain w1 where "run_schedule ops [Store 0, Store 0] w = Some w1" "w_allocating w1 = []"
    "sv_transfers (w_server w1) = [0, 1]" "Mapping.keys (sv_clientMap (w_server w1)) = {0}"
    "Mapping.lookup (sv_clientMap (w_server w1)) 0 = Some \<lparr>cl_connectionID = 0, cl_conn = 1\<rparr>"
    using w(2) w' by (simp add: drop_at_def newRequest_store_def new_server_def Let_def lookup_update')
  with w run_schedule_steps show ?thesis by metis
qed

section \<open>A waiting read keeps its session locked\<close>

text \<open>
  A waiting read on the connection c in the state x, with nothing on the way that could end it, and
  the writes of c that were accepted so far.
\<close>

definition stuck_read :: "client_handle \<Rightarrow> json_obj \<Rightarrow> 'c \<Rightarrow> (nat \<times> string) list \<Rightarrow> 'c world \<Rightarrow> bool" where
  "stuck_read h j x acc w \<longleftrightarrow>
     world_wf w \<and> (h, Inr j) \<in> set (w_reading w) \<and> sv_conns (w_server w) ! cl_conn h = x \<and>
     (\<forall>d. (cl_conn h, d) \<notin> set (sv_writes (w_server w))) \<and>
     filter (\<lambda>a. fst a = cl_conn h) (w_accepted w) = acc"

lemma stuck_readD:
  assumes "stuck_read h j x acc w"
  shows "world_wf w" "(h, Inr j) \<in> set (w_reading w)" "sv_conns (w_server w) ! cl_conn h = x"
    "(cl_conn h, d) \<notin> set (sv_writes (w_server w))" "read_locked (cl_conn h) w"
    "cl_conn h < length (sv_conns (w_server w))"
  using assms by (auto simp: stuck_read_def world_wf_def read_locked_def intro: bexI [of _ "(h, Inr j)"])

lemma stuck_clientRead_on:
  assumes "\<And>n. co_client_read ops n (sv_conns s ! cl_conn h) = None"
    and "clientRead_on ops g body s = Returns (resp, s')"
  shows "sv_conns s' ! cl_conn h = sv_conns s ! cl_conn h"
  using assms
  by (cases "cl_conn g = cl_conn h")
    (auto simp: clientRead_on_def Let_def split: sum.splits option.splits prod.splits if_splits)

lemma stuck_blocks:
  assumes "\<And>n. co_client_read ops n (sv_conns s ! cl_conn h) = None" "0 \<le> rr_Size (bind_ReadRequest j)"
  shows "clientRead_on ops h (Inr j) s = Blocks"
  using assms by (simp add: clientRead_on_def Let_def)

lemma in_drop_at_other:
  assumes "x \<in> set xs" "x \<noteq> xs ! i" shows "x \<in> set (drop_at i xs)"
proof (cases "i < length xs")
  case True
  then have "set xs = insert (xs ! i) (set (drop_at i xs))"
    by (metis mset_drop_at set_mset_add_mset_insert set_mset_mset)
  with assms show ?thesis by blast
qed (use assms in \<open>simp add: drop_at_def\<close>)

lemma stuck_read_step:
  assumes "session_step ops w w'" "stuck_read h j x acc w"
    and quiet: "\<And>n. co_client_read ops n x = None" "co_internal ops x = []" "0 \<le> rr_Size (bind_ReadRequest j)"
  shows "stuck_read h j x acc w'"
proof -
  note d = stuck_readD [OF assms(2)]
  have wf: "world_wf w'" using world_wf_step [OF assms(1) d(1)] .
  have blocks: "clientRead_on ops h (Inr j) (w_server w) = Blocks"
    by (rule stuck_blocks) (simp_all add: d(3) quiet)
  have conn: "sv_conns s' ! cl_conn h = x"
    if "clientRead_on ops g body (w_server w) = Returns (resp, s')" for g body resp s'
    using stuck_clientRead_on [OF _ that, of h] quiet(1) d(3) by simp
  from assms(1) show ?thesis
  proof cases
    case step_allocate
    with assms(2) wf show ?thesis by (simp add: stuck_read_def)
  next
    case (step_store i)
    with assms(2) wf d(6) show ?thesis
      by (simp add: stuck_read_def sv_writes_on) (simp add: newRequest_store_def Let_def nth_append)
  next
    case step_lookup
    with assms(2) wf show ?thesis by (simp add: stuck_read_def)
  next
    case (step_write i g body)
    have "sv_conns (w_server w') = sv_conns (w_server w)"
      unfolding step_write(1) by (simp add: clientWrite_on_def Let_def split: sum.split)
    with step_write assms(2) wf d(5) show ?thesis
      by (auto simp: stuck_read_def sv_writes_on accepted_data_def split: sum.splits)
  next
    case (step_deliver i res s')
    then have "fst (sv_writes (w_server w) ! i) \<noteq> cl_conn h"
      using assms(2) by (metis nth_mem prod.collapse stuck_read_def)
    with step_deliver assms(2) wf show ?thesis
      using deliver_write_other [of "w_server w" i "cl_conn h" ops] sv_writes_on(5) [of ops i "w_server w"]
      by (auto simp: stuck_read_def dest: in_drop_at)
  next
    case (step_read i g body resp s')
    with assms(2) wf conn show ?thesis by (simp add: stuck_read_def sv_writes_on(2))
  next
    case step_read_panic
    with assms(2) wf show ?thesis by (simp add: stuck_read_def)
  next
    case step_read_wait
    with assms(2) wf show ?thesis by (simp add: stuck_read_def)
  next
    case (step_read_wake i g body resp s')
    then have "(h, Inr j) \<noteq> w_reading w ! i" using blocks by auto
    from in_drop_at_other [OF d(2) this] step_read_wake assms(2) wf conn show ?thesis
      by (simp add: stuck_read_def sv_writes_on(2))
  next
    case (step_close i g)
    then have "cl_conn g \<noteq> cl_conn h" using d(5) by auto
    then have "sv_conns (w_server w') ! cl_conn h = x"
      unfolding step_close(1) using d(3) by (auto simp: clientClose_on_def split: prod.split option.split)
    with step_close assms(2) wf show ?thesis by (simp add: stuck_read_def sv_writes_on)
  next
    case (step_transfer c y)
    then have "c \<noteq> cl_conn h" using quiet(2) d(3) by auto
    with step_transfer assms(2) wf show ?thesis by (simp add: stuck_read_def)
  qed
qed

text \<open>
  C16. A clientRead that waits keeps the read lock of its session, and clientWrite and clientClose need
  the lock for themselves. So when the connection has nothing to read, the server's end does nothing
  on its own and no accepted write is on its way, the session is stuck for good: whatever happens
  afterwards, the read still waits, its connection has not changed and no write of it was accepted.
\<close>

theorem waiting_read_locks_session:
  assumes "session_reachable ops w" "(h, Inr j) \<in> set (w_reading w)" "0 \<le> rr_Size (bind_ReadRequest j)"
    and "\<And>n. co_client_read ops n (sv_conns (w_server w) ! cl_conn h) = None"
    and "co_internal ops (sv_conns (w_server w) ! cl_conn h) = []"
    and "\<And>d. (cl_conn h, d) \<notin> set (sv_writes (w_server w))"
    and "session_steps ops w w'"
  shows "(h, Inr j) \<in> set (w_reading w') \<and>
    sv_conns (w_server w') ! cl_conn h = sv_conns (w_server w) ! cl_conn h \<and>
    filter (\<lambda>a. fst a = cl_conn h) (w_accepted w') = filter (\<lambda>a. fst a = cl_conn h) (w_accepted w)"
proof -
  define x where "x = sv_conns (w_server w) ! cl_conn h"
  define acc where "acc = filter (\<lambda>a. fst a = cl_conn h) (w_accepted w)"
  have quiet: "\<And>n. co_client_read ops n x = None" "co_internal ops x = []" using assms(4,5) by (simp_all add: x_def)
  have "stuck_read h j x acc w"
    using world_wf_steps [OF assms(1) world_wf_init] assms(2,6) by (simp add: stuck_read_def x_def acc_def)
  with assms(7) have "stuck_read h j x acc w'"
    by (induction rule: rtranclp_induct) (blast intro: stuck_read_step quiet assms(3))+
  then show ?thesis by (simp add: stuck_read_def x_def acc_def)
qed

section \<open>Witnesses\<close>

theorem waiting_read_locks_session_witness:
  "\<exists>w. session_reachable echo_ops w \<and> w_reading w \<noteq> [] \<and>
     (\<forall>w'. session_steps echo_ops w w' \<longrightarrow> w_reading w' \<noteq> [])"
proof -
  let ?j = "json_ReadRequest \<lparr>rr_Size = 4\<rparr>"
  let ?h = "\<lparr>cl_connectionID = 0, cl_conn = 0\<rparr>"
  obtain w where w: "run_schedule echo_ops [Allocate, Store 0, Lookup ''0'' (OpRead (Inr ?j)), Run 0] world_init = Some w"
    "w_reading w = [(?h, Inr ?j)]" "sv_conns (w_server w) = ['''']" "sv_writes (w_server w) = []"
    by (simp add: schedule_simps lookup_update' clientRead_on_def echo_ops_def)
  note r = run_schedule_steps [OF w(1)]
  have "w_reading w' \<noteq> []" if "session_steps echo_ops w w'" for w'
    using waiting_read_locks_session [OF r, of ?h ?j w'] that w
    by (auto simp: echo_ops_def)
  with r w(2) show ?thesis by (intro exI [of _ w]) simp
qed

theorem session_table_invariant_witness:
  "\<exists>w. session_reachable echo_ops w \<and> length (sv_conns (w_server w)) = 1 \<and> server_wf (w_server w)"
proof -
  obtain w where w: "run_schedule echo_ops [Allocate, Store 0] world_init = Some w"
    "length (sv_conns (w_server w)) = 1"
    by (simp add: schedule_simps)
  from session_table_invariant [OF run_schedule_steps [OF w(1)]] w run_schedule_steps [OF w(1)]
  show ?thesis by blast
qed

text \<open>
  A connection that keeps what its server end has been given, and that refuses a write once it has
  been closed, as a pipe does.
\<close>

definition pipe_ops_log :: "(string \<times> bool) conn_ops" where
  "pipe_ops_log = \<lparr>co_new = ('''', False),
     co_client_write = (\<lambda>data (got, closed).
       if closed then ((0, Some ''io: read/write on closed pipe''), (got, closed))
       else ((length data, None), (got @ data, closed))),
     co_client_read = (\<lambda>n (got, closed). if closed then Some (Inl ''EOF'', (got, closed)) else None),
     co_protocol_close = (\<lambda>(got, closed). (None, (got, True))), co_internal = (\<lambda>_. [])\<rparr>"

lemma pipe_ops_log_lawful: "lawful_conn pipe_ops_log fst"
  by (auto simp: lawful_conn_def pipe_ops_log_def split: if_splits)

text \<open>A write that is accepted and then overtaken by a close is lost.\<close>

theorem accepted_writes_conserved_witness:
  "\<exists>w. session_reachable pipe_ops_log w \<and> mset (w_accepted w) = {#(0, ''hi''), (0, ''there'')#} \<and>
     fst (sv_conns (w_server w) ! 0) = ''hi''"
proof -
  let ?put = "\<lambda>d. Lookup ''0'' (OpWrite (Inr (json_TransactRequest \<lparr>tq_Data = d\<rparr>)))"
  obtain w where w: "run_schedule pipe_ops_log [Allocate, Store 0, ?put ''hi'', Run 0, Deliver 0,
      ?put ''there'', Run 0, Lookup ''0'' OpClose, Run 0, Deliver 0] world_init = Some w"
    "w_delivered w = [((0, ''hi''), (2, None)), ((0, ''there''), (0, Some ''io: read/write on closed pipe''))]"
    "sv_writes (w_server w) = []" "length (sv_conns (w_server w)) = 1"
    by (simp add: schedule_simps lookup_update' clientClose_on_def pipe_ops_log_def)
  from accepted_writes_conserved [OF pipe_ops_log_lawful run_schedule_steps [OF w(1)]] w run_schedule_steps [OF w(1)]
  show ?thesis by auto
qed

end
