(* ===== verification/Session_Order.thy ===== *)
theory Session_Order
  imports Session_Races
begin

text \<open>
  The order in which the bytes of a session reach its connection (the goroutine of clientWrite in
  http_handler/server_main.go). The endpoints leave it open; this theory shows what makes it right:
  that a write of the session is only accepted once the goroutine of the one before has run.
\<close>

definition on_conn :: "nat \<Rightarrow> (nat \<times> string) list \<Rightarrow> string list" where
  "on_conn c xs = map snd (filter (\<lambda>x. fst x = c) xs)"

lemma on_conn_simps [simp]:
  "on_conn c [] = []" "on_conn c (xs @ ys) = on_conn c xs @ on_conn c ys"
  "on_conn c [x] = (if fst x = c then [snd x] else [])"
  by (simp_all add: on_conn_def)

lemma on_conn_drop_at:
  assumes "i < length xs"
  shows "on_conn c xs = on_conn c (take i xs) @ on_conn c [xs ! i] @ on_conn c (drop (Suc i) xs)"
    and "on_conn c (drop_at i xs) = on_conn c (take i xs) @ on_conn c (drop (Suc i) xs)"
  using on_conn_simps(2) [of c "take i xs" "xs ! i # drop (Suc i) xs"] on_conn_simps(2) [of c "[xs ! i]" "drop (Suc i) xs"]
    id_take_nth_drop [OF assms]
  by (simp_all add: drop_at_def del: on_conn_simps(3))

text \<open>A step that accepts no write for the connection while another one is under way.\<close>

definition paced_step :: "'c conn_ops \<Rightarrow> nat \<Rightarrow> 'c world \<Rightarrow> 'c world \<Rightarrow> bool" where
  "paced_step ops c w w' \<longleftrightarrow>
     session_step ops w w' \<and>
     (on_conn c (w_accepted w') = on_conn c (w_accepted w) \<or> on_conn c (sv_writes (w_server w)) = [])"

definition in_order :: "nat \<Rightarrow> 'c world \<Rightarrow> bool" where
  "in_order c w \<longleftrightarrow>
     on_conn c (w_accepted w) = on_conn c (map fst (w_delivered w)) @ on_conn c (sv_writes (w_server w)) \<and>
     length (on_conn c (sv_writes (w_server w))) \<le> 1"

lemma accepted_data_at_most_one: "length (on_conn c (accepted_data h body)) \<le> 1"
  by (simp add: accepted_data_def split: sum.split)

lemma in_order_deliver:
  assumes "in_order c w" "i < length (sv_writes (w_server w))" "deliver_write ops i (w_server w) = (res, s')"
  shows "in_order c (w\<lparr>w_server := s', w_delivered := w_delivered w @ [(sv_writes (w_server w) ! i, res)]\<rparr>)"
proof -
  note d = on_conn_drop_at [OF assms(2), of c]
  have s': "sv_writes s' = drop_at i (sv_writes (w_server w))"
    using sv_writes_on(5) [of ops i "w_server w"] assms(3) by simp
  show ?thesis
  proof (cases "fst (sv_writes (w_server w) ! i) = c")
    case True
    with assms(1) d(1) have "on_conn c (take i (sv_writes (w_server w))) = []"
      "on_conn c (drop (Suc i) (sv_writes (w_server w))) = []"
      by (simp_all add: in_order_def)
    with True assms(1) d s' show ?thesis by (simp add: in_order_def)
  next
    case False
    with assms(1) d s' show ?thesis by (simp add: in_order_def)
  qed
qed

lemma in_order_step:
  assumes "paced_step ops c w w'" "in_order c w"
  shows "in_order c w'"
proof -
  have s: "session_step ops w w'" using assms(1) by (simp add: paced_step_def)
  then show ?thesis
  proof cases
    case (step_write i h body)
    show ?thesis
    proof (cases "on_conn c (accepted_data h body) = []")
      case True
      with step_write assms(2) show ?thesis by (simp add: in_order_def sv_writes_on)
    next
      case False
      then have "on_conn c (sv_writes (w_server w)) = []"
        using assms(1) step_write(1) by (simp add: paced_step_def)
      with step_write(1) assms(2) accepted_data_at_most_one [of c h body] show ?thesis
        by (simp add: in_order_def sv_writes_on)
    qed
  next
    case (step_deliver i res s')
    with in_order_deliver [OF assms(2)] show ?thesis by simp
  qed (use assms(2) in \<open>auto simp: in_order_def sv_writes_on\<close>)
qed

lemma paced_steps_session: "(paced_step ops c)\<^sup>*\<^sup>* w w' \<Longrightarrow> session_steps ops w w'"
  by (induction rule: rtranclp_induct) (auto simp: paced_step_def intro: rtranclp.rtrancl_into_rtrancl)

lemma written_to_full:
  assumes "\<forall>d\<in>set ds. honest_result d \<and> (fst (fst d) = c \<longrightarrow> snd (snd d) = None)"
  shows "written_to c ds = concat (on_conn c (map fst ds))"
  using assms
  by (induction ds) (auto simp: written_to_def on_conn_def written_def honest_result_def)

text \<open>
  C14. When the order of a session's bytes is right. As long as clientWrite accepts a write for a
  connection only while no earlier one for it is under way, and no write to the connection gives an
  error, the server end of the connection is given exactly the bytes of the accepted writes in the
  order in which they were accepted, but for the last write that may still be under way,
  whatever the other requests, the reads and closes of the same session and the transfers do in
  between. (Nothing in the endpoints enforces this pace; without it the order can be lost.)
\<close>

theorem paced_writes_in_order:
  assumes "lawful_conn ops received" "(paced_step ops c)\<^sup>*\<^sup>* world_init w"
    and "c < length (sv_conns (w_server w))"
    and "\<And>data n err. ((c, data), (n, err)) \<in> set (w_delivered w) \<Longrightarrow> err = None"
  shows "received (sv_conns (w_server w) ! c) @ concat (on_conn c (sv_writes (w_server w))) =
      concat (on_conn c (w_accepted w)) \<and>
    length (on_conn c (sv_writes (w_server w))) \<le> 1"
proof -
  have "in_order c (world_init :: 'a world)"
    by (simp add: in_order_def world_init_def new_server_def)
  with assms(2) have o: "in_order c w"
    by (induction rule: rtranclp_induct) (blast intro: in_order_step)+
  have b: "writes_balanced received w"
    using writes_balanced_steps [OF assms(1) paced_steps_session [OF assms(2)] world_wf_init writes_balanced_init]
    by simp
  then have "written_to c (w_delivered w) = concat (on_conn c (map fst (w_delivered w)))"
    using assms(4) by (intro written_to_full) (auto simp: writes_balanced_def)
  with o b assms(3) show ?thesis by (simp add: in_order_def writes_balanced_def)
qed

section \<open>Witness\<close>

fun run_paced :: "'c conn_ops \<Rightarrow> nat \<Rightarrow> action list \<Rightarrow> 'c world \<Rightarrow> 'c world option" where
  "run_paced ops c [] w = Some w"
| "run_paced ops c (a # as) w =
     (case run_action ops a w of
        None \<Rightarrow> None
      | Some w' \<Rightarrow>
          if on_conn c (w_accepted w') = on_conn c (w_accepted w) \<or> on_conn c (sv_writes (w_server w)) = []
          then run_paced ops c as w' else None)"

lemma run_paced_steps: "run_paced ops c as w = Some w' \<Longrightarrow> (paced_step ops c)\<^sup>*\<^sup>* w w'"
proof (induction as arbitrary: w)
  case (Cons a as)
  then obtain w1 where w1: "run_action ops a w = Some w1" "run_paced ops c as w1 = Some w'"
    "on_conn c (w_accepted w1) = on_conn c (w_accepted w) \<or> on_conn c (sv_writes (w_server w)) = []"
    by (auto split: option.splits if_splits)
  then have "paced_step ops c w w1" by (simp add: paced_step_def run_action_step)
  then show ?case using Cons.IH [OF w1(2)] by (rule converse_rtranclp_into_rtranclp)
qed simp

theorem paced_writes_in_order_witness:
  "\<exists>w. (paced_step pipe_ops_log 0)\<^sup>*\<^sup>* world_init w \<and> on_conn 0 (w_accepted w) = [''a'', ''b'', ''c''] \<and>
     fst (sv_conns (w_server w) ! 0) = ''ab''"
proof -
  let ?put = "\<lambda>d. Lookup ''0'' (OpWrite (Inr (json_TransactRequest \<lparr>tq_Data = d\<rparr>)))"
  obtain w where w: "run_paced pipe_ops_log 0 [Allocate, Store 0, ?put ''a'', Run 0, Deliver 0,
      ?put ''b'', Run 0, Deliver 0, ?put ''c'', Run 0] world_init = Some w"
    "w_accepted w = [(0, ''a''), (0, ''b''), (0, ''c'')]" "sv_writes (w_server w) = [(0, ''c'')]"
    "w_delivered w = [((0, ''a''), (1, None)), ((0, ''b''), (1, None))]" "length (sv_conns (w_server w)) = 1"
    by (simp add: schedule_simps lookup_update' pipe_ops_log_def)
  note r = run_paced_steps [OF w(1)]
  have ok: "err = None" if "((0, data), (n, err)) \<in> set (w_delivered w)" for data n err
    using that by (auto simp: w(4))
  have "fst (sv_conns (w_server w) ! 0) = ''ab''"
    using paced_writes_in_order [OF pipe_ops_log_lawful r _ ok] by (simp add: w(2,3,5) on_conn_def)
  with r show ?thesis by (intro exI [of _ w]) (simp add: w(2) on_conn_def)
qed

end
