(* ===== verification/Js_Values.thy ===== *)
theory Js_Values
  imports Complex_Main Go_Http
begin

text \<open>
  JavaScript values as package syscall/js shows them to the browser client: a heap of objects with
  addresses, the accessors of \<open>js.Value\<close> with the panics they have on a value of the wrong type, and the
  conversions of \<open>js.ValueOf\<close>. Numbers are finite. A property name is not an array index, so that the
  properties of an object keep the order in which they were added.

  A JavaScript string is given by its text in UTF-8 (unpaired surrogates aside, which no Go string gives).
  A Go string is any sequence of bytes: on its way to JavaScript it goes through the function \<open>loadString\<close>
  of the Go runtime file wasm_exec.js, a \<open>TextDecoder\<close> for UTF-8.
\<close>

section \<open>Strings from Go to JavaScript\<close>

text \<open>
  How many bytes have to follow a first byte from 128, and the range of the first of them. The ranges leave
  out overlong forms, surrogates and code points above U+10FFFF.
\<close>

definition utf8_lead :: "nat \<Rightarrow> (nat \<times> nat \<times> nat) option" where
  "utf8_lead b =
     (if 0xC2 \<le> b \<and> b \<le> 0xDF then Some (1, 0x80, 0xBF)
      else if b = 0xE0 then Some (2, 0xA0, 0xBF)
      else if b = 0xED then Some (2, 0x80, 0x9F)
      else if 0xE1 \<le> b \<and> b \<le> 0xEF then Some (2, 0x80, 0xBF)
      else if b = 0xF0 then Some (3, 0x90, 0xBF)
      else if b = 0xF4 then Some (3, 0x80, 0x8F)
      else if 0xF1 \<le> b \<and> b \<le> 0xF3 then Some (3, 0x80, 0xBF)
      else None)"

definition replacement_char :: string where
  "replacement_char = [CHR 0xEF, CHR 0xBF, CHR 0xBD]"

definition byte_order_mark :: string where
  "byte_order_mark = [CHR 0xEF, CHR 0xBB, CHR 0xBF]"

text \<open>
  The decoder: \<open>n\<close> more bytes are needed, the next of them from \<open>l\<close> to \<open>u\<close>, after the bytes \<open>seen\<close>. A
  sequence that breaks off becomes one replacement character, and the byte that breaks it starts anew.
\<close>

fun utf8_run :: "nat \<Rightarrow> nat \<Rightarrow> nat \<Rightarrow> string \<Rightarrow> string \<Rightarrow> string" where
  "utf8_run n l u seen [] = (if n = 0 then [] else replacement_char)"
| "utf8_run n l u seen (c # cs) =
     (let b = of_char c :: nat
      in if n \<noteq> 0 \<and> l \<le> b \<and> b \<le> u then
           (if n = 1 then seen @ c # utf8_run 0 0 0 [] cs else utf8_run (n - 1) 0x80 0xBF (seen @ [c]) cs)
         else (if n = 0 then [] else replacement_char) @
           (if b < 0x80 then c # utf8_run 0 0 0 [] cs
            else case utf8_lead b of
                   None \<Rightarrow> replacement_char @ utf8_run 0 0 0 [] cs
                 | Some (m, l', u') \<Rightarrow> utf8_run m l' u' [c] cs))"

definition js_decode :: "string \<Rightarrow> string" where
  "js_decode s = utf8_run 0 0 0 [] (if take 3 s = byte_order_mark then drop 3 s else s)"

text \<open>Text in UTF-8: the code points other than surrogates, each encoded with one to four bytes.\<close>

definition utf8_encode :: "nat \<Rightarrow> string" where
  "utf8_encode x =
     map char_of
       (if x < 0x80 then [x]
        else if x < 0x800 then [0xC0 + x div 64, 0x80 + x mod 64]
        else if x < 0x10000 then [0xE0 + x div 4096, 0x80 + x div 64 mod 64, 0x80 + x mod 64]
        else [0xF0 + x div 262144, 0x80 + x div 4096 mod 64, 0x80 + x div 64 mod 64, 0x80 + x mod 64])"

definition unicode_scalar :: "nat \<Rightarrow> bool" where
  "unicode_scalar x = (x < 0xD800 \<or> 0xE000 \<le> x \<and> x < 0x110000)"


lemma utf8_run_lead:
  "of_char c = b \<Longrightarrow> (0x80::nat) \<le> b \<Longrightarrow> utf8_lead b = Some (n, l, u) \<Longrightarrow>
   utf8_run 0 0 0 [] (c # cs) = utf8_run n l u [c] cs"
  by simp

lemma utf8_run_next:
  "of_char c = b \<Longrightarrow> l \<le> b \<Longrightarrow> b \<le> u \<Longrightarrow>
   utf8_run (Suc 0) l u seen (c # cs) = seen @ c # utf8_run 0 0 0 [] cs"
  "of_char c = b \<Longrightarrow> l \<le> b \<Longrightarrow> b \<le> u \<Longrightarrow>
   utf8_run (Suc (Suc n)) l u seen (c # cs) = utf8_run (Suc n) 0x80 0xBF (seen @ [c]) cs"
  by simp_all

lemma div_split:
  "(x::nat) = 64 * (x div 64) + x mod 64" "x mod 64 < 64"
  "x div 64 = 64 * (x div 4096) + x div 64 mod 64" "x div 64 mod 64 < 64"
  "x div 4096 = 64 * (x div 262144) + x div 4096 mod 64" "x div 4096 mod 64 < 64"
proof -
  have "x div 4096 = x div 64 div 64" "x div 262144 = x div 4096 div 64"
    by (simp_all flip: div_mult2_eq)
  then show "x div 64 = 64 * (x div 4096) + x div 64 mod 64" "x div 4096 = 64 * (x div 262144) + x div 4096 mod 64"
    by (metis mult_div_mod_eq)+
qed simp_all

lemma utf8_lead_range:
  fixes a m :: nat
  shows "a < 16 \<Longrightarrow> (a = 0 \<Longrightarrow> 32 \<le> m) \<Longrightarrow> (a = 13 \<Longrightarrow> m < 32) \<Longrightarrow> m < 64 \<Longrightarrow>
      \<exists>l u. utf8_lead (0xE0 + a) = Some (Suc (Suc 0), l, u) \<and> l \<le> 0x80 + m \<and> 0x80 + m \<le> u"
    "a < 5 \<Longrightarrow> (a = 0 \<Longrightarrow> 16 \<le> m) \<Longrightarrow> (a = 4 \<Longrightarrow> m < 16) \<Longrightarrow> m < 64 \<Longrightarrow>
      \<exists>l u. utf8_lead (0xF0 + a) = Some (Suc (Suc (Suc 0)), l, u) \<and> l \<le> 0x80 + m \<and> 0x80 + m \<le> u"
  by (cases "a = 0"; cases "a = 13"; auto simp: utf8_lead_def numeral_2_eq_2)
    (cases "a = 0"; cases "a = 4"; auto simp: utf8_lead_def numeral_3_eq_3)

lemma utf8_run_encode:
  assumes "unicode_scalar x"
  shows "utf8_run 0 0 0 [] (utf8_encode x @ cs) = utf8_encode x @ utf8_run 0 0 0 [] cs"
proof -
  consider (one) "x < 0x80" | (two) "0x80 \<le> x" "x < 0x800" | (three) "0x800 \<le> x" "x < 0x10000"
    | (four) "0x10000 \<le> x" "x < 0x110000"
    using assms by (fastforce simp: unicode_scalar_def)
  then show ?thesis
  proof cases
    case one
    then show ?thesis by (simp add: utf8_encode_def)
  next
    case two
    let ?a = "0xC0 + x div 64" and ?b = "0x80 + x mod 64"
    have "2 \<le> x div 64" "x div 64 < 32" using two div_split(1,2) [of x] by linarith+
    then have a: "of_char (char_of ?a :: char) = ?a" "0x80 \<le> ?a" "utf8_lead ?a = Some (Suc 0, 0x80, 0xBF)"
      by (simp_all add: utf8_lead_def)
    have b: "of_char (char_of ?b :: char) = ?b" "0x80 \<le> ?b" "?b \<le> 0xBF" by simp_all
    have "utf8_encode x = [char_of ?a, char_of ?b]" using two by (simp add: utf8_encode_def)
    then show ?thesis by (simp only: append_Cons append_Nil utf8_run_lead [OF a] utf8_run_next(1) [OF b])
  next
    case three
    let ?a = "0xE0 + x div 4096" and ?b = "0x80 + x div 64 mod 64" and ?c = "0x80 + x mod 64"
    have "x div 4096 < 16" using three by simp
    moreover have "x div 4096 = 0 \<Longrightarrow> 32 \<le> x div 64 mod 64" using three div_split(1-4) [of x] by linarith
    moreover have "x div 4096 = 13 \<Longrightarrow> x div 64 mod 64 < 32" 
      using assms three div_split(1-4) [of x] unfolding unicode_scalar_def by linarith
    ultimately obtain l u where l: "utf8_lead ?a = Some (Suc (Suc 0), l, u)" "l \<le> ?b" "?b \<le> u"
      using utf8_lead_range(1) [of "x div 4096" "x div 64 mod 64"] by auto
    have a: "of_char (char_of ?a :: char) = ?a" "0x80 \<le> ?a" using \<open>x div 4096 < 16\<close> by simp_all
    have b: "of_char (char_of ?b :: char) = ?b" by simp
    have c: "of_char (char_of ?c :: char) = ?c" "0x80 \<le> ?c" "?c \<le> 0xBF" by simp_all
    have "utf8_encode x = [char_of ?a, char_of ?b, char_of ?c]" using three by (simp add: utf8_encode_def)
    then show ?thesis
      by (simp only: append_Cons append_Nil utf8_run_lead [OF a l(1)] utf8_run_next(2) [OF b l(2,3)]
          utf8_run_next(1) [OF c])
  next
    case four
    let ?a = "0xF0 + x div 262144" and ?b = "0x80 + x div 4096 mod 64" and ?c = "0x80 + x div 64 mod 64"
      and ?d = "0x80 + x mod 64"
    have "x div 262144 < 5" using four by simp
    moreover have "x div 262144 = 0 \<Longrightarrow> 16 \<le> x div 4096 mod 64" using four div_split [of x] by linarith
    moreover have "x div 262144 = 4 \<Longrightarrow> x div 4096 mod 64 < 16" using four div_split [of x] by linarith
    ultimately obtain l u where l: "utf8_lead ?a = Some (Suc (Suc (Suc 0)), l, u)" "l \<le> ?b" "?b \<le> u"
      using utf8_lead_range(2) [of "x div 262144" "x div 4096 mod 64"] by auto
    have a: "of_char (char_of ?a :: char) = ?a" "0x80 \<le> ?a" using \<open>x div 262144 < 5\<close> by simp_all
    have b: "of_char (char_of ?b :: char) = ?b" by simp
    have c: "of_char (char_of ?c :: char) = ?c" "0x80 \<le> ?c" "?c \<le> 0xBF" by simp_all
    have d: "of_char (char_of ?d :: char) = ?d" "0x80 \<le> ?d" "?d \<le> 0xBF" by simp_all
    have "utf8_encode x = [char_of ?a, char_of ?b, char_of ?c, char_of ?d]" using four by (simp add: utf8_encode_def)
    then show ?thesis
      by (simp only: append_Cons append_Nil utf8_run_lead [OF a l(1)] utf8_run_next(2) [OF b l(2,3)]
          utf8_run_next(2) [OF c] utf8_run_next(1) [OF d])
  qed
qed

definition utf8_text :: "nat list \<Rightarrow> string" where
  "utf8_text xs = concat (map utf8_encode xs)"

lemma utf8_run_text:
  "\<forall>x \<in> set xs. unicode_scalar x \<Longrightarrow> utf8_run 0 0 0 [] (utf8_text xs @ cs) = utf8_text xs @ utf8_run 0 0 0 [] cs"
  by (induction xs) (simp_all add: utf8_text_def utf8_run_encode)

definition is_utf8 :: "string \<Rightarrow> bool" where
  "is_utf8 s \<longleftrightarrow> (\<exists>xs. (\<forall>x \<in> set xs. unicode_scalar x) \<and> s = utf8_text xs)"

lemma js_decode_utf8:
  assumes "is_utf8 s" "take 3 s \<noteq> byte_order_mark"
  shows "js_decode s = s"
proof -
  obtain xs where "\<forall>x \<in> set xs. unicode_scalar x" "s = utf8_text xs" using assms(1) by (auto simp: is_utf8_def)
  then show ?thesis using utf8_run_text [of xs "[]"] assms(2) by (simp add: js_decode_def)
qed

text \<open>ASCII text is such a text, and as the start of a string it keeps the decoder from seeing a mark.\<close>

definition is_ascii :: "string \<Rightarrow> bool" where
  "is_ascii s = list_all (\<lambda>c. of_char c < (0x80::nat)) s"

lemma is_ascii_simps [simp]:
  "is_ascii []" "is_ascii (c # s) \<longleftrightarrow> of_char c < (0x80::nat) \<and> is_ascii s"
  by (simp_all add: is_ascii_def)

lemma utf8_run_ascii: "is_ascii s \<Longrightarrow> utf8_run 0 0 0 [] (s @ cs) = s @ utf8_run 0 0 0 [] cs"
  by (induction s) simp_all

lemma js_decode_ascii_append:
  assumes "is_ascii s" "s \<noteq> []"
  shows "js_decode (s @ cs) = s @ utf8_run 0 0 0 [] cs"
proof -
  have "of_char (hd s) < (0x80::nat)" using assms by (cases s) simp_all
  then have "hd s \<noteq> CHR 0xEF" by auto
  with assms(2) have "take 3 (s @ cs) \<noteq> byte_order_mark"
    by (cases s) (simp_all add: byte_order_mark_def)
  with assms(1) show ?thesis by (simp add: js_decode_def utf8_run_ascii)
qed

lemma js_decode_ascii [simp]: "is_ascii s \<Longrightarrow> js_decode s = s"
  using js_decode_ascii_append [of s "[]"] by (cases "s = []") (simp_all add: js_decode_def byte_order_mark_def)


section \<open>Values and objects\<close>

datatype js_value =
    JSUndefined
  | JSNull
  | JSBool bool
  | JSNumber rat
  | JSString string
  | JSRef nat

text \<open>
  A method is a Go function over a response body, named by its index; the only other function is
  TLSRequest. A promise is pending until it is settled.
\<close>

datatype js_method = MArrayBuffer | MText | MJson

datatype promise_state =
    Pending
  | Fulfilled js_value
  | Rejected js_value

datatype js_object =
    JSPlain "(string \<times> js_value) list"
  | JSArray "js_value list"
  | JSUint8Array string
  | JSError string
  | JSFunc js_method nat
  | JSTLSRequestFunc
  | JSPromise promise_state

type_synonym js_heap = "js_object list"

definition js_deref :: "js_heap \<Rightarrow> js_value \<Rightarrow> js_object option" where
  "js_deref h v =
     (case v of JSRef a \<Rightarrow> if a < length h then Some (h ! a) else None | _ \<Rightarrow> None)"

definition js_New :: "js_object \<Rightarrow> js_heap \<Rightarrow> js_value \<times> js_heap" where
  "js_New obj h = (JSRef (length h), h @ [obj])"

lemma js_deref_append: "js_deref h v = Some obj \<Longrightarrow> js_deref (h @ h') v = Some obj"
  by (auto simp: js_deref_def nth_append split: js_value.splits if_splits)

lemma js_deref_New [simp]: "js_deref (h @ [obj]) (JSRef (length h)) = Some obj"
  by (simp add: js_deref_def)

section \<open>Types and accessors\<close>

definition js_type :: "js_heap \<Rightarrow> js_value \<Rightarrow> string" where
  "js_type h v =
     (case v of
        JSUndefined \<Rightarrow> ''undefined'' | JSNull \<Rightarrow> ''null'' | JSBool _ \<Rightarrow> ''boolean''
      | JSNumber _ \<Rightarrow> ''number'' | JSString _ \<Rightarrow> ''string''
      | JSRef a \<Rightarrow> (case js_deref h v of
                     Some (JSFunc _ _) \<Rightarrow> ''function'' | Some JSTLSRequestFunc \<Rightarrow> ''function'' | _ \<Rightarrow> ''object''))"

definition js_value_error :: "string \<Rightarrow> js_heap \<Rightarrow> js_value \<Rightarrow> go_panic" where
  "js_value_error method h v = PanicWith (''syscall/js: call of '' @ method @ '' on '' @ js_type h v)"

definition js_is_ref :: "js_value \<Rightarrow> bool" where
  "js_is_ref v = (case v of JSRef _ \<Rightarrow> True | _ \<Rightarrow> False)"

text \<open>The properties that an object has of itself, and those of arrays that the code reads.\<close>

definition js_property :: "js_object \<Rightarrow> string \<Rightarrow> js_value" where
  "js_property obj p =
     (case obj of
        JSPlain kvs \<Rightarrow> (case map_of kvs p of None \<Rightarrow> JSUndefined | Some v \<Rightarrow> v)
      | JSArray vs \<Rightarrow> if p = ''length'' then JSNumber (of_nat (length vs)) else JSUndefined
      | JSUint8Array bs \<Rightarrow>
          if p \<in> {''length'', ''byteLength''} then JSNumber (of_nat (length bs)) else JSUndefined
      | JSError e \<Rightarrow> if p = ''message'' then JSString e else JSUndefined
      | _ \<Rightarrow> JSUndefined)"

definition js_Get :: "js_heap \<Rightarrow> js_value \<Rightarrow> string \<Rightarrow> js_value go" where
  "js_Get h v p =
     (if js_is_ref v
      then Inr (case js_deref h v of None \<Rightarrow> JSUndefined | Some obj \<Rightarrow> js_property obj (js_decode p))
      else Inl (js_value_error ''Value.Get'' h v))"

text \<open>Setting a property replaces its value in place or adds it at the end.\<close>

definition assoc_set :: "(string \<times> js_value) list \<Rightarrow> string \<Rightarrow> js_value \<Rightarrow> (string \<times> js_value) list" where
  "assoc_set kvs p v =
     (if p \<in> fst ` set kvs then map (\<lambda>kv. if fst kv = p then (p, v) else kv) kvs else kvs @ [(p, v)])"

definition js_Set :: "js_value \<Rightarrow> string \<Rightarrow> js_value \<Rightarrow> js_heap \<Rightarrow> js_heap" where
  "js_Set obj p v h =
     (case obj of
        JSRef a \<Rightarrow>
          (case js_deref h obj of Some (JSPlain kvs) \<Rightarrow> h[a := JSPlain (assoc_set kvs (js_decode p) v)] | _ \<Rightarrow> h)
      | _ \<Rightarrow> h)"

text \<open>
  \<open>Value.Int\<close> cuts off the fraction. What a number outside the range of int64 gives is left open by
  the language; it is the argument \<open>outOfRange\<close>.
\<close>

definition js_trunc :: "rat \<Rightarrow> int" where
  "js_trunc x = (if 0 \<le> x then \<lfloor>x\<rfloor> else \<lceil>x\<rceil>)"

definition js_Int :: "int \<Rightarrow> js_heap \<Rightarrow> js_value \<Rightarrow> int go" where
  "js_Int outOfRange h v =
     (case v of
        JSNumber x \<Rightarrow>
          Inr (if - (2 ^ 63) \<le> js_trunc x \<and> js_trunc x < 2 ^ 63 then js_trunc x else outOfRange)
      | _ \<Rightarrow> Inl (js_value_error ''Value.Int'' h v))"

text \<open>
  \<open>Value.String\<close> does not panic: on a value that is no string it gives the type in angle brackets, with
  the value for booleans and numbers (which JavaScript prints, by the argument \<open>numStr\<close>).
\<close>

definition js_String :: "(rat \<Rightarrow> string) \<Rightarrow> js_heap \<Rightarrow> js_value \<Rightarrow> string" where
  "js_String numStr h v =
     (case v of
        JSString s \<Rightarrow> s
      | JSBool b \<Rightarrow> ''<boolean: '' @ (if b then ''true'' else ''false'') @ ''>''
      | JSNumber x \<Rightarrow> ''<number: '' @ numStr x @ ''>''
      | _ \<Rightarrow> ''<'' @ js_type h v @ ''>'')"

text \<open>
  \<open>Object.keys\<close>: undefined and null throw, which panics in Go. The keys of a string are the indices of its
  UTF-16 units: one for each character, and two for each character of four bytes.
\<close>

definition js_units :: "string \<Rightarrow> nat" where
  "js_units s =
     length (filter (\<lambda>c. of_char c < (0x80::nat) \<or> 0xC0 \<le> (of_char c :: nat)) s) +
     length (filter (\<lambda>c. 0xF0 \<le> (of_char c :: nat)) s)"

definition js_Object_keys :: "js_heap \<Rightarrow> js_value \<Rightarrow> string list go" where
  "js_Object_keys h v =
     (case v of
        JSUndefined \<Rightarrow> Inl (PanicWith ''JavaScript error: Cannot convert undefined or null to object'')
      | JSNull \<Rightarrow> Inl (PanicWith ''JavaScript error: Cannot convert undefined or null to object'')
      | JSString s \<Rightarrow> Inr (map show_nat [0..<js_units s])
      | JSRef _ \<Rightarrow>
          Inr (case js_deref h v of
                 Some (JSPlain kvs) \<Rightarrow> map fst kvs
               | Some (JSArray vs) \<Rightarrow> map show_nat [0..<length vs]
               | Some (JSUint8Array bs) \<Rightarrow> map show_nat [0..<length bs]
               | _ \<Rightarrow> [])
      | _ \<Rightarrow> Inr [])"

lemma map_of_assoc_set: "map_of (assoc_set kvs p v) = (map_of kvs)(p \<mapsto> v)"
proof (cases "p \<in> fst ` set kvs")
  case True
  have "map_of (map (\<lambda>kv. if fst kv = p then (p, v) else kv) kvs) q =
      (if q = p \<and> p \<in> fst ` set kvs then Some v else map_of kvs q)" for q
    by (induction kvs) (auto, force)
  with True show ?thesis by (auto simp: assoc_set_def)
next
  case False
  then have "map_of kvs p = None" by (simp add: map_of_eq_None_iff)
  then have "map_of (kvs @ [(p, v)]) q = (if q = p then Some v else map_of kvs q)" for q
    by (simp add: map_add_def split: option.split)
  with False show ?thesis by (auto simp: assoc_set_def)
qed

lemma length_js_Set [simp]: "length (js_Set obj p v h) = length h"
  by (auto simp: js_Set_def split: js_value.splits option.splits js_object.splits)

lemma js_deref_Set:
  "js_deref (js_Set obj p v h) w =
     (if w = obj then
        (case js_deref h obj of Some (JSPlain kvs) \<Rightarrow> Some (JSPlain (assoc_set kvs (js_decode p) v)) | r \<Rightarrow> r)
      else js_deref h w)"
  by (auto simp: js_Set_def js_deref_def nth_list_update split: js_value.splits option.splits js_object.splits)

section \<open>Conversions\<close>

text \<open>
  The Go values of type \<open>any\<close> that decoding JSON gives, and their conversion: a slice becomes an
  array, a map an object. The entries of a map are in some order. Two keys may be the same for JavaScript;
  the object is made by setting one property after the other.
\<close>

definition js_props :: "(string \<times> js_value) list \<Rightarrow> (string \<times> js_value) list" where
  "js_props kvs = foldl (\<lambda>ps (k, v). assoc_set ps k v) [] kvs"

lemma map_of_js_props: "map_of (js_props kvs) = map_of (rev kvs)"
proof -
  have "map_of (foldl (\<lambda>ps (k, v). assoc_set ps k v) ps kvs) = map_of ps ++ map_of (rev kvs)" for ps
    by (induction kvs arbitrary: ps) (auto simp: map_of_assoc_set map_add_def fun_eq_iff split: option.split)
  from this [of "[]"] show ?thesis by (simp add: js_props_def)
qed

lemma js_props_distinct:
  assumes "distinct (map fst kvs)"
  shows "js_props kvs = kvs"
proof -
  have "distinct (map fst (ps @ kvs)) \<Longrightarrow> foldl (\<lambda>ps (k, v). assoc_set ps k v) ps kvs = ps @ kvs" for ps
    by (induction kvs arbitrary: ps) (auto simp: assoc_set_def)
  from this [of "[]"] assms show ?thesis by (simp add: js_props_def)
qed

datatype go_any =
    GoNil
  | GoBool bool
  | GoNumber rat
  | GoString string
  | GoSlice "go_any list"
  | GoMap "(string \<times> go_any) list"

fun js_ValueOf :: "go_any \<Rightarrow> js_heap \<Rightarrow> js_value \<times> js_heap"
  and js_ValuesOf :: "go_any list \<Rightarrow> js_heap \<Rightarrow> js_value list \<times> js_heap"
  and js_EntriesOf :: "(string \<times> go_any) list \<Rightarrow> js_heap \<Rightarrow> (string \<times> js_value) list \<times> js_heap" where
  "js_ValueOf GoNil h = (JSNull, h)"
| "js_ValueOf (GoBool b) h = (JSBool b, h)"
| "js_ValueOf (GoNumber x) h = (JSNumber x, h)"
| "js_ValueOf (GoString s) h = (JSString (js_decode s), h)"
| "js_ValueOf (GoSlice xs) h = (case js_ValuesOf xs h of (vs, h1) \<Rightarrow> js_New (JSArray vs) h1)"
| "js_ValueOf (GoMap kxs) h = (case js_EntriesOf kxs h of (kvs, h1) \<Rightarrow> js_New (JSPlain (js_props kvs)) h1)"
| "js_ValuesOf [] h = ([], h)"
| "js_ValuesOf (x # xs) h =
     (case js_ValueOf x h of (v, h1) \<Rightarrow> case js_ValuesOf xs h1 of (vs, h2) \<Rightarrow> (v # vs, h2))"
| "js_EntriesOf [] h = ([], h)"
| "js_EntriesOf ((k, x) # kxs) h =
     (case js_ValueOf x h of (v, h1) \<Rightarrow> case js_EntriesOf kxs h1 of (kvs, h2) \<Rightarrow> ((js_decode k, v) # kvs, h2))"

text \<open>What a converted value stands for in a heap; the heap may grow after the conversion.\<close>

inductive js_represents :: "js_heap \<Rightarrow> js_value \<Rightarrow> go_any \<Rightarrow> bool" for h where
  Nil: "js_represents h JSNull GoNil"
| Bool: "js_represents h (JSBool b) (GoBool b)"
| Number: "js_represents h (JSNumber x) (GoNumber x)"
| String: "js_represents h (JSString (js_decode s)) (GoString s)"
| Slice: "js_deref h (JSRef a) = Some (JSArray vs) \<Longrightarrow> list_all2 (js_represents h) vs xs \<Longrightarrow>
    js_represents h (JSRef a) (GoSlice xs)"
| Map: "js_deref h (JSRef a) = Some (JSPlain (js_props kvs)) \<Longrightarrow>
    map fst kvs = map (js_decode \<circ> fst) kxs \<Longrightarrow> list_all2 (js_represents h) (map snd kvs) (map snd kxs) \<Longrightarrow>
    js_represents h (JSRef a) (GoMap kxs)"

inductive_cases js_represents_SliceE: "js_represents h v (GoSlice xs)"
inductive_cases js_represents_StringE: "js_represents h v (GoString s)"

lemma js_represents_String [simp]: "js_represents h v (GoString s) \<longleftrightarrow> v = JSString (js_decode s)"
  by (auto intro: js_represents.intros elim: js_represents_StringE)

lemma js_represents_keep:
  assumes "js_represents h v x"
    and "\<And>w obj. js_deref h w = Some obj \<Longrightarrow> obj \<noteq> JSPromise Pending \<Longrightarrow> js_deref h' w = Some obj"
  shows "js_represents h' v x"
  using assms(1)
proof induction
  case (Slice a vs xs)
  then show ?case
    by (intro js_represents.Slice [OF assms(2) [OF Slice(1)]]) (auto elim: list_all2_mono)
next
  case (Map a kvs kxs)
  then show ?case
    by (intro js_represents.Map [OF assms(2) [OF Map(1)]]) (auto elim: list_all2_mono)
qed (auto intro: js_represents.intros)

lemma js_represents_append: "js_represents h v x \<Longrightarrow> js_represents (h @ h') v x"
  by (erule js_represents_keep) (rule js_deref_append)

text \<open>A conversion only adds to the heap, and its result stands for the Go value.\<close>

lemma js_ValueOf_represents:
  "js_ValueOf x h = (v, h') \<Longrightarrow> (\<exists>h1. h' = h @ h1) \<and> js_represents h' v x"
  "js_ValuesOf xs h = (vs, h') \<Longrightarrow> (\<exists>h1. h' = h @ h1) \<and> list_all2 (js_represents h') vs xs"
  "js_EntriesOf kxs h = (kvs, h') \<Longrightarrow> (\<exists>h1. h' = h @ h1) \<and>
     map fst kvs = map (js_decode \<circ> fst) kxs \<and> list_all2 (js_represents h') (map snd kvs) (map snd kxs)"
proof (induction x h and xs h and kxs h arbitrary: v h' and vs h' and kvs h'
    rule: js_ValueOf_js_ValuesOf_js_EntriesOf.induct)
  case (5 xs h)
  obtain vs h1 where vs: "js_ValuesOf xs h = (vs, h1)" by fastforce
  with 5(2) have r: "v = JSRef (length h1)" "h' = h1 @ [JSArray vs]" by (simp_all add: js_New_def)
  have d: "js_deref h' v = Some (JSArray vs)" by (simp add: r)
  from 5(1) [OF vs] have "list_all2 (js_represents h') vs xs"
    unfolding r(2) by (auto elim!: list_all2_mono intro: js_represents_append)
  with d have "js_represents h' v (GoSlice xs)" unfolding r(1) by (rule js_represents.Slice)
  with 5(1) [OF vs] r(2) show ?case by auto
next
  case (6 kxs h)
  obtain kvs h1 where kvs: "js_EntriesOf kxs h = (kvs, h1)" by fastforce
  with 6(2) have r: "v = JSRef (length h1)" "h' = h1 @ [JSPlain (js_props kvs)]" by (simp_all add: js_New_def)
  have d: "js_deref h' v = Some (JSPlain (js_props kvs))" by (simp add: r)
  from 6(1) [OF kvs] have f: "map fst kvs = map (js_decode \<circ> fst) kxs" by simp
  from 6(1) [OF kvs] have "list_all2 (js_represents h') (map snd kvs) (map snd kxs)"
    unfolding r(2) by (auto elim!: list_all2_mono intro: js_represents_append)
  with d f have "js_represents h' v (GoMap kxs)" unfolding r(1) by (rule js_represents.Map)
  with 6(1) [OF kvs] r(2) show ?case by auto
next
  case (8 x xs h)
  obtain w h1 where w: "js_ValueOf x h = (w, h1)" by fastforce
  obtain ws h2 where ws: "js_ValuesOf xs h1 = (ws, h2)" by fastforce
  have "vs = w # ws" "h' = h2" using 8(3) w ws by simp_all
  with 8(1) [OF w] 8(2) [OF w [symmetric] ws] show ?case by (auto intro: js_represents_append)
next
  case (10 k x kxs h)
  obtain w h1 where w: "js_ValueOf x h = (w, h1)" by fastforce
  obtain ws h2 where ws: "js_EntriesOf kxs h1 = (ws, h2)" by fastforce
  have "kvs = (js_decode k, w) # ws" "h' = h2" using 10(3) w ws by simp_all
  with 10(1) [OF w] 10(2) [OF w [symmetric] ws] show ?case by (auto intro: js_represents_append)
qed (auto intro: js_represents.intros)

end
