(* ===== verification/Js_Response.thy ===== *)
theory Js_Response
  imports Js_Values
begin

text \<open>
  Package wasm (objects, byte arrays, headers, promises, bodies, the readable stream) and the response
  object of cmd/wasm. The world is the JavaScript heap, the response bodies and readable streams on the Go
  side, and the goroutines of promises that have not run yet. JavaScript calls the methods of a response
  and the scheduler runs goroutines, in any order; a goroutine runs to its end, since nothing it does
  waits.
\<close>

text \<open>What a response body still has, and the error that reading it ends with, if it is not EOF.\<close>

record go_body =
  bd_unread :: string
  bd_err :: "go_error option"

record readable_stream =
  rds_ReadCloser :: nat
  rds_Consumed :: bool

text \<open>What the goroutine of a promise runs.\<close>

datatype js_task =
    TaskMethod js_method nat
  | TaskReadStream nat

record js_world =
  jw_heap :: js_heap
  jw_bodies :: "go_body list"
  jw_streams :: "readable_stream list"
  jw_goroutines :: "(nat \<times> js_task) list"

section \<open>Objects, byte arrays and headers\<close>

definition NewObject :: "js_heap \<Rightarrow> js_value \<times> js_heap" where
  "NewObject h = js_New (JSPlain []) h"

definition js_CopyBytesToJS :: "js_value \<Rightarrow> string \<Rightarrow> js_heap \<Rightarrow> js_heap" where
  "js_CopyBytesToJS dst src h =
     (case dst of
        JSRef a \<Rightarrow>
          (case js_deref h dst of
             Some (JSUint8Array bs) \<Rightarrow> h[a := JSUint8Array (take (length bs) src @ drop (length src) bs)]
           | _ \<Rightarrow> h)
      | _ \<Rightarrow> h)"

definition NewUint8Array :: "string \<Rightarrow> js_heap \<Rightarrow> js_value \<times> js_heap" where
  "NewUint8Array rawData h =
     (case js_New (JSUint8Array (replicate (length rawData) (CHR 0x00))) h of
        (rawDataJSArray, h1) \<Rightarrow> (rawDataJSArray, js_CopyBytesToJS rawDataJSArray rawData h1))"

text \<open>The loop over the header, in the order in which Go happens to range over the map.\<close>

definition WrapHTTPHeader :: "(string \<times> string list) list \<Rightarrow> js_heap \<Rightarrow> js_value \<times> js_heap" where
  "WrapHTTPHeader httpHeader h =
     (case NewObject h of
        (headerJSObj, h1) \<Rightarrow>
          (headerJSObj,
           fold (\<lambda>(k, values) h.
             case js_ValueOf (GoSlice (map GoString values)) h of
               (arr, h') \<Rightarrow> js_Set headerJSObj k arr h') httpHeader h1))"

section \<open>Reading a body\<close>

definition ReadAndClose :: "nat \<Rightarrow> js_world \<Rightarrow> (go_error + string) \<times> js_world" where
  "ReadAndClose k w =
     (let body = jw_bodies w ! k;
          w' = w\<lparr>jw_bodies := (jw_bodies w)[k := body\<lparr>bd_unread := ''''\<rparr>]\<rparr>
      in ((case bd_err body of
             Some err \<Rightarrow> Inl (errors_Wrap err ''read from go reader'')
           | None \<Rightarrow> Inr (bd_unread body)), w'))"

text \<open>
  What the three methods do with the bytes; decoding JSON into a map is a parameter. The error of the
  decoder is replaced by a text of its own.
\<close>

definition js_body_value ::
    "(string \<Rightarrow> go_error + (string \<times> go_any) list) \<Rightarrow> js_method \<Rightarrow> string \<Rightarrow> js_heap \<Rightarrow> (go_error + js_value) \<times> js_heap" where
  "js_body_value unmarshal m rawData h =
     (case m of
        MArrayBuffer \<Rightarrow> (case NewUint8Array rawData h of (v, h') \<Rightarrow> (Inr v, h'))
      | MText \<Rightarrow> (case js_ValueOf (GoString rawData) h of (v, h') \<Rightarrow> (Inr v, h'))
      | MJson \<Rightarrow>
          (case unmarshal rawData of
             Inl err \<Rightarrow> (Inl ''unmarshal json'', h)
           | Inr dataMap \<Rightarrow> (case js_ValueOf (GoMap dataMap) h of (v, h') \<Rightarrow> (Inr v, h'))))"

text \<open>The function that \<open>ReadJS\<close> hands to its promise: the object with done and value is made and dropped.\<close>

definition ReadableStream_read :: "nat \<Rightarrow> js_world \<Rightarrow> (go_error + js_value) \<times> js_world" where
  "ReadableStream_read r w =
     (case NewObject (jw_heap w) of
        (resultObj, h1) \<Rightarrow>
          (let h2 = js_Set resultObj ''done'' (JSBool True) h1
           in case ReadAndClose (rds_ReadCloser (jw_streams w ! r)) (w\<lparr>jw_heap := h2\<rparr>) of
                (Inl err, w1) \<Rightarrow> (Inl err, w1)
              | (Inr rawData, w1) \<Rightarrow>
                  (case NewUint8Array rawData (jw_heap w1) of
                     (rawDataJSArray, h3) \<Rightarrow>
                       (Inr rawDataJSArray,
                        w1\<lparr>jw_heap := js_Set resultObj ''value'' rawDataJSArray h3,
                           jw_streams := (jw_streams w1)[r := (jw_streams w1 ! r)\<lparr>rds_Consumed := True\<rparr>]\<rparr>))))"

definition js_run_task ::
    "(string \<Rightarrow> go_error + (string \<times> go_any) list) \<Rightarrow> js_task \<Rightarrow> js_world \<Rightarrow> (go_error + js_value) \<times> js_world" where
  "js_run_task unmarshal t w =
     (case t of
        TaskMethod m k \<Rightarrow>
          (case ReadAndClose k w of
             (Inl err, w1) \<Rightarrow> (Inl err, w1)
           | (Inr rawData, w1) \<Rightarrow>
               (case js_body_value unmarshal m rawData (jw_heap w1) of (res, h) \<Rightarrow> (res, w1\<lparr>jw_heap := h\<rparr>)))
      | TaskReadStream r \<Rightarrow> ReadableStream_read r w)"

section \<open>Promises\<close>

text \<open>
  The promise is made with a function that starts a goroutine. When the goroutine has run, it settles
  the promise: an error becomes an Error object with which it is rejected.
\<close>

definition NewGoroutinePromise :: "js_task \<Rightarrow> js_world \<Rightarrow> js_value \<times> js_world" where
  "NewGoroutinePromise t w =
     (case js_New (JSPromise Pending) (jw_heap w) of
        (promise, h) \<Rightarrow> (promise, w\<lparr>jw_heap := h, jw_goroutines := jw_goroutines w @ [(length (jw_heap w), t)]\<rparr>))"

definition settle :: "nat \<Rightarrow> promise_state \<Rightarrow> js_heap \<Rightarrow> js_heap" where
  "settle p st h = (if h ! p = JSPromise Pending then h[p := JSPromise st] else h)"

definition settle_promise :: "nat \<Rightarrow> go_error + js_value \<Rightarrow> js_heap \<Rightarrow> js_heap" where
  "settle_promise p res h =
     (case res of
        Inl err \<Rightarrow> (case js_New (JSError (js_decode err)) h of (errJSObj, h1) \<Rightarrow> settle p (Rejected errJSObj) h1)
      | Inr v \<Rightarrow> settle p (Fulfilled v) h)"

definition ReadableStream_ReadJS :: "nat \<Rightarrow> js_world \<Rightarrow> js_value \<times> js_world" where
  "ReadableStream_ReadJS r w = NewGoroutinePromise (TaskReadStream r) w"

section \<open>The response object\<close>

text \<open>
  \<open>httpHeader\<close> is the header in some order. The readable stream is made, but the object under body is
  an empty one.
\<close>

definition wrapHttpResponse ::
    "(string \<times> string list) list \<Rightarrow> request \<Rightarrow> response \<Rightarrow> js_world \<Rightarrow> js_value \<times> js_world" where
  "wrapHttpResponse httpHeader req resp w =
     (let k = length (jw_bodies w);
          (jsHttpResponse, h0) = NewObject (jw_heap w);
          h1 = js_Set jsHttpResponse ''url'' (JSString (js_decode (url_String (rq_URL req)))) h0;
          h2 = js_Set jsHttpResponse ''ok''
                 (JSBool (200 \<le> rs_StatusCode resp \<and> rs_StatusCode resp \<le> 299)) h1;
          (headers, h3) = WrapHTTPHeader httpHeader h2;
          h4 = js_Set jsHttpResponse ''headers'' headers h3;
          (jsBodyObj, h5) = NewObject h4;
          bodyObj = \<lparr>rds_ReadCloser = k, rds_Consumed = False\<rparr>;
          (arrayBuffer, h6) = js_New (JSFunc MArrayBuffer k) h5;
          h7 = js_Set jsHttpResponse ''arrayBuffer'' arrayBuffer h6;
          (textFunc, h8) = js_New (JSFunc MText k) h7;
          h9 = js_Set jsHttpResponse ''text'' textFunc h8;
          (jsonFunc, h10) = js_New (JSFunc MJson k) h9;
          h11 = js_Set jsHttpResponse ''json'' jsonFunc h10;
          h12 = js_Set jsHttpResponse ''body'' jsBodyObj h11;
          h13 = js_Set jsHttpResponse ''bodyUsed'' (JSBool (rds_Consumed bodyObj)) h12
      in (jsHttpResponse,
          w\<lparr>jw_heap := h13, jw_bodies := jw_bodies w @ [\<lparr>bd_unread = rs_Body resp, bd_err = None\<rparr>],
             jw_streams := jw_streams w @ [bodyObj]\<rparr>))"

section \<open>Runs\<close>

text \<open>
  JavaScript calls a function object, or the scheduler runs one of the waiting goroutines. An event
  says which promise was settled after which bytes of which body were read.
\<close>

datatype js_action =
    CallMethod js_value
  | RunGoroutine nat

record js_event =
  je_promise :: nat
  je_task :: js_task
  je_body :: nat
  je_read :: "go_error + string"
  je_result :: "go_error + js_value"

definition task_body :: "js_world \<Rightarrow> js_task \<Rightarrow> nat" where
  "task_body w t = (case t of TaskMethod _ k \<Rightarrow> k | TaskReadStream r \<Rightarrow> rds_ReadCloser (jw_streams w ! r))"

definition js_exec ::
    "(string \<Rightarrow> go_error + (string \<times> go_any) list) \<Rightarrow> js_action \<Rightarrow> js_world \<Rightarrow> (js_event list \<times> js_world) option" where
  "js_exec unmarshal a w =
     (case a of
        CallMethod f \<Rightarrow>
          (case js_deref (jw_heap w) f of
             Some (JSFunc m k) \<Rightarrow> Some ([], snd (NewGoroutinePromise (TaskMethod m k) w))
           | _ \<Rightarrow> None)
      | RunGoroutine i \<Rightarrow>
          if i < length (jw_goroutines w) then
            (let (p, t) = jw_goroutines w ! i;
                 w0 = w\<lparr>jw_goroutines := take i (jw_goroutines w) @ drop (Suc i) (jw_goroutines w)\<rparr>;
                 (res, w1) = js_run_task unmarshal t w0
             in Some ([\<lparr>je_promise = p, je_task = t, je_body = task_body w t,
                         je_read = fst (ReadAndClose (task_body w t) w), je_result = res\<rparr>],
                      w1\<lparr>jw_heap := settle_promise p res (jw_heap w1)\<rparr>))
          else None)"

fun js_run ::
    "(string \<Rightarrow> go_error + (string \<times> go_any) list) \<Rightarrow> js_action list \<Rightarrow> js_world \<Rightarrow> (js_event list \<times> js_world) option" where
  "js_run unmarshal [] w = Some ([], w)"
| "js_run unmarshal (a # as) w =
     (case js_exec unmarshal a w of
        None \<Rightarrow> None
      | Some (es, w1) \<Rightarrow> map_option (\<lambda>(es', w2). (es @ es', w2)) (js_run unmarshal as w1))"

section \<open>What the conversions put into the heap\<close>

lemma NewUint8Array_eq [simp]: "NewUint8Array b h = (JSRef (length h), h @ [JSUint8Array b])"
  by (simp add: NewUint8Array_def js_New_def js_CopyBytesToJS_def list_update_append)

text \<open>Objects that hold data only: no promise, no function.\<close>

definition js_data :: "js_object \<Rightarrow> bool" where
  "js_data obj = (case obj of JSPromise _ \<Rightarrow> False | JSFunc _ _ \<Rightarrow> False | JSTLSRequestFunc \<Rightarrow> False | _ \<Rightarrow> True)"

lemma js_data_simps [simp]:
  "js_data (JSPlain kvs)" "js_data (JSArray vs)" "js_data (JSUint8Array b)" "js_data (JSError e)"
  "\<not> js_data (JSPromise st)" "\<not> js_data (JSFunc m k)"
  by (simp_all add: js_data_def)

definition grows :: "js_heap \<Rightarrow> js_heap \<Rightarrow> bool" where
  "grows h h' \<longleftrightarrow> (\<exists>h1. h' = h @ h1 \<and> list_all js_data h1)"

lemma grows_refl [simp, intro]: "grows h h"
  by (simp add: grows_def)

lemma grows_trans [trans]: "grows h h1 \<Longrightarrow> grows h1 h2 \<Longrightarrow> grows h h2"
  by (auto simp: grows_def)

lemma grows_New [simp]: "js_data obj \<Longrightarrow> grows h (h @ [obj])"
  by (simp add: grows_def)

lemma growsD:
  assumes "grows h h'"
  shows "length h \<le> length h'" "a < length h \<Longrightarrow> h' ! a = h ! a"
    "length h \<le> a \<Longrightarrow> a < length h' \<Longrightarrow> js_data (h' ! a)"
  using assms by (auto simp: grows_def nth_append list_all_length)

lemma grows_deref: "grows h h' \<Longrightarrow> js_deref h v = Some obj \<Longrightarrow> js_deref h' v = Some obj"
  by (auto simp: grows_def js_deref_append)

lemma js_ValueOf_grows:
  "js_ValueOf x h = (v, h') \<Longrightarrow> grows h h'"
  "js_ValuesOf xs h = (vs, h') \<Longrightarrow> grows h h'"
  "js_EntriesOf kxs h = (kvs, h') \<Longrightarrow> grows h h'"
proof (induction x h and xs h and kxs h arbitrary: v h' and vs h' and kvs h'
    rule: js_ValueOf_js_ValuesOf_js_EntriesOf.induct)
  case (5 xs h)
  then show ?case by (auto simp: js_New_def split: prod.splits intro: grows_trans)
next
  case (6 kxs h)
  then show ?case by (auto simp: js_New_def split: prod.splits intro: grows_trans)
next
  case (8 x xs h)
  then show ?case by (auto split: prod.splits intro: grows_trans)
next
  case (10 k x kxs h)
  then show ?case by (auto split: prod.splits intro: grows_trans)
qed auto

lemma js_body_value_grows: "js_body_value unmarshal m d h = (res, h') \<Longrightarrow> grows h h'"
  by (auto simp: js_body_value_def simp del: js_ValueOf.simps dest: js_ValueOf_grows
      split: js_method.splits sum.splits prod.splits)

lemma js_Set_new: "js_Set (JSRef (length h)) p v (h @ JSPlain kvs # h1) = h @ JSPlain (assoc_set kvs (js_decode p) v) # h1"
  by (simp add: js_Set_def js_deref_def list_update_append)

text \<open>What a task does: it empties its body and adds data to the heap.\<close>

lemma ReadAndClose_eq:
  "ReadAndClose k w = (fst (ReadAndClose k w),
     w\<lparr>jw_bodies := (jw_bodies w)[k := (jw_bodies w ! k)\<lparr>bd_unread := ''''\<rparr>]\<rparr>)"
  by (simp add: ReadAndClose_def Let_def)

lemma ReadableStream_read_frame:
  assumes "ReadableStream_read r w = (res, w')"
  shows "grows (jw_heap w) (jw_heap w') \<and> jw_goroutines w' = jw_goroutines w \<and>
    map rds_ReadCloser (jw_streams w') = map rds_ReadCloser (jw_streams w) \<and>
    jw_bodies w' = (let k = rds_ReadCloser (jw_streams w ! r)
                    in (jw_bodies w)[k := (jw_bodies w ! k)\<lparr>bd_unread := ''''\<rparr>])"
proof -
  let ?k = "rds_ReadCloser (jw_streams w ! r)"
  let ?h2 = "jw_heap w @ [JSPlain (assoc_set [] ''done'' (JSBool True))]"
  let ?bs = "(jw_bodies w)[?k := (jw_bodies w ! ?k)\<lparr>bd_unread := ''''\<rparr>]"
  have map_upd: "map rds_ReadCloser ((jw_streams w)[r := (jw_streams w ! r)\<lparr>rds_Consumed := True\<rparr>]) =
      map rds_ReadCloser (jw_streams w)"
    by (cases "r < length (jw_streams w)") (simp_all add: map_update list_update_same_conv list_update_beyond not_less)
  consider (err) e where "bd_err (jw_bodies w ! ?k) = Some e" | (data) "bd_err (jw_bodies w ! ?k) = None"
    by (cases "bd_err (jw_bodies w ! ?k)") auto
  then show ?thesis
  proof cases
    case err
    then show ?thesis
      using assms js_Set_new [of "jw_heap w" _ _ "[]" "[]"]
      by (auto simp: ReadableStream_read_def NewObject_def js_New_def ReadAndClose_def Let_def grows_def)
  next
    case data
    then show ?thesis
      using assms js_Set_new [of "jw_heap w" _ _ "[]" "[]"] js_Set_new [of "jw_heap w"] map_upd
      by (auto simp: ReadableStream_read_def NewObject_def js_New_def ReadAndClose_def Let_def grows_def)
  qed
qed

lemma run_task_frame:
  assumes "js_run_task unmarshal t w = (res, w')"
  shows "grows (jw_heap w) (jw_heap w')" "jw_goroutines w' = jw_goroutines w"
    "map rds_ReadCloser (jw_streams w') = map rds_ReadCloser (jw_streams w)"
    "jw_bodies w' = (jw_bodies w)[task_body w t := (jw_bodies w ! task_body w t)\<lparr>bd_unread := ''''\<rparr>]"
proof -
  have "grows (jw_heap w) (jw_heap w') \<and> jw_goroutines w' = jw_goroutines w \<and>
    map rds_ReadCloser (jw_streams w') = map rds_ReadCloser (jw_streams w) \<and>
    jw_bodies w' = (jw_bodies w)[task_body w t := (jw_bodies w ! task_body w t)\<lparr>bd_unread := ''''\<rparr>]"
  proof (cases t)
    case (TaskMethod m k)
    with assms show ?thesis
      by (auto simp: js_run_task_def task_body_def ReadAndClose_def Let_def
          split: sum.splits option.splits prod.splits dest: js_body_value_grows)
  next
    case (TaskReadStream r)
    with assms ReadableStream_read_frame [of r w res w'] show ?thesis
      by (simp add: js_run_task_def task_body_def Let_def)
  qed
  then show "grows (jw_heap w) (jw_heap w')" "jw_goroutines w' = jw_goroutines w"
    "map rds_ReadCloser (jw_streams w') = map rds_ReadCloser (jw_streams w)"
    "jw_bodies w' = (jw_bodies w)[task_body w t := (jw_bodies w ! task_body w t)\<lparr>bd_unread := ''''\<rparr>]"
    by blast+
qed

section \<open>Well-formed worlds\<close>

text \<open>
  Every pending promise has exactly one goroutine that will settle it, and nothing refers to a body or
  a stream that is not there.
\<close>

definition task_ok :: "js_world \<Rightarrow> js_task \<Rightarrow> bool" where
  "task_ok w t =
     (case t of TaskMethod _ k \<Rightarrow> k < length (jw_bodies w) | TaskReadStream r \<Rightarrow> r < length (jw_streams w))"

definition js_wf :: "js_world \<Rightarrow> bool" where
  "js_wf w \<longleftrightarrow>
     distinct (map fst (jw_goroutines w)) \<and>
     (\<forall>p. p \<in> fst ` set (jw_goroutines w) \<longleftrightarrow> p < length (jw_heap w) \<and> jw_heap w ! p = JSPromise Pending) \<and>
     (\<forall>t \<in> snd ` set (jw_goroutines w). task_ok w t) \<and>
     (\<forall>m k. JSFunc m k \<in> set (jw_heap w) \<longrightarrow> k < length (jw_bodies w)) \<and>
     (\<forall>k \<in> set (map rds_ReadCloser (jw_streams w)). k < length (jw_bodies w))"

lemma js_wfD:
  assumes "js_wf w"
  shows "distinct (map fst (jw_goroutines w))"
    "p \<in> fst ` set (jw_goroutines w) \<longleftrightarrow> p < length (jw_heap w) \<and> jw_heap w ! p = JSPromise Pending"
    "(q, t) \<in> set (jw_goroutines w) \<Longrightarrow> task_ok w t"
    "JSFunc m k \<in> set (jw_heap w) \<Longrightarrow> k < length (jw_bodies w)"
    "k \<in> set (map rds_ReadCloser (jw_streams w)) \<Longrightarrow> k < length (jw_bodies w)"
  using assms unfolding js_wf_def by (blast, blast, force, blast, blast)

lemma task_body_less: "js_wf w \<Longrightarrow> task_ok w t \<Longrightarrow> task_body w t < length (jw_bodies w)"
  by (auto simp: task_ok_def task_body_def split: js_task.splits intro: js_wfD(5))

text \<open>A later heap keeps everything but pending promises.\<close>

definition keeps :: "js_heap \<Rightarrow> js_heap \<Rightarrow> bool" where
  "keeps h h' \<longleftrightarrow> length h \<le> length h' \<and> (\<forall>a < length h. h ! a \<noteq> JSPromise Pending \<longrightarrow> h' ! a = h ! a)"

lemma keeps_refl [simp, intro]: "keeps h h"
  by (simp add: keeps_def)

lemma keeps_trans [trans]: "keeps h h1 \<Longrightarrow> keeps h1 h2 \<Longrightarrow> keeps h h2"
  by (auto simp: keeps_def)

lemma grows_keeps: "grows h h' \<Longrightarrow> keeps h h'"
  by (auto simp: keeps_def dest: growsD)

lemma grows_settle_keeps:
  "grows h h' \<Longrightarrow> p < length h \<Longrightarrow> h ! p = JSPromise Pending \<Longrightarrow> keeps h (h'[p := JSPromise st])"
  using growsD(1,2) [of h h'] unfolding keeps_def by (metis length_list_update nth_list_update_neq)

lemma keeps_deref:
  "keeps h h' \<Longrightarrow> js_deref h v = Some obj \<Longrightarrow> obj \<noteq> JSPromise Pending \<Longrightarrow> js_deref h' v = Some obj"
  by (auto simp: keeps_def js_deref_def split: js_value.splits if_splits)

text \<open>A promise that was settled with a result of its goroutine, and the error object of a rejected one.\<close>

definition js_settled :: "js_heap \<Rightarrow> nat \<Rightarrow> go_error + js_value \<Rightarrow> bool" where
  "js_settled h p res =
     (case res of
        Inr v \<Rightarrow> js_deref h (JSRef p) = Some (JSPromise (Fulfilled v))
      | Inl err \<Rightarrow> \<exists>e. js_deref h (JSRef p) = Some (JSPromise (Rejected e)) \<and> js_deref h e = Some (JSError (js_decode err)))"

lemma js_settled_keeps: "keeps h h' \<Longrightarrow> js_settled h p res \<Longrightarrow> js_settled h' p res"
  by (auto simp: js_settled_def dest: keeps_deref split: sum.splits)

lemma settle_promise_frame:
  assumes "p < length h" "h ! p = JSPromise Pending"
  obtains st h' where "settle_promise p res h = h'[p := JSPromise st]" "st \<noteq> Pending" "grows h h'"
    "js_settled (settle_promise p res h) p res"
proof (cases res)
  case (Inl err)
  let ?h = "h @ [JSError (js_decode err)]"
  have "settle_promise p res h = ?h[p := JSPromise (Rejected (JSRef (length h)))]"
    using assms Inl by (simp add: settle_promise_def settle_def js_New_def nth_append)
  moreover from this have "js_settled (settle_promise p res h) p res"
    using assms Inl by (simp add: js_settled_def js_deref_def nth_list_update)
  ultimately show thesis using that [of ?h "Rejected (JSRef (length h))"] by simp
next
  case (Inr v)
  have "settle_promise p res h = h[p := JSPromise (Fulfilled v)]"
    using assms Inr by (simp add: settle_promise_def settle_def)
  moreover from this have "js_settled (settle_promise p res h) p res"
    using assms Inr by (simp add: js_settled_def js_deref_def)
  ultimately show thesis using that [of h "Fulfilled v"] by simp
qed

text \<open>
  What an event says of its result: an error of the body is passed on, and otherwise the result carries
  the bytes that were read, as a text, a byte array or the decoded map.
\<close>

definition event_ok ::
    "(string \<Rightarrow> go_error + (string \<times> go_any) list) \<Rightarrow> js_heap \<Rightarrow> js_event \<Rightarrow> bool" where
  "event_ok unmarshal h e =
     (case je_read e of
        Inl err \<Rightarrow> je_result e = Inl err
      | Inr d \<Rightarrow>
          (case je_task e of
             TaskMethod MText _ \<Rightarrow> je_result e = Inr (JSString (js_decode d))
           | TaskMethod MJson _ \<Rightarrow>
               (case unmarshal d of
                  Inl err \<Rightarrow> je_result e = Inl ''unmarshal json''
                | Inr kxs \<Rightarrow> \<exists>v. je_result e = Inr v \<and> js_represents h v (GoMap kxs))
           | _ \<Rightarrow> \<exists>v. je_result e = Inr v \<and> js_deref h v = Some (JSUint8Array d)))"

lemma event_ok_keeps: "keeps h h' \<Longrightarrow> event_ok unmarshal h e \<Longrightarrow> event_ok unmarshal h' e"
  unfolding event_ok_def
  by (fastforce intro: js_represents_keep dest: keeps_deref
      split: sum.splits js_task.splits js_method.splits)

lemma ReadableStream_read_result:
  assumes "ReadableStream_read r w = (res, w')"
  shows "case fst (ReadAndClose (rds_ReadCloser (jw_streams w ! r)) w) of
      Inl err \<Rightarrow> res = Inl err
    | Inr d \<Rightarrow> \<exists>v. res = Inr v \<and> js_deref (jw_heap w') v = Some (JSUint8Array d)"
  using assms js_Set_new [of "jw_heap w" _ _ "[]" "[]"] js_Set_new [of "jw_heap w"]
  by (auto simp: ReadableStream_read_def NewObject_def js_New_def ReadAndClose_def Let_def js_deref_def
      nth_append split: option.splits)

lemma run_task_result:
  assumes "js_run_task unmarshal t w = (res, w')" "je_task e = t" "je_result e = res"
    and "je_read e = fst (ReadAndClose (task_body w t) w)"
  shows "event_ok unmarshal (jw_heap w') e"
proof (cases t)
  case (TaskReadStream r)
  with assms ReadableStream_read_result [of r w res w'] show ?thesis
    by (auto simp: event_ok_def js_run_task_def task_body_def split: sum.splits)
next
  case (TaskMethod m k)
  obtain rd w1 where rd: "ReadAndClose k w = (rd, w1)" by fastforce
  show ?thesis
    unfolding event_ok_def assms(2-4) TaskMethod
    using assms(1) TaskMethod rd
    by (auto simp: js_run_task_def task_body_def js_body_value_def simp del: js_ValueOf.simps
        dest!: js_ValueOf_represents(1) split: js_method.splits sum.splits prod.splits)
qed

section \<open>One step\<close>

lemma fst_drop_nth:
  assumes "i < length xs" "distinct (map fst xs)"
  shows "fst ` set (take i xs @ drop (Suc i) xs) = fst ` set xs - {fst (xs ! i)}"
    "distinct (map fst (take i xs @ drop (Suc i) xs))"
proof -
  have xs: "xs = take i xs @ xs ! i # drop (Suc i) xs" using assms(1) by (rule id_take_nth_drop)
  with assms(2) have "distinct (map fst (take i xs) @ fst (xs ! i) # map fst (drop (Suc i) xs))"
    by (metis list.simps(9) map_append)
  moreover have "fst ` set xs = insert (fst (xs ! i)) (fst ` set (take i xs @ drop (Suc i) xs))"
    by (subst xs) auto
  moreover from calculation(1) have "fst (xs ! i) \<notin> fst ` set (take i xs @ drop (Suc i) xs)"
    by (simp add: image_Un)
  ultimately show "fst ` set (take i xs @ drop (Suc i) xs) = fst ` set xs - {fst (xs ! i)}"
    "distinct (map fst (take i xs @ drop (Suc i) xs))"
    by simp_all
qed

lemma js_exec_cases:
  assumes "js_exec unmarshal a w = Some (es, w')" "js_wf w"
  obtains (call) m k where "k < length (jw_bodies w)" "es = []"
      "w' = w\<lparr>jw_heap := jw_heap w @ [JSPromise Pending],
             jw_goroutines := jw_goroutines w @ [(length (jw_heap w), TaskMethod m k)]\<rparr>"
    | (run) i p t res h st e where "i < length (jw_goroutines w)" "jw_goroutines w ! i = (p, t)"
      "p < length (jw_heap w)" "jw_heap w ! p = JSPromise Pending" "task_ok w t"
      "grows (jw_heap w) h" "jw_heap w' = h[p := JSPromise st]" "st \<noteq> Pending" "js_settled (jw_heap w') p res"
      "jw_goroutines w' = take i (jw_goroutines w) @ drop (Suc i) (jw_goroutines w)"
      "map rds_ReadCloser (jw_streams w') = map rds_ReadCloser (jw_streams w)"
      "jw_bodies w' = (jw_bodies w)[task_body w t := (jw_bodies w ! task_body w t)\<lparr>bd_unread := ''''\<rparr>]"
      "es = [e]" "je_promise e = p" "je_result e = res" "je_body e = task_body w t"
      "je_read e = fst (ReadAndClose (task_body w t) w)" "je_task e = t" "event_ok unmarshal (jw_heap w') e"
proof (cases a)
  case (CallMethod f)
  with assms(1) obtain m k where f: "js_deref (jw_heap w) f = Some (JSFunc m k)"
    and r: "es = []" "w' = snd (NewGoroutinePromise (TaskMethod m k) w)"
    by (auto simp: js_exec_def split: option.splits js_object.splits)
  from f have "JSFunc m k \<in> set (jw_heap w)"
    by (auto simp: js_deref_def split: js_value.splits if_splits) (metis nth_mem)
  with assms(2) have "k < length (jw_bodies w)" by (rule js_wfD(4))
  with r show thesis by (intro call) (auto simp: NewGoroutinePromise_def js_New_def)
next
  case (RunGoroutine i)
  with assms(1) have i: "i < length (jw_goroutines w)" by (auto simp: js_exec_def split: if_splits)
  obtain p t where pt: "jw_goroutines w ! i = (p, t)" by fastforce
  let ?w0 = "w\<lparr>jw_goroutines := take i (jw_goroutines w) @ drop (Suc i) (jw_goroutines w)\<rparr>"
  obtain res w1 where t: "js_run_task unmarshal t ?w0 = (res, w1)" by fastforce
  from i pt have m: "(p, t) \<in> set (jw_goroutines w)" by (metis nth_mem)
  with assms(2) have p: "p < length (jw_heap w)" "jw_heap w ! p = JSPromise Pending"
    using js_wfD(2) [OF assms(2), of p] by force+
  note fr = run_task_frame [OF t]
  have b: "task_body ?w0 t = task_body w t" by (simp add: task_body_def split: js_task.split)
  have pw1: "p < length (jw_heap w1)" "jw_heap w1 ! p = JSPromise Pending"
    using growsD [OF fr(1)] p by (auto intro: order.strict_trans2)
  then obtain st h where st: "settle_promise p res (jw_heap w1) = h[p := JSPromise st]" "st \<noteq> Pending"
    "grows (jw_heap w1) h" "js_settled (settle_promise p res (jw_heap w1)) p res"
    by (rule settle_promise_frame)
  let ?e = "\<lparr>je_promise = p, je_task = t, je_body = task_body w t,
             je_read = fst (ReadAndClose (task_body w t) w), je_result = res\<rparr>"
  have "w' = w1\<lparr>jw_heap := settle_promise p res (jw_heap w1)\<rparr>" "es = [?e]"
    using assms(1) RunGoroutine i pt t by (auto simp: js_exec_def Let_def)
  moreover have "task_ok w t" using assms(2) m by (rule js_wfD(3))
  moreover have "grows (jw_heap w) h" using grows_trans [OF fr(1) st(3)] by simp
  moreover have "event_ok unmarshal (jw_heap w1) ?e"
  proof (rule run_task_result [OF t])
    have "ReadAndClose k w = (rd, w1) \<Longrightarrow> fst (ReadAndClose k ?w0) = rd" for k rd w1
      by (auto simp: ReadAndClose_def Let_def)
    then show "je_read ?e = fst (ReadAndClose (task_body ?w0 t) ?w0)" using b by (metis fst_conv js_event.select_convs(4) surj_pair)
  qed simp_all
  then have "event_ok unmarshal (h[p := JSPromise st]) ?e"
    by (rule event_ok_keeps [OF grows_settle_keeps [OF st(3) pw1]])
  ultimately show thesis
    using i pt p st fr b by (intro run [of i p t h st res ?e]) simp_all
qed

lemma js_exec_keeps:
  assumes "js_exec unmarshal a w = Some (es, w')" "js_wf w"
  shows "keeps (jw_heap w) (jw_heap w')"
  using assms
proof (cases rule: js_exec_cases)
  case (run i p t res h st e)
  then show ?thesis using grows_settle_keeps [OF run(6,3,4)] by simp
qed (simp add: keeps_def nth_append)

lemma js_exec_wf:
  assumes "js_exec unmarshal a w = Some (es, w')" "js_wf w"
  shows "js_wf w'"
  using assms
proof (cases rule: js_exec_cases)
  case (call m k)
  note wf = js_wfD [OF assms(2)]
  have "length (jw_heap w) \<notin> fst ` set (jw_goroutines w)" using wf(2) by blast
  moreover have "task_ok w t \<Longrightarrow> task_ok w' t" for t
    using call by (cases t) (simp_all add: task_ok_def)
  moreover have "task_ok w' (TaskMethod m k)" using call by (simp add: task_ok_def)
  ultimately show ?thesis
    using wf call unfolding js_wf_def by (auto simp: nth_append less_Suc_eq)
next
  case (run i p t res h st e)
  note wf = js_wfD [OF assms(2)] and g = growsD [OF run(6)]
  note gs = fst_drop_nth [OF run(1) wf(1)]
  have "q \<in> fst ` set (jw_goroutines w') \<longleftrightarrow> q < length (jw_heap w') \<and> jw_heap w' ! q = JSPromise Pending" for q
  proof (cases "q < length (jw_heap w)")
    case True
    with g(1) g(2) [of q] gs(1) wf(2) [of q] run(2,3,7,8,10) show ?thesis by (auto simp: nth_list_update)
  next
    case False
    then have "q \<notin> fst ` set (jw_goroutines w)" using wf(2) by blast
    moreover have "q < length h \<Longrightarrow> h ! q \<noteq> JSPromise Pending" using False g(3) [of q] by auto
    ultimately show ?thesis using gs(1) run(3,7,10) False by auto
  qed
  moreover have "task_ok w' u" if u: "u \<in> snd ` set (jw_goroutines w')" for u
  proof -
    obtain q where "(q, u) \<in> set (jw_goroutines w')" using u by force
    then have "(q, u) \<in> set (jw_goroutines w)"
      unfolding run(10) by (auto dest: in_set_takeD in_set_dropD)
    then have "task_ok w u" by (rule wf(3))
    moreover have "length (jw_streams w') = length (jw_streams w)"
      using arg_cong [OF run(11), of length] by simp
    ultimately show ?thesis using run(12) by (cases u) (simp_all add: task_ok_def)
  qed
  moreover have "k < length (jw_bodies w')" if f: "JSFunc m k \<in> set (jw_heap w')" for m k
  proof -
    obtain b where b: "b < length h" "(h[p := JSPromise st]) ! b = JSFunc m k"
      using f run(7) by (auto simp: in_set_conv_nth)
    then have "h ! b = JSFunc m k" by (cases "b = p") auto
    with b(1) g(2,3) [of b] have "b < length (jw_heap w)" "jw_heap w ! b = JSFunc m k"
      by (cases "b < length (jw_heap w)"; force)+
    then have "JSFunc m k \<in> set (jw_heap w)" by (metis nth_mem)
    with run(12) show ?thesis by (simp add: wf(4))
  qed
  ultimately show ?thesis
    using gs(2) wf(5) run(10-12) unfolding js_wf_def by auto
qed

section \<open>Runs\<close>

lemma js_run_wf:
  "js_run unmarshal as w = Some (es, w') \<Longrightarrow> js_wf w \<Longrightarrow> js_wf w' \<and> keeps (jw_heap w) (jw_heap w')"
proof (induction as arbitrary: w es)
  case (Cons a as)
  then obtain es1 w1 es2 where "js_exec unmarshal a w = Some (es1, w1)" "js_run unmarshal as w1 = Some (es2, w')"
    by (auto split: option.splits prod.splits)
  with Cons show ?case by (meson js_exec_keeps js_exec_wf keeps_trans)
qed simp

text \<open>Every event settles its promise for good, and no promise is settled twice.\<close>

lemma js_run_settled:
  "js_run unmarshal as w = Some (es, w') \<Longrightarrow> js_wf w \<Longrightarrow>
   (\<forall>e \<in> set es. js_settled (jw_heap w') (je_promise e) (je_result e) \<and> event_ok unmarshal (jw_heap w') e) \<and>
   distinct (map je_promise es) \<and>
   (\<forall>e \<in> set es. je_promise e < length (jw_heap w) \<longrightarrow> jw_heap w ! je_promise e = JSPromise Pending)"
proof (induction as arbitrary: w es)
  case (Cons a as)
  then obtain es1 w1 es2 where a: "js_exec unmarshal a w = Some (es1, w1)"
    and r: "js_run unmarshal as w1 = Some (es2, w')" and es: "es = es1 @ es2"
    by (auto split: option.splits prod.splits)
  note wf1 = js_exec_wf [OF a Cons.prems(2)] and k = js_exec_keeps [OF a Cons.prems(2)]
  note IH = Cons.IH [OF r wf1]
  have later: "je_promise e < length (jw_heap w) \<longrightarrow> jw_heap w ! je_promise e = JSPromise Pending" if "e \<in> set es2" for e
    using IH that k by (fastforce simp: keeps_def)
  from a Cons.prems(2) show ?case
  proof (cases rule: js_exec_cases)
    case (call m k)
    with IH es later show ?thesis by simp
  next
    case (run i p t res h st e)
    have "js_settled (jw_heap w') (je_promise e) (je_result e) \<and> event_ok unmarshal (jw_heap w') e"
      using run js_settled_keeps event_ok_keeps js_run_wf [OF r wf1] by auto
    moreover have "p < length (jw_heap w1)" "jw_heap w1 ! p \<noteq> JSPromise Pending"
      using run growsD(1) [OF run(6)] by auto
    then have "je_promise e \<notin> je_promise ` set es2"
      using IH run(14) by auto
    ultimately show ?thesis using IH es later run(3,4,13,14) by auto
  qed
qed simp

text \<open>The reads of one body: the first gets everything, later ones nothing.\<close>

definition body_reads :: "nat \<Rightarrow> js_event list \<Rightarrow> (go_error + string) list" where
  "body_reads k es = map je_read (filter (\<lambda>e. je_body e = k) es)"

lemma body_reads_simps [simp]:
  "body_reads k [] = []" "body_reads k (es @ es') = body_reads k es @ body_reads k es'"
  by (simp_all add: body_reads_def)

lemma js_run_reads:
  assumes "js_run unmarshal as w = Some (es, w')" "js_wf w" "k < length (jw_bodies w)"
    and "bd_err (jw_bodies w ! k) = None"
  shows "body_reads k es = [] \<and> jw_bodies w' ! k = jw_bodies w ! k \<or>
    (\<exists>n. body_reads k es = Inr (bd_unread (jw_bodies w ! k)) # replicate n (Inr '''') \<and>
       bd_unread (jw_bodies w' ! k) = '''' \<and> bd_err (jw_bodies w' ! k) = None)"
  using assms
proof (induction as arbitrary: w es)
  case (Cons a as)
  then obtain es1 w1 es2 where a: "js_exec unmarshal a w = Some (es1, w1)"
    and r: "js_run unmarshal as w1 = Some (es2, w')" and es: "es = es1 @ es2"
    by (auto split: option.splits prod.splits)
  note IH = Cons.IH [OF r js_exec_wf [OF a Cons.prems(2)]]
  from a Cons.prems(2) show ?case
  proof (cases rule: js_exec_cases)
    case (call m k')
    with IH Cons.prems(3,4) es show ?thesis by simp
  next
    case (run i p t res h st e)
    show ?thesis
    proof (cases "task_body w t = k")
      case True
      have w1: "jw_bodies w1 ! k = (jw_bodies w ! k)\<lparr>bd_unread := ''''\<rparr>"
        using run(12) True Cons.prems(3) by simp
      have "je_read e = Inr (bd_unread (jw_bodies w ! k))"
        using run(17) True Cons.prems(4) by (simp add: ReadAndClose_def Let_def)
      then have "body_reads k es1 = [Inr (bd_unread (jw_bodies w ! k))]"
        using run(13,16) True by (simp add: body_reads_def)
      moreover have "body_reads k es2 = [] \<and> bd_unread (jw_bodies w' ! k) = '''' \<and> bd_err (jw_bodies w' ! k) = None \<or>
          (\<exists>n. body_reads k es2 = replicate (Suc n) (Inr '''') \<and> bd_unread (jw_bodies w' ! k) = '''' \<and>
            bd_err (jw_bodies w' ! k) = None)"
        using IH w1 Cons.prems(3,4) run(12) by auto
      ultimately show ?thesis using es by (metis append_Cons append_Nil body_reads_simps(2) replicate_0)
    next
      case False
      then have "jw_bodies w1 ! k = jw_bodies w ! k" "body_reads k es1 = []"
        using run(12,13,16) by (simp_all add: body_reads_def)
      with IH Cons.prems(3,4) run(12) es show ?thesis by simp
    qed
  qed
qed simp

section \<open>The header object\<close>

lemma js_ValuesOf_strings [simp]:
  "js_ValuesOf (map GoString vs) h = (map JSString (map js_decode vs), h)"
  by (induction vs) simp_all

text \<open>The header as JavaScript gets it, and the properties of an object that show a header so.\<close>

definition js_entries :: "(string \<times> string list) list \<Rightarrow> (string \<times> string list) list" where
  "js_entries entries = map (\<lambda>(k, vs). (js_decode k, map js_decode vs)) entries"

definition header_props :: "js_heap \<Rightarrow> (string \<times> js_value) list \<Rightarrow> header \<Rightarrow> bool" where
  "header_props h kvs hdr \<longleftrightarrow>
     (\<forall>k. case hdr k of
            None \<Rightarrow> map_of kvs k = None
          | Some vs \<Rightarrow> \<exists>v. map_of kvs k = Some v \<and> js_deref h v = Some (JSArray (map JSString vs)))"

lemma header_propsD:
  "header_props h kvs hdr \<Longrightarrow> hdr k = Some vs \<Longrightarrow>
     \<exists>v. map_of kvs k = Some v \<and> js_deref h v = Some (JSArray (map JSString vs))"
  "header_props h kvs hdr \<Longrightarrow> hdr k = None \<Longrightarrow> map_of kvs k = None"
  by (auto simp: header_props_def dest: spec [of _ k])

lemma header_props_keep:
  "header_props h kvs hdr \<Longrightarrow> (\<And>v vs. js_deref h v = Some (JSArray vs) \<Longrightarrow> js_deref h' v = Some (JSArray vs)) \<Longrightarrow>
   header_props h' kvs hdr"
  unfolding header_props_def by (fastforce split: option.splits)

lemma header_props_set:
  assumes "header_props h kvs hdr" "js_deref h v = Some (JSArray (map JSString vals))"
  shows "header_props h (assoc_set kvs k v) (hdr(k \<mapsto> vals))"
  unfolding header_props_def
proof
  fix j
  show "case (hdr(k \<mapsto> vals)) j of None \<Rightarrow> map_of (assoc_set kvs k v) j = None
    | Some vs \<Rightarrow> \<exists>u. map_of (assoc_set kvs k v) j = Some u \<and> js_deref h u = Some (JSArray (map JSString vs))"
    using assms(2) spec [OF assms(1) [unfolded header_props_def], of j]
    by (cases "hdr j"; cases "j = k") (auto simp: map_of_assoc_set)
qed

lemma distinct_map_of_rev:
  assumes "distinct (map fst xs)"
  shows "map_of (rev xs) = map_of xs"
proof
  fix k
  have "distinct (map fst (rev xs))" using assms by (simp add: rev_map [symmetric])
  with assms have "map_of (rev xs) k = Some v \<longleftrightarrow> map_of xs k = Some v" for v
    by simp
  then show "map_of (rev xs) k = map_of xs k" by (metis not_None_eq)
qed

lemma map_of_js_entries:
  assumes "distinct (map fst entries)" "inj_on js_decode (fst ` set entries)" "(k, vs) \<in> set entries"
  shows "map_of (rev (js_entries entries)) (js_decode k) = Some (map js_decode vs)"
proof -
  have "map fst (js_entries entries) = map js_decode (map fst entries)"
    by (auto simp: js_entries_def)
  moreover have "inj_on js_decode (set (map fst entries))" using assms(2) by simp
  ultimately have d: "distinct (map fst (js_entries entries))" using assms(1) by (simp only: distinct_map)
  have "(js_decode k, map js_decode vs) \<in> set (js_entries entries)"
    using assms(3) by (force simp: js_entries_def)
  with d show ?thesis by (simp add: distinct_map_of_rev)
qed

text \<open>One round of the loop over the header adds an array and a property.\<close>

lemma WrapHTTPHeader_loop:
  assumes "list_all js_data h1" "header_props (h0 @ JSPlain kvs # h1) kvs hdr"
  shows "\<exists>kvs' h1'. fold (\<lambda>(k, values) h. case js_ValueOf (GoSlice (map GoString values)) h of
        (arr, h') \<Rightarrow> js_Set (JSRef (length h0)) k arr h') entries (h0 @ JSPlain kvs # h1) = h0 @ JSPlain kvs' # h1' \<and>
      list_all js_data h1' \<and> header_props (h0 @ JSPlain kvs' # h1') kvs' (hdr ++ map_of (rev (js_entries entries)))"
  using assms
proof (induction entries arbitrary: kvs h1 hdr)
  case Nil
  then show ?case by (auto simp: js_entries_def)
next
  case (Cons e entries)
  obtain k vals where e: "e = (k, vals)" by (cases e)
  let ?arr = "JSRef (length (h0 @ JSPlain kvs # h1))" and ?h1 = "h1 @ [JSArray (map JSString (map js_decode vals))]"
  let ?kvs = "assoc_set kvs (js_decode k) ?arr"
  have step: "(case js_ValueOf (GoSlice (map GoString vals)) (h0 @ JSPlain kvs # h1) of
      (arr, h') \<Rightarrow> js_Set (JSRef (length h0)) k arr h') = h0 @ JSPlain ?kvs # ?h1"
    using js_Set_new [of h0 k ?arr kvs ?h1] by (simp add: js_New_def)
  have "header_props (h0 @ JSPlain ?kvs # ?h1) kvs hdr"
    using Cons.prems(2)
    by (rule header_props_keep)
      (auto simp: js_deref_def nth_append nth_Cons split: js_value.splits if_splits nat.splits)
  moreover have "js_deref (h0 @ JSPlain ?kvs # ?h1) ?arr = Some (JSArray (map JSString (map js_decode vals)))"
    by (simp add: js_deref_def nth_append)
  ultimately have "header_props (h0 @ JSPlain ?kvs # ?h1) ?kvs (hdr(js_decode k \<mapsto> map js_decode vals))"
    by (rule header_props_set)
  note IH = Cons.IH [OF _ this]
  have m: "hdr ++ map_of (rev (js_entries (e # entries))) =
      hdr(js_decode k \<mapsto> map js_decode vals) ++ map_of (rev (js_entries entries))"
    by (auto simp: e js_entries_def map_add_def fun_eq_iff split: option.split)
  show ?case
    unfolding fold.simps(2) o_apply e prod.case step m [unfolded e]
    by (rule IH) (use Cons.prems(1) in simp)
qed

lemma WrapHTTPHeader_props:
  assumes "WrapHTTPHeader entries h = (obj, h')"
  shows "obj = JSRef (length h) \<and> grows h h' \<and>
    (\<exists>kvs. js_deref h' obj = Some (JSPlain kvs) \<and> header_props h' kvs (map_of (rev (js_entries entries))))"
proof -
  have "header_props (h @ JSPlain [] # []) [] Map.empty" by (simp add: header_props_def)
  then obtain kvs h1 where k: "h' = h @ JSPlain kvs # h1" "list_all js_data h1"
    "header_props (h @ JSPlain kvs # h1) kvs (map_of (rev (js_entries entries)))" "obj = JSRef (length h)"
    using WrapHTTPHeader_loop [of "[]" h "[]" Map.empty entries] assms
    by (auto simp: WrapHTTPHeader_def NewObject_def js_New_def)
  then show ?thesis by (auto simp: grows_def js_deref_def nth_append)
qed

lemma enumerates_js_entries:
  assumes "enumerates entries hdr" "inj_on js_decode (dom hdr)" "hdr k = Some vs"
  shows "map_of (rev (js_entries entries)) (js_decode k) = Some (map js_decode vs)"
proof -
  have "fst ` set entries = dom hdr" using assms(1) by (simp add: enumerates_def flip: dom_map_of_conv_image_fst)
  moreover have "(k, vs) \<in> set entries" using assms(1,3) by (auto simp: enumerates_def intro: map_of_SomeD)
  ultimately show ?thesis using assms(1,2) by (intro map_of_js_entries) (simp_all add: enumerates_def)
qed

section \<open>The response object\<close>

lemma wrapHttpResponse_shape:
  assumes "wrapHttpResponse entries req resp w = (obj, w')"
  shows "\<exists>hv x hkvs. obj = JSRef (length (jw_heap w)) \<and>
    jw_heap w' = jw_heap w @ JSPlain
       [(''url'', JSString (js_decode (url_String (rq_URL req)))),
        (''ok'', JSBool (200 \<le> rs_StatusCode resp \<and> rs_StatusCode resp \<le> 299)), (''headers'', hv),
        (''arrayBuffer'', JSRef (length (jw_heap w) + length x + 2)), (''text'', JSRef (length (jw_heap w) + length x + 3)),
        (''json'', JSRef (length (jw_heap w) + length x + 4)), (''body'', JSRef (length (jw_heap w) + length x + 1)),
        (''bodyUsed'', JSBool False)] # x @
       [JSPlain [], JSFunc MArrayBuffer (length (jw_bodies w)), JSFunc MText (length (jw_bodies w)),
        JSFunc MJson (length (jw_bodies w))] \<and>
    list_all js_data x \<and> js_deref (jw_heap w') hv = Some (JSPlain hkvs) \<and>
    header_props (jw_heap w') hkvs (map_of (rev (js_entries entries))) \<and> jw_bodies w' = jw_bodies w @ [\<lparr>bd_unread = rs_Body resp, bd_err = None\<rparr>] \<and>
    jw_streams w' = jw_streams w @ [\<lparr>rds_ReadCloser = length (jw_bodies w), rds_Consumed = False\<rparr>] \<and>
    jw_goroutines w' = jw_goroutines w"
proof -
  let ?h = "jw_heap w" and ?k = "length (jw_bodies w)"
  let ?P = "[(''url'', JSString (js_decode (url_String (rq_URL req)))),
     (''ok'', JSBool (200 \<le> rs_StatusCode resp \<and> rs_StatusCode resp \<le> 299))]"
  obtain hv h3 where hv: "WrapHTTPHeader entries (?h @ [JSPlain ?P]) = (hv, h3)" by fastforce
  from WrapHTTPHeader_props [OF hv] obtain x hkvs where
    x: "h3 = (?h @ [JSPlain ?P]) @ x" "list_all js_data x" and
    hdr: "js_deref h3 hv = Some (JSPlain hkvs)" "header_props h3 hkvs (map_of (rev (js_entries entries)))"
    "hv = JSRef (Suc (length ?h))"
    by (auto simp: grows_def)
  let ?P' = "?P @ [(''headers'', hv), (''arrayBuffer'', JSRef (length ?h + length x + 2)),
     (''text'', JSRef (length ?h + length x + 3)), (''json'', JSRef (length ?h + length x + 4)),
     (''body'', JSRef (length ?h + length x + 1)), (''bodyUsed'', JSBool False)]"
  let ?h13 = "?h @ JSPlain ?P' # x @ [JSPlain [], JSFunc MArrayBuffer ?k, JSFunc MText ?k, JSFunc MJson ?k]"
  have w': "obj = JSRef (length ?h)" "w' = w\<lparr>jw_heap := ?h13,
      jw_bodies := jw_bodies w @ [\<lparr>bd_unread = rs_Body resp, bd_err = None\<rparr>],
      jw_streams := jw_streams w @ [\<lparr>rds_ReadCloser = ?k, rds_Consumed = False\<rparr>]\<rparr>"
    using assms hv x(1)
    by (simp_all add: wrapHttpResponse_def NewObject_def js_New_def Let_def js_Set_new assoc_set_def
        numeral_eq_Suc)
  have keep: "js_deref ?h13 v = Some d" if "js_deref h3 v = Some d" "v \<noteq> JSRef (length ?h)" for v d
    using that x(1) by (auto simp: js_deref_def nth_append nth_Cons split: js_value.splits if_splits nat.splits)
  have "js_deref ?h13 hv = Some (JSPlain hkvs)" using keep [OF hdr(1)] hdr(3) by simp
  moreover have "header_props ?h13 hkvs (map_of (rev (js_entries entries)))"
    using hdr(2)
  proof (rule header_props_keep)
    fix v vs assume "js_deref h3 v = Some (JSArray vs)"
    moreover from this x(1) have "v \<noteq> JSRef (length ?h)" by (auto simp: js_deref_def nth_append)
    ultimately show "js_deref ?h13 v = Some (JSArray vs)" by (rule keep)
  qed
  ultimately show ?thesis using w' x(2) by (intro exI [of _ hv] exI [of _ x] exI [of _ hkvs]) simp
qed

lemma wrapHttpResponse_wf:
  assumes "js_wf w" "wrapHttpResponse entries req resp w = (obj, w')"
  shows "js_wf w'"
proof -
  note wf = js_wfD [OF assms(1)]
  obtain h1 where h: "jw_heap w' = jw_heap w @ h1" "JSPromise Pending \<notin> set h1"
    "\<And>m k. JSFunc m k \<in> set h1 \<Longrightarrow> k = length (jw_bodies w)"
    and rest: "jw_bodies w' = jw_bodies w @ [\<lparr>bd_unread = rs_Body resp, bd_err = None\<rparr>]"
    "jw_streams w' = jw_streams w @ [\<lparr>rds_ReadCloser = length (jw_bodies w), rds_Consumed = False\<rparr>]"
    "jw_goroutines w' = jw_goroutines w"
    using wrapHttpResponse_shape [OF assms(2)] by (fastforce simp: list_all_iff)
  have "p < length (jw_heap w') \<and> jw_heap w' ! p = JSPromise Pending \<longleftrightarrow>
      p < length (jw_heap w) \<and> jw_heap w ! p = JSPromise Pending" for p
  proof (cases "p < length (jw_heap w)")
    case False
    then have "p < length (jw_heap w') \<Longrightarrow> jw_heap w' ! p \<in> set h1" by (simp add: h(1) nth_append)
    with False h(2) show ?thesis by metis
  qed (simp add: h(1) nth_append)
  moreover have "task_ok w t \<Longrightarrow> task_ok w' t" for t
    using rest by (cases t) (simp_all add: task_ok_def)
  moreover have "k < length (jw_bodies w')" if f: "JSFunc m k \<in> set (jw_heap w')" for m k
    using f h(1,3) rest(1) wf(4) [of m k] by auto
  ultimately show ?thesis
    using wf rest unfolding js_wf_def by (auto intro: less_SucI)
qed

lemma js_wf_empty [simp]: "js_wf \<lparr>jw_heap = [], jw_bodies = [], jw_streams = [], jw_goroutines = []\<rparr>"
  by (simp add: js_wf_def)

section \<open>Properties\<close>

text \<open>
  C24. The body of a response in the browser. In whatever order the page calls text, arrayBuffer and
  json, and in whatever order their goroutines run, the first goroutine to run gets the whole body, and
  every later one gets nothing; each promise is settled once, for good, with what its goroutine got, and
  every pending promise still has a goroutine. What arrayBuffer gives has the very bytes; the text is the
  bytes decoded as UTF-8, which is the body itself when that is UTF-8 without a byte order mark (bytes that
  are not UTF-8 become replacement characters). The object's ok says whether the status is from 200 to 299,
  its headers hold every field as an array of its decoded values, as long as no two names are the same when
  decoded (names in ASCII never are), and bodyUsed says false, even after the body was read.
\<close>

theorem wasm_response_read_once:
  assumes "js_wf w" "enumerates entries (rs_Header resp)" "inj_on js_decode (dom (rs_Header resp))"
    and "wrapHttpResponse entries req resp w = (obj, w1)"
    and "js_run unmarshal acts w1 = Some (es, w2)"
  shows "(body_reads (length (jw_bodies w)) es = [] \<or>
      (\<exists>n. body_reads (length (jw_bodies w)) es = Inr (rs_Body resp) # replicate n (Inr ''''))) \<and>
    (\<forall>e \<in> set es. js_settled (jw_heap w2) (je_promise e) (je_result e) \<and> event_ok unmarshal (jw_heap w2) e) \<and>
    (\<forall>e \<in> set es. \<forall>k d. je_read e = Inr d \<longrightarrow>
       (je_task e = TaskMethod MArrayBuffer k \<longrightarrow>
          (\<exists>v. je_result e = Inr v \<and> js_deref (jw_heap w2) v = Some (JSUint8Array d))) \<and>
       (je_task e = TaskMethod MText k \<longrightarrow> je_result e = Inr (JSString (js_decode d)) \<and>
          (is_utf8 d \<and> take 3 d \<noteq> byte_order_mark \<longrightarrow> je_result e = Inr (JSString d)))) \<and>
    distinct (map je_promise es) \<and> js_wf w2 \<and>
    js_Get (jw_heap w2) obj ''ok'' = Inr (JSBool (200 \<le> rs_StatusCode resp \<and> rs_StatusCode resp \<le> 299)) \<and>
    js_Get (jw_heap w2) obj ''bodyUsed'' = Inr (JSBool False) \<and>
    (\<exists>hdrs. js_Get (jw_heap w2) obj ''headers'' = Inr hdrs \<and>
       (\<forall>k vs. rs_Header resp k = Some vs \<longrightarrow>
          (\<exists>arr. js_Get (jw_heap w2) hdrs k = Inr arr \<and>
             js_deref (jw_heap w2) arr = Some (JSArray (map JSString (map js_decode vs))))))"
proof -
  have wf1: "js_wf w1" using assms(1,4) by (rule wrapHttpResponse_wf)
  obtain kvs hv hkvs where obj: "obj = JSRef (length (jw_heap w))" "js_deref (jw_heap w1) obj = Some (JSPlain kvs)"
    "map_of kvs ''ok'' = Some (JSBool (200 \<le> rs_StatusCode resp \<and> rs_StatusCode resp \<le> 299))"
    "map_of kvs ''bodyUsed'' = Some (JSBool False)" "map_of kvs ''headers'' = Some hv"
    "js_deref (jw_heap w1) hv = Some (JSPlain hkvs)" "header_props (jw_heap w1) hkvs (map_of (rev (js_entries entries)))"
    and body: "jw_bodies w1 = jw_bodies w @ [\<lparr>bd_unread = rs_Body resp, bd_err = None\<rparr>]"
    using wrapHttpResponse_shape [OF assms(4)] by (auto simp: js_deref_def)
  have keep: "keeps (jw_heap w1) (jw_heap w2)" and wf2: "js_wf w2"
    using js_run_wf [OF assms(5) wf1] by blast+
  have obj2: "js_deref (jw_heap w2) obj = Some (JSPlain kvs)" "js_deref (jw_heap w2) hv = Some (JSPlain hkvs)"
    using keeps_deref [OF keep] obj(2,6) by simp_all
  have ref: "js_deref h v = Some x \<Longrightarrow> js_is_ref v" for h v x
    by (auto simp: js_deref_def js_is_ref_def split: js_value.splits)
  have get: "js_Get (jw_heap w2) obj p = Inr (case map_of kvs (js_decode p) of None \<Rightarrow> JSUndefined | Some v \<Rightarrow> v)"
    "js_Get (jw_heap w2) hv p = Inr (case map_of hkvs (js_decode p) of None \<Rightarrow> JSUndefined | Some v \<Rightarrow> v)" for p
    using obj2 ref [OF obj2(1)] ref [OF obj2(2)] by (simp_all add: js_Get_def js_property_def)
  have hdr: "\<exists>arr. js_Get (jw_heap w2) hv k = Inr arr \<and>
      js_deref (jw_heap w2) arr = Some (JSArray (map JSString (map js_decode vs)))"
    if "rs_Header resp k = Some vs" for k vs
    using header_propsD(1) [OF obj(7) enumerates_js_entries [OF assms(2,3) that]] keeps_deref [OF keep]
    by (auto simp: get(2))
  have "body_reads (length (jw_bodies w)) es = [] \<or>
      (\<exists>n. body_reads (length (jw_bodies w)) es = Inr (rs_Body resp) # replicate n (Inr ''''))"
    using js_run_reads [OF assms(5) wf1, of "length (jw_bodies w)"] body by (auto simp: nth_append)
  moreover note settled = js_run_settled [OF assms(5) wf1]
  moreover have "\<forall>e \<in> set es. \<forall>k d. je_read e = Inr d \<longrightarrow>
       (je_task e = TaskMethod MArrayBuffer k \<longrightarrow>
          (\<exists>v. je_result e = Inr v \<and> js_deref (jw_heap w2) v = Some (JSUint8Array d))) \<and>
       (je_task e = TaskMethod MText k \<longrightarrow> je_result e = Inr (JSString (js_decode d)) \<and>
          (is_utf8 d \<and> take 3 d \<noteq> byte_order_mark \<longrightarrow> je_result e = Inr (JSString d)))"
  proof (intro ballI allI impI)
    fix e k d assume e: "e \<in> set es" "je_read e = Inr d"
    have "event_ok unmarshal (jw_heap w2) e" using settled e(1) by blast
    then show "(je_task e = TaskMethod MArrayBuffer k \<longrightarrow>
          (\<exists>v. je_result e = Inr v \<and> js_deref (jw_heap w2) v = Some (JSUint8Array d))) \<and>
       (je_task e = TaskMethod MText k \<longrightarrow> je_result e = Inr (JSString (js_decode d)) \<and>
          (is_utf8 d \<and> take 3 d \<noteq> byte_order_mark \<longrightarrow> je_result e = Inr (JSString d)))"
      using e(2) by (auto simp: event_ok_def js_decode_utf8)
  qed
  ultimately show ?thesis
    using wf2 obj(3-5) hdr by (simp add: get(1) js_decode_utf8)
qed

text \<open>
  The readable stream of a response would not work as one. Its read method resolves its promise with
  the byte array itself and not with the object that has the members done and value: both are
  undefined in what a reader gets.
\<close>

theorem readable_stream_read_has_no_done:
  assumes "js_wf w" "r < length (jw_streams w)" "bd_err (jw_bodies w ! rds_ReadCloser (jw_streams w ! r)) = None"
    and "ReadableStream_ReadJS r w = (p, w1)"
    and "js_exec unmarshal (RunGoroutine (length (jw_goroutines w))) w1 = Some (es, w2)"
  shows "\<exists>v. js_deref (jw_heap w2) p = Some (JSPromise (Fulfilled v)) \<and>
    js_deref (jw_heap w2) v = Some (JSUint8Array (bd_unread (jw_bodies w ! rds_ReadCloser (jw_streams w ! r)))) \<and>
    js_Get (jw_heap w2) v ''done'' = Inr JSUndefined \<and> js_Get (jw_heap w2) v ''value'' = Inr JSUndefined"
proof -
  let ?k = "rds_ReadCloser (jw_streams w ! r)"
  have w1: "p = JSRef (length (jw_heap w))" "w1 = w\<lparr>jw_heap := jw_heap w @ [JSPromise Pending],
      jw_goroutines := jw_goroutines w @ [(length (jw_heap w), TaskReadStream r)]\<rparr>"
    using assms(4) by (auto simp: ReadableStream_ReadJS_def NewGoroutinePromise_def js_New_def)
  note wf = js_wfD [OF assms(1)]
  have "length (jw_heap w) \<notin> fst ` set (jw_goroutines w)" using wf(2) by blast
  moreover have "task_ok w t \<Longrightarrow> task_ok w1 t" for t using w1 by (cases t) (simp_all add: task_ok_def)
  moreover have "task_ok w1 (TaskReadStream r)" using w1 assms(2) by (simp add: task_ok_def)
  ultimately have wf1: "js_wf w1"
    using wf w1 unfolding js_wf_def by (auto simp: nth_append less_Suc_eq)
  have "js_run unmarshal [RunGoroutine (length (jw_goroutines w))] w1 = Some (es, w2)"
    using assms(5) by simp
  from js_run_settled [OF this wf1]
  have ev: "\<forall>e \<in> set es. js_settled (jw_heap w2) (je_promise e) (je_result e) \<and> event_ok unmarshal (jw_heap w2) e"
    by blast
  moreover obtain e where e: "es = [e]" "je_promise e = length (jw_heap w)" "je_task e = TaskReadStream r"
    "je_read e = fst (ReadAndClose (task_body w1 (TaskReadStream r)) w1)"
    using assms(5) w1 by (auto simp: js_exec_def Let_def split: prod.splits)
  moreover have rd: "je_read e = Inr (bd_unread (jw_bodies w ! ?k))"
    unfolding e(4) using assms(3) w1 by (simp add: ReadAndClose_def task_body_def Let_def)
  ultimately have "event_ok unmarshal (jw_heap w2) e" by simp
  then obtain v where v: "je_result e = Inr v"
    "js_deref (jw_heap w2) v = Some (JSUint8Array (bd_unread (jw_bodies w ! ?k)))"
    unfolding event_ok_def rd e(3) by auto
  then have "js_deref (jw_heap w2) p = Some (JSPromise (Fulfilled v))"
    using ev e(1,2) w1(1) by (simp add: js_settled_def)
  moreover have "js_is_ref v" using v(2) by (auto simp: js_deref_def js_is_ref_def split: js_value.splits)
  ultimately show ?thesis using v(2) by (auto simp: js_Get_def js_property_def)
qed

section \<open>Witnesses\<close>

definition demo_world :: js_world where
  "demo_world = \<lparr>jw_heap = [], jw_bodies = [], jw_streams = [], jw_goroutines = []\<rparr>"

definition demo_request :: request where
  "demo_request = \<lparr>rq_Method = ''GET'',
     rq_URL = \<lparr>url_Scheme = ''http'', url_Host = ''a'', url_Path = ''/x'', url_RawPath = '''', url_RawQuery = ''''\<rparr>,
     rq_Host = ''a'', rq_Header = Map.empty, rq_Body = '''', rq_ProtoMajor = 1, rq_ProtoMinor = 1, rq_TLS = None,
     rq_RequestURI = ''''\<rparr>"

definition demo_response :: response where
  "demo_response = \<lparr>rs_StatusCode = 200, rs_Header = [''Server'' \<mapsto> [''a'', ''b'']], rs_Body = ''hi'', rs_ContentLength = 2\<rparr>"

text \<open>The page calls text and then arrayBuffer, and the second goroutine runs first.\<close>

definition demo_actions :: "js_action list" where
  "demo_actions = [CallMethod (JSRef 5), CallMethod (JSRef 4), RunGoroutine 1, RunGoroutine 0]"

definition demo_wrapped :: js_world where
  "demo_wrapped = \<lparr>jw_heap =
      [JSPlain [(''url'', JSString (js_decode (url_String (rq_URL demo_request)))), (''ok'', JSBool True), (''headers'', JSRef (Suc 0)),
         (''arrayBuffer'', JSRef 4), (''text'', JSRef 5), (''json'', JSRef 6), (''body'', JSRef 3),
         (''bodyUsed'', JSBool False)],
       JSPlain [(''Server'', JSRef 2)], JSArray [JSString ''a'', JSString ''b''], JSPlain [],
       JSFunc MArrayBuffer 0, JSFunc MText 0, JSFunc MJson 0],
     jw_bodies = [\<lparr>bd_unread = ''hi'', bd_err = None\<rparr>],
     jw_streams = [\<lparr>rds_ReadCloser = 0, rds_Consumed = False\<rparr>], jw_goroutines = []\<rparr>"

lemma js_Set_first:
  "js_Set (JSRef 0) p v (JSPlain kvs # h) = JSPlain (assoc_set kvs (js_decode p) v) # h"
  "js_Set (JSRef (Suc 0)) p v (obj # JSPlain kvs # h) = obj # JSPlain (assoc_set kvs (js_decode p) v) # h"
  by (simp_all add: js_Set_def js_deref_def)

lemma demo_run:
  "case wrapHttpResponse [(''Server'', [''a'', ''b''])] demo_request demo_response demo_world of
     (obj, w1) \<Rightarrow>
       (case js_run (\<lambda>_. Inl ''bad'') demo_actions w1 of
          None \<Rightarrow> False
        | Some (es, w2) \<Rightarrow> map je_promise es = [8, 7] \<and> body_reads 0 es = [Inr ''hi'', Inr ''''])"
proof -
  have "wrapHttpResponse [(''Server'', [''a'', ''b''])] demo_request demo_response demo_world = (JSRef 0, demo_wrapped)"
    by (simp add: wrapHttpResponse_def WrapHTTPHeader_def NewObject_def js_New_def js_Set_first
        assoc_set_def demo_world_def demo_response_def demo_wrapped_def Let_def)
  moreover have "case js_run (\<lambda>_. Inl ''bad'') demo_actions demo_wrapped of
      None \<Rightarrow> False
    | Some (es, w2) \<Rightarrow> map je_promise es = [8, 7] \<and> body_reads 0 es = [Inr ''hi'', Inr '''']"
    by (simp add: js_exec_def demo_actions_def demo_wrapped_def js_deref_def NewGoroutinePromise_def js_New_def
        js_run_task_def ReadAndClose_def task_body_def js_body_value_def settle_promise_def settle_def body_reads_def
        Let_def)
  ultimately show ?thesis by simp
qed

theorem wasm_response_read_once_witness:
  "\<exists>obj w1 es w2. wrapHttpResponse [(''Server'', [''a'', ''b''])] demo_request demo_response demo_world = (obj, w1) \<and>
     js_run (\<lambda>_. Inl ''bad'') demo_actions w1 = Some (es, w2) \<and> body_reads 0 es = [Inr ''hi'', Inr ''''] \<and>
     js_Get (jw_heap w2) obj ''bodyUsed'' = Inr (JSBool False)"
proof -
  obtain obj w1 es w2 where r: "wrapHttpResponse [(''Server'', [''a'', ''b''])] demo_request demo_response demo_world = (obj, w1)"
    "js_run (\<lambda>_. Inl ''bad'') demo_actions w1 = Some (es, w2)" "body_reads 0 es = [Inr ''hi'', Inr '''']"
    using demo_run by (auto split: prod.splits option.splits)
  have "js_wf demo_world" unfolding demo_world_def by (rule js_wf_empty)
  moreover have "enumerates [(''Server'', [''a'', ''b''])] (rs_Header demo_response)"
    by (simp add: enumerates_def demo_response_def)
  moreover have "inj_on js_decode (dom (rs_Header demo_response))" by (simp add: demo_response_def)
  ultimately have "js_Get (jw_heap w2) obj ''bodyUsed'' = Inr (JSBool False)"
    using wasm_response_read_once [OF _ _ _ r(1,2)] by blast
  with r show ?thesis by blast
qed

definition stream_world :: js_world where
  "stream_world = \<lparr>jw_heap = [], jw_bodies = [\<lparr>bd_unread = ''hi'', bd_err = None\<rparr>],
     jw_streams = [\<lparr>rds_ReadCloser = 0, rds_Consumed = False\<rparr>], jw_goroutines = []\<rparr>"

theorem readable_stream_read_has_no_done_witness:
  "\<exists>p w1 es w2 v. ReadableStream_ReadJS 0 stream_world = (p, w1) \<and>
     js_exec (\<lambda>_. Inl ''bad'') (RunGoroutine 0) w1 = Some (es, w2) \<and>
     js_deref (jw_heap w2) p = Some (JSPromise (Fulfilled v)) \<and> js_Get (jw_heap w2) v ''done'' = Inr JSUndefined"
proof -
  obtain p w1 where p: "ReadableStream_ReadJS 0 stream_world = (p, w1)" by fastforce
  then have "jw_goroutines w1 = [(0, TaskReadStream 0)]"
    by (auto simp: ReadableStream_ReadJS_def NewGoroutinePromise_def js_New_def stream_world_def)
  then obtain es w2 where e: "js_exec (\<lambda>_. Inl ''bad'') (RunGoroutine (length (jw_goroutines stream_world))) w1 = Some (es, w2)"
    by (simp add: js_exec_def stream_world_def case_prod_beta Let_def)
  have "js_wf stream_world" by (simp add: js_wf_def stream_world_def)
  with readable_stream_read_has_no_done [of stream_world 0 p w1, OF _ _ _ p e] p e show ?thesis
    by (auto simp: stream_world_def)
qed

end
