(* ===== verification/Wasm_Client.thy ===== *)
theory Wasm_Client
  imports Cert_Manager Wrap_Router Js_Response
begin

text \<open>
  The browser client (cmd/wasm): TLSRequest reads a request from JavaScript values, picks one of the two
  clients by the scheme of the server's base address and gives the page a promise of the response
  object of \<open>Js_Response\<close>. \<open>url.Parse\<close>, \<open>http.NewRequest\<close> and what JavaScript leaves open (how a number
  prints, what a number too large for int64 is cut to) are parameters.
\<close>

record js_runtime =
  rt_numStr :: "rat \<Rightarrow> string"
  rt_outOfRange :: int

section \<open>The request\<close>

definition js_CopyBytesToGo :: "js_heap \<Rightarrow> nat \<Rightarrow> js_value \<Rightarrow> string go" where
  "js_CopyBytesToGo h n src =
     (case js_deref h src of
        Some (JSUint8Array bs) \<Rightarrow> Inr (take n bs @ replicate (n - length bs) (CHR 0x00))
      | _ \<Rightarrow> Inl (PanicWith
          ''syscall/js: CopyBytesToGo: expected src to be a Uint8Array or Uint8ClampedArray''))"

definition copyFromUInt8Array :: "js_runtime \<Rightarrow> js_heap \<Rightarrow> js_value \<Rightarrow> string go" where
  "copyFromUInt8Array rt h arrayJSObj =
     go_bind (js_Get h arrayJSObj ''byteLength'') (\<lambda>bl.
     go_bind (js_Int (rt_outOfRange rt) h bl) (\<lambda>byteLength.
       if byteLength < 0 then Inl (PanicWith ''runtime error: makeslice: len out of range'')
       else js_CopyBytesToGo h (nat byteLength) arrayJSObj))"

definition js_header_value :: "js_runtime \<Rightarrow> js_heap \<Rightarrow> js_value \<Rightarrow> string go" where
  "js_header_value rt h headerValue =
     (case headerValue of
        JSNumber _ \<Rightarrow> go_bind (js_Int (rt_outOfRange rt) h headerValue) (\<lambda>i. Inr (show_int i))
      | _ \<Rightarrow> Inr (js_String (rt_numStr rt) h headerValue))"

text \<open>The loop over the keys of the headers object.\<close>

fun js_header_loop :: "js_runtime \<Rightarrow> js_heap \<Rightarrow> js_value \<Rightarrow> string list \<Rightarrow> header \<Rightarrow> header go" where
  "js_header_loop rt h headersJSObj [] httpHeader = Inr httpHeader"
| "js_header_loop rt h headersJSObj (headerKey # keys) httpHeader =
     go_bind (js_Get h headersJSObj headerKey) (\<lambda>headerValue.
     go_bind (js_header_value rt h headerValue) (\<lambda>headerValueStr.
       js_header_loop rt h headersJSObj keys (header_Set httpHeader headerKey headerValueStr)))"

definition js_header :: "js_runtime \<Rightarrow> js_heap \<Rightarrow> js_value \<Rightarrow> header go" where
  "js_header rt h headersJSObj =
     go_bind (js_Object_keys h headersJSObj) (\<lambda>headerKeysArray.
       js_header_loop rt h headersJSObj headerKeysArray Map.empty)"

definition js_member_String :: "js_runtime \<Rightarrow> js_heap \<Rightarrow> js_value \<Rightarrow> string \<Rightarrow> string go" where
  "js_member_String rt h obj p = go_bind (js_Get h obj p) (\<lambda>v. Inr (js_String (rt_numStr rt) h v))"

definition parseTLSParamObject ::
    "x509_lib \<Rightarrow> js_runtime \<Rightarrow> js_heap \<Rightarrow> js_value \<Rightarrow> (string \<times> client_tls_config_factory) go" where
  "parseTLSParamObject xl rt h tlsJSObj =
     go_bind (js_member_String rt h tlsJSObj ''serverBaseUrl'') (\<lambda>serverBaseUrl.
     go_bind (js_member_String rt h tlsJSObj ''selfKey'') (\<lambda>selfKeyData.
     go_bind (js_member_String rt h tlsJSObj ''selfCert'') (\<lambda>selfCertData.
     go_bind (js_member_String rt h tlsJSObj ''parentCert'') (\<lambda>parentCertData.
     go_bind (ParsePKCS8PEMPrivateKeyFromData xl selfKeyData) (\<lambda>selfKey.
     go_bind (ParseX509CertificateFromData xl selfCertData) (\<lambda>selfCert.
     go_bind (ParseX509CertificateFromData xl parentCertData) (\<lambda>parentCert.
       Inr (serverBaseUrl,
            \<lparr>ctf_SelfKey = selfKey, ctf_SelfCert = selfCert, ctf_ParentCert = parentCert\<rparr>))))))))"

definition parseUnderlyingProtocol :: "(string \<Rightarrow> go_error + string) \<Rightarrow> string \<Rightarrow> string go" where
  "parseUnderlyingProtocol parseScheme serverBaseUrl =
     (case parseScheme serverBaseUrl of
        Inl err \<Rightarrow> Inl (PanicWith (errors_Wrap err ''invalid server base url''))
      | Inr scheme \<Rightarrow> Inr scheme)"

text \<open>
  TLSRequest up to the promise: the request, the base address, the factory and the scheme. All this
  runs in the call from JavaScript, where a panic ends the Go program.
\<close>

definition tls_request_params ::
    "x509_lib \<Rightarrow> (string \<Rightarrow> go_error + string) \<Rightarrow> new_request \<Rightarrow> js_runtime \<Rightarrow> js_heap \<Rightarrow> js_value list \<Rightarrow>
     (request \<times> string \<times> client_tls_config_factory \<times> string) go" where
  "tls_request_params xl parseScheme httpNewRequest rt h args =
     go_bind (go_index args 0) (\<lambda>arg0.
     let urlInRequest = js_String (rt_numStr rt) h arg0
     in go_bind (go_index args 1) (\<lambda>requestInfoJSObject.
        go_bind (js_member_String rt h requestInfoJSObject ''method'') (\<lambda>method.
        go_bind (js_Get h requestInfoJSObject ''headers'') (\<lambda>headersJSObj.
        go_bind (js_header rt h headersJSObj) (\<lambda>httpHeader.
        go_bind (js_Get h requestInfoJSObject ''body'') (\<lambda>bodyUnit8Array.
        go_bind (copyFromUInt8Array rt h bodyUnit8Array) (\<lambda>bodyData.
        case httpNewRequest method urlInRequest bodyData of
          Inl err \<Rightarrow> Inl (PanicWith (errors_Wrap err ''new request''))
        | Inr req0 \<Rightarrow>
            (let req = req0\<lparr>rq_Header := httpHeader\<rparr>
             in go_bind (js_Get h requestInfoJSObject ''tls'') (\<lambda>tlsJSObj.
                go_bind (parseTLSParamObject xl rt h tlsJSObj) (\<lambda>(serverBaseUrl, factory).
                go_bind (parseUnderlyingProtocol parseScheme serverBaseUrl) (\<lambda>underlyingProtocol.
                  Inr (req, serverBaseUrl, factory, underlyingProtocol))))))))))))"

section \<open>The promise\<close>

text \<open>
  The client that the promise uses. The state below the HTTP client and the one below the web socket
  are a pair; an unknown scheme panics.
\<close>

definition tls_request_client ::
    "'w http_service \<Rightarrow> 'p pipe_ops \<Rightarrow> ('p mock_client \<times> 'w) tls_ops \<Rightarrow>
     't ws_ops \<Rightarrow> 't tls_ops \<Rightarrow>
     request \<Rightarrow> string \<Rightarrow> client_tls_config_factory \<Rightarrow> string \<Rightarrow> 'w \<times> 't \<Rightarrow> ((go_error + response) \<times> 'w \<times> 't) outcome" where
  "tls_request_client http po httpTls ws wsTls req serverBaseUrl factory underlyingProtocol st =
     (let tlsConfig = NewClientConfig factory
      in if underlyingProtocol = ''ws'' \<or> underlyingProtocol = ''wss'' then
           outcome_bind (NewWSClient ws wsTls serverBaseUrl tlsConfig req (snd st))
             (\<lambda>(res, t'). Returns (res, fst st, t'))
         else if underlyingProtocol = ''http'' \<or> underlyingProtocol = ''https'' then
           outcome_bind (NewHttpClient http po httpTls (serverBaseUrl @ ''/http'') tlsConfig req (fst st))
             (\<lambda>(res, w'). Returns (res, w', snd st))
         else Panics (PanicWith (''invalid underlying protocol:'' @ underlyingProtocol)))"

text \<open>
  What the function of the promise returns: the response object, or the error of the client.
  \<open>entries\<close> is the order in which Go ranges over a header. The goroutine of the promise p then settles it.
\<close>

definition tls_request_answer ::
    "(header \<Rightarrow> (string \<times> string list) list) \<Rightarrow> request \<Rightarrow> go_error + response \<Rightarrow> js_world \<Rightarrow>
     (go_error + js_value) \<times> js_world" where
  "tls_request_answer entries req res jw =
     (case res of
        Inl err \<Rightarrow> (Inl (errors_Wrap err ''do tls request''), jw)
      | Inr resp \<Rightarrow>
          (case wrapHttpResponse (entries (rs_Header resp)) req resp jw of (obj, jw1) \<Rightarrow> (Inr obj, jw1)))"

definition tls_request_goroutine ::
    "(header \<Rightarrow> (string \<times> string list) list) \<Rightarrow>
     'w http_service \<Rightarrow> 'p pipe_ops \<Rightarrow> ('p mock_client \<times> 'w) tls_ops \<Rightarrow>
     't ws_ops \<Rightarrow> 't tls_ops \<Rightarrow>
     request \<Rightarrow> string \<Rightarrow> client_tls_config_factory \<Rightarrow> string \<Rightarrow> nat \<Rightarrow> js_world \<Rightarrow> 'w \<times> 't \<Rightarrow>
     (js_world \<times> 'w \<times> 't) outcome" where
  "tls_request_goroutine entries http po httpTls ws wsTls req serverBaseUrl factory underlyingProtocol p jw st =
     outcome_bind (tls_request_client http po httpTls ws wsTls req serverBaseUrl factory underlyingProtocol st)
       (\<lambda>(res, st').
          case tls_request_answer entries req res jw of
            (settled, jw') \<Rightarrow> Returns (jw'\<lparr>jw_heap := settle_promise p settled (jw_heap jw')\<rparr>, st'))"

text \<open>\<open>main\<close> makes TLSRequest a member of the global object RequestWASM and then waits for ever.\<close>

definition wasm_main :: "js_value \<Rightarrow> js_heap \<Rightarrow> js_heap" where
  "wasm_main global h =
     (case NewObject h of
        (requestWASMObj, h1) \<Rightarrow>
          (case js_New JSTLSRequestFunc h1 of
             (tlsRequest, h2) \<Rightarrow>
               js_Set global ''RequestWASM'' requestWASMObj (js_Set requestWASMObj ''tlsRequest'' tlsRequest h2)))"

section \<open>Properties of the request\<close>

lemma js_header_loop_Get:
  assumes "js_header_loop rt h obj keys hdr0 = Inr hdr"
  shows "header_Get hdr k =
    (case find (\<lambda>j. canonical_key j = canonical_key k) (rev keys) of
       None \<Rightarrow> header_Get hdr0 k
     | Some j \<Rightarrow> (case go_bind (js_Get h obj j) (js_header_value rt h) of Inl _ \<Rightarrow> '''' | Inr s \<Rightarrow> s))"
  using assms
proof (induction keys arbitrary: hdr0)
  case (Cons j keys)
  then obtain v s where v: "js_Get h obj j = Inr v" "js_header_value rt h v = Inr s"
    "js_header_loop rt h obj keys (header_Set hdr0 j s) = Inr hdr"
    by (auto simp: go_bind_eq_Inr_iff)
  with Cons.IH [OF v(3)] show ?case
    by (auto simp: find_append header_Get_Set split: option.split)
qed simp

text \<open>The value that the headers object of the page gives a header: that of its last key up to case.\<close>

definition page_header :: "js_runtime \<Rightarrow> js_heap \<Rightarrow> js_value \<Rightarrow> string list \<Rightarrow> string \<Rightarrow> string" where
  "page_header rt h hdrs keys k =
     (case find (\<lambda>j. canonical_key j = canonical_key k) (rev keys) of
        None \<Rightarrow> ''''
      | Some j \<Rightarrow> (case go_bind (js_Get h hdrs j) (js_header_value rt h) of Inl _ \<Rightarrow> '''' | Inr s \<Rightarrow> s))"

lemma js_header_Get:
  assumes "js_header rt h hdrs = Inr hdr" "js_Object_keys h hdrs = Inr keys"
  shows "header_Get hdr k = page_header rt h hdrs keys k"
proof -
  have e: "header_Get Map.empty k = ''''" by (simp add: header_Get_def)
  have "js_header_loop rt h hdrs keys Map.empty = Inr hdr"
    using assms by (simp add: js_header_def)
  from js_header_loop_Get [OF this, of k, unfolded e] show ?thesis by (simp add: page_header_def)
qed

lemma copyFromUInt8Array_eq:
  assumes "js_deref h v = Some (JSUint8Array bs)" "int (length bs) < 2 ^ 63"
  shows "copyFromUInt8Array rt h v = Inr bs"
proof -
  have "js_is_ref v" using assms(1) by (auto simp: js_deref_def js_is_ref_def split: js_value.splits)
  moreover have "js_trunc (of_nat (length bs)) = int (length bs)" by (simp add: js_trunc_def)
  ultimately show ?thesis
    using assms by (simp add: copyFromUInt8Array_def js_Get_def js_property_def js_Int_def js_CopyBytesToGo_def)
qed

lemma copyFromUInt8Array_Inr:
  "copyFromUInt8Array rt h v = Inr b \<Longrightarrow> \<exists>bs. js_deref h v = Some (JSUint8Array bs)"
  by (auto simp: copyFromUInt8Array_def go_bind_eq_Inr_iff js_CopyBytesToGo_def
      split: if_splits option.splits js_object.splits)

lemma tls_request_params_cases:
  assumes "tls_request_params xl parseScheme httpNewRequest rt h [url, info] = Inr (req, base, f, proto)"
  obtains meth hdrs hdr body b req0 tlsObj where
    "js_member_String rt h info ''method'' = Inr meth" "js_Get h info ''headers'' = Inr hdrs"
    "js_header rt h hdrs = Inr hdr" "js_Get h info ''body'' = Inr body" "copyFromUInt8Array rt h body = Inr b"
    "httpNewRequest meth (js_String (rt_numStr rt) h url) b = Inr req0" "req = req0\<lparr>rq_Header := hdr\<rparr>"
    "js_Get h info ''tls'' = Inr tlsObj" "parseTLSParamObject xl rt h tlsObj = Inr (base, f)"
proof -
  obtain meth hdrs hdr body b where
    m: "js_member_String rt h info ''method'' = Inr meth" "js_Get h info ''headers'' = Inr hdrs"
    "js_header rt h hdrs = Inr hdr" "js_Get h info ''body'' = Inr body" "copyFromUInt8Array rt h body = Inr b"
    and r: "(case httpNewRequest meth (js_String (rt_numStr rt) h url) b of
        Inl err \<Rightarrow> Inl (PanicWith (errors_Wrap err ''new request''))
      | Inr req0 \<Rightarrow>
          (let req = req0\<lparr>rq_Header := hdr\<rparr>
           in go_bind (js_Get h info ''tls'') (\<lambda>tlsJSObj.
              go_bind (parseTLSParamObject xl rt h tlsJSObj) (\<lambda>(serverBaseUrl, factory).
              go_bind (parseUnderlyingProtocol parseScheme serverBaseUrl) (\<lambda>underlyingProtocol.
                Inr (req, serverBaseUrl, factory, underlyingProtocol)))))) = Inr (req, base, f, proto)"
    using assms by (auto simp: tls_request_params_def go_bind_eq_Inr_iff go_index_def Let_def)
  obtain req0 where req0: "httpNewRequest meth (js_String (rt_numStr rt) h url) b = Inr req0"
    using r by (cases "httpNewRequest meth (js_String (rt_numStr rt) h url) b") auto
  with r that [OF m req0] show thesis by (auto simp: go_bind_eq_Inr_iff Let_def)
qed

text \<open>
  C22. What TLSRequest makes of the request object. When it gets as far as the promise, the body member
  was a byte array and the request has exactly its bytes (a request without a body, as fetch allows
  it, panics in the call), and each header has the value of the last of the object's keys that are the
  same up to case: a number without its fraction, a text as it is, and anything else as the type in
  angle brackets.
\<close>

theorem tls_request_reads_js_object:
  assumes "tls_request_params xl parseScheme httpNewRequest rt h [url, info] = Inr (req, base, f, proto)"
  shows "\<exists>body bs hdrs keys meth.
    js_Get h info ''body'' = Inr body \<and> js_deref h body = Some (JSUint8Array bs) \<and>
    (int (length bs) < 2 ^ 63 \<longrightarrow>
       (\<exists>req0. httpNewRequest meth (js_String (rt_numStr rt) h url) bs = Inr req0 \<and>
          req = req0\<lparr>rq_Header := rq_Header req\<rparr>)) \<and>
    js_member_String rt h info ''method'' = Inr meth \<and>
    js_Get h info ''headers'' = Inr hdrs \<and> js_Object_keys h hdrs = Inr keys \<and>
    (\<forall>k. header_Get (rq_Header req) k = page_header rt h hdrs keys k)"
proof -
  obtain meth hdrs hdr body b req0 where
    m: "js_member_String rt h info ''method'' = Inr meth" "js_Get h info ''headers'' = Inr hdrs"
    "js_header rt h hdrs = Inr hdr" "js_Get h info ''body'' = Inr body" "copyFromUInt8Array rt h body = Inr b"
    and req: "httpNewRequest meth (js_String (rt_numStr rt) h url) b = Inr req0" "req = req0\<lparr>rq_Header := hdr\<rparr>"
    using assms by (rule tls_request_params_cases)
  obtain bs where bs: "js_deref h body = Some (JSUint8Array bs)" using copyFromUInt8Array_Inr [OF m(5)] ..
  have "int (length bs) < 2 ^ 63 \<Longrightarrow> b = bs" using copyFromUInt8Array_eq [OF bs] m(5) by simp
  moreover obtain keys where keys: "js_Object_keys h hdrs = Inr keys"
    using m(3) by (auto simp: js_header_def go_bind_eq_Inr_iff)
  ultimately show ?thesis
    using m(1,2,4) bs req js_header_Get [OF m(3) keys]
    by - (rule exI [of _ body], rule exI [of _ bs], rule exI [of _ hdrs], rule exI [of _ keys],
        rule exI [of _ meth], auto)
qed

section \<open>Properties of the promise\<close>

text \<open>
  C23. How the promise of TLSRequest ends. Its goroutine either panics, for a scheme that is not one of
  four or where the client panics, or it settles the promise for good: with the response object for
  the response of the client that goes with the scheme, the web socket client at the base address or the
  HTTP session client below its path /http, or with an Error whose message starts with what was done.
\<close>

theorem wasm_request_promise:
  assumes "js_wf jw" "p < length (jw_heap jw)" "jw_heap jw ! p = JSPromise Pending"
    and "tls_request_goroutine entries http po httpTls ws wsTls req base f proto p jw st = Returns (jw', st')"
  shows "\<exists>res.
    (if proto = ''ws'' \<or> proto = ''wss''
     then NewWSClient ws wsTls base (NewClientConfig f) req (snd st) = Returns (res, snd st') \<and> fst st' = fst st
     else (proto = ''http'' \<or> proto = ''https'') \<and> snd st' = snd st \<and>
       NewHttpClient http po httpTls (base @ ''/http'') (NewClientConfig f) req (fst st) = Returns (res, fst st')) \<and>
    (case res of
       Inl err \<Rightarrow> js_settled (jw_heap jw') p (Inl (''do tls request: '' @ err))
     | Inr resp \<Rightarrow> (\<exists>obj jw1. wrapHttpResponse (entries (rs_Header resp)) req resp jw = (obj, jw1) \<and>
         js_settled (jw_heap jw') p (Inr obj) \<and> jw_bodies jw' = jw_bodies jw1))"
proof -
  obtain res st1 where c1: "tls_request_client http po httpTls ws wsTls req base f proto st = Returns (res, st1)"
    using assms(4) by (fastforce simp: tls_request_goroutine_def outcome_bind_Returns)
  obtain r jw1 where a: "tls_request_answer entries req res jw = (r, jw1)" by fastforce
  have jw': "jw' = jw1\<lparr>jw_heap := settle_promise p r (jw_heap jw1)\<rparr>"
    and c: "tls_request_client http po httpTls ws wsTls req base f proto st = Returns (res, st')"
    using assms(4) c1 a by (simp_all add: tls_request_goroutine_def)
  have settled: "js_settled (settle_promise p r h) p r" if "p < length h" "h ! p = JSPromise Pending" for r h
    using settle_promise_frame [OF that, of r] by blast
  have "case res of
       Inl err \<Rightarrow> js_settled (jw_heap jw') p (Inl (''do tls request: '' @ err))
     | Inr resp \<Rightarrow> (\<exists>obj jw1. wrapHttpResponse (entries (rs_Header resp)) req resp jw = (obj, jw1) \<and>
         js_settled (jw_heap jw') p (Inr obj) \<and> jw_bodies jw' = jw_bodies jw1)"
  proof (cases res)
    case (Inl err)
    with settled [OF assms(2,3)] a jw' show ?thesis by (auto simp: tls_request_answer_def errors_Wrap_def)
  next
    case (Inr resp)
    obtain obj jw1 where w: "wrapHttpResponse (entries (rs_Header resp)) req resp jw = (obj, jw1)" by fastforce
    have "p < length (jw_heap jw1)" "jw_heap jw1 ! p = JSPromise Pending"
      using wrapHttpResponse_shape [OF w] assms(2,3) by (auto simp: nth_append)
    with settled w Inr a jw' show ?thesis by (auto simp: tls_request_answer_def)
  qed
  moreover have "if proto = ''ws'' \<or> proto = ''wss''
     then NewWSClient ws wsTls base (NewClientConfig f) req (snd st) = Returns (res, snd st') \<and> fst st' = fst st
     else (proto = ''http'' \<or> proto = ''https'') \<and> snd st' = snd st \<and>
       NewHttpClient http po httpTls (base @ ''/http'') (NewClientConfig f) req (fst st) = Returns (res, fst st')"
    using c by (auto simp: tls_request_client_def Let_def outcome_bind_Returns split: if_splits)
  ultimately show ?thesis by blast
qed

section \<open>Witnesses\<close>

definition demo_runtime :: js_runtime where
  "demo_runtime = \<lparr>rt_numStr = (\<lambda>_. ''1''), rt_outOfRange = 0\<rparr>"

text \<open>The page's request object with a fraction, a boolean and two spellings of one header.\<close>

definition demo_heap :: js_heap where
  "demo_heap =
     [JSPlain [(''method'', JSString ''POST''), (''headers'', JSRef (Suc 0)), (''body'', JSRef 2), (''tls'', JSRef 3)],
      JSPlain [(''x-request-url'', JSString ''a''), (''X-Request-Url'', JSNumber (5 / 2)), (''server'', JSBool True)],
      JSUint8Array ''data'',
      JSPlain [(''serverBaseUrl'', JSString ''ws://a''),
        (''selfKey'', JSString (pem_EncodeToMemory \<lparr>pb_Type = ''PRIVATE KEY'', pb_Bytes = ''key''\<rparr>)),
        (''selfCert'', JSString (pem_EncodeToMemory \<lparr>pb_Type = ''CERTIFICATE'', pb_Bytes = ''der''\<rparr>)),
        (''parentCert'', JSString (pem_EncodeToMemory \<lparr>pb_Type = ''CERTIFICATE'', pb_Bytes = ''root''\<rparr>))]]"

lemma demo_heap_Get:
  "js_Get demo_heap (JSRef 0) ''method'' = Inr (JSString ''POST'')"
  "js_Get demo_heap (JSRef 0) ''headers'' = Inr (JSRef (Suc 0))"
  "js_Get demo_heap (JSRef 0) ''body'' = Inr (JSRef 2)"
  "js_Get demo_heap (JSRef 0) ''tls'' = Inr (JSRef 3)"
  "js_Get demo_heap (JSRef 2) ''byteLength'' = Inr (JSNumber 4)"
  "js_deref demo_heap (JSRef 2) = Some (JSUint8Array ''data'')"
  "js_Object_keys demo_heap (JSRef (Suc 0)) = Inr [''x-request-url'', ''X-Request-Url'', ''server'']"
  "js_Get demo_heap (JSRef (Suc 0)) ''x-request-url'' = Inr (JSString ''a'')"
  "js_Get demo_heap (JSRef (Suc 0)) ''X-Request-Url'' = Inr (JSNumber (5 / 2))"
  "js_Get demo_heap (JSRef (Suc 0)) ''server'' = Inr (JSBool True)"
  by (simp_all add: demo_heap_def js_Get_def js_is_ref_def js_deref_def js_property_def js_Object_keys_def)

lemma demo_heap_tls:
  "parseTLSParamObject toy_x509 demo_runtime demo_heap (JSRef 3) =
     Inr (''ws://a'', \<lparr>ctf_SelfKey = ''key'',
       ctf_SelfCert = \<lparr>ct_Raw = ''der'', ct_Subject = toy_subject, ct_PublicKey = ''der''\<rparr>,
       ctf_ParentCert = \<lparr>ct_Raw = ''root'', ct_Subject = toy_subject, ct_PublicKey = ''root''\<rparr>\<rparr>)"
  by (simp add: parseTLSParamObject_def js_member_String_def js_String_def demo_heap_def js_Get_def js_is_ref_def
      js_deref_def js_property_def ParsePKCS8PEMPrivateKeyFromData_def ParseX509CertificateFromData_def toy_x509_def
      assert_rsa_def)

lemma demo_header:
  "\<exists>hdr. js_header demo_runtime demo_heap (JSRef (Suc 0)) = Inr hdr"
  by (simp add: js_header_def demo_heap_Get js_header_value_def js_Int_def js_String_def)

theorem tls_request_reads_js_object_witness:
  "\<exists>req base f proto. tls_request_params toy_x509 (\<lambda>_. Inr ''ws'') sample_NewRequest demo_runtime demo_heap
       [JSString ''http://storage/x'', JSRef 0] = Inr (req, base, f, proto) \<and>
     header_Get (rq_Header req) ''X-Request-Url'' = ''2'' \<and> header_Get (rq_Header req) ''Server'' = ''<boolean: true>''"
proof -
  obtain hdr where "js_header demo_runtime demo_heap (JSRef (Suc 0)) = Inr hdr" using demo_header ..
  moreover have "copyFromUInt8Array demo_runtime demo_heap (JSRef 2) = Inr ''data''"
    by (rule copyFromUInt8Array_eq) (simp_all add: demo_heap_Get)
  ultimately obtain req base f proto where
    r: "tls_request_params toy_x509 (\<lambda>_. Inr ''ws'') sample_NewRequest demo_runtime demo_heap
      [JSString ''http://storage/x'', JSRef 0] = Inr (req, base, f, proto)"
    by (simp add: tls_request_params_def js_member_String_def demo_heap_Get js_String_def sample_NewRequest_def
        demo_heap_tls parseUnderlyingProtocol_def)
  have c: "canonical_key ''x-request-url'' = ''X-Request-Url''" "canonical_key ''server'' = ''Server''"
    "canonical_key ''Server'' = ''Server''" by code_simp+
  have n: "show_int 2 = ''2''" "js_trunc (5 / 2) = 2" by (code_simp, simp add: js_trunc_def floor_eq_iff)
  from tls_request_reads_js_object [OF r] obtain hdrs keys where
    h: "js_Get demo_heap (JSRef 0) ''headers'' = Inr hdrs" "js_Object_keys demo_heap hdrs = Inr keys"
    and g: "\<forall>k. header_Get (rq_Header req) k =
       page_header demo_runtime demo_heap hdrs keys k"
    by blast
  have "hdrs = JSRef (Suc 0)" using h(1) by (simp add: demo_heap_Get)
  moreover from this h(2) have "keys = [''x-request-url'', ''X-Request-Url'', ''server'']"
    by (simp add: demo_heap_Get)
  ultimately have "header_Get (rq_Header req) ''X-Request-Url'' = ''2''"
    "header_Get (rq_Header req) ''Server'' = ''<boolean: true>''"
    using g c n by (simp_all add: page_header_def demo_heap_Get js_header_value_def js_Int_def js_String_def)
  with r show ?thesis by blast
qed

text \<open>A page that has one pending promise, which a call of text has made.\<close>

definition pending_world :: js_world where
  "pending_world = \<lparr>jw_heap = [JSPromise Pending], jw_bodies = [\<lparr>bd_unread = '''', bd_err = None\<rparr>], jw_streams = [],
     jw_goroutines = [(0, TaskMethod MText 0)]\<rparr>"

theorem wasm_request_promise_witness:
  "\<exists>jw' st'. tls_request_goroutine (\<lambda>_. []) echo_routes chunk_pipe (sample_tls (Inl ''EOF'')) (sample_ws (Inr ()))
       (sample_tls (Inl ''EOF'')) sample_caller ''ws://a'' sample_factory ''ws'' 0 pending_world (new_server, ()) =
       Returns (jw', st') \<and>
     js_settled (jw_heap jw') 0 (Inl ''do tls request: read http response: EOF'')"
proof -
  have c: "NewWSClient (sample_ws (Inr ())) (sample_tls (Inl ''EOF'')) ''ws://a'' (NewClientConfig sample_factory)
      sample_caller () = Returns (Inl ''read http response: EOF'', ())"
    by (simp add: NewWSClient_def sample_tls_def sample_ws_def errors_Wrap_def)
  then obtain jw' st' where r: "tls_request_goroutine (\<lambda>_. []) echo_routes chunk_pipe (sample_tls (Inl ''EOF''))
      (sample_ws (Inr ())) (sample_tls (Inl ''EOF'')) sample_caller ''ws://a'' sample_factory ''ws'' 0 pending_world
      (new_server, ()) = Returns (jw', st')"
    by (simp add: tls_request_goroutine_def tls_request_client_def tls_request_answer_def)
  have "js_wf pending_world" "0 < length (jw_heap pending_world)" "jw_heap pending_world ! 0 = JSPromise Pending"
    by (auto simp: js_wf_def pending_world_def task_ok_def)
  from wasm_request_promise [OF this r] c have "js_settled (jw_heap jw') 0 (Inl ''do tls request: read http response: EOF'')"
    by auto
  with r show ?thesis by blast
qed

end
