(* ===== verification/Browser_Identity.thy ===== *)
theory Browser_Identity
  imports Wasm_Client
begin

text \<open>
  The browser client and the transfer together: what a backend is told about a request that a page sends
  with TLSRequest (cmd/wasm/main.go, transfer.go, trust_center/identity.go). Unlike a /wrap endpoint,
  TLSRequest leaves the header X-Identity-Type to its caller.
\<close>

lemma sent_unattested:
  assumes "te_ReadRequest env = Inr r0" "b \<in> set (tr_sent (DoTransfer env host))"
    and "header_Get (rq_Header r0) ''X-Identity-Type'' \<noteq> ''cert-rpc''"
  shows "header_Get (rq_Header b) ''X-From-Deploy'' = header_Get (rq_Header r0) ''X-From-Deploy''"
    "header_Get (rq_Header b) ''X-From-Service'' = header_Get (rq_Header r0) ''X-From-Service''"
    "header_Get (rq_Header b) ''X-Identity-Type'' =
      (if header_Get (rq_Header r0) ''X-Identity-Type'' = '''' then ''user-anonymous''
       else header_Get (rq_Header r0) ''X-Identity-Type'')"
  using transfer_passes_unattested_identity [OF assms] by blast+

text \<open>The page's certificate is the one that its TLS connections show.\<close>

lemma factory_shows_own_certificate:
  assumes "parsed (ct_Raw (ctf_SelfCert f)) = ctf_SelfCert f"
  shows "map parsed (tc_Certificate (hd (cfg_Certificates (NewClientConfig f)))) = [ctf_SelfCert f]"
  using assms by (simp add: NewClientConfig_def NewTLSCertificate_def Let_def)

text \<open>
  C10. What a backend is told about a page. Let a page make a request with TLSRequest, let the transfer at
  the other end read a request with the same identity headers from a connection on which the page's
  certificate was shown. The certificate header is always that of the page. But it is the page that
  decides about the rest: if its headers ask for cert-rpc, the backend is told the deployment and the
  service of the certificate; with any other identity type it is told whatever deployment and service
  the page has put into its headers, and with none it is told so of an anonymous user.
\<close>

theorem page_chooses_its_identity:
  assumes "tls_request_params xl parseScheme httpNewRequest rt h [url, info] = Inr (req, base, f, proto)"
    and "js_Get h info ''headers'' = Inr hdrs" "js_Object_keys h hdrs = Inr keys"
    and "te_ReadRequest env = Inr r0"
    and "\<And>k. k \<in> {''X-Identity-Type'', ''X-From-Deploy'', ''X-From-Service''} \<Longrightarrow>
      header_Get (rq_Header r0) k = header_Get (rq_Header req) k"
    and "cs_PeerCertificates (te_ConnectionState env) =
      map parsed (tc_Certificate (hd (cfg_Certificates (NewClientConfig f))))"
    and "parsed (ct_Raw (ctf_SelfCert f)) = ctf_SelfCert f"
    and "b \<in> set (tr_sent (DoTransfer env host))"
  shows "b64_decode (header_Get (rq_Header b) ''SSL-Client-Cert'') = Some (ct_Raw (ctf_SelfCert f)) \<and>
    (let said = page_header rt h hdrs keys; told = header_Get (rq_Header b)
     in if said ''X-Identity-Type'' = ''cert-rpc''
        then told ''X-From-Deploy'' = cert_deploy (ctf_SelfCert f) \<and>
          told ''X-From-Service'' = cert_service (ctf_SelfCert f)
        else told ''X-From-Deploy'' = said ''X-From-Deploy'' \<and> told ''X-From-Service'' = said ''X-From-Service'' \<and>
          told ''X-Identity-Type'' =
            (if said ''X-Identity-Type'' = '''' then ''user-anonymous'' else said ''X-Identity-Type''))"
proof -
  obtain hdr req0 where "js_header rt h hdrs = Inr hdr" "req = req0\<lparr>rq_Header := hdr\<rparr>"
    using assms(1) by (rule tls_request_params_cases) (use assms(2) in auto)
  then have said: "header_Get (rq_Header req) k = page_header rt h hdrs keys k" for k
    using js_header_Get [OF _ assms(3)] by simp
  obtain cert rest where c: "cs_PeerCertificates (te_ConnectionState env) = cert # rest"
    "header_Get (rq_Header b) ''SSL-Client-Cert'' = b64_encode (ct_Raw cert)"
    "header_Get (rq_Header r0) ''X-Identity-Type'' = ''cert-rpc'' \<Longrightarrow>
       header_Get (rq_Header b) ''X-From-Deploy'' = cert_deploy cert \<and>
       header_Get (rq_Header b) ''X-From-Service'' = cert_service cert"
    using assms(8) by (rule sent_identity) (use assms(4) in auto)
  have "cert = ctf_SelfCert f" using c(1) assms(6) factory_shows_own_certificate [of parsed f] assms(7) by simp
  then show ?thesis
    using c(2,3) sent_unattested [OF assms(4,8)] assms(5) said by (simp add: Let_def)
qed

section \<open>Witness\<close>

text \<open>A page that claims to be another deployment and asks for no identity type.\<close>

definition page_heap :: js_heap where
  "page_heap = demo_heap[Suc 0 := JSPlain [(''x-from-deploy'', JSString ''forged'')]]"

lemma page_heap_Get:
  "js_Get page_heap (JSRef 0) ''method'' = Inr (JSString ''POST'')"
  "js_Get page_heap (JSRef 0) ''headers'' = Inr (JSRef (Suc 0))"
  "js_Get page_heap (JSRef 0) ''body'' = Inr (JSRef 2)"
  "js_Get page_heap (JSRef 0) ''tls'' = Inr (JSRef 3)"
  "js_deref page_heap (JSRef 2) = Some (JSUint8Array ''data'')"
  "js_Object_keys page_heap (JSRef (Suc 0)) = Inr [''x-from-deploy'']"
  "js_Get page_heap (JSRef (Suc 0)) ''x-from-deploy'' = Inr (JSString ''forged'')"
  by (simp_all add: page_heap_def demo_heap_def js_Get_def js_is_ref_def js_deref_def js_property_def js_Object_keys_def)

lemma page_heap_tls:
  "parseTLSParamObject toy_x509 demo_runtime page_heap (JSRef 3) =
     Inr (''ws://a'', \<lparr>ctf_SelfKey = ''key'',
       ctf_SelfCert = \<lparr>ct_Raw = ''der'', ct_Subject = toy_subject, ct_PublicKey = ''der''\<rparr>,
       ctf_ParentCert = \<lparr>ct_Raw = ''root'', ct_Subject = toy_subject, ct_PublicKey = ''root''\<rparr>\<rparr>)"
  by (simp add: parseTLSParamObject_def js_member_String_def js_String_def page_heap_def demo_heap_def js_Get_def
      js_is_ref_def js_deref_def js_property_def ParsePKCS8PEMPrivateKeyFromData_def ParseX509CertificateFromData_def
      toy_x509_def assert_rsa_def)

theorem page_chooses_its_identity_witness:
  "\<exists>req base f proto b. tls_request_params toy_x509 (\<lambda>_. Inr ''ws'') sample_NewRequest demo_runtime page_heap
       [JSString ''http://storage/x'', JSRef 0] = Inr (req, base, f, proto) \<and>
     cert_deploy (ctf_SelfCert f) = ''center'' \<and>
     tr_sent (DoTransfer ((transfer_sample_env (rq_Header req))\<lparr>te_ConnectionState := \<lparr>cs_PeerCertificates = [ctf_SelfCert f]\<rparr>\<rparr>)
       ''backend:80'') = [b] \<and>
     header_Get (rq_Header b) ''X-From-Deploy'' = ''forged'' \<and>
     header_Get (rq_Header b) ''X-Identity-Type'' = ''user-anonymous''"
proof -
  obtain hdr where "js_header demo_runtime page_heap (JSRef (Suc 0)) = Inr hdr"
    by (simp add: js_header_def page_heap_Get js_header_value_def js_String_def)
  moreover have "copyFromUInt8Array demo_runtime page_heap (JSRef 2) = Inr ''data''"
    by (rule copyFromUInt8Array_eq) (simp_all add: page_heap_Get)
  ultimately obtain req base f proto where
    r: "tls_request_params toy_x509 (\<lambda>_. Inr ''ws'') sample_NewRequest demo_runtime page_heap
      [JSString ''http://storage/x'', JSRef 0] = Inr (req, base, f, proto)"
    and f: "ctf_SelfCert f = \<lparr>ct_Raw = ''der'', ct_Subject = toy_subject, ct_PublicKey = ''der''\<rparr>"
    by (simp add: tls_request_params_def js_member_String_def page_heap_Get js_String_def sample_NewRequest_def
        page_heap_tls parseUnderlyingProtocol_def)
  let ?env = "(transfer_sample_env (rq_Header req))\<lparr>te_ConnectionState := \<lparr>cs_PeerCertificates = [ctf_SelfCert f]\<rparr>\<rparr>"
  obtain r0 where r0: "te_ReadRequest ?env = Inr r0" "rq_Header r0 = rq_Header req"
    by (simp add: transfer_sample_env_def)
  have d: "has_deploy (ctf_SelfCert f)" "cert_deploy (ctf_SelfCert f) = ''center''"
    by (simp_all add: f toy_subject_def has_deploy_def cert_deploy_def)
  then obtain b where b: "tr_sent (DoTransfer ?env ''backend:80'') = [b]"
    by (auto simp: DoTransfer_def backend_request_marked transfer_sample_env_def Let_def)
  have c: "canonical_key ''x-from-deploy'' = ''X-From-Deploy''" by code_simp
  have "page_header demo_runtime page_heap (JSRef (Suc 0)) [''x-from-deploy''] ''X-Identity-Type'' = ''''"
    "page_header demo_runtime page_heap (JSRef (Suc 0)) [''x-from-deploy''] ''X-From-Deploy'' = ''forged''"
    by (simp_all add: page_header_def c page_heap_Get js_header_value_def js_String_def)
  with page_chooses_its_identity [OF r page_heap_Get(2,6) r0(1), of "\<lambda>_. ctf_SelfCert f" b "''backend:80''"] r0(2) b
  have "header_Get (rq_Header b) ''X-From-Deploy'' = ''forged''"
    "header_Get (rq_Header b) ''X-Identity-Type'' = ''user-anonymous''"
    by (simp_all add: factory_shows_own_certificate Let_def)
  with r d(2) b show ?thesis by blast
qed

end
