(* ===== verification/Wrap_Transports.thy ===== *)
theory Wrap_Transports
  imports Wrap_Router
begin

text \<open>
  The two transports of a wrapped request compared: the /wrap endpoint of HttpSidecarServer with
  NewHttpClient (http_handler) over a session, and the one of WebSocketSidecarServer with NewWSClient
  (ws_handler) over a web socket. The source has two copies of the endpoint and of the client, with other
  addresses, other panics and, over the web socket, a time-out of one minute. The states below the
  two TLS clients are of different types; a relation says when they stand for the same connection.
\<close>

section \<open>Related transports\<close>

text \<open>The operations of both TLS clients give the same results on related states and keep them related.\<close>

definition same_tls :: "('s \<Rightarrow> 't \<Rightarrow> bool) \<Rightarrow> 's tls_ops \<Rightarrow> 't tls_ops \<Rightarrow> bool" where
  "same_tls R tops tops' \<longleftrightarrow>
     (\<forall>s t. R s t \<longrightarrow>
        (\<forall>cfg req. rel_prod (=) R (tl_Write tops cfg req s) (tl_Write tops' cfg req t)) \<and>
        (\<forall>req. rel_prod (=) R (tl_ReadResponse tops req s) (tl_ReadResponse tops' req t)) \<and>
        rel_prod (=) R (tl_ReadBody tops s) (tl_ReadBody tops' t))"

text \<open>
  Both connect to related states, or neither connects. The error texts may differ. The state over the
  web socket is the one with the context of one minute; a connection on which this time has run out
  is related to none that goes on.
\<close>

definition same_connect ::
    "('s \<Rightarrow> 't \<Rightarrow> bool) \<Rightarrow> 't ws_ops \<Rightarrow> (go_error option \<times> 's) outcome \<Rightarrow> (go_error \<times> 't) + 't \<Rightarrow> bool" where
  "same_connect R ws init dialled \<longleftrightarrow>
     (case (init, dialled) of
        (Returns (None, s), Inr t) \<Rightarrow> R s (ws_NetConn ws 60 t)
      | (Returns (Some _, _), Inl _) \<Rightarrow> True
      | (Panics _, Inl _) \<Rightarrow> True
      | _ \<Rightarrow> False)"

text \<open>What one waits for on the other side of an operation: its result, or none when it panics.\<close>

definition outcome_value :: "('a \<times> 's) outcome \<Rightarrow> 'a option" where
  "outcome_value m = (case m of Returns (x, _) \<Rightarrow> Some x | _ \<Rightarrow> None)"

lemma outcome_value_simps [simp]:
  "outcome_value (Returns (x, s)) = Some x" "outcome_value (Panics p) = None" "outcome_value Blocks = None"
  by (simp_all add: outcome_value_def)

lemma outcome_value_bind:
  assumes "\<And>x s s'. outcome_value (f (x, s)) = outcome_value (f (x, s'))"
    and "outcome_value m = outcome_value m'"
    and "\<And>x s t. outcome_value (f (x, s)) = outcome_value (g (x, t))"
  shows "outcome_value (outcome_bind m f) = outcome_value (outcome_bind m' g)"
  using assms(2,3) by (cases m; cases m') auto

lemma rel_prod_split: "rel_prod (=) R p q \<Longrightarrow> \<exists>x s t. p = (x, s) \<and> q = (x, t) \<and> R s t"
  by (cases p; cases q) auto

lemma same_tlsD:
  assumes "same_tls R tops tops'" "R s t"
  shows "\<exists>e s' t'. tl_Write tops cfg req s = (e, s') \<and> tl_Write tops' cfg req t = (e, t') \<and> R s' t'"
    and "\<exists>r s' t'. tl_ReadResponse tops req s = (r, s') \<and> tl_ReadResponse tops' req t = (r, t') \<and> R s' t'"
    and "\<exists>b s' t'. tl_ReadBody tops s = (b, s') \<and> tl_ReadBody tops' t = (b, t') \<and> R s' t'"
  by (rule rel_prod_split, use assms in \<open>simp add: same_tls_def\<close>)+

section \<open>The clients\<close>

lemma clients_same:
  assumes "same_tls R tops tops'"
    and "same_connect R ws (MockClientConn_Init http (NewMockClientConn po base) w) (ws_Dial ws (base' @ ''/tlsRequest'') t)"
  shows "outcome_value (NewHttpClient http po tops base cfg req w) = outcome_value (NewWSClient ws tops' base' cfg req t)"
proof (cases "\<exists>m w1. MockClientConn_Init http (NewMockClientConn po base) w = Returns (None, m, w1)")
  case False
  with assms(2) show ?thesis
    by (auto simp: same_connect_def NewHttpClient_def NewWSClient_def Let_def
        split: outcome.splits option.splits sum.splits)
next
  case True
  then obtain m w1 where i: "MockClientConn_Init http (NewMockClientConn po base) w = Returns (None, m, w1)"
    by blast
  with assms(2) obtain t0 where d: "ws_Dial ws (base' @ ''/tlsRequest'') t = Inr t0" "R (m, w1) (ws_NetConn ws 60 t0)"
    by (auto simp: same_connect_def split: sum.splits)
  obtain e s1 t1 where wr: "tl_Write tops cfg req (m, w1) = (e, s1)"
      "tl_Write tops' cfg req (ws_NetConn ws 60 t0) = (e, t1)" "R s1 t1"
    using same_tlsD(1) [OF assms(1) d(2)] by blast
  obtain r s2 t2 where r: "tl_ReadResponse tops req s1 = (r, s2)" "tl_ReadResponse tops' req t1 = (r, t2)" "R s2 t2"
    using same_tlsD(2) [OF assms(1) wr(3)] by blast
  obtain b s3 t3 where b: "tl_ReadBody tops s2 = (b, s3)" "tl_ReadBody tops' t2 = (b, t3)"
    using same_tlsD(3) [OF assms(1) r(3)] by blast
  show ?thesis
    by (cases e; cases r; cases b) (simp_all add: NewHttpClient_def NewWSClient_def i d(1) wr(1,2) r(1,2) b)
qed

section \<open>The endpoints\<close>

lemma outgoing_same: "ws_wrap_outgoing nr c = wrap_outgoing nr c"
  by (simp add: ws_wrap_outgoing_def wrap_outgoing_def ws_wrap_realUrl_def wrap_realUrl_def Let_def)

text \<open>
  C17. It makes no difference to the caller of a sidecar over which transport its request travels. Let the
  session client, at the deployment's address followed by the service and /http, and the web socket
  client, at the same address followed by the service and /tlsRequest, connect alike, and let their TLS
  clients behave alike on the connections (over the web socket within its minute); then the /wrap
  endpoint of the HTTP server and the one of the web socket server, with the same configuration, give
  the same reply to every request: the same status, headers and body, the
  same rejection of an unknown deployment or a bad URL, the same error text, or both panic.
\<close>

theorem wrap_transports_equivalent:
  assumes "ss_ClientTLSConfigFactory hs = ss_ClientTLSConfigFactory wss" "ss_DeployIDHostMap hs = ss_DeployIDHostMap wss"
    and "same_tls R tops tops'"
    and "\<And>host. same_connect R ws
      (MockClientConn_Init http
        (NewMockClientConn po (''http://'' @ host @ ''/'' @ header_Get (rq_Header c) ''X-Target-Service'' @ ''/http'')) w)
      (ws_Dial ws (''http://'' @ host @ ''/'' @ header_Get (rq_Header c) ''X-Target-Service'' @ ''/tlsRequest'') t)"
  shows "outcome_value (HttpSidecarServer_InitWrapRouter hs nr http po tops c wh w) =
    outcome_value (WebSocketSidecarServer_InitWrapRouter wss nr ws tops' c wh t)"
proof -
  let ?svc = "header_Get (rq_Header c) ''X-Target-Service''"
  have client: "outcome_value (NewHttpClient http po tops (wrap_serverBaseUrl host ?svc) cfg req w) =
      outcome_value (NewWSClient ws tops' (ws_wrap_serverBaseUrl host ?svc) cfg req t)" for host cfg req
    by (rule clients_same [OF assms(3)])
      (use assms(4) [of host] in \<open>simp add: wrap_serverBaseUrl_def ws_wrap_serverBaseUrl_def\<close>)
  show ?thesis
    unfolding HttpSidecarServer_InitWrapRouter_def WebSocketSidecarServer_InitWrapRouter_def Let_def
      assms(1,2) outgoing_same
    by (auto intro!: outcome_value_bind client split: option.split sum.split)
qed

section \<open>Witness\<close>

abbreviation sample_accept :: "unit http_service" where
  "sample_accept call w \<equiv> Returns (Inr (json_NewRequestResponse \<lparr>nr_ConnectionID = 7, nr_Err = ''''\<rparr>), w)"

theorem wrap_transports_equivalent_witness:
  "outcome_value (HttpSidecarServer_InitWrapRouter sample_sidecar sample_NewRequest sample_accept chunk_pipe
      (sample_tls (Inl ''EOF'')) sample_caller Map.empty ()) =
   outcome_value (WebSocketSidecarServer_InitWrapRouter sample_sidecar sample_NewRequest (sample_ws (Inr ()))
      (sample_tls (Inl ''EOF'')) sample_caller Map.empty ())"
proof (rule wrap_transports_equivalent [where R = "\<lambda>s t. True"])
  show "same_tls (\<lambda>s t. True) (sample_tls (Inl ''EOF'')) (sample_tls (Inl ''EOF''))"
    by (simp add: same_tls_def sample_tls_def)
qed (simp_all add: same_connect_def MockClientConn_Init_def NewMockClientConn_def sample_ws_def)

end
