(* ===== verification/Transfer_Process.thy ===== *)
theory Transfer_Process
  imports Wrap_Router
begin

text \<open>
  Where the panics of DoTransfer end up: the handler of /tlsRequest (InitRequestRouter of
  ws_handler/server_main.go), which runs the transfer itself under two deferred calls, and the goroutine
  that newRequest starts (http_handler/server_main.go). A panic unwinds through the deferred calls of its
  goroutine; when nothing recovers it, it ends the process (the Go language, Handling panics). The
  recovery of the gin engine, under which every handler runs, is a parameter.
\<close>

section \<open>Bodies, deferred calls and goroutines\<close>

text \<open>
  A body returns or panics, after the effects it adds to those so far.
\<close>

datatype effect =
    Transferred transfer_result
  | TLSConnClosed
  | ContextCancelled

type_synonym 'a proc = "effect list \<Rightarrow> 'a go \<times> effect list"

named_theorems proc_simps

definition go_panics :: "string \<Rightarrow> 'a proc" where
  "go_panics v s = (Inl (PanicWith v), s)"

text \<open>\<open>defer f()\<close>: f runs when the body returns and when it panics, and the outcome stays.\<close>

definition go_defer :: "effect \<Rightarrow> 'a proc \<Rightarrow> 'a proc" where
  "go_defer f body s = (case body s of (r, s') \<Rightarrow> (r, s' @ [f]))"

definition call_DoTransfer :: "transfer_env \<Rightarrow> string \<Rightarrow> unit proc" where
  "call_DoTransfer env host s = (let res = DoTransfer env host in (tr_end res, s @ [Transferred res]))"

lemmas proc_defs [proc_simps] = go_panics_def go_defer_def call_DoTransfer_def Let_def

text \<open>A process ends with the first panic that reaches the top of a goroutine; nothing runs after that.\<close>

datatype process =
    Running "effect list"
  | Ended go_panic "effect list"

definition run_goroutine :: "unit proc \<Rightarrow> process \<Rightarrow> process" where
  "run_goroutine body pr =
     (case pr of
        Running s \<Rightarrow> (case body s of (Inr _, s') \<Rightarrow> Running s' | (Inl p, s') \<Rightarrow> Ended p s')
      | Ended p s \<Rightarrow> pr)"

section \<open>The two ways to a transfer\<close>

text \<open>
  An accepted web socket is given by what the transfer finds on it, under a context that expires
  after so many seconds and a TLS server with this configuration; likewise the connection of a session.
\<close>

definition WebSocketSidecarServer_tlsRequest ::
    "sidecar_server \<Rightarrow> go_error + (nat \<Rightarrow> tls_config \<Rightarrow> transfer_env) \<Rightarrow> unit proc" where
  "WebSocketSidecarServer_tlsRequest h accepted =
     (case accepted of
        Inl err \<Rightarrow> go_panics err
      | Inr websocketConn \<Rightarrow>
          (let tlsConfig = NewServerConfig (ss_ServerTLSConfigFactory h)
           in go_defer ContextCancelled
                (go_defer TLSConnClosed
                  (call_DoTransfer (websocketConn 60 tlsConfig) (ss_BackendServiceHost h)))))"

definition newRequest_goroutine :: "sidecar_server \<Rightarrow> (tls_config \<Rightarrow> transfer_env) \<Rightarrow> unit proc" where
  "newRequest_goroutine h underlyingConn =
     call_DoTransfer (underlyingConn (NewServerConfig (ss_ServerTLSConfigFactory h))) (ss_BackendServiceHost h)"

datatype transfer_event =
    SessionTransfer "tls_config \<Rightarrow> transfer_env"
  | WebSocketRequest "go_error + (nat \<Rightarrow> tls_config \<Rightarrow> transfer_env)"

text \<open>The transfers of a process, one after the other: the engine runs its handlers under \<open>recovery\<close>.\<close>

definition run_event ::
    "(unit proc \<Rightarrow> unit proc) \<Rightarrow> sidecar_server \<Rightarrow> sidecar_server \<Rightarrow> transfer_event \<Rightarrow> process \<Rightarrow> process" where
  "run_event recovery hs ws e =
     (case e of
        SessionTransfer underlyingConn \<Rightarrow> run_goroutine (newRequest_goroutine hs underlyingConn)
      | WebSocketRequest accepted \<Rightarrow> run_goroutine (recovery (WebSocketSidecarServer_tlsRequest ws accepted)))"

text \<open>The middleware that gin.Default installs recovers from any panic of a handler.\<close>

definition lawful_recovery :: "(unit proc \<Rightarrow> unit proc) \<Rightarrow> bool" where
  "lawful_recovery recovery \<longleftrightarrow> (\<forall>body s. recovery body s = (Inr (), snd (body s)))"

section \<open>What the transfers leave behind\<close>

abbreviation session_result :: "sidecar_server \<Rightarrow> (tls_config \<Rightarrow> transfer_env) \<Rightarrow> transfer_result" where
  "session_result hs underlyingConn \<equiv>
     DoTransfer (underlyingConn (NewServerConfig (ss_ServerTLSConfigFactory hs))) (ss_BackendServiceHost hs)"

definition event_effects :: "sidecar_server \<Rightarrow> sidecar_server \<Rightarrow> transfer_event \<Rightarrow> effect list" where
  "event_effects hs ws e =
     (case e of
        SessionTransfer underlyingConn \<Rightarrow> [Transferred (session_result hs underlyingConn)]
      | WebSocketRequest (Inl err) \<Rightarrow> []
      | WebSocketRequest (Inr websocketConn) \<Rightarrow>
          [Transferred (session_result ws (websocketConn 60)), TLSConnClosed, ContextCancelled])"

definition event_panics :: "sidecar_server \<Rightarrow> transfer_event \<Rightarrow> go_panic option" where
  "event_panics hs e =
     (case e of
        SessionTransfer underlyingConn \<Rightarrow>
          (case tr_end (session_result hs underlyingConn) of Inl p \<Rightarrow> Some p | Inr _ \<Rightarrow> None)
      | WebSocketRequest _ \<Rightarrow> None)"

lemma run_event_Running:
  assumes "lawful_recovery recovery"
  shows "run_event recovery hs ws e (Running s) =
    (case event_panics hs e of
       None \<Rightarrow> Running (s @ event_effects hs ws e)
     | Some p \<Rightarrow> Ended p (s @ event_effects hs ws e))"
  using assms
  by (auto simp: run_event_def run_goroutine_def event_panics_def event_effects_def lawful_recovery_def
      newRequest_goroutine_def WebSocketSidecarServer_tlsRequest_def proc_simps
      split: transfer_event.split sum.split)

lemma run_event_Ended: "run_event recovery hs ws e (Ended p s) = Ended p s"
  by (simp add: run_event_def run_goroutine_def split: transfer_event.split)

lemma run_events_Ended: "fold (run_event recovery hs ws) es (Ended p s) = Ended p s"
  by (induction es) (simp_all add: run_event_Ended)

lemma dropWhile_ConsD: "dropWhile P xs = y # ys \<Longrightarrow> \<exists>x\<in>set xs. \<not> P x"
  by (metis dropWhile_eq_Nil_conv list.distinct(1))

lemma run_events:
  assumes "lawful_recovery recovery"
  shows "fold (run_event recovery hs ws) es (Running s) =
    (case dropWhile (\<lambda>e. event_panics hs e = None) es of
       [] \<Rightarrow> Running (s @ concat (map (event_effects hs ws) es))
     | e # _ \<Rightarrow> Ended (the (event_panics hs e))
         (s @ concat (map (event_effects hs ws) (takeWhile (\<lambda>e. event_panics hs e = None) es @ [e]))))"
  by (induction es arbitrary: s)
    (auto simp: run_event_Running [OF assms] run_events_Ended split: list.split option.split dest!: dropWhile_ConsD)

text \<open>
  C34. What ends a sidecar. Let any transfers take place, over sessions and over web sockets, one after the
  other. The process is still running afterwards exactly when every session's transfer has found a
  readable request after a handshake with a certificate, a certificate that names a deployment if the
  identity type is cert-rpc, a backend that answers and a connection that takes the response; so
  any peer that can open a session can end the process. A web socket request never ends it, whatever
  its transfer does, and its TLS connection is closed and its context cancelled each time. After the
  first session's transfer that fails nothing is transferred any more.
\<close>

theorem transfer_panic_ends_process:
  assumes "lawful_recovery recovery"
  shows "((\<exists>s'. fold (run_event recovery hs ws) es (Running s) = Running s') \<longleftrightarrow>
      (\<forall>underlyingConn env. SessionTransfer underlyingConn \<in> set es \<longrightarrow>
         env = underlyingConn (NewServerConfig (ss_ServerTLSConfigFactory hs)) \<longrightarrow>
         (\<exists>r0 cert rest resp. te_ReadRequest env = Inr r0 \<and>
            cs_PeerCertificates (te_ConnectionState env) = cert # rest \<and>
            (header_Get (rq_Header r0) ''X-Identity-Type'' = ''cert-rpc'' \<longrightarrow> has_deploy cert) \<and>
            te_backend env (marked_request (te_ConnectionState env) (ss_BackendServiceHost hs) cert r0) = Inr resp \<and>
            te_write env (tagged_response
              (marked_request (te_ConnectionState env) (ss_BackendServiceHost hs) cert r0) resp) = None))) \<and>
    (\<forall>s'. fold (run_event recovery hs ws) es (Running s) = Running s' \<longrightarrow>
       s' = s @ concat (map (event_effects hs ws) es)) \<and>
    (\<forall>p s'. fold (run_event recovery hs ws) es (Running s) = Ended p s' \<longrightarrow>
       (\<exists>us underlyingConn vs. es = us @ SessionTransfer underlyingConn # vs \<and>
          tr_end (session_result hs underlyingConn) = Inl p \<and>
          s' = s @ concat (map (event_effects hs ws) us) @ [Transferred (session_result hs underlyingConn)]))"
proof -
  let ?quiet = "\<lambda>e. event_panics hs e = None"
  note run = run_events [OF assms, of hs ws es s]
  have quiet: "?quiet (SessionTransfer u) \<longleftrightarrow> tr_end (session_result hs u) = Inr ()" for u
    by (simp add: event_panics_def split: sum.split)
  have "(\<exists>s'. fold (run_event recovery hs ws) es (Running s) = Running s') \<longleftrightarrow> (\<forall>e\<in>set es. ?quiet e)"
    unfolding run by (auto split: list.split dest!: dropWhile_ConsD)
  also have "\<dots> \<longleftrightarrow> (\<forall>u. SessionTransfer u \<in> set es \<longrightarrow> tr_end (session_result hs u) = Inr ())"
    using quiet by (auto simp: event_panics_def split: transfer_event.split)
  finally have running: "(\<exists>s'. fold (run_event recovery hs ws) es (Running s) = Running s') \<longleftrightarrow>
      (\<forall>u. SessionTransfer u \<in> set es \<longrightarrow> tr_end (session_result hs u) = Inr ())" .
  have ended: "\<exists>us u vs. es = us @ SessionTransfer u # vs \<and> tr_end (session_result hs u) = Inl p \<and>
      s' = s @ concat (map (event_effects hs ws) us) @ [Transferred (session_result hs u)]"
    if r: "fold (run_event recovery hs ws) es (Running s) = Ended p s'" for p s'
  proof -
    obtain e vs where e: "dropWhile ?quiet es = e # vs" "p = the (event_panics hs e)"
      "s' = s @ concat (map (event_effects hs ws) (takeWhile ?quiet es @ [e]))"
      using r unfolding run by (cases "dropWhile ?quiet es") auto
    have "\<not> ?quiet e" using hd_dropWhile [of ?quiet es] e(1) by simp
    moreover have "es = takeWhile ?quiet es @ e # vs" using takeWhile_dropWhile_id [of ?quiet es] e(1) by simp
    moreover from calculation(1) e(2) obtain u where "e = SessionTransfer u" "tr_end (session_result hs u) = Inl p"
      by (auto simp: event_panics_def split: transfer_event.splits sum.splits)
    ultimately show ?thesis using e(3) by (intro exI conjI) (assumption | simp add: event_effects_def)+
  qed
  have kept: "s' = s @ concat (map (event_effects hs ws) es)"
    if "fold (run_event recovery hs ws) es (Running s) = Running s'" for s'
    using that unfolding run by (cases "dropWhile (\<lambda>e. event_panics hs e = None) es") auto
  from running [unfolded transfer_returns_iff] kept ended show ?thesis by (intro conjI allI impI) simp_all
qed

section \<open>Witness\<close>

text \<open>
  A web socket request that cannot be accepted, and one whose peer breaks the handshake, leave the
  process running; the same peer on a session ends it.
\<close>

theorem transfer_panic_ends_process_witness:
  "(\<exists>s'. fold (run_event (\<lambda>body s. (Inr (), snd (body s))) sample_sidecar sample_sidecar)
      [WebSocketRequest (Inl ''bad request''),
       WebSocketRequest (Inr (\<lambda>_ _. (transfer_sample_env Map.empty)\<lparr>te_ReadRequest := Inl ''tls: bad certificate''\<rparr>))]
      (Running []) = Running s') \<and>
   \<not> (\<exists>s'. fold (run_event (\<lambda>body s. (Inr (), snd (body s))) sample_sidecar sample_sidecar)
      [SessionTransfer (\<lambda>_. (transfer_sample_env Map.empty)\<lparr>te_ReadRequest := Inl ''tls: bad certificate''\<rparr>)]
      (Running []) = Running s')"
proof -
  have l: "lawful_recovery (\<lambda>body s. (Inr (), snd (body s)))" by (simp add: lawful_recovery_def)
  show ?thesis
    by (intro conjI)
      (simp_all only: conjunct1 [OF transfer_panic_ends_process [OF l]], simp_all)
qed

end
