(* ===== verification/Header_Types.thy ===== *)
theory Header_Types
  imports Wrap_Router Tls_Wrapper Inbound_Correct
begin

text \<open>
  The type of a header map. Go's \<open>http.Header\<close> is a plain map; its lookups only find what is stored
  under a canonical key, and \<open>Get\<close> reads the first value of a list. A well-typed header keeps to
  both. Several places of the program write into header maps without the methods of the type
  (transfer.go, both /wrap endpoints, the reverse proxy); this theory shows that they keep the type.
\<close>

definition header_wt :: "header \<Rightarrow> bool" where
  "header_wt h \<longleftrightarrow> (\<forall>k vs. h k = Some vs \<longrightarrow> canonical_key k = k \<and> vs \<noteq> [])"

named_theorems wt "headers keep their type"

lemma header_wt_empty [wt]: "header_wt Map.empty"
  by (simp add: header_wt_def)

lemma header_wt_Set [wt]: "header_wt h \<Longrightarrow> header_wt (header_Set h k v)"
  by (simp add: header_wt_def header_Set_apply)

lemma header_wt_Del [wt]: "header_wt h \<Longrightarrow> header_wt (header_Del h k)"
  by (simp add: header_wt_def header_Del_apply)

lemma header_wt_map_add [wt]: "header_wt h \<Longrightarrow> header_wt h' \<Longrightarrow> header_wt (h ++ h')"
  by (auto simp: header_wt_def map_add_def split: option.splits)

lemma header_wt_removeHop [wt]: "header_wt h \<Longrightarrow> header_wt (removeHopByHopHeaders h)"
  by (simp add: header_wt_def removeHopByHopHeaders_apply)

lemma header_wt_outgoing [wt]: "header_wt h \<Longrightarrow> header_wt (outgoing_header h)"
  by (simp add: outgoing_header_def default_user_agent_def wt)

lemma header_wt_copyHeader [wt]: "header_wt h \<Longrightarrow> header_wt h' \<Longrightarrow> header_wt (copyHeader h h')"
  by (fastforce simp: header_wt_def copyHeader_def split: option.splits list.splits)

text \<open>A well-typed header has no entry that its own \<open>Get\<close> does not see.\<close>

lemma header_wt_Get: "header_wt h \<Longrightarrow> h k = Some vs \<Longrightarrow> header_Get h k = hd vs"
  by (cases vs) (auto simp: header_wt_def header_Get_def)

section \<open>The transfer\<close>

lemma HandleIdentity_wt: "HandleIdentity r c = Inr (Inr h) \<Longrightarrow> header_wt h"
  by (auto simp: HandleIdentity_def Let_def NewServiceCertificate_eq wt split: if_splits)

lemma backend_request_wt:
  assumes "header_wt (rq_Header r0)" "backend_request cs host r0 = Inr r"
  shows "header_wt (rq_Header r)"
proof -
  obtain cert r3 where
    a: "attach_identity HandleIdentity
      (r0\<lparr>rq_TLS := Some cs, rq_Header := header_Set (rq_Header r0) ''SSL-Client-Cert'' (b64_encode (ct_Raw cert))\<rparr>)
      cert = Inr r3" and r: "rq_Header r = rq_Header r3"
    using backend_request_cases [OF assms(2)] by auto
  then show ?thesis using assms(1) by (auto dest!: rpc_identity.attach_identity_cases HandleIdentity_wt intro!: wt)
qed

lemma DoTransfer_written:
  assumes "resp \<in> set (tr_written (DoTransfer env host))"
  obtains r resp0 where "te_backend env r = Inr resp0"
    "resp = resp0\<lparr>rs_Header := header_Set (rs_Header resp0) ''X-Request-Url'' (url_String (rq_URL r))\<rparr>"
  using assms by (auto simp: DoTransfer_def Let_def split: sum.splits)

section \<open>The proxies\<close>

definition answers_wt :: "network \<Rightarrow> bool" where
  "answers_wt net \<longleftrightarrow> (\<forall>r resp. net r = Inr resp \<longrightarrow> header_wt (rs_Header resp))"

lemma AsHttpResponse_wt: "AsHttpResponse e = Inr resp \<Longrightarrow> header_wt (rs_Header resp)"
  by (auto simp: AsHttpResponse_def wt)

lemma deliver_response_wt:
  "header_wt (rs_Header resp) \<Longrightarrow> header_wt (rw_headers rw) \<Longrightarrow> header_wt (rw_headers (deliver_response resp rw))"
  by (simp add: wt)

text \<open>A director that keeps the type; the proxy that runs it then keeps it on both sides.\<close>

locale typed_director =
  fixes director :: "request \<Rightarrow> (request \<times> status_error option) go"
  assumes keeps_type: "director req = Inr (out, e) \<Longrightarrow> header_wt (rq_Header req) \<Longrightarrow> header_wt (rq_Header out)"
begin

lemma serve_typed:
  assumes "serve_guarded director net req rw = Inr (rw', sent)"
    and "header_wt (rq_Header req)" "header_wt (rw_headers rw)" "answers_wt net"
  shows "header_wt (rw_headers rw') \<and> (\<forall>r\<in>set sent. header_wt (rq_Header r))"
proof (cases "director req")
  case (Inl p)
  with assms(1) show ?thesis by (simp add: serve_guarded_panic)
next
  case (Inr x)
  obtain out e where x: "x = (out, e)" by (cases x)
  have out: "header_wt (rq_Header out)" using keeps_type [OF _ assms(2)] Inr x by simp
  show ?thesis
  proof (cases e)
    case None
    with Inr x have "director req = Inr (out, None)" by simp
    from serve_guarded_admitted [of director, OF this] assms(1,3,4) out show ?thesis
      by (auto simp: transport_RoundTrip_def answers_wt_def wt split: if_splits sum.splits)
  next
    case (Some se)
    with Inr x have "director req = Inr (out, Some se)" by simp
    from serve_guarded_rejected [of director, OF this, of net rw] assms(1,3) show ?thesis
      by (auto intro!: deliver_response_wt dest: AsHttpResponse_wt simp del: deliver_response_fields)
  qed
qed

lemma proxy_write_typed:
  assumes "proxy_write (\<lambda>_. director) net (MResponseWriter rw) \<lparr>ch_attachment = Some (MRequest req)\<rparr> = Inr (calls, sent)"
    and "header_wt (rq_Header req)" "header_wt (rw_headers rw)" "answers_wt net"
  shows "\<exists>rw'. calls = [CtxHandleWrite (MResponseWriter rw')] \<and> header_wt (rw_headers rw') \<and>
    (\<forall>r\<in>set sent. header_wt (rq_Header r))"
  using assms(1) serve_typed [OF _ assms(2-4)]
  by (auto simp: proxy_write_def go_bind_eq_Inr_iff)

end

interpretation outbound_typed: typed_director "outbound_director t" for t
  by unfold_locales (auto simp: outbound_director_def Let_def split: option.splits)

lemma apply_identity_wt:
  "apply_identity lib fi idt v req = Inr (out, e) \<Longrightarrow> header_wt (rq_Header req) \<Longrightarrow> header_wt (rq_Header out)"
  by (auto simp: apply_identity_def reject_def Let_def wt split: if_splits sum.splits option.splits)

lemma inbound_authorize_wt:
  "inbound_authorize lib si fi p request req = Inr (out, e) \<Longrightarrow> header_wt (rq_Header req) \<Longrightarrow> header_wt (rq_Header out)"
  by (auto simp: inbound_authorize_def reject_def go_bind_eq_Inr_iff dest: apply_identity_wt
      split: if_splits option.splits)

interpretation inbound_typed: typed_director "inbound_director lib si request" for lib si request
proof
  fix req out e
  assume d: "inbound_director lib si request req = Inr (out, e)" and w: "header_wt (rq_Header req)"
  obtain tls c fi where f: "rq_TLS request = Some tls" "go_index (cs_PeerCertificates tls) 0 = Inr c"
    "NewServiceCertificate c = Inr (Inr fi)"
    using d by (auto simp: inbound_director_def Let_def go_bind_eq_Inr_iff NewServiceCertificate_eq
        go_deref_def split: option.splits if_splits)
  let ?h = "header_Set (header_Set (rq_Header req) ''X-From-Deploy-ID'' (ts_DeployID fi)) ''X-From-Service-ID'' (ts_ServiceID fi)"
  have h: "header_wt ?h" using w by (simp add: wt)
  then show "header_wt (rq_Header out)"
    using d f by (auto simp: inbound_director_def Let_def go_bind_eq_Inr_iff go_deref_def reject_def
        dest!: inbound_authorize_wt split: option.splits if_splits)
qed

section \<open>The wrap endpoints\<close>

definition reads_wt :: "'t tls_ops \<Rightarrow> bool" where
  "reads_wt tops \<longleftrightarrow> (\<forall>req t resp t'. tl_ReadResponse tops req t = (Inr resp, t') \<longrightarrow> header_wt (rs_Header resp))"

lemma reads_wtD: "reads_wt tops \<Longrightarrow> tl_ReadResponse tops req t = (Inr resp, t') \<Longrightarrow> header_wt (rs_Header resp)"
  by (auto simp: reads_wt_def)

lemma NewHttpClient_wt:
  "NewHttpClient http po tops base cfg req w = Returns (Inr resp, w') \<Longrightarrow> reads_wt tops \<Longrightarrow> header_wt (rs_Header resp)"
  by (elim NewHttpClient_Inr) (auto dest: reads_wtD)

lemma NewWSClient_wt:
  "NewWSClient ws tops base cfg req t = Returns (Inr resp, t') \<Longrightarrow> reads_wt tops \<Longrightarrow> header_wt (rs_Header resp)"
  by (elim NewWSClient_Inr) (auto dest: reads_wtD)

lemma wrap_outgoing_wt:
  "wrap_outgoing nr c = Inr r \<Longrightarrow> header_wt (rq_Header c) \<Longrightarrow> header_wt (rq_Header r)"
  "ws_wrap_outgoing nr c = Inr r \<Longrightarrow> header_wt (rq_Header c) \<Longrightarrow> header_wt (rq_Header r)"
  by (auto simp: wrap_outgoing_def ws_wrap_outgoing_def Let_def wt split: sum.splits)

lemma wrap_reply_wt:
  "HttpSidecarServer_InitWrapRouter h nr http po tops c wh w = Returns (reply, w') \<Longrightarrow> header_wt wh \<Longrightarrow>
   reads_wt tops \<Longrightarrow> header_wt (wp_header reply)"
  by (elim HttpSidecarServer_InitWrapRouter_cases) (auto simp: wt dest: NewHttpClient_wt)

lemma ws_wrap_reply_wt:
  "WebSocketSidecarServer_InitWrapRouter h nr ws tops c wh t = Returns (reply, t') \<Longrightarrow> header_wt wh \<Longrightarrow>
   reads_wt tops \<Longrightarrow> header_wt (wp_header reply)"
  by (elim WebSocketSidecarServer_InitWrapRouter_cases) (auto simp: wt dest: NewWSClient_wt)

section \<open>The components\<close>

lemma transfer_keeps_type:
  "(\<forall>r0. te_ReadRequest env = Inr r0 \<longrightarrow> header_wt (rq_Header r0)) \<and> answers_wt (te_backend env) \<longrightarrow>
      (\<forall>r\<in>set (tr_sent (DoTransfer env host)). header_wt (rq_Header r)) \<and>
      (\<forall>resp\<in>set (tr_written (DoTransfer env host)). header_wt (rs_Header resp))"
  by (auto simp: answers_wt_def intro!: header_wt_Set dest!: DoTransfer_sent intro: backend_request_wt
      elim!: DoTransfer_written)

lemma proxies_keep_type:
  "header_wt (rq_Header req) \<and> header_wt (rw_headers rw) \<and> answers_wt net \<longrightarrow>
      (\<forall>result\<in>{ServiceRouteHandler_HandleWrite lib net s (MResponseWriter rw) \<lparr>ch_attachment = Some (MRequest req)\<rparr>,
                TLSWrapperHandler_HandleWrite net t (MResponseWriter rw) \<lparr>ch_attachment = Some (MRequest req)\<rparr>}.
         \<forall>calls sent. result = Inr (calls, sent) \<longrightarrow>
           (\<exists>rw'. calls = [CtxHandleWrite (MResponseWriter rw')] \<and> header_wt (rw_headers rw')) \<and>
           (\<forall>r\<in>set sent. header_wt (rq_Header r)))"
  by (auto simp: ServiceRouteHandler_HandleWrite_def TLSWrapperHandler_HandleWrite_def proxy_write_def
      go_bind_eq_Inr_iff dest: inbound_typed.serve_typed outbound_typed.serve_typed)

lemma wrap_keeps_type:
  "header_wt (rq_Header c) \<and> header_wt wh \<and> reads_wt tops \<and> reads_wt tops' \<longrightarrow>
      (\<forall>r. wrap_outgoing nr c = Inr r \<or> ws_wrap_outgoing nr c = Inr r \<longrightarrow> header_wt (rq_Header r)) \<and>
      (\<forall>reply w'. HttpSidecarServer_InitWrapRouter h nr http po tops c wh w = Returns (reply, w') \<longrightarrow>
         header_wt (wp_header reply)) \<and>
      (\<forall>reply u'. WebSocketSidecarServer_InitWrapRouter h nr ws tops' c wh u = Returns (reply, u') \<longrightarrow>
         header_wt (wp_header reply))"
  by (auto dest: wrap_outgoing_wt wrap_reply_wt ws_wrap_reply_wt)

section \<open>Property\<close>

text \<open>
  C7. Header maps keep their type. If the requests that are read, the responses of the backends and
  targets, and the header of the writer at hand are well typed, then so is every header that the program
  sends on: the request of a transfer to the backend and the response it writes back; what the inbound
  and the outbound proxy send and the header they leave in the writer, rejections included; the request
  that a /wrap endpoint hands to its client and the header of its reply. So no header is carried along
  that a lookup cannot see.
\<close>

theorem headers_keep_type:
  "((\<forall>r0. te_ReadRequest env = Inr r0 \<longrightarrow> header_wt (rq_Header r0)) \<and> answers_wt (te_backend env) \<longrightarrow>
        (\<forall>r\<in>set (tr_sent (DoTransfer env host)). header_wt (rq_Header r)) \<and>
        (\<forall>resp\<in>set (tr_written (DoTransfer env host)). header_wt (rs_Header resp))) \<and>
   (header_wt (rq_Header req) \<and> header_wt (rw_headers rw) \<and> answers_wt net \<longrightarrow>
        (\<forall>result\<in>{ServiceRouteHandler_HandleWrite lib net s (MResponseWriter rw) \<lparr>ch_attachment = Some (MRequest req)\<rparr>,
                  TLSWrapperHandler_HandleWrite net t (MResponseWriter rw) \<lparr>ch_attachment = Some (MRequest req)\<rparr>}.
           \<forall>calls sent. result = Inr (calls, sent) \<longrightarrow>
             (\<exists>rw'. calls = [CtxHandleWrite (MResponseWriter rw')] \<and> header_wt (rw_headers rw')) \<and>
             (\<forall>r\<in>set sent. header_wt (rq_Header r)))) \<and>
   (header_wt (rq_Header c) \<and> header_wt wh \<and> reads_wt tops \<and> reads_wt tops' \<longrightarrow>
        (\<forall>r. wrap_outgoing nr c = Inr r \<or> ws_wrap_outgoing nr c = Inr r \<longrightarrow> header_wt (rq_Header r)) \<and>
        (\<forall>reply w'. HttpSidecarServer_InitWrapRouter h nr http po tops c wh w = Returns (reply, w') \<longrightarrow>
           header_wt (wp_header reply)) \<and>
        (\<forall>reply u'. WebSocketSidecarServer_InitWrapRouter h nr ws tops' c wh u = Returns (reply, u') \<longrightarrow>
           header_wt (wp_header reply)))"
  by (intro conjI transfer_keeps_type proxies_keep_type wrap_keeps_type)


section \<open>Witness\<close>

lemma sample_header_wt: "header_wt sample_header"
proof -
  have "canonical_key ''X-Target-Deploy-Id'' = ''X-Target-Deploy-Id''" by code_simp
  moreover have "canonical_key ''X-Target-Service-Id'' = ''X-Target-Service-Id''" by code_simp
  moreover have "canonical_key ''X-From-Deploy-Id'' = ''X-From-Deploy-Id''" by code_simp
  ultimately show ?thesis by (auto simp: header_wt_def sample_header_def split: if_splits)
qed

text \<open>The sample transfer and the sample request of the inbound handler, which is forwarded.\<close>

theorem headers_keep_type_witness:
  "(\<exists>r. tr_sent (DoTransfer (transfer_sample_env sample_header) ''backend:80'') = [r] \<and> header_wt (rq_Header r)) \<and>
   (\<exists>calls r. ServiceRouteHandler_HandleWrite sample_lib sample_net sample_handler
      (MResponseWriter (NewResponseWriter 1 1)) (sample_channel (sample_request ''http'' sample_header)) = Inr (calls, [r]) \<and>
      header_wt (rq_Header r))"
proof -
  obtain r where r: "tr_sent (DoTransfer (transfer_sample_env sample_header) ''backend:80'') = [r]"
    using transfer_sample_sent by blast
  obtain calls q where q: "ServiceRouteHandler_HandleWrite sample_lib sample_net sample_handler
      (MResponseWriter (NewResponseWriter 1 1)) (sample_channel (sample_request ''http'' sample_header)) = Inr (calls, [q])"
    using sample_forwarded [of sample_header] by (auto simp: sample_header_def header_Get_def)
  have e: "\<forall>r0. te_ReadRequest (transfer_sample_env sample_header) = Inr r0 \<longrightarrow> header_wt (rq_Header r0)"
    "answers_wt (te_backend (transfer_sample_env sample_header))"
    by (simp_all add: transfer_sample_env_def sample_header_wt answers_wt_def wt)
  have "canonical_key ''Server'' = ''Server''" by code_simp
  then have "header_wt (rw_headers (NewResponseWriter 1 1))" by (simp add: header_wt_def)
  then have s: "header_wt (rq_Header (sample_request ''http'' sample_header))" "header_wt (rw_headers (NewResponseWriter 1 1))"
    "answers_wt sample_net"
    by (simp_all add: sample_request_def sample_header_wt sample_net_def answers_wt_def wt)
  note k = headers_keep_type [of "transfer_sample_env sample_header" "''backend:80''" "sample_request ''http'' sample_header"
      "NewResponseWriter 1 1" sample_net sample_lib sample_handler]
  from conjunct1 [OF k] e r have "header_wt (rq_Header r)" by auto
  moreover from conjunct1 [OF conjunct2 [OF k]] s q have "header_wt (rq_Header q)" by (auto simp del: rw_New)
  ultimately show ?thesis using r q by blast
qed

end
