(* ===== verification/Proxy_Conn.thy ===== *)
theory Proxy_Conn
  imports Go_Prelude
begin

text \<open>
  The buffered connection of proxy_conn.go: \<open>Read\<close> and \<open>Write\<close> go to a \<open>bufio.Reader\<close> and a \<open>bufio.Writer\<close>,
  whose two methods are written out here, over any underlying reader and writer; \<open>Close\<close> does nothing,
  and the other methods of a connection panic.
\<close>

section \<open>Package bufio\<close>

text \<open>
  An underlying writer takes bytes and says how many it took and which error it met; an underlying
  reader takes the size of a buffer and gives bytes and an error.
\<close>

type_synonym 'w io_writer = "string \<Rightarrow> 'w \<Rightarrow> (nat \<times> go_error option) \<times> 'w"
type_synonym 'r io_reader = "nat \<Rightarrow> 'r \<Rightarrow> (string \<times> go_error option) \<times> 'r"

record 'w bufio_writer =
  bw_buf :: string
  bw_size :: nat
  bw_err :: "go_error option"
  bw_wr :: 'w

record 'r bufio_reader =
  br_buf :: string
  br_size :: nat
  br_err :: "go_error option"
  br_rd :: 'r

definition bufio_Flush :: "'w io_writer \<Rightarrow> 'w bufio_writer \<Rightarrow> 'w bufio_writer" where
  "bufio_Flush wr b =
     (if bw_err b \<noteq> None \<or> bw_buf b = [] then b
      else (case wr (bw_buf b) (bw_wr b) of
              ((n, err), w') \<Rightarrow>
                (let err' = (if n < length (bw_buf b) \<and> err = None then Some ''short write'' else err)
                 in b\<lparr>bw_buf := (if err' = None then [] else drop n (bw_buf b)), bw_err := err', bw_wr := w'\<rparr>)))"

text \<open>
  The loop of \<open>Write\<close>: while the rest does not fit, it is written at once when nothing is buffered, and
  else fills the buffer, which is flushed. \<^const>\<open>None\<close> is a loop that never ends, which a writer that takes
  nothing and reports nothing would cause.
\<close>

partial_function (option) bufio_write_loop ::
    "'w io_writer \<Rightarrow> string \<Rightarrow> nat \<Rightarrow> 'w bufio_writer \<Rightarrow> (string \<times> nat \<times> 'w bufio_writer) option" where
  "bufio_write_loop wr p nn b =
     (if bw_size b - length (bw_buf b) < length p \<and> bw_err b = None then
        (if bw_buf b = [] then
           (case wr p (bw_wr b) of
              ((n, err), w') \<Rightarrow> bufio_write_loop wr (drop n p) (nn + n) (b\<lparr>bw_err := err, bw_wr := w'\<rparr>))
         else
           (let n = bw_size b - length (bw_buf b)
            in bufio_write_loop wr (drop n p) (nn + n) (bufio_Flush wr (b\<lparr>bw_buf := bw_buf b @ take n p\<rparr>))))
      else Some (p, nn, b))"

definition bufio_Write ::
    "'w io_writer \<Rightarrow> 'w bufio_writer \<Rightarrow> string \<Rightarrow> ((nat \<times> go_error option) \<times> 'w bufio_writer) option" where
  "bufio_Write wr b p =
     (case bufio_write_loop wr p 0 b of
        None \<Rightarrow> None
      | Some (rest, nn, b') \<Rightarrow>
          Some (if bw_err b' \<noteq> None then ((nn, bw_err b'), b')
                else ((nn + length rest, None), b'\<lparr>bw_buf := bw_buf b' @ rest\<rparr>)))"

text \<open>At most one read of the underlying reader; its error waits until the buffer is empty.\<close>

definition bufio_Read ::
    "'r io_reader \<Rightarrow> 'r bufio_reader \<Rightarrow> nat \<Rightarrow> (string \<times> go_error option) \<times> 'r bufio_reader" where
  "bufio_Read rd b n =
     (if n = 0 then
        (if br_buf b \<noteq> [] then (('''', None), b) else (('''', br_err b), b\<lparr>br_err := None\<rparr>))
      else if br_buf b = [] then
        (if br_err b \<noteq> None then (('''', br_err b), b\<lparr>br_err := None\<rparr>)
         else if br_size b \<le> n then
           (case rd n (br_rd b) of ((d, err), r') \<Rightarrow> ((d, err), b\<lparr>br_rd := r'\<rparr>))
         else
           (case rd (br_size b) (br_rd b) of
              ((d, err), r') \<Rightarrow>
                if d = [] then (('''', err), b\<lparr>br_rd := r'\<rparr>)
                else ((take n d, None), b\<lparr>br_buf := drop n d, br_err := err, br_rd := r'\<rparr>)))
      else ((take n (br_buf b), None), b\<lparr>br_buf := drop n (br_buf b)\<rparr>))"

section \<open>ProxyConn\<close>

record ('r, 'w) proxy_conn =
  pc_readBuffer :: "'r bufio_reader"
  pc_writeBuffer :: "'w bufio_writer"

definition ProxyConn_Read ::
    "'r io_reader \<Rightarrow> ('r, 'w) proxy_conn \<Rightarrow> nat \<Rightarrow> (string \<times> go_error option) \<times> ('r, 'w) proxy_conn" where
  "ProxyConn_Read rd pc n =
     (case bufio_Read rd (pc_readBuffer pc) n of (res, b) \<Rightarrow> (res, pc\<lparr>pc_readBuffer := b\<rparr>))"

definition ProxyConn_Write ::
    "'w io_writer \<Rightarrow> ('r, 'w) proxy_conn \<Rightarrow> string \<Rightarrow> ((nat \<times> go_error option) \<times> ('r, 'w) proxy_conn) option" where
  "ProxyConn_Write wr pc p =
     map_option (\<lambda>(res, b). (res, pc\<lparr>pc_writeBuffer := b\<rparr>)) (bufio_Write wr (pc_writeBuffer pc) p)"

definition ProxyConn_Close :: "('r, 'w) proxy_conn \<Rightarrow> go_error option \<times> ('r, 'w) proxy_conn" where
  "ProxyConn_Close pc = (None, pc)"

definition ProxyConn_LocalAddr :: "('r, 'w) proxy_conn \<Rightarrow> string go" where
  "ProxyConn_LocalAddr pc = Inl (PanicWith ''implement me'')"

definition ProxyConn_RemoteAddr :: "('r, 'w) proxy_conn \<Rightarrow> string go" where
  "ProxyConn_RemoteAddr pc = Inl (PanicWith ''implement me'')"

definition ProxyConn_SetDeadline :: "int \<Rightarrow> ('r, 'w) proxy_conn \<Rightarrow> (go_error option) go" where
  "ProxyConn_SetDeadline t pc = Inl (PanicWith ''implement me'')"

definition ProxyConn_SetReadDeadline :: "int \<Rightarrow> ('r, 'w) proxy_conn \<Rightarrow> (go_error option) go" where
  "ProxyConn_SetReadDeadline t pc = Inl (PanicWith ''implement me'')"

definition ProxyConn_SetWriteDeadline :: "int \<Rightarrow> ('r, 'w) proxy_conn \<Rightarrow> (go_error option) go" where
  "ProxyConn_SetWriteDeadline t pc = Inl (PanicWith ''implement me'')"

section \<open>The contracts of io.Writer and io.Reader\<close>

text \<open>
  \<open>sent\<close> is what an underlying writer has taken so far, \<open>coming\<close> what an underlying reader will still
  give.
\<close>

definition lawful_writer :: "'w io_writer \<Rightarrow> ('w \<Rightarrow> string) \<Rightarrow> bool" where
  "lawful_writer wr sent \<longleftrightarrow>
     (\<forall>p w n err w'. wr p w = ((n, err), w') \<longrightarrow>
        n \<le> length p \<and> (n < length p \<longrightarrow> err \<noteq> None) \<and> sent w' = sent w @ take n p)"

definition lawful_reader :: "'r io_reader \<Rightarrow> ('r \<Rightarrow> string) \<Rightarrow> bool" where
  "lawful_reader rd coming \<longleftrightarrow>
     (\<forall>n r d err r'. rd n r = ((d, err), r') \<longrightarrow> length d \<le> n \<and> coming r = d @ coming r')"

lemma lawful_writerD:
  assumes "lawful_writer wr sent" "wr p w = ((n, err), w')"
  shows "n \<le> length p" "n < length p \<Longrightarrow> err \<noteq> None" "sent w' = sent w @ take n p"
  using assms unfolding lawful_writer_def by blast+

lemma lawful_readerD:
  assumes "lawful_reader rd coming" "rd n r = ((d, err), r')"
  shows "length d \<le> n" "coming r = d @ coming r'"
  using assms unfolding lawful_reader_def by blast+

section \<open>Writing\<close>

definition bw_wf :: "'w bufio_writer \<Rightarrow> bool" where
  "bw_wf b \<longleftrightarrow> 0 < bw_size b \<and> length (bw_buf b) \<le> bw_size b"

text \<open>All bytes that were accepted, sent or still in the buffer.\<close>

definition bw_all :: "('w \<Rightarrow> string) \<Rightarrow> 'w bufio_writer \<Rightarrow> string" where
  "bw_all sent b = sent (bw_wr b) @ bw_buf b"

lemma bufio_Flush_all:
  assumes "lawful_writer wr sent" "length (bw_buf b) \<le> bw_size b"
  shows "bw_all sent (bufio_Flush wr b) = bw_all sent b" "bw_size (bufio_Flush wr b) = bw_size b"
    "length (bw_buf (bufio_Flush wr b)) \<le> bw_size b"
    "bw_err (bufio_Flush wr b) = None \<Longrightarrow> bw_buf (bufio_Flush wr b) = []"
proof -
  obtain n err w' where w: "wr (bw_buf b) (bw_wr b) = ((n, err), w')" by (metis surj_pair)
  note l = lawful_writerD [OF assms(1) w]
  show "bw_all sent (bufio_Flush wr b) = bw_all sent b"
    using w l by (auto simp: bufio_Flush_def bw_all_def Let_def)
  show "bw_size (bufio_Flush wr b) = bw_size b" using w by (simp add: bufio_Flush_def Let_def)
  show "length (bw_buf (bufio_Flush wr b)) \<le> bw_size b" using w assms(2) by (auto simp: bufio_Flush_def Let_def)
  show "bw_err (bufio_Flush wr b) = None \<Longrightarrow> bw_buf (bufio_Flush wr b) = []"
    using w by (auto simp: bufio_Flush_def Let_def split: if_splits)
qed

text \<open>What the loop gives: a rest that fits unless an error was met, and every byte accounted for.\<close>

definition loop_done :: "('w \<Rightarrow> string) \<Rightarrow> string \<Rightarrow> nat \<Rightarrow> 'w bufio_writer \<Rightarrow> string \<times> nat \<times> 'w bufio_writer \<Rightarrow> bool" where
  "loop_done sent p nn b r =
     (case r of (rest, nn', b') \<Rightarrow>
        nn \<le> nn' \<and> nn' - nn \<le> length p \<and> rest = drop (nn' - nn) p \<and> bw_all sent b' = bw_all sent b @ take (nn' - nn) p \<and>
        bw_size b' = bw_size b \<and> length (bw_buf b') \<le> bw_size b \<and>
        (bw_err b' = None \<longrightarrow> length rest \<le> bw_size b - length (bw_buf b')))"

lemma loop_done_stop:
  "length (bw_buf b) \<le> bw_size b \<Longrightarrow> \<not> (bw_size b - length (bw_buf b) < length p \<and> bw_err b = None) \<Longrightarrow>
   bufio_write_loop wr p nn b = Some (p, nn, b) \<and> loop_done sent p nn b (p, nn, b)"
  by (subst bufio_write_loop.simps) (auto simp: loop_done_def)

text \<open>With nothing buffered the loop ends after at most one write.\<close>

lemma bufio_write_loop_empty:
  assumes "lawful_writer wr sent" "bw_wf b" "bw_buf b = []"
  shows "\<exists>r. bufio_write_loop wr p nn b = Some r \<and> loop_done sent p nn b r"
proof (cases "bw_size b < length p \<and> bw_err b = None")
  case True
  obtain n err w' where w: "wr p (bw_wr b) = ((n, err), w')" by (metis surj_pair)
  note l = lawful_writerD [OF assms(1) w]
  let ?b = "b\<lparr>bw_err := err, bw_wr := w'\<rparr>"
  have "bufio_write_loop wr p nn b = bufio_write_loop wr (drop n p) (nn + n) ?b"
    using True w assms(3) by (subst bufio_write_loop.simps) simp
  moreover have all: "n = length p \<or> err \<noteq> None" using l(1,2) by (meson le_neq_implies_less)
  then have "bufio_write_loop wr (drop n p) (nn + n) ?b = Some (drop n p, nn + n, ?b)"
    by (subst bufio_write_loop.simps) auto
  moreover have "loop_done sent p nn b (drop n p, nn + n, ?b)"
    using l(1,3) all assms(3) by (auto simp: loop_done_def bw_all_def)
  ultimately show ?thesis by simp
next
  case False
  with assms loop_done_stop [of b p wr nn sent] show ?thesis by (simp add: bw_wf_def)
qed

lemma bufio_write_loop_done:
  assumes "lawful_writer wr sent" "bw_wf b"
  shows "\<exists>r. bufio_write_loop wr p nn b = Some r \<and> loop_done sent p nn b r"
proof (cases "bw_buf b = [] \<or> \<not> (bw_size b - length (bw_buf b) < length p \<and> bw_err b = None)")
  case True
  with assms bufio_write_loop_empty loop_done_stop [of b p wr nn sent] show ?thesis by (metis bw_wf_def)
next
  case False
  let ?n = "bw_size b - length (bw_buf b)"
  let ?fill = "b\<lparr>bw_buf := bw_buf b @ take ?n p\<rparr>"
  let ?b = "bufio_Flush wr ?fill"
  have len: "length (bw_buf ?fill) \<le> bw_size ?fill" using assms(2) False by (simp add: bw_wf_def)
  note fl = bufio_Flush_all [OF assms(1) len]
  have step: "bufio_write_loop wr p nn b = bufio_write_loop wr (drop ?n p) (nn + ?n) ?b"
    using False by (subst bufio_write_loop.simps) (simp add: Let_def)
  have wf: "bw_wf ?b" unfolding bw_wf_def fl(2) using fl(3) assms(2) by (simp add: bw_wf_def)
  have "\<exists>r. bufio_write_loop wr (drop ?n p) (nn + ?n) ?b = Some r \<and> loop_done sent (drop ?n p) (nn + ?n) ?b r"
  proof (cases "bw_err ?b = None")
    case True
    with fl(4) wf show ?thesis by (intro bufio_write_loop_empty [OF assms(1)])
  next
    case False
    with wf loop_done_stop [of ?b "drop ?n p" wr "nn + ?n" sent] show ?thesis by (auto simp: bw_wf_def)
  qed
  then obtain rest nn' b' where r: "bufio_write_loop wr (drop ?n p) (nn + ?n) ?b = Some (rest, nn', b')"
    "loop_done sent (drop ?n p) (nn + ?n) ?b (rest, nn', b')" by (metis surj_pair)
  define m where "m = ?n"
  have m: "m < length p" "bw_all sent ?b = bw_all sent b @ take m p" "bw_size ?b = bw_size b"
    using False fl(1,2) by (simp_all add: m_def bw_all_def)
  obtain k where k: "nn' = nn + m + k"
    using r(2) unfolding m_def loop_done_def by (auto dest: le_Suc_ex)
  have "loop_done sent p nn b (rest, nn', b')"
    using r(2) m unfolding k m_def [symmetric] by (auto simp: loop_done_def take_add add.commute [of k m])
  with step r(1) show ?thesis by simp
qed

section \<open>Properties\<close>

text \<open>
  C27. A write to the buffered connection always returns, within the bounds of the contract of io.Writer:
  over a lawful writer it says a number of bytes that is at most the given ones, and all of them unless
  it gives an error; the buffer never holds more than its size; and what was sent before with what was
  buffered, followed by exactly the counted bytes, is what is now sent or buffered. Close flushes
  nothing: what is in the buffer is lost.
\<close>

theorem proxy_conn_write_bounds:
  assumes "lawful_writer wr sent" "bw_wf (pc_writeBuffer pc)"
  shows "\<exists>n err pc'. ProxyConn_Write wr pc p = Some ((n, err), pc') \<and>
    n \<le> length p \<and> (err = None \<longrightarrow> n = length p) \<and> bw_wf (pc_writeBuffer pc') \<and>
    sent (bw_wr (pc_writeBuffer pc')) @ bw_buf (pc_writeBuffer pc') =
      sent (bw_wr (pc_writeBuffer pc)) @ bw_buf (pc_writeBuffer pc) @ take n p \<and>
    sent (bw_wr (pc_writeBuffer (snd (ProxyConn_Close pc')))) = sent (bw_wr (pc_writeBuffer pc')) \<and>
    (length (bw_buf (pc_writeBuffer pc)) + length p \<le> bw_size (pc_writeBuffer pc) \<longrightarrow>
       sent (bw_wr (pc_writeBuffer pc')) = sent (bw_wr (pc_writeBuffer pc)))"
proof -
  let ?b = "pc_writeBuffer pc"
  obtain rest nn b' where r: "bufio_write_loop wr p 0 ?b = Some (rest, nn, b')" "loop_done sent p 0 ?b (rest, nn, b')"
    using bufio_write_loop_done [OF assms, of p 0] by (metis surj_pair)
  have fits: "b' = ?b" if "length (bw_buf ?b) + length p \<le> bw_size ?b"
  proof -
    have "\<not> bw_size ?b - length (bw_buf ?b) < length p" using that by linarith
    with r(1) show ?thesis by (subst (asm) bufio_write_loop.simps) simp
  qed
  show ?thesis
  proof (cases "bw_err b' = None")
    case True
    then have "ProxyConn_Write wr pc p =
        Some ((nn + length rest, None), pc\<lparr>pc_writeBuffer := b'\<lparr>bw_buf := bw_buf b' @ rest\<rparr>\<rparr>)"
      using r(1) by (simp add: ProxyConn_Write_def bufio_Write_def)
    moreover have "bw_all sent b' @ rest = bw_all sent ?b @ p" "nn + length rest = length p"
      using r(2) by (auto simp: loop_done_def)
    ultimately show ?thesis
      using True r(2) fits assms(2) by (auto simp: loop_done_def bw_all_def bw_wf_def ProxyConn_Close_def)
  next
    case False
    then obtain e where "bw_err b' = Some e" by auto
    then have "ProxyConn_Write wr pc p = Some ((nn, Some e), pc\<lparr>pc_writeBuffer := b'\<rparr>)"
      using r(1) by (simp add: ProxyConn_Write_def bufio_Write_def)
    with r(2) fits assms(2) show ?thesis
      by (auto simp: loop_done_def bw_all_def bw_wf_def ProxyConn_Close_def)
  qed
qed

text \<open>
  C28. A read from the buffered connection gives no more than was asked for, and no byte is lost or
  reordered: what was buffered and still to come is what it gives, followed by what is then buffered
  and to come. No more than the buffer's size is kept, an error is passed on only with no byte left in
  the buffer, and an empty answer without an error is given only for an empty request or when the
  reader itself gave one.
\<close>

theorem proxy_conn_read_bounds:
  assumes "lawful_reader rd coming" "ProxyConn_Read rd pc n = ((d, err), pc')"
    and "length (br_buf (pc_readBuffer pc)) \<le> br_size (pc_readBuffer pc)"
  shows "length d \<le> n \<and>
    br_buf (pc_readBuffer pc) @ coming (br_rd (pc_readBuffer pc)) =
      d @ br_buf (pc_readBuffer pc') @ coming (br_rd (pc_readBuffer pc')) \<and>
    length (br_buf (pc_readBuffer pc')) \<le> br_size (pc_readBuffer pc') \<and>
    (err \<noteq> None \<longrightarrow> br_buf (pc_readBuffer pc') = []) \<and> pc_writeBuffer pc' = pc_writeBuffer pc \<and>
    (d = [] \<and> err = None \<longrightarrow> n = 0 \<or> (\<exists>m r r'. rd m r = (([], None), r')))"
proof -
  let ?b = "pc_readBuffer pc"
  obtain b' where r: "bufio_Read rd ?b n = ((d, err), b')" "pc' = pc\<lparr>pc_readBuffer := b'\<rparr>"
    using assms(2) by (auto simp: ProxyConn_Read_def split: prod.splits)
  consider "n = 0" | "n \<noteq> 0" "br_buf ?b \<noteq> []" | e where "n \<noteq> 0" "br_buf ?b = []" "br_err ?b = Some e"
    | (direct) "n \<noteq> 0" "br_buf ?b = []" "br_err ?b = None" "br_size ?b \<le> n"
    | (fill) "n \<noteq> 0" "br_buf ?b = []" "br_err ?b = None" "n < br_size ?b"
    by (cases "br_err ?b") fastforce+
  then show ?thesis
  proof cases
    case direct
    obtain r' where "rd n (br_rd ?b) = ((d, err), r')" "b' = ?b\<lparr>br_rd := r'\<rparr>"
      using direct r(1) by (auto simp: bufio_Read_def split: prod.splits)
    with lawful_readerD [OF assms(1) this(1)] direct r(2) show ?thesis by auto
  next
    case fill
    obtain d0 e0 r' where f: "rd (br_size ?b) (br_rd ?b) = ((d0, e0), r')" by (metis surj_pair)
    with lawful_readerD [OF assms(1) f] fill r show ?thesis
      by (auto simp: bufio_Read_def split: if_splits)
  qed (use r assms(3) in \<open>auto simp: bufio_Read_def split: if_splits\<close>)
qed

section \<open>Witnesses\<close>

text \<open>A writer that keeps what it is given, and a reader that gives what it has.\<close>

definition log_writer :: "string io_writer" where
  "log_writer p w = ((length p, None), w @ p)"

definition text_reader :: "string io_reader" where
  "text_reader n r = ((take n r, (if r = [] then Some ''EOF'' else None)), drop n r)"

lemma lawful_log_writer: "lawful_writer log_writer id"
  by (auto simp: lawful_writer_def log_writer_def)

lemma lawful_text_reader: "lawful_reader text_reader id"
  by (auto simp: lawful_reader_def text_reader_def)

definition demo_conn :: "(string, string) proxy_conn" where
  "demo_conn = \<lparr>pc_readBuffer = \<lparr>br_buf = ''ab'', br_size = 4, br_err = None, br_rd = ''cdefgh''\<rparr>,
     pc_writeBuffer = \<lparr>bw_buf = ''x'', bw_size = 4, bw_err = None, bw_wr = ''''\<rparr>\<rparr>"

theorem proxy_conn_write_bounds_witness:
  "\<exists>n err pc'. ProxyConn_Write log_writer demo_conn ''yz'' = Some ((n, err), pc') \<and>
     bw_wr (pc_writeBuffer (snd (ProxyConn_Close pc'))) = ''''"
proof -
  have "bw_wf (pc_writeBuffer demo_conn)" by (simp add: bw_wf_def demo_conn_def)
  from proxy_conn_write_bounds [OF lawful_log_writer this, of "''yz''"] show ?thesis
    by (fastforce simp: demo_conn_def)
qed

theorem proxy_conn_read_bounds_witness:
  "\<exists>d err pc'. ProxyConn_Read text_reader demo_conn 3 = ((d, err), pc') \<and> d = ''ab'' \<and>
     br_buf (pc_readBuffer pc') @ br_rd (pc_readBuffer pc') = ''cdefgh''"
proof -
  obtain err pc' where r: "ProxyConn_Read text_reader demo_conn 3 = ((''ab'', err), pc')"
    by (simp add: ProxyConn_Read_def bufio_Read_def demo_conn_def)
  have "length (br_buf (pc_readBuffer demo_conn)) \<le> br_size (pc_readBuffer demo_conn)" by (simp add: demo_conn_def)
  from proxy_conn_read_bounds [OF lawful_text_reader r this] r show ?thesis by (auto simp: demo_conn_def)
qed

end
