(* ===== verification/Example_Backend.thy ===== *)
theory Example_Backend
  imports Request_Transfer Status_Error Session_Client "HOL-Library.Char_ord" "HOL-Library.List_Lexorder"
begin

text \<open>
  The example of a backend service (service-example/cmd/main.go): where it listens, and what it reports
  of each request that a sidecar passes on. It registers no route, so that its one handler sees every
  request. Parameters are the environment, the texts of strconv's errors, and the engine's run; the
  request that the handler prints as a Go value first is left out.
\<close>

section \<open>Where it listens\<close>

text \<open>
  The conversion of an int64 to int, which has the word size of the platform: the low bits are kept and
  read as a signed number.
\<close>

definition go_int :: "nat \<Rightarrow> int \<Rightarrow> int" where
  "go_int intSize i = signed_take_bit (intSize - 1) i"

definition os_Getenv :: "(string \<Rightarrow> string option) \<Rightarrow> string \<Rightarrow> string" where
  "os_Getenv env k = (case env k of None \<Rightarrow> '''' | Some s \<Rightarrow> s)"

definition example_bindPort :: "nat \<Rightarrow> (string \<Rightarrow> go_error) \<Rightarrow> (string \<Rightarrow> string option) \<Rightarrow> int go" where
  "example_bindPort intSize numError env =
     (let bindPortStr = os_Getenv env ''BIND_PORT''
      in case strconv_ParseInt bindPortStr of
           None \<Rightarrow> Inl (PanicWith (numError bindPortStr))
         | Some bpl \<Rightarrow> Inr (go_int intSize bpl))"

definition example_main ::
    "nat \<Rightarrow> (string \<Rightarrow> go_error) \<Rightarrow> (string \<Rightarrow> go_error option outcome) \<Rightarrow> (string \<Rightarrow> string option) \<Rightarrow> unit outcome" where
  "example_main intSize numError engineRun env =
     (case example_bindPort intSize numError env of
        Inl p \<Rightarrow> Panics p
      | Inr bindPort \<Rightarrow>
          outcome_bind (engineRun ('':'' @ show_int bindPort)) (\<lambda>err.
            case err of None \<Rightarrow> Returns () | Some e \<Rightarrow> Panics (PanicWith e)))"

section \<open>What it reports\<close>

text \<open>
  \<open>json.MarshalIndent\<close> of a header, with two blanks for each level: the keys in the order of their bytes,
  strings escaped as in \<open>Status_Error\<close>, and no line breaks in an empty list or map.
\<close>

definition json_string :: "string \<Rightarrow> string" where
  "json_string s = CHR 0x22 # json_escape s @ [CHR 0x22]"

fun join_with :: "string \<Rightarrow> string list \<Rightarrow> string" where
  "join_with sep [] = []"
| "join_with sep [x] = x"
| "join_with sep (x # y # xs) = x @ sep @ join_with sep (y # xs)"

definition json_indented :: "char \<Rightarrow> char \<Rightarrow> string \<Rightarrow> string list \<Rightarrow> string" where
  "json_indented opening closing indent items =
     (if items = [] then [opening, closing]
      else opening # CHR 0x0A # indent @ ''  '' @ join_with (CHR '','' # CHR 0x0A # indent @ ''  '') items @
        CHR 0x0A # indent @ [closing])"

definition header_entries :: "header \<Rightarrow> (string \<times> string list) list" where
  "header_entries h = map (\<lambda>k. (k, case h k of None \<Rightarrow> [] | Some vs \<Rightarrow> vs)) (sorted_list_of_set (dom h))"

definition json_MarshalIndent :: "header \<Rightarrow> string" where
  "json_MarshalIndent h =
     json_indented CHR ''{'' CHR ''}'' ''''
       (map (\<lambda>(k, vs). json_string k @ '': '' @ json_indented CHR ''['' CHR '']'' ''  '' (map json_string vs))
          (header_entries h))"

definition example_NoRoute :: "request \<Rightarrow> string list" where
  "example_NoRoute r =
     [json_MarshalIndent (rq_Header r), ''cert header value: '' @ header_Get (rq_Header r) ''ssl-client-cert'']"


section \<open>Properties\<close>

lemma go_int_range:
  assumes "0 < w"
  shows "- (2 ^ (w - 1)) \<le> go_int w i \<and> go_int w i < 2 ^ (w - 1)"
  by (simp add: go_int_def)

lemma go_int_cong:
  assumes "0 < w"
  shows "go_int w i mod 2 ^ w = i mod 2 ^ w"
proof -
  have "take_bit w (signed_take_bit (w - 1) i) = take_bit w i"
    using assms by (simp add: take_bit_signed_take_bit)
  then show ?thesis by (simp add: go_int_def take_bit_eq_mod)
qed

lemma go_int_id:
  assumes "0 < w"
  shows "go_int w i = i \<longleftrightarrow> - (2 ^ (w - 1)) \<le> i \<and> i < 2 ^ (w - 1)"
proof
  assume "go_int w i = i"
  then show "- (2 ^ (w - 1)) \<le> i \<and> i < 2 ^ (w - 1)" using go_int_range [OF assms, of i] by simp
next
  assume "- (2 ^ (w - 1)) \<le> i \<and> i < 2 ^ (w - 1)"
  then show "go_int w i = i" by (simp add: go_int_def signed_take_bit_int_eq_self)
qed

lemma example_bindPort_eq:
  "example_bindPort w numError env =
     (case strconv_ParseInt (os_Getenv env ''BIND_PORT'') of
        None \<Rightarrow> Inl (PanicWith (numError (os_Getenv env ''BIND_PORT'')))
      | Some p \<Rightarrow> Inr (go_int w p))"
  by (simp add: example_bindPort_def Let_def)

text \<open>
  Where the example backend listens. When BIND_PORT is not the text of an int64, or is not set, it
  panics; otherwise it runs its engine, whatever the number. On a platform whose int has w bits the port
  it hands to the engine has the low w bits of the number and lies in the range of an int; it is the
  number itself exactly when an int holds it: always on 64 bits, while on 32 bits 4294967376 listens on
  port 80.
\<close>

theorem example_port_bounds:
  assumes "0 < w" "s = os_Getenv env ''BIND_PORT''"
  shows "case strconv_ParseInt s of
      None \<Rightarrow> example_main w numError engineRun env = Panics (PanicWith (numError s))
    | Some p \<Rightarrow>
        (\<exists>q. - (2 ^ (w - 1)) \<le> q \<and> q < 2 ^ (w - 1) \<and> q mod 2 ^ w = p mod 2 ^ w \<and>
           (q = p \<longleftrightarrow> - (2 ^ (w - 1)) \<le> p \<and> p < 2 ^ (w - 1)) \<and> (w = 64 \<longrightarrow> q = p) \<and>
           (engineRun ('':'' @ show_int q) = Blocks \<longrightarrow> example_main w numError engineRun env = Blocks) \<and>
           (\<forall>err. engineRun ('':'' @ show_int q) = Returns (Some err) \<longrightarrow>
              example_main w numError engineRun env = Panics (PanicWith err)))"
proof (cases "strconv_ParseInt s")
  case None
  then show ?thesis by (simp add: example_main_def example_bindPort_eq assms(2))
next
  case (Some p)
  have "w = 64 \<Longrightarrow> go_int w p = p"
    using strconv_ParseInt_range [OF Some] go_int_id [OF assms(1), of p] by simp
  with Some show ?thesis
    using go_int_range [OF assms(1), of p] go_int_cong [OF assms(1), of p] go_int_id [OF assms(1), of p]
    by (simp add: example_main_def example_bindPort_eq assms(2)) (intro exI [of _ "go_int w p"], simp)
qed

text \<open>
  The backend at the end of the chain. Whatever request a transfer sends to the example backend, the
  certificate line that the backend prints decodes to the DER bytes of the certificate that the peer
  showed on its TLS connection, under whatever spelling and however often the caller itself sent the
  header.
\<close>

lemma example_backend_sees_peer:
  assumes "r \<in> set (tr_sent (DoTransfer env host))"
  shows "\<exists>cert rest line. cs_PeerCertificates (te_ConnectionState env) = cert # rest \<and>
    last (example_NoRoute r) = ''cert header value: '' @ line \<and> b64_decode line = Some (ct_Raw cert)"
proof -
  obtain cert rest where c: "cs_PeerCertificates (te_ConnectionState env) = cert # rest"
    "header_Get (rq_Header r) ''SSL-Client-Cert'' = b64_encode (ct_Raw cert)"
    using assms by (rule sent_identity) blast
  have "canonical_key ''ssl-client-cert'' = canonical_key ''SSL-Client-Cert''" by code_simp
  then have "header_Get (rq_Header r) ''ssl-client-cert'' = header_Get (rq_Header r) ''SSL-Client-Cert''"
    by (simp only: header_Get_def)
  then show ?thesis using c by (simp add: example_NoRoute_def)
qed

section \<open>Witnesses\<close>

theorem example_port_bounds_witness:
  "\<exists>q < (2 :: int) ^ 31. q mod 2 ^ 32 = 80 \<and> q \<noteq> 4294967376 \<and>
     example_main 32 (\<lambda>_. ''syntax'') (\<lambda>addr. Blocks) [''BIND_PORT'' \<mapsto> ''4294967376''] = Blocks"
proof -
  have s: "strconv_ParseInt ''4294967376'' = Some 4294967376"
    by (simp add: strconv_ParseInt_def parse_nat_def digit_of_def)
  have e: "''4294967376'' = os_Getenv [''BIND_PORT'' \<mapsto> ''4294967376''] ''BIND_PORT''" by (simp add: os_Getenv_def)
  have w: "(0::nat) < 32" by simp
  from example_port_bounds [OF w e, of "\<lambda>_. ''syntax''" "\<lambda>_. Blocks"] obtain q :: int where
    "q < 2 ^ (32 - 1)" "q mod 2 ^ 32 = 4294967376 mod 2 ^ 32"
    "example_main 32 (\<lambda>_. ''syntax'') (\<lambda>addr. Blocks) [''BIND_PORT'' \<mapsto> ''4294967376''] = Blocks"
    unfolding s option.case by blast
  then show ?thesis by (intro exI [of _ q]) auto
qed

theorem example_backend_sees_peer_witness:
  "\<exists>r line. tr_sent (DoTransfer (transfer_sample_env Map.empty) ''backend:80'') = [r] \<and>
     last (example_NoRoute r) = ''cert header value: '' @ line \<and> b64_decode line = Some (ct_Raw transfer_sample_cert)"
proof -
  obtain r where r: "tr_sent (DoTransfer (transfer_sample_env Map.empty) ''backend:80'') = [r]"
    using transfer_sample_sent by blast
  have "cs_PeerCertificates (te_ConnectionState (transfer_sample_env Map.empty)) = [transfer_sample_cert]"
    by (simp add: transfer_sample_env_def)
  with example_backend_sees_peer [of r "transfer_sample_env Map.empty" "''backend:80''"] r show ?thesis by auto
qed

lemma example_report:
  "json_MarshalIndent [''Accept'' \<mapsto> [''*/*''], ''X-A'' \<mapsto> [''1'', ''<'']] =
     ''{'' @ [CHR 0x0A] @ ''  '' @ json_string ''Accept'' @ '': ['' @ [CHR 0x0A] @ ''    '' @ json_string ''*/*'' @ [CHR 0x0A] @
     ''  ],'' @ [CHR 0x0A] @ ''  '' @ json_string ''X-A'' @ '': ['' @ [CHR 0x0A] @ ''    '' @ json_string ''1'' @ '','' @ [CHR 0x0A] @
     ''    '' @ json_string ''<'' @ [CHR 0x0A] @ ''  ]'' @ [CHR 0x0A] @ ''}''"
proof -
  have "sorted_list_of_set {''Accept'', ''X-A''} = [''Accept'', ''X-A'']"
    by (simp add: less_char_def)
  moreover have "dom [''Accept'' \<mapsto> [''*/*''], ''X-A'' \<mapsto> [''1'', ''<'']] = {''Accept'', ''X-A''}" by auto
  ultimately have "header_entries [''Accept'' \<mapsto> [''*/*''], ''X-A'' \<mapsto> [''1'', ''<'']] =
      [(''Accept'', [''*/*'']), (''X-A'', [''1'', ''<''])]"
    by (simp only: header_entries_def) simp
  then show ?thesis
    by (simp add: json_MarshalIndent_def json_indented_def)
qed

end
