(* ===== verification/Spec2Isabelle.thy ===== *)
theory Spec2Isabelle
  imports Sidecar_Pipelines Sidecar_Wiring Session_Order Browser_Identity Wrap_Transports Transfer_Process Header_Types
    Proxy_Conn Example_Backend
begin

text \<open>
  A verification library for tls-sidecar, a Go sidecar that puts mutual TLS between services.

  \<^bold>\<open>The program.\<close> A sidecar stands next to a backend service. Towards other sidecars it accepts TLS
  connections whose client certificate names the calling deployment (first organizational unit of
  the subject) and service (common name); towards its own service it offers a plain endpoint that wraps
  a request into such a connection. There are three ways in: a netty server on a TLS port
  (cmd/inbound, with the director of service_router.go), a web socket (ws_handler) and a protocol that
  carries the bytes of a TLS connection in HTTP requests (http_handler); the last two end in
  \<open>DoTransfer\<close> (transfer.go). There are two ways out: a netty server that forwards over TLS
  (cmd/outbound with tls_wrapper.go) and the /wrap endpoints with the clients of ws_handler and
  http_handler.

  \<^bold>\<open>Theories and code.\<close> Definitions have the names of the Go functions; a method has its type's
  name in front, and a part of a function that is a definition of its own is named after the
  variable or step it computes.
  \<^item> \<open>Go_Prelude\<close>, \<open>Go_Http\<close>, \<open>Go_Base64\<close>: what the code uses of Go and its library. A panic is the
    left of a sum (\<open>'a go\<close>), an error a text. Headers are maps from canonical keys to values, with
    the canonical form of net/textproto; URLs, path escaping, strconv, strings and base64 are written out.
    \<open>Go_Pem\<close>: encoding/pem, both ways.
  \<^item> \<open>Status_Error\<close>: the error codes (router_error.go) and StatusError with the JSON text of its HTTP
    form (service_router.go). \<open>Response_Writer\<close>: response_writer.go.
  \<^item> \<open>Reverse_Proxy\<close>: proxy_transport.go, and \<open>httputil.ReverseProxy\<close> as far as the code uses it, the
    removal of hop-by-hop headers after the director included. \<open>Netty_Channel\<close>: the part that both
    proxy handlers share.
  \<^item> \<open>Trust_Center\<close>: package trust_center. \<open>Tls_Config\<close>: tls_utils.go and tls_config_factory.go.
    \<open>Service_Registry\<close>: the API registry (service_router.go), the gRPC service that fills it
    (proto_impl/sidecar) and the deployments (deployment.go).
  \<^item> \<open>Service_Router\<close> and \<open>Inbound_Correct\<close>: the inbound director and handler, and their properties.
    \<open>Tls_Wrapper\<close>: the outbound handler. \<open>Sidecar_Pipelines\<close>: cmd/inbound and cmd/outbound. Their
    functions Main return nothing; the definitions give the handler and the configuration that are
    local there.
  \<^item> \<open>Request_Transfer\<close>: transfer.go.
  \<^item> \<open>Session_Messages\<close>, \<open>Session_Server\<close>, \<open>Session_Correct\<close>: http_handler/model.go and the four session
    endpoints of http_handler/server_main.go. The state is the map of sessions, a list of connections
    to which handles point by index, the writes whose goroutine has not run yet and the transfers
    that were started; what a write to a connection does, and with which result, is up to the
    operations of the connection (\<open>lawful_conn\<close>: it takes the bytes its result counts).
    \<open>Session_Steps\<close> and \<open>Session_Races\<close>: the same endpoints interleaved, as a
    step relation and an executable scheduler that is sound and complete for it. \<open>Session_Order\<close>: when
    the bytes of a session arrive in order.
  \<^item> \<open>Session_Client\<close>, \<open>Session_Protocol\<close>: http_handler/client_conn.go, and client and server together.
  \<^item> \<open>Wrap_Router\<close>: the /wrap endpoints and the clients of http_handler and, apart from them, those of
    ws_handler with the time-out of their connection. \<open>Wrap_Transports\<close>: the two transports compared.
    \<open>Transfer_Process\<close>: the web socket endpoint with its deferred calls and the goroutine that newRequest
    starts, and which of their panics ends the process.
    \<open>Header_Types\<close>: headers keep their type through the transfer, the proxies and the endpoints.
  \<^item> \<open>Cert_Manager\<close>, \<open>Sidecar_Main\<close>: package cert_manager, package config and the servers that cmd/main.go
    makes of a configuration. A template's subject reaches a parsed certificate as crypto/x509/pkix
    puts it into attributes and back. \<open>Sidecar_Wiring\<close>: the rest of cmd/main.go, with the routes that the
    servers register.
  \<^item> \<open>Js_Values\<close>, \<open>Js_Response\<close>, \<open>Wasm_Client\<close>: the browser client (cmd/wasm and package wasm) over a
    heap of JavaScript objects. A Go string that becomes a JavaScript string is decoded as UTF-8
    (\<open>js_decode\<close>, after loadString of cmd/wasm/static/wasm_exec.js). The state of \<open>Js_Response\<close> holds the heap, the bodies that Go has not
    read yet, the readable streams, and the goroutines that wait to settle a promise. \<open>Browser_Identity\<close>:
    the browser client and the transfer together.
  \<^item> \<open>Proxy_Conn\<close>: proxy_conn.go over bufio. \<open>Example_Backend\<close>: service-example.

  \<^bold>\<open>Interfaces.\<close> \<open>keyed_registry\<close> (interpreted for APIs and for deployments), \<open>identity_handler\<close>
  (for RPCIdentityHandler), \<open>guarded_director\<close> (a reverse proxy whose director admits or rejects;
  for the inbound and the outbound director), \<open>typed_director\<close> (a director that keeps headers well
  typed; for both) and \<open>session_service\<close> (what a session client relies on; for the routes of the
  session server).

  \<^bold>\<open>What is shown.\<close> The inbound director is refined by a list of checks with their error codes; what
  it lets through was admitted, goes to the registered backend and carries the certified identity;
  the exact panics; the same for the started server, from the listener's TLS configuration to the
  network. The transfer marks requests with the certified identity, and returns exactly when every
  step succeeds; two started sidecars authenticate each other's requests end to end. The session table
  keeps its invariant under every interleaving. Of each accepted write it is accounted for whether it
  is still pending or was written once to its connection, and with which result: the connection has
  received what the results count, and a write that runs after its connection was closed fails with an
  error that is only printed; writes that are paced arrive in order. Sessions do not touch each other,
  the client's operations satisfy the contracts of io.Reader and io.Writer, and a closed client gets
  errors until its id is handed out again. main starts exactly with a complete environment and
  configuration; the two transports, each after its own source, give the same replies to a wrapped
  request when the layers below them behave alike. In the browser, a response's body is delivered
  once and each promise is settled once and for good, in every order of calls and goroutines; what the
  backend is told about a page is stated in terms of the page's own headers. A write
  of the buffered connection takes all bytes or reports an error; what PEM text is read back is the
  first block that was written. Where the code does something else than it seems to mean, this is
  stated, too, as what the code does: identifiers that are handed out twice, writes that are
  reordered, a read that locks its session for good, panics that end the process (those of a session's
  transfer, and those alone), sessions that leak,
  identity headers that the Connection header removes, and requests that are never forwarded.

  \<^bold>\<open>Parameters.\<close> Code outside the repository is an argument of the definitions that use it: the JWT
  parser, the network (a function from requests to responses), chain verification and handshakes, the
  recovery of the gin engine (\<open>lawful_recovery\<close>), the encoding of certificates (\<open>x509_lawful\<close>),
  crypto/x509 and crypto/rsa, the HTTP client behind the session client, the in-memory connections, web
  socket dialling, \<open>http.NewRequest\<close> and \<open>http.ReadRequest\<close>, config-tv and its plugins, gin's joining of
  paths and its engines, the defaults of gin-contrib/cors, the JavaScript engine's printing of numbers,
  and the reader and writer below a buffered connection. What is relied on is a premise of the
  theorem, with a witness that it can hold.

  \<^bold>\<open>Bounds.\<close> No definition needs fuel: the recursions are structural or have a termination proof; the
  loop of \<open>bufio.Writer\<close>, which a writer that makes no progress keeps busy for ever, is a partial function
  whose termination is a part of the property. The size of an int is a parameter where it shows. Ids
  are integers; a session id is found by a client only below 2 to the power of 63, which the
  properties that need it assume. A read size is only checked for being negative; the limits of
  memory are not modelled. Header maps are total functions, so that the order in which Go ranges
  over a map shows only where the code depends on it (\<open>range_assign\<close>).

  \<^bold>\<open>Not modelled.\<close> The generated gRPC code, log output, what the cross-origin settings make of a request,
  go-netty and its HTTP codec, the expiry of time-outs (their lengths are handed to the operations they
  apply to), and the unused type RouterErrorCode. The concurrent access of
  Go maps without a lock, which Go may answer by ending the process, is modelled as an atomic access.
\<close>

end
